(* ===== verification/Repair_Prelude.thy ===== *)
theory Repair_Prelude
  imports Main "HOL-Library.Sublist"
begin

text \<open>
  Shared vocabulary of the development: Go's machine integers, times, raw JSON messages and
  error values as the media-repair sources use them, the fallible computations built from them,
  and the generic list and map lemmas the component theories rely on.

  Conventions. A Go \<open>int64\<close> (and \<open>int\<close>, which is 64 bits wide on the platforms the flake builds
  for) is an \<open>int\<close>; \<open>wrap64\<close> is written out wherever the source does arithmetic whose overflow
  can matter. A Go pointer used as an optional value is an \<open>option\<close>. A function returning
  \<open>(T, error)\<close> returns \<open>go_error + T\<close>. A \<open>time.Time\<close> is the number of nanoseconds since Go's
  zero time, so \<open>IsZero\<close> is a test against 0 and \<open>UTC()\<close>, which changes the location only, is
  the identity on the instant.
\<close>

section \<open>Collections of facts\<close>

named_theorems store_defs "definitions of the job store's operations"
named_theorems frozen_intros "facts that an operation leaves a repairing job alone"
named_theorems rg_intros "rely-guarantee rules"
named_theorems policy_defs "definitions of the decision policy"

section \<open>Machine integers\<close>

definition max_int64 :: int where
  "max_int64 = 9223372036854775807"

definition min_int64 :: int where
  "min_int64 = - 9223372036854775808"

definition in_int64 :: "int \<Rightarrow> bool" where
  "in_int64 x \<longleftrightarrow> min_int64 \<le> x \<and> x \<le> max_int64"

text \<open>Two's complement wrap-around of a 64-bit result.\<close>

definition wrap64 :: "int \<Rightarrow> int" where
  "wrap64 x = (x + 9223372036854775808) mod 18446744073709551616 - 9223372036854775808"

lemma wrap64_in_range: "in_int64 (wrap64 x)"
proof -
  have "0 \<le> (x + 9223372036854775808) mod 18446744073709551616"
    and "(x + 9223372036854775808) mod 18446744073709551616 < 18446744073709551616"
    by simp_all
  then show ?thesis
    by (simp add: in_int64_def wrap64_def max_int64_def min_int64_def)
qed

lemma wrap64_id: "in_int64 x \<Longrightarrow> wrap64 x = x"
  by (simp add: in_int64_def wrap64_def max_int64_def min_int64_def)

text \<open>Go's integer division truncates towards zero.\<close>

definition quot64 :: "int \<Rightarrow> int \<Rightarrow> int" where
  "quot64 a b = sgn a * sgn b * (\<bar>a\<bar> div \<bar>b\<bar>)"

lemma quot64_nonneg: "0 \<le> a \<Longrightarrow> 0 < b \<Longrightarrow> quot64 a b = a div b"
  by (cases "a = 0") (simp_all add: quot64_def)

section \<open>Times and durations\<close>

type_synonym gotime = int

definition zero_time :: gotime where
  "zero_time = 0"

definition second :: int where
  "second = 1000000000"

definition minute :: int where
  "minute = 60 * second"

definition hour :: int where
  "hour = 60 * minute"

text \<open>\<open>Time.Sub\<close> saturates at the bounds of a \<open>Duration\<close>.\<close>

definition time_sub :: "gotime \<Rightarrow> gotime \<Rightarrow> int" where
  "time_sub t u = max min_int64 (min max_int64 (t - u))"

lemma time_sub_ge_iff:
  assumes "min_int64 < b" "b \<le> max_int64"
  shows "b \<le> time_sub t u \<longleftrightarrow> b \<le> t - u"
  using assms by (auto simp: time_sub_def)

section \<open>Raw JSON messages\<close>

text \<open>A \<open>json.RawMessage\<close>: \<open>None\<close> is the nil slice.\<close>

type_synonym raw = "string option"

definition raw_len :: "raw \<Rightarrow> nat" where
  "raw_len r = (case r of None \<Rightarrow> 0 | Some bytes \<Rightarrow> length bytes)"

lemma raw_len_simps [simp]: "raw_len None = 0" "raw_len (Some bs) = length bs"
  by (simp_all add: raw_len_def)

section \<open>Decimal numbers\<close>

text \<open>The text \<open>fmt\<close> prints for an integer with \<open>%d\<close>.\<close>

fun digits :: "nat \<Rightarrow> string" where
  "digits n = (if n < 10 then [char_of (48 + n)] else digits (n div 10) @ [char_of (48 + n mod 10)])"

declare digits.simps [simp del]

definition itoa :: "int \<Rightarrow> string" where
  "itoa i = (if i < 0 then CHR ''-'' # digits (nat (- i)) else digits (nat i))"

text \<open>
  The text \<open>fmt\<close> prints for a string with \<open>%q\<close> (\<open>strconv.Quote\<close>). Bytes above 127 are kept; Go
  escapes those of them that are not printable text.
\<close>

definition hex_digit :: "nat \<Rightarrow> char" where
  "hex_digit n = (if n < 10 then char_of (48 + n) else char_of (87 + n))"

definition quote_char :: "char \<Rightarrow> string" where
  "quote_char c =
     (if c = CHR 0x22 \<or> c = CHR 0x5C then [CHR 0x5C, c]
      else if c = CHR 0x07 then [CHR 0x5C, CHR ''a'']
      else if c = CHR 0x08 then [CHR 0x5C, CHR ''b'']
      else if c = CHR 0x0C then [CHR 0x5C, CHR ''f'']
      else if c = CHR 0x0A then [CHR 0x5C, CHR ''n'']
      else if c = CHR 0x0D then [CHR 0x5C, CHR ''r'']
      else if c = CHR 0x09 then [CHR 0x5C, CHR ''t'']
      else if c = CHR 0x0B then [CHR 0x5C, CHR ''v'']
      else if (of_char c :: nat) < 32 \<or> c = CHR 0x7F
      then [CHR 0x5C, CHR ''x'', hex_digit (of_char c div 16), hex_digit (of_char c mod 16)]
      else [c])"

definition quote :: "string \<Rightarrow> string" where
  "quote s = CHR 0x22 # concat (map quote_char s) @ [CHR 0x22]"

section \<open>Errors\<close>

text \<open>
  The error values the modelled code distinguishes: the sentinels it tests with \<open>errors.Is\<close>, the
  type it finds with \<open>errors.As\<close>, plain messages, a message wrapped around an error (\<open>%w\<close>), and
  \<open>errors.Join\<close> of two errors.
\<close>

datatype go_error =
    ErrRecordNotFound
  | ErrConflict
  | BlockedError string
  | ErrorText string
  | ErrWrap string go_error
  | ErrJoin go_error go_error

primrec error_is :: "go_error \<Rightarrow> go_error \<Rightarrow> bool" where
  "error_is ErrRecordNotFound target \<longleftrightarrow> target = ErrRecordNotFound"
| "error_is ErrConflict target \<longleftrightarrow> target = ErrConflict"
| "error_is (BlockedError r) target \<longleftrightarrow> target = BlockedError r"
| "error_is (ErrorText m) target \<longleftrightarrow> target = ErrorText m"
| "error_is (ErrWrap m e) target \<longleftrightarrow> target = ErrWrap m e \<or> error_is e target"
| "error_is (ErrJoin a b) target \<longleftrightarrow> target = ErrJoin a b \<or> error_is a target \<or> error_is b target"

primrec as_blocked :: "go_error \<Rightarrow> string option" where
  "as_blocked ErrRecordNotFound = None"
| "as_blocked ErrConflict = None"
| "as_blocked (BlockedError r) = Some r"
| "as_blocked (ErrorText m) = None"
| "as_blocked (ErrWrap m e) = as_blocked e"
| "as_blocked (ErrJoin a b) = (case as_blocked a of Some r \<Rightarrow> Some r | None \<Rightarrow> as_blocked b)"

primrec error_text :: "go_error \<Rightarrow> string" where
  "error_text ErrRecordNotFound = ''record not found''"
| "error_text ErrConflict = ''job changed or operation is not valid in its current state''"
| "error_text (BlockedError r) = r"
| "error_text (ErrorText m) = m"
| "error_text (ErrWrap m e) = m @ error_text e"
| "error_text (ErrJoin a b) = error_text a @ CHR 0x0A # error_text b"

text \<open>\<open>errors.Join\<close> drops nil errors and is nil when all of its arguments are.\<close>

fun errors_join :: "go_error option \<Rightarrow> go_error option \<Rightarrow> go_error option" where
  "errors_join None e = e"
| "errors_join e None = e"
| "errors_join (Some a) (Some b) = Some (ErrJoin a b)"

lemma errors_join_None [simp]: "errors_join a b = None \<longleftrightarrow> a = None \<and> b = None"
  by (cases a; cases b) simp_all

lemma error_is_refl [simp]: "error_is e e"
  by (cases e) simp_all

text \<open>The error part of a result: nil on success.\<close>

fun err_of :: "go_error + 'a \<Rightarrow> go_error option" where
  "err_of (Inl e) = Some e"
| "err_of (Inr _) = None"

section \<open>Fallible computations\<close>

text \<open>Sequencing with an early return of the error.\<close>

fun and_then :: "'e + 'a \<Rightarrow> ('a \<Rightarrow> 'e + 'b) \<Rightarrow> 'e + 'b" where
  "and_then (Inl e) f = Inl e"
| "and_then (Inr a) f = f a"

lemma and_then_Inr_iff: "and_then m f = Inr b \<longleftrightarrow> (\<exists>a. m = Inr a \<and> f a = Inr b)"
  by (cases m) simp_all

lemma and_then_InrE:
  assumes "and_then m f = Inr b"
  obtains a where "m = Inr a" "f a = Inr b"
  using assms by (cases m) simp_all

text \<open>The errors of a computation wrapped in a message.\<close>

definition wrap_error :: "string \<Rightarrow> go_error + 'a \<Rightarrow> go_error + 'a" where
  "wrap_error m = map_sum (ErrWrap m) id"

lemma wrap_error_Inr [simp]: "wrap_error m r = Inr a \<longleftrightarrow> r = Inr a"
  by (cases r) (simp_all add: wrap_error_def)

lemma wrap_error_simps [simp]:
  "wrap_error m (Inl e) = Inl (ErrWrap m e)" "wrap_error m (Inr a) = Inr a"
  by (simp_all add: wrap_error_def)

text \<open>A guard: the error unless the condition holds.\<close>

definition ensure :: "bool \<Rightarrow> 'e \<Rightarrow> 'e + unit" where
  "ensure b e = (if b then Inr () else Inl e)"

lemma ensure_Inr [simp]: "ensure b e = Inr u \<longleftrightarrow> b"
  by (simp add: ensure_def)

lemma ensure_simps [simp]: "ensure True e = Inr ()" "ensure False e = Inl e"
  by (simp_all add: ensure_def)

lemma ensure_Inl [simp]: "ensure b e = Inl e' \<longleftrightarrow> \<not> b \<and> e' = e"
  by (auto simp: ensure_def)

section \<open>Lists and maps\<close>

lemma find_Some_iff_mem: "find P xs = Some x \<Longrightarrow> x \<in> set xs \<and> P x"
  by (auto simp: find_Some_iff)

lemma distinct_singleton:
  assumes "distinct xs" "set xs = {k}"
  shows "xs = [k]"
proof (cases xs)
  case (Cons y ys)
  with assms have "y = k" "set ys \<subseteq> {k}" "k \<notin> set ys" by auto
  then have "ys = []" by (cases ys) auto
  with Cons \<open>y = k\<close> show ?thesis by simp
qed (use assms in simp)

lemma distinct_map_inj: "distinct (map f xs) \<Longrightarrow> x \<in> set xs \<Longrightarrow> y \<in> set xs \<Longrightarrow> f x = f y \<Longrightarrow> x = y"
  by (metis (mono_tags) distinct_map inj_onD)

lemma sum_list_pos:
  fixes xs :: "int list"
  shows "\<forall>x \<in> set xs. 0 < x \<Longrightarrow> xs \<noteq> [] \<Longrightarrow> 0 < sum_list xs"
proof (induction xs)
  case Nil
  then show ?case by simp
next
  case (Cons x xs)
  then show ?case by (cases xs) auto
qed

lemma sum_list_nonneg_int: "\<forall>x \<in> set xs. (0::int) \<le> x \<Longrightarrow> 0 \<le> sum_list xs"
  by (induction xs) auto

end
