(* ===== verification/Jobs_Store.thy ===== *)
theory Jobs_Store
  imports Repair_Prelude
begin

text \<open>
  The durable job store of the repair service (\<open>internal/jobs\<close>): its rows, queue-key matching and
  every transaction of \<open>store.go\<close>, \<open>planning.go\<close> and \<open>planning_history.go\<close>.

  The database library (gorm over SQLite) is not part of the repository. Its calls are the fields
  of the parameter \<open>gorm\<close>, which every operation takes; what the store relies on is the locale
  \<open>gorm_db\<close>: a \<open>view\<close> of a database as three tables, and for each call what a successful answer
  says about the view or does to it. Any call may fail with an error, and \<open>commit\<close> may fail too;
  \<open>transaction\<close> is gorm's documented contract, that a failed body or commit leaves the database
  as it was.
\<close>

section \<open>Rows\<close>

datatype jstate =
    Observed
  | Ready
  | Running
  | Importing
  | Imported
  | Blocked
  | Failed
  | Removed
  | Removing

record job =
  jID :: int
  jService :: string
  jQueueID :: int
  jDownloadID :: string
  jTitle :: string
  jSourceFingerprint :: string
  jPlanningFingerprint :: string
  jPreviousPlanningFingerprint :: string
  jPlanningChange :: string
  jStableSince :: gotime
  jEvidence :: raw
  jCollectionError :: string
  jPlan :: raw
  jGuidance :: string
  jRuntimeToleranceMS :: int
  jRetryAt :: gotime
  jPlanningAttempts :: int
  jPendingAction :: string
  jRevision :: int
  jInQueue :: bool
  jState :: jstate
  jReason :: string
  jUpdatedAt :: gotime

record attempt =
  aJobID :: int
  aNumber :: int
  aState :: jstate
  aPlan :: raw
  aOutputPath :: string
  aImportRequest :: raw
  aHistoryIDBefore :: int
  aCommandID :: int
  aImportStartedAt :: gotime
  aImportTerminalAt :: gotime
  aImportReceipt :: raw
  aReason :: string
  aStartedAt :: gotime
  aUpdatedAt :: gotime

record planning_result =
  pJobID :: int
  pFingerprint :: string
  pRevision :: int
  pComplete :: bool
  pAttempts :: int
  pRetryAt :: gotime
  pReason :: string
  pPlan :: raw

text \<open>The two columns tagged \<open>gorm:"-"\<close> are never stored.\<close>

definition stored :: "job \<Rightarrow> job" where
  "stored j = j\<lparr>jPreviousPlanningFingerprint := [], jPlanningChange := []\<rparr>"

lemma stored_fields [simp]:
  "jID (stored j) = jID j" "jService (stored j) = jService j" "jQueueID (stored j) = jQueueID j"
  "jDownloadID (stored j) = jDownloadID j" "jState (stored j) = jState j"
  "jPendingAction (stored j) = jPendingAction j" "jRevision (stored j) = jRevision j"
  "jPlan (stored j) = jPlan j" "jInQueue (stored j) = jInQueue j"
  "jSourceFingerprint (stored j) = jSourceFingerprint j"
  "jPlanningFingerprint (stored j) = jPlanningFingerprint j"
  "jPlanningAttempts (stored j) = jPlanningAttempts j" "jRetryAt (stored j) = jRetryAt j"
  "jReason (stored j) = jReason j" "jEvidence (stored j) = jEvidence j"
  "jGuidance (stored j) = jGuidance j" "jStableSince (stored j) = jStableSince j"
  "jCollectionError (stored j) = jCollectionError j"
  by (simp_all add: stored_def)

definition active :: "jstate \<Rightarrow> bool" where
  "active s \<longleftrightarrow> s = Running \<or> s = Importing \<or> s = Removing"

text \<open>The active states of a repair, as opposed to a removal.\<close>

definition repairing :: "jstate \<Rightarrow> bool" where
  "repairing s \<longleftrightarrow> s = Running \<or> s = Importing"

lemma active_simps [simp]:
  "active Running" "active Importing" "active Removing" "\<not> active Observed" "\<not> active Ready"
  "\<not> active Imported" "\<not> active Blocked" "\<not> active Failed" "\<not> active Removed"
  by (simp_all add: active_def)

lemma repairing_simps [simp]:
  "repairing Running" "repairing Importing" "\<not> repairing Removing" "\<not> repairing Observed"
  "\<not> repairing Ready" "\<not> repairing Imported" "\<not> repairing Blocked" "\<not> repairing Failed"
  "\<not> repairing Removed"
  by (simp_all add: repairing_def)

lemma repairing_active: "repairing s \<Longrightarrow> active s"
  by (auto simp: repairing_def)

definition Reconsider :: string where
  "Reconsider = ''reconsider''"

definition Delete :: string where
  "Delete = ''delete''"

lemma action_simps [simp]:
  "Reconsider \<noteq> []" "Delete \<noteq> []" "Reconsider \<noteq> Delete" "Delete \<noteq> Reconsider"
  "[] \<noteq> Reconsider" "[] \<noteq> Delete"
  by (simp_all add: Reconsider_def Delete_def)

section \<open>Queue keys\<close>

record queue_key =
  kQueueID :: int
  kDownloadID :: string

definition QueueKey :: "job \<Rightarrow> queue_key" where
  "QueueKey j = \<lparr>kQueueID = jQueueID j, kDownloadID = jDownloadID j\<rparr>"

text \<open>The loop of \<open>MatchQueue\<close>: the index of the next candidate, the last match and the count.\<close>

fun match_loop :: "queue_key \<Rightarrow> queue_key list \<Rightarrow> int \<Rightarrow> int \<Rightarrow> nat \<Rightarrow> go_error + int" where
  "match_loop wanted [] index match count =
     (if count > 1
      then Inl (ErrorText ''download matches multiple queue entries; cannot follow changed queue ID'')
      else Inr match)"
| "match_loop wanted (candidate # candidates) index match count =
     (if candidate = wanted then Inr index
      else if kDownloadID wanted \<noteq> [] \<and> kDownloadID candidate = kDownloadID wanted
      then match_loop wanted candidates (index + 1) index (Suc count)
      else match_loop wanted candidates (index + 1) match count)"

definition MatchQueue :: "queue_key \<Rightarrow> queue_key list \<Rightarrow> go_error + int" where
  "MatchQueue wanted candidates = match_loop wanted candidates 0 (- 1) 0"

section \<open>The database\<close>

record 'db gorm =
  first_job :: "'db \<Rightarrow> int \<Rightarrow> go_error + job"
  first_identity :: "'db \<Rightarrow> string \<Rightarrow> int \<Rightarrow> string \<Rightarrow> go_error + job"
  find_jobs :: "'db \<Rightarrow> string \<Rightarrow> go_error + job list"
  create_job :: "'db \<Rightarrow> job \<Rightarrow> go_error + job \<times> 'db"
  save_job :: "'db \<Rightarrow> job \<Rightarrow> go_error + 'db"
  first_attempt :: "'db \<Rightarrow> int \<Rightarrow> int \<Rightarrow> go_error + attempt"
  last_attempt :: "'db \<Rightarrow> int \<Rightarrow> go_error + attempt"
  find_attempts :: "'db \<Rightarrow> int \<Rightarrow> go_error + attempt list"
  create_attempt :: "'db \<Rightarrow> attempt \<Rightarrow> go_error + 'db"
  save_attempt :: "'db \<Rightarrow> attempt \<Rightarrow> go_error + 'db"
  first_result :: "'db \<Rightarrow> int \<Rightarrow> string \<Rightarrow> int \<Rightarrow> go_error + planning_result"
  upsert_result :: "'db \<Rightarrow> planning_result \<Rightarrow> go_error + 'db"
  commit :: "'db \<Rightarrow> go_error option"

definition transaction ::
  "'db gorm \<Rightarrow> ('db \<Rightarrow> go_error + 'a \<times> 'db) \<Rightarrow> 'db \<Rightarrow> (go_error + 'a) \<times> 'db" where
  "transaction g body d =
     (case body d of
        Inl e \<Rightarrow> (Inl e, d)
      | Inr (a, d') \<Rightarrow> (case commit g d' of Some e \<Rightarrow> (Inl e, d) | None \<Rightarrow> (Inr a, d')))"

section \<open>Planning history\<close>

definition rememberPlanning :: "'db gorm \<Rightarrow> 'db \<Rightarrow> job \<Rightarrow> go_error + 'db" where
  "rememberPlanning g tx job =
     (if jPlanningFingerprint job = [] then Inr tx
      else upsert_result g tx
        \<lparr>pJobID = jID job, pFingerprint = jPlanningFingerprint job, pRevision = jRevision job,
         pComplete = (jState job \<noteq> Observed), pAttempts = jPlanningAttempts job,
         pRetryAt = jRetryAt job, pReason = jReason job, pPlan = jPlan job\<rparr>)"

definition observePlanning ::
  "'db gorm \<Rightarrow> 'db \<Rightarrow> job \<Rightarrow> job \<Rightarrow> go_error + (bool \<times> job \<times> 'db)" where
  "observePlanning g tx job observed =
     (if jPlanningFingerprint observed = []
      then Inr (jSourceFingerprint job \<noteq> jSourceFingerprint observed, job, tx)
      else
        let bootstrap = (jPlanningFingerprint job = []);
            job1 = (if bootstrap
                    then job\<lparr>jPlanningFingerprint :=
                           (if jPreviousPlanningFingerprint observed = []
                            then jPlanningFingerprint observed
                            else jPreviousPlanningFingerprint observed)\<rparr>
                    else job)
        in and_then
             (if bootstrap \<and> (jState job1 \<noteq> Observed \<or> jPlanningAttempts job1 > 0)
              then rememberPlanning g tx job1 else Inr tx) (\<lambda>tx.
           and_then
             (if jState job1 \<noteq> Observed \<and> raw_len (jPlan job1) \<noteq> 0
              then rememberPlanning g tx job1 else Inr tx) (\<lambda>tx.
           Inr (jPlanningFingerprint job1 \<noteq> jPlanningFingerprint observed,
                job1\<lparr>jPlanningFingerprint := jPlanningFingerprint observed\<rparr>, tx))))"

definition already_planned :: string where
  "already_planned = ''these inputs were already planned; request reconsideration to try again''"

definition restorePlanning :: "'db gorm \<Rightarrow> 'db \<Rightarrow> job \<Rightarrow> go_error + job" where
  "restorePlanning g tx job =
     (if jPlanningFingerprint job = [] then Inr job
      else case first_result g tx (jID job) (jPlanningFingerprint job) (jRevision job) of
        Inl e \<Rightarrow> if error_is e ErrRecordNotFound then Inr job else Inl e
      | Inr result \<Rightarrow>
          let job1 = job\<lparr>jPlanningAttempts := pAttempts result, jRetryAt := pRetryAt result,
                         jReason := pReason result\<rparr>
          in Inr (if pComplete result
                  then job1\<lparr>jState := Blocked, jReason := already_planned, jPlan := pPlan result\<rparr>
                  else job1))"

section \<open>Observation\<close>

definition observe_changed :: "'db gorm \<Rightarrow> 'db \<Rightarrow> job \<Rightarrow> job \<Rightarrow> bool \<Rightarrow> go_error + job" where
  "observe_changed g tx job observed changed =
     (if changed \<and> jState job \<noteq> Imported \<and> jState job \<noteq> Removed
      then restorePlanning g tx
             (job\<lparr>jPlan := None, jState := Observed, jReason := jPlanningChange observed,
                  jStableSince := jUpdatedAt observed, jRetryAt := zero_time,
                  jPlanningAttempts := 0\<rparr>)
      else Inr job)"

definition observe_row :: "'db gorm \<Rightarrow> 'db \<Rightarrow> job \<Rightarrow> job \<Rightarrow> go_error + job \<times> 'db" where
  "observe_row g tx row observed =
     (let job = row\<lparr>jTitle := jTitle observed, jUpdatedAt := jUpdatedAt observed,
                    jInQueue := True, jCollectionError := jCollectionError observed\<rparr>
      in if \<not> active (jState job) \<and> jEvidence observed \<noteq> None
         then and_then (observePlanning g tx job observed) (\<lambda>(changed, job, tx).
              and_then (observe_changed g tx job observed changed) (\<lambda>job.
              Inr (if jState job \<noteq> Ready \<or> changed \<or> jPlanningFingerprint observed = []
                   then job\<lparr>jSourceFingerprint := jSourceFingerprint observed,
                            jEvidence := jEvidence observed\<rparr>
                   else job, tx)))
         else Inr (job, tx))"

definition Observe :: "'db gorm \<Rightarrow> job \<Rightarrow> 'db \<Rightarrow> (go_error + job) \<times> 'db" where
  "Observe g observed = transaction g (\<lambda>tx.
     case first_identity g tx (jService observed) (jQueueID observed) (jDownloadID observed) of
       Inl e \<Rightarrow>
         if error_is e ErrRecordNotFound
         then create_job g tx (observed\<lparr>jID := 0, jState := Observed,
                                 jStableSince := jUpdatedAt observed, jInQueue := True\<rparr>)
         else Inl e
     | Inr row \<Rightarrow>
         and_then (observe_row g tx row observed) (\<lambda>(job, tx).
         and_then (save_job g tx job) (\<lambda>tx. Inr (job, tx))))"

section \<open>Reads\<close>

definition Get :: "'db gorm \<Rightarrow> int \<Rightarrow> 'db \<Rightarrow> go_error + job" where
  "Get g i d = first_job g d i"

definition List :: "'db gorm \<Rightarrow> string \<Rightarrow> 'db \<Rightarrow> go_error + job list" where
  "List g service d = map_sum id (sort_key jID) (find_jobs g d service)"

definition Attempts :: "'db gorm \<Rightarrow> int \<Rightarrow> 'db \<Rightarrow> go_error + attempt list" where
  "Attempts g i d = map_sum id (sort_key aNumber) (find_attempts g d i)"

definition LatestAttempt :: "'db gorm \<Rightarrow> int \<Rightarrow> 'db \<Rightarrow> go_error + attempt" where
  "LatestAttempt g i d = last_attempt g d i"

section \<open>Planning and attempts\<close>

definition SetPlan ::
  "'db gorm \<Rightarrow> int \<Rightarrow> string \<Rightarrow> raw \<Rightarrow> string \<Rightarrow> gotime \<Rightarrow> 'db \<Rightarrow> (go_error + unit) \<times> 'db" where
  "SetPlan g i fingerprint plan guidance at = transaction g (\<lambda>tx.
     and_then (first_job g tx i) (\<lambda>job.
     and_then (ensure (\<not> (jSourceFingerprint job \<noteq> fingerprint \<or> active (jState job) \<or>
                          jState job = Imported \<or> jState job = Removed)) ErrConflict) (\<lambda>_.
     let job = job\<lparr>jPlan := plan, jGuidance := guidance, jUpdatedAt := at, jState := Ready,
                   jReason := []\<rparr>
     in and_then (rememberPlanning g tx job) (\<lambda>tx.
        and_then (save_job g tx job) (\<lambda>tx. Inr ((), tx))))))"

definition Start :: "'db gorm \<Rightarrow> int \<Rightarrow> gotime \<Rightarrow> 'db \<Rightarrow> (go_error + attempt) \<times> 'db" where
  "Start g i at = transaction g (\<lambda>tx.
     and_then (first_job g tx i) (\<lambda>job.
     and_then (ensure (\<not> (jState job \<noteq> Ready \<or> jPendingAction job \<noteq> [])) ErrConflict) (\<lambda>_.
     and_then (case last_attempt g tx i of
                 Inr previous \<Rightarrow> Inr (aNumber previous)
               | Inl e \<Rightarrow> if error_is e ErrRecordNotFound then Inr 0 else Inl e) (\<lambda>previous.
     let attempt = \<lparr>aJobID = i, aNumber = previous + 1, aState = Running, aPlan = jPlan job,
                    aOutputPath = [], aImportRequest = None, aHistoryIDBefore = 0, aCommandID = 0,
                    aImportStartedAt = zero_time, aImportTerminalAt = zero_time,
                    aImportReceipt = None, aReason = [], aStartedAt = at, aUpdatedAt = at\<rparr>
     in and_then (create_attempt g tx attempt) (\<lambda>tx.
        and_then (save_job g tx (job\<lparr>jState := Running, jReason := [], jUpdatedAt := at\<rparr>)) (\<lambda>tx.
        Inr (attempt, tx)))))))"

definition UpdateAttempt :: "'db gorm \<Rightarrow> attempt \<Rightarrow> 'db \<Rightarrow> (go_error + unit) \<times> 'db" where
  "UpdateAttempt g attempt = transaction g (\<lambda>tx.
     and_then (first_attempt g tx (aJobID attempt) (aNumber attempt)) (\<lambda>previous.
     and_then (ensure (active (aState previous)) ErrConflict) (\<lambda>_.
     let previous = previous\<lparr>aState := aState attempt, aReason := aReason attempt,
           aUpdatedAt := aUpdatedAt attempt, aOutputPath := aOutputPath attempt,
           aImportReceipt := aImportReceipt attempt, aImportRequest := aImportRequest attempt,
           aHistoryIDBefore := aHistoryIDBefore attempt, aCommandID := aCommandID attempt,
           aImportStartedAt := aImportStartedAt attempt,
           aImportTerminalAt := aImportTerminalAt attempt\<rparr>
     in and_then (save_attempt g tx previous) (\<lambda>tx.
        and_then (first_job g tx (aJobID attempt)) (\<lambda>job.
        and_then (save_job g tx (job\<lparr>jState := aState attempt, jReason := aReason attempt,
                                     jUpdatedAt := aUpdatedAt attempt\<rparr>)) (\<lambda>tx. Inr ((), tx)))))))"

section \<open>Operator actions and their completion\<close>

definition requestAction ::
  "'db gorm \<Rightarrow> int \<Rightarrow> string \<Rightarrow> string \<Rightarrow> int \<Rightarrow> gotime \<Rightarrow> job option \<Rightarrow> 'db \<Rightarrow>
   (go_error + unit) \<times> 'db" where
  "requestAction g i action guidance runtimeToleranceMS at expected = transaction g (\<lambda>tx.
     and_then (first_job g tx i) (\<lambda>job.
     and_then (ensure (case expected of None \<Rightarrow> True | Some seen \<Rightarrow>
                 \<not> (jRevision job \<noteq> jRevision seen \<or>
                    jSourceFingerprint job \<noteq> jSourceFingerprint seen \<or>
                    jState job \<noteq> jState seen \<or> \<not> jInQueue job \<or> jPendingAction job \<noteq> [] \<or>
                    jCollectionError job \<noteq> [])) ErrConflict) (\<lambda>_.
     and_then (ensure (\<not> (active (jState job) \<or> jState job = Removed \<or>
                          (action \<noteq> Reconsider \<and> action \<noteq> Delete))) ErrConflict) (\<lambda>_.
     and_then (ensure (\<not> (action = Reconsider \<and> jState job = Imported)) ErrConflict) (\<lambda>_.
     let job = job\<lparr>jRevision := wrap64 (jRevision job + 1), jPendingAction := action, jReason := [],
                   jRetryAt := zero_time, jUpdatedAt := at\<rparr>;
         job = (if action = Reconsider
                then job\<lparr>jGuidance := guidance, jRuntimeToleranceMS := runtimeToleranceMS,
                         jPlanningAttempts := 0, jState := Observed\<rparr>
                else job)
     in and_then (save_job g tx job) (\<lambda>tx. Inr ((), tx)))))))"

definition RequestAction ::
  "'db gorm \<Rightarrow> int \<Rightarrow> string \<Rightarrow> string \<Rightarrow> int \<Rightarrow> gotime \<Rightarrow> 'db \<Rightarrow> (go_error + unit) \<times> 'db" where
  "RequestAction g i action guidance runtimeToleranceMS at =
     requestAction g i action guidance runtimeToleranceMS at None"

definition RequestReconsideration ::
  "'db gorm \<Rightarrow> job \<Rightarrow> string \<Rightarrow> int \<Rightarrow> gotime \<Rightarrow> 'db \<Rightarrow> (go_error + unit) \<times> 'db" where
  "RequestReconsideration g expected guidance runtimeToleranceMS at =
     requestAction g (jID expected) Reconsider guidance runtimeToleranceMS at (Some expected)"

definition FinishPlanning :: "'db gorm \<Rightarrow> job \<Rightarrow> 'db \<Rightarrow> (go_error + unit) \<times> 'db" where
  "FinishPlanning g planned = transaction g (\<lambda>tx.
     and_then (first_job g tx (jID planned)) (\<lambda>job.
     and_then (ensure (\<not> (jRevision job \<noteq> jRevision planned \<or>
                          jSourceFingerprint job \<noteq> jSourceFingerprint planned \<or>
                          active (jState job) \<or> jState job = Removed \<or>
                          jState job = Imported)) ErrConflict) (\<lambda>_.
     let job = job\<lparr>jPlan := jPlan planned, jState := jState planned, jReason := jReason planned,
                   jRetryAt := jRetryAt planned, jPlanningAttempts := jPlanningAttempts planned,
                   jUpdatedAt := jUpdatedAt planned\<rparr>;
         job = (if jState planned = Ready \<or> jState planned = Blocked
                then job\<lparr>jPendingAction := []\<rparr> else job)
     in and_then (rememberPlanning g tx job) (\<lambda>tx.
        and_then (save_job g tx job) (\<lambda>tx. Inr ((), tx))))))"

definition FinishRemoval ::
  "'db gorm \<Rightarrow> job \<Rightarrow> go_error option \<Rightarrow> gotime \<Rightarrow> 'db \<Rightarrow> (go_error + unit) \<times> 'db" where
  "FinishRemoval g requested failure at = transaction g (\<lambda>tx.
     and_then (first_job g tx (jID requested)) (\<lambda>job.
     and_then (ensure (\<not> (jRevision job \<noteq> jRevision requested \<or> jPendingAction job \<noteq> Delete))
                 ErrConflict) (\<lambda>_.
     let job = job\<lparr>jUpdatedAt := at\<rparr>;
         job = (case failure of
                  None \<Rightarrow> job\<lparr>jState := Removed, jInQueue := False, jPendingAction := [],
                              jReason := ''queue tracking removed; media retained''\<rparr>
                | Some e \<Rightarrow> job\<lparr>jState := Blocked, jReason := error_text e,
                                jRetryAt := at + 5 * minute\<rparr>)
     in and_then (save_job g tx job) (\<lambda>tx. Inr ((), tx)))))"

definition StartRemoval :: "'db gorm \<Rightarrow> int \<Rightarrow> gotime \<Rightarrow> 'db \<Rightarrow> (go_error + job) \<times> 'db" where
  "StartRemoval g i at = transaction g (\<lambda>tx.
     and_then (first_job g tx i) (\<lambda>job.
     and_then (ensure (\<not> (jPendingAction job \<noteq> Delete \<or> jState job = Running \<or>
                          jState job = Importing)) ErrConflict) (\<lambda>_.
     let job = job\<lparr>jState := Removing, jUpdatedAt := at\<rparr>
     in and_then (save_job g tx job) (\<lambda>tx. Inr (job, tx)))))"

section \<open>Queue reconciliation\<close>

definition reconcile_present :: "'db gorm \<Rightarrow> job \<Rightarrow> queue_key \<Rightarrow> 'db \<Rightarrow> go_error + 'db" where
  "reconcile_present g job key tx =
     (if jQueueID job = kQueueID key \<and> jInQueue job \<and> jState job \<noteq> Removed then Inr tx
      else
        let job = job\<lparr>jQueueID := kQueueID key, jInQueue := True\<rparr>;
            job = (if jState job = Removed
                   then job\<lparr>jState := Blocked, jReason := ''queue entry is present again''\<rparr>
                   else job)
        in save_job g tx job)"

definition reconcile_absent :: "'db gorm \<Rightarrow> job \<Rightarrow> gotime \<Rightarrow> 'db \<Rightarrow> go_error + 'db" where
  "reconcile_absent g job at tx =
     (if \<not> jInQueue job then Inr tx
      else
        let job = job\<lparr>jInQueue := False, jUpdatedAt := at\<rparr>;
            job = (if \<not> active (jState job) \<and> jState job \<noteq> Imported
                   then job\<lparr>jState := Removed, jReason := ''no longer in the queue'',
                            jPendingAction := []\<rparr>
                   else job)
        in save_job g tx job)"

fun reconcile_loop ::
  "'db gorm \<Rightarrow> queue_key list \<Rightarrow> queue_key list \<Rightarrow> gotime \<Rightarrow> int \<Rightarrow> job list \<Rightarrow> 'db \<Rightarrow>
   go_error + 'db" where
  "reconcile_loop g present previous at index [] tx = Inr tx"
| "reconcile_loop g present previous at index (job # jobs) tx =
     and_then (MatchQueue (QueueKey job) present) (\<lambda>matched.
     and_then (if matched \<ge> 0
               then and_then (MatchQueue (present ! nat matched) previous) (\<lambda>owner.
                    if owner \<noteq> index then Inr tx
                    else reconcile_present g job (present ! nat matched) tx)
               else reconcile_absent g job at tx) (\<lambda>tx.
     reconcile_loop g present previous at (index + 1) jobs tx))"

definition ReconcileQueue ::
  "'db gorm \<Rightarrow> string \<Rightarrow> queue_key list \<Rightarrow> gotime \<Rightarrow> 'db \<Rightarrow> (go_error + unit) \<times> 'db" where
  "ReconcileQueue g service present at = transaction g (\<lambda>tx.
     and_then (find_jobs g tx service) (\<lambda>jobs.
     and_then (reconcile_loop g present (map QueueKey jobs) at 0 jobs tx) (\<lambda>tx. Inr ((), tx))))"

end
