(* ===== verification/Jobs_Spec.thy ===== *)
theory Jobs_Spec
  imports Jobs_Store
begin

text \<open>
  What the job store promises. A database is seen as three tables; \<open>gorm_db\<close> is the interface to
  the database library. The abstract specification is a transition system on tables: \<open>lifecycle\<close>
  says how the state and the pending action of one job may change outside a repair, \<open>env_step\<close>
  lifts it to the tables, and \<open>engine_step\<close> adds the two transitions reserved to the repair
  engine, \<open>Start\<close> and \<open>UpdateAttempt\<close>. Every transaction of \<open>Jobs_Store\<close> refines it.
\<close>

section \<open>Tables\<close>

record tables =
  tjobs :: "int \<Rightarrow> job option"
  tattempts :: "int \<times> int \<Rightarrow> attempt option"
  tresults :: "int \<times> string \<times> int \<Rightarrow> planning_result option"

definition put_job :: "job \<Rightarrow> tables \<Rightarrow> tables" where
  "put_job j t = t\<lparr>tjobs := (tjobs t)(jID j \<mapsto> stored j)\<rparr>"

definition put_attempt :: "attempt \<Rightarrow> tables \<Rightarrow> tables" where
  "put_attempt a t = t\<lparr>tattempts := (tattempts t)((aJobID a, aNumber a) \<mapsto> a)\<rparr>"

definition put_result :: "planning_result \<Rightarrow> tables \<Rightarrow> tables" where
  "put_result r t = t\<lparr>tresults := (tresults t)((pJobID r, pFingerprint r, pRevision r) \<mapsto> r)\<rparr>"

lemma put_simps [simp]:
  "tjobs (put_job j t) = (tjobs t)(jID j \<mapsto> stored j)"
  "tattempts (put_job j t) = tattempts t"
  "tresults (put_job j t) = tresults t"
  "tjobs (put_attempt a t) = tjobs t"
  "tattempts (put_attempt a t) = (tattempts t)((aJobID a, aNumber a) \<mapsto> a)"
  "tresults (put_attempt a t) = tresults t"
  "tjobs (put_result r t) = tjobs t"
  "tattempts (put_result r t) = tattempts t"
  "tresults (put_result r t) = (tresults t)((pJobID r, pFingerprint r, pRevision r) \<mapsto> r)"
  by (simp_all add: put_job_def put_attempt_def put_result_def)

section \<open>The interface to the database library\<close>

locale gorm_db =
  fixes g :: "'db gorm"
    and view :: "'db \<Rightarrow> tables"
  assumes job_key: "tjobs (view d) i = Some j \<Longrightarrow> jID j = i \<and> i \<noteq> 0 \<and> stored j = j"
    and job_unique: "\<lbrakk>tjobs (view d) i = Some j; tjobs (view d) i' = Some j';
          jService j = jService j'; jQueueID j = jQueueID j'; jDownloadID j = jDownloadID j'\<rbrakk>
          \<Longrightarrow> i = i'"
    and attempt_key: "tattempts (view d) (i, n) = Some a \<Longrightarrow> aJobID a = i \<and> aNumber a = n"
    and first_job_row: "first_job g d i = Inr j \<Longrightarrow> tjobs (view d) i = Some j"
    and first_identity_row: "first_identity g d s q w = Inr j \<Longrightarrow>
          tjobs (view d) (jID j) = Some j \<and> jService j = s \<and> jQueueID j = q \<and> jDownloadID j = w"
    and find_jobs_rows: "\<lbrakk>find_jobs g d s = Inr js; s \<noteq> []\<rbrakk> \<Longrightarrow>
          distinct (map jID js) \<and> set js = {j. \<exists>i. tjobs (view d) i = Some j \<and> jService j = s}"
    and create_job_row: "\<lbrakk>create_job g d j = Inr (j', d'); jID j = 0\<rbrakk> \<Longrightarrow>
          \<exists>i. i \<noteq> 0 \<and> tjobs (view d) i = None \<and> j' = j\<lparr>jID := i\<rparr> \<and> view d' = put_job j' (view d)"
    and save_job_row: "\<lbrakk>save_job g d j = Inr d'; jID j \<noteq> 0\<rbrakk> \<Longrightarrow> view d' = put_job j (view d)"
    and first_attempt_row: "\<lbrakk>first_attempt g d i n = Inr a; i \<noteq> 0; n \<noteq> 0\<rbrakk> \<Longrightarrow>
          tattempts (view d) (i, n) = Some a"
    and last_attempt_row: "\<lbrakk>last_attempt g d i = Inr a; i \<noteq> 0\<rbrakk> \<Longrightarrow>
          tattempts (view d) (i, aNumber a) = Some a \<and>
          (\<forall>n. tattempts (view d) (i, n) \<noteq> None \<longrightarrow> n \<le> aNumber a)"
    and last_attempt_none: "\<lbrakk>last_attempt g d i = Inl e; error_is e ErrRecordNotFound; i \<noteq> 0\<rbrakk> \<Longrightarrow>
          tattempts (view d) (i, n) = None"
    and create_attempt_row: "create_attempt g d a = Inr d' \<Longrightarrow> view d' = put_attempt a (view d)"
    and save_attempt_row: "\<lbrakk>save_attempt g d a = Inr d'; aJobID a \<noteq> 0; aNumber a \<noteq> 0\<rbrakk> \<Longrightarrow>
          view d' = put_attempt a (view d)"
    and first_result_row: "first_result g d i f r = Inr p \<Longrightarrow> tresults (view d) (i, f, r) = Some p"
    and first_result_none: "\<lbrakk>first_result g d i f r = Inl e; error_is e ErrRecordNotFound\<rbrakk> \<Longrightarrow>
          tresults (view d) (i, f, r) = None"
    and upsert_result_row: "upsert_result g d p = Inr d' \<Longrightarrow> view d' = put_result p (view d)"

section \<open>The life cycle of a job outside a repair\<close>

type_synonym phase = "jstate \<times> string"

definition phase_of :: "job \<Rightarrow> phase" where
  "phase_of j = (jState j, jPendingAction j)"

definition replannable :: "jstate \<Rightarrow> bool" where
  "replannable s \<longleftrightarrow> \<not> active s \<and> s \<noteq> Imported \<and> s \<noteq> Removed"

text \<open>
  \<open>lifecycle fin\<close>: how the state and the pending action of a job change; only with \<open>fin\<close> may the
  change be the end of a removal.
\<close>

inductive lifecycle :: "bool \<Rightarrow> phase \<Rightarrow> phase \<Rightarrow> bool" for fin :: bool where
  stay: "lifecycle fin p p"
| inputs_changed: "replannable s \<Longrightarrow> lifecycle fin (s, p) (Observed, p)"
| already_planned: "replannable s \<Longrightarrow> lifecycle fin (s, p) (Blocked, p)"
| plan_set: "replannable s \<Longrightarrow> lifecycle fin (s, p) (Ready, p)"
| reconsidered: "replannable s \<Longrightarrow> lifecycle fin (s, p) (Observed, Reconsider)"
| planned: "replannable s \<Longrightarrow> s' = Ready \<or> s' = Blocked \<Longrightarrow> lifecycle fin (s, p) (s', [])"
| removal_requested: "\<not> active s \<Longrightarrow> s \<noteq> Removed \<Longrightarrow> lifecycle fin (s, p) (s, Delete)"
| removal_started: "\<not> repairing s \<Longrightarrow> lifecycle fin (s, Delete) (Removing, Delete)"
| removal_done: "fin \<Longrightarrow> lifecycle fin (s, Delete) (Removed, [])"
| removal_failed: "fin \<Longrightarrow> lifecycle fin (s, Delete) (Blocked, Delete)"
| queued_again: "lifecycle fin (Removed, p) (Blocked, p)"
| left_queue: "\<not> active s \<Longrightarrow> s \<noteq> Imported \<Longrightarrow> lifecycle fin (s, p) (Removed, [])"

inductive_cases lifecycleE: "lifecycle fin (s, p) (s', p')"

lemma lifecycle_mono: "lifecycle fin p q \<Longrightarrow> (fin \<Longrightarrow> fin') \<Longrightarrow> lifecycle fin' p q"
  by (induction rule: lifecycle.induct) (auto intro: lifecycle.intros)

text \<open>A repair with no pending action is left alone, and none is started.\<close>

lemma lifecycle_repairing: "lifecycle fin (s, []) q \<Longrightarrow> repairing s \<Longrightarrow> q = (s, [])"
  by (cases q) (auto elim!: lifecycleE simp: replannable_def repairing_active)

lemma lifecycle_into_repairing: "lifecycle fin p (s', p') \<Longrightarrow> repairing s' \<Longrightarrow> p = (s', p')"
  by (cases p) (auto elim!: lifecycleE simp: replannable_def repairing_def)

text \<open>A removal under way is left alone until it is finished.\<close>

lemma lifecycle_removing: "lifecycle False (Removing, Delete) q \<Longrightarrow> q = (Removing, Delete)"
  by (cases q) (auto elim!: lifecycleE simp: replannable_def active_def)

text \<open>An imported job changes state only on the way to its removal from the queue.\<close>

lemma lifecycle_imported:
  "lifecycle fin (Imported, p) (s', p') \<Longrightarrow>
     s' = Imported \<or> p = Delete \<and> s' \<in> {Removing, Removed, Blocked}"
  by (auto elim!: lifecycleE simp: replannable_def)

section \<open>Transitions of the tables\<close>

text \<open>
  \<open>advances fin new j j'\<close>: the job follows its life cycle, stays with its service and keeps its
  revision; only with \<open>new\<close> may it go on to the next one, which is counted in 64 bits.
\<close>

definition advances :: "bool \<Rightarrow> bool \<Rightarrow> job \<Rightarrow> job \<Rightarrow> bool" where
  "advances fin new j j' \<longleftrightarrow> lifecycle fin (phase_of j) (phase_of j') \<and> jService j' = jService j \<and>
     (jRevision j' = jRevision j \<or> new \<and> jRevision j' = wrap64 (jRevision j + 1))"

text \<open>
  \<open>env_step F R\<close>: a step outside a repair that may end the removal of the jobs in \<open>F\<close> only, and
  begin a new revision of the jobs in \<open>R\<close> only.
\<close>

inductive env_step :: "int set \<Rightarrow> int set \<Rightarrow> tables \<Rightarrow> tables \<Rightarrow> bool" for F R :: "int set" where
  create: "jID j \<noteq> 0 \<Longrightarrow> tjobs t (jID j) = None \<Longrightarrow> jState j = Observed \<Longrightarrow>
     env_step F R t (put_job j t)"
| move: "tjobs t (jID j') = Some j \<Longrightarrow> advances (jID j' \<in> F) (jID j' \<in> R) j j' \<Longrightarrow>
     env_step F R t (put_job j' t)"
| remember: "env_step F R t (put_result r t)"

abbreviation env_steps :: "int set \<Rightarrow> int set \<Rightarrow> tables \<Rightarrow> tables \<Rightarrow> bool" where
  "env_steps F R \<equiv> (env_step F R)\<^sup>*\<^sup>*"

lemma env_step_mono: "env_step F R t t' \<Longrightarrow> F \<subseteq> G \<Longrightarrow> R \<subseteq> S \<Longrightarrow> env_step G S t t'"
proof (induction rule: env_step.induct)
  case (move t j' j)
  then have "advances (jID j' \<in> G) (jID j' \<in> S) j j'"
    unfolding advances_def by (blast intro: lifecycle_mono)
  with move(1) show ?case by (rule env_step.move)
qed (simp_all add: env_step.create env_step.remember)

lemma env_steps_mono: "env_steps F R t t' \<Longrightarrow> F \<subseteq> G \<Longrightarrow> R \<subseteq> S \<Longrightarrow> env_steps G S t t'"
  by (induction rule: rtranclp_induct) (auto dest: env_step_mono)

text \<open>The states in which the repair engine leaves an attempt.\<close>

definition attempt_states :: "jstate set" where
  "attempt_states = {Running, Importing, Imported, Blocked, Failed}"

text \<open>\<open>engine_step i\<close>: a step of a repair of job \<open>i\<close>.\<close>

inductive engine_step :: "int \<Rightarrow> tables \<Rightarrow> tables \<Rightarrow> bool" for i :: int where
  start: "tjobs t i = Some j \<Longrightarrow> phase_of j = (Ready, []) \<Longrightarrow> phase_of j' = (Running, []) \<Longrightarrow>
     jID j' = i \<Longrightarrow> aJobID a = i \<Longrightarrow> aState a = Running \<Longrightarrow>
     (\<And>n. tattempts t (i, n) \<noteq> None \<Longrightarrow> n < aNumber a) \<Longrightarrow> 0 < aNumber a \<Longrightarrow>
     jRevision j' = jRevision j \<Longrightarrow> jService j' = jService j \<Longrightarrow>
     engine_step i t (put_job j' (put_attempt a t))"
| update: "tattempts t (i, aNumber a) = Some b \<Longrightarrow> active (aState b) \<Longrightarrow> aJobID a = i \<Longrightarrow>
     aState a \<in> attempt_states \<Longrightarrow> tjobs t i = Some j \<Longrightarrow> jID j' = i \<Longrightarrow>
     phase_of j' = (aState a, jPendingAction j) \<Longrightarrow> jRevision j' = jRevision j \<Longrightarrow>
     jService j' = jService j \<Longrightarrow>
     engine_step i t (put_job j' (put_attempt a t))"

section \<open>The invariant\<close>

text \<open>
  Every attempt belongs to a job, is numbered from 1 and is in a state of an attempt; an active attempt is the latest of its
  job, which is in the same state; a job under repair has such an attempt and no pending action.
\<close>

definition latest :: "tables \<Rightarrow> int \<Rightarrow> int \<Rightarrow> bool" where
  "latest t i n \<longleftrightarrow> (\<forall>m. tattempts t (i, m) \<noteq> None \<longrightarrow> m \<le> n)"

definition store_inv :: "tables \<Rightarrow> bool" where
  "store_inv t \<longleftrightarrow>
     (\<forall>i n a. tattempts t (i, n) = Some a \<longrightarrow> tjobs t i \<noteq> None \<and> 0 < n \<and> aState a \<in> attempt_states) \<and>
     (\<forall>i n a. tattempts t (i, n) = Some a \<longrightarrow> active (aState a) \<longrightarrow>
        repairing (aState a) \<and> latest t i n \<and> (\<exists>j. tjobs t i = Some j \<and> jState j = aState a)) \<and>
     (\<forall>i j. tjobs t i = Some j \<longrightarrow> repairing (jState j) \<longrightarrow>
        jPendingAction j = [] \<and> (\<exists>n a. tattempts t (i, n) = Some a \<and> aState a = jState j))"

lemma store_inv_attempt:
  assumes "store_inv t" "tattempts t (i, n) = Some a"
  shows "\<exists>j. tjobs t i = Some j" "0 < n" "aState a \<in> attempt_states"
  using assms unfolding store_inv_def by blast+

lemma store_inv_active:
  assumes "store_inv t" "tattempts t (i, n) = Some a" "active (aState a)"
  shows "repairing (aState a)" "latest t i n" "\<exists>j. tjobs t i = Some j \<and> jState j = aState a"
  using assms unfolding store_inv_def by blast+

lemma store_inv_repairing:
  assumes "store_inv t" "tjobs t i = Some j" "repairing (jState j)"
  shows "jPendingAction j = []" "\<exists>n a. tattempts t (i, n) = Some a \<and> aState a = jState j"
  using assms unfolding store_inv_def by blast+

lemma store_invI:
  assumes "\<And>i n a. tattempts t (i, n) = Some a \<Longrightarrow>
           tjobs t i \<noteq> None \<and> 0 < n \<and> aState a \<in> attempt_states"
    and "\<And>i n a. tattempts t (i, n) = Some a \<Longrightarrow> active (aState a) \<Longrightarrow>
           repairing (aState a) \<and> latest t i n \<and> (\<exists>j. tjobs t i = Some j \<and> jState j = aState a)"
    and "\<And>i j. tjobs t i = Some j \<Longrightarrow> repairing (jState j) \<Longrightarrow>
           jPendingAction j = [] \<and> (\<exists>n a. tattempts t (i, n) = Some a \<and> aState a = jState j)"
  shows "store_inv t"
  unfolding store_inv_def using assms by blast

definition empty_tables :: tables where
  "empty_tables = \<lparr>tjobs = (\<lambda>_. None), tattempts = (\<lambda>_. None), tresults = (\<lambda>_. None)\<rparr>"

lemma store_inv_empty: "store_inv empty_tables"
  by (rule store_invI) (simp_all add: empty_tables_def)

section \<open>What the environment leaves alone\<close>

text \<open>
  \<open>frozen t t'\<close>: attempts are as before, no job disappears, a job under repair with no pending
  action keeps both, and no job has come under repair.
\<close>

definition frozen :: "tables \<Rightarrow> tables \<Rightarrow> bool" where
  "frozen t t' \<longleftrightarrow> tattempts t' = tattempts t \<and>
     (\<forall>i j. tjobs t i = Some j \<longrightarrow> (\<exists>j'. tjobs t' i = Some j' \<and>
        (repairing (jState j) \<longrightarrow> jPendingAction j = [] \<longrightarrow> phase_of j' = phase_of j))) \<and>
     (\<forall>i j'. tjobs t' i = Some j' \<longrightarrow> repairing (jState j') \<longrightarrow>
        (\<exists>j. tjobs t i = Some j \<and> phase_of j = phase_of j'))"

lemma frozen_refl: "frozen t t"
  by (auto simp: frozen_def)

lemma frozen_trans:
  assumes "frozen t u" "frozen u v"
  shows "frozen t v"
proof -
  have "tattempts v = tattempts t"
    using assms by (simp add: frozen_def)
  moreover have "\<exists>j'. tjobs v i = Some j' \<and>
      (repairing (jState j) \<longrightarrow> jPendingAction j = [] \<longrightarrow> phase_of j' = phase_of j)"
    if "tjobs t i = Some j" for i j
  proof -
    from assms(1) that obtain k where k: "tjobs u i = Some k"
      "repairing (jState j) \<longrightarrow> jPendingAction j = [] \<longrightarrow> phase_of k = phase_of j"
      unfolding frozen_def by blast
    from assms(2) k(1) obtain l where l: "tjobs v i = Some l"
      "repairing (jState k) \<longrightarrow> jPendingAction k = [] \<longrightarrow> phase_of l = phase_of k"
      unfolding frozen_def by blast
    from k l show ?thesis by (auto simp: phase_of_def)
  qed
  moreover have "\<exists>j. tjobs t i = Some j \<and> phase_of j = phase_of j'"
    if "tjobs v i = Some j'" "repairing (jState j')" for i j'
  proof -
    from assms(2) that obtain k where k: "tjobs u i = Some k" "phase_of k = phase_of j'"
      unfolding frozen_def by blast
    with that have "repairing (jState k)" by (simp add: phase_of_def)
    with assms(1) k show ?thesis unfolding frozen_def by metis
  qed
  ultimately show ?thesis unfolding frozen_def by blast
qed

lemma frozen_put_job:
  assumes same: "\<And>j. tjobs t (jID j') = Some j \<Longrightarrow> repairing (jState j) \<Longrightarrow> jPendingAction j = [] \<Longrightarrow>
      phase_of j' = phase_of j"
    and into: "repairing (jState j') \<Longrightarrow> \<exists>j. tjobs t (jID j') = Some j \<and> phase_of j = phase_of j'"
  shows "frozen t (put_job j' t)"
proof -
  have phase: "phase_of (stored j') = phase_of j'" by (simp add: phase_of_def)
  have "\<exists>k. tjobs (put_job j' t) i = Some k \<and>
      (repairing (jState j) \<longrightarrow> jPendingAction j = [] \<longrightarrow> phase_of k = phase_of j)"
    if "tjobs t i = Some j" for i j
    using that same phase by (cases "i = jID j'") simp_all
  moreover have "\<exists>j. tjobs t i = Some j \<and> phase_of j = phase_of k"
    if "tjobs (put_job j' t) i = Some k" "repairing (jState k)" for i k
  proof (cases "i = jID j'")
    case True
    with that have "k = stored j'" by simp
    with that(2) into phase True show ?thesis by simp
  next
    case False
    with that(1) show ?thesis by simp
  qed
  ultimately show ?thesis by (simp add: frozen_def)
qed

lemma env_step_frozen: "env_step F R t t' \<Longrightarrow> frozen t t'"
proof (induction rule: env_step.induct)
  case (create j t)
  then show ?case by (intro frozen_put_job) simp_all
next
  case (move t j' j)
  have "phase_of j' = phase_of j" if "repairing (jState j)" "jPendingAction j = []"
    using lifecycle_repairing [of "jID j' \<in> F" "jState j" "phase_of j'"] move(2) that
    by (simp add: phase_of_def advances_def)
  moreover have "phase_of j = phase_of j'" if "repairing (jState j')"
    using lifecycle_into_repairing [of "jID j' \<in> F" "phase_of j" "jState j'" "jPendingAction j'"] move(2) that
    by (simp add: phase_of_def advances_def)
  ultimately show ?case using move(1) by (intro frozen_put_job) simp_all
next
  case (remember t r)
  then show ?case by (simp add: frozen_def)
qed

lemma env_steps_frozen: "env_steps F R t t' \<Longrightarrow> frozen t t'"
  by (induction rule: rtranclp_induct) (blast intro: frozen_refl frozen_trans env_step_frozen)+

lemma frozen_inv:
  assumes "frozen t t'" "store_inv t"
  shows "store_inv t'"
proof (rule store_invI)
  fix i n a assume a: "tattempts t' (i, n) = Some a"
  with assms(1) have "tattempts t (i, n) = Some a" by (simp add: frozen_def)
  from store_inv_attempt [OF assms(2) this] assms(1)
  show "tjobs t' i \<noteq> None \<and> 0 < n \<and> aState a \<in> attempt_states"
    unfolding frozen_def by blast
next
  fix i n a assume a: "tattempts t' (i, n) = Some a" and act: "active (aState a)"
  from assms(1) a have a': "tattempts t (i, n) = Some a" by (simp add: frozen_def)
  note inv = store_inv_active [OF assms(2) a' act]
  from inv(3) obtain j where j: "tjobs t i = Some j" "jState j = aState a" by blast
  with inv(1) have rep: "repairing (jState j)" by simp
  from assms(1) j(1) rep store_inv_repairing(1) [OF assms(2) j(1) rep] obtain j' where
    "tjobs t' i = Some j'" "phase_of j' = phase_of j"
    unfolding frozen_def by blast
  with j inv(1,2) assms(1) show "repairing (aState a) \<and> latest t' i n \<and>
      (\<exists>j. tjobs t' i = Some j \<and> jState j = aState a)"
    by (auto simp: phase_of_def latest_def frozen_def)
next
  fix i j' assume j': "tjobs t' i = Some j'" and rep: "repairing (jState j')"
  from assms(1) j' rep obtain j where j: "tjobs t i = Some j" "phase_of j = phase_of j'"
    unfolding frozen_def by blast
  then have "repairing (jState j)" using rep by (simp add: phase_of_def)
  from store_inv_repairing [OF assms(2) j(1) this] j assms(1)
  show "jPendingAction j' = [] \<and> (\<exists>n a. tattempts t' (i, n) = Some a \<and> aState a = jState j')"
    by (auto simp: phase_of_def frozen_def)
qed

lemma attempt_states_active: "s \<in> attempt_states \<Longrightarrow> active s \<Longrightarrow> repairing s"
  by (auto simp: attempt_states_def)

text \<open>Writing the latest attempt of a job together with the job keeps the invariant.\<close>

lemma put_attempt_inv:
  assumes inv: "store_inv t" and key: "jID j' = aJobID a" and pos: "0 < aNumber a"
    and others: "\<And>m c. tattempts t (aJobID a, m) = Some c \<Longrightarrow> m \<noteq> aNumber a \<Longrightarrow> \<not> active (aState c)"
    and last: "\<And>m. tattempts t (aJobID a, m) \<noteq> None \<Longrightarrow> m \<le> aNumber a"
    and st: "aState a \<in> attempt_states"
    and phase: "phase_of j' = (aState a, [])"
  shows "store_inv (put_job j' (put_attempt a t))" (is "store_inv ?u")
proof (rule store_invI)
  fix i n c assume c: "tattempts ?u (i, n) = Some c"
  show "tjobs ?u i \<noteq> None \<and> 0 < n \<and> aState c \<in> attempt_states"
  proof (cases "(i, n) = (aJobID a, aNumber a)")
    case True
    with c key pos st show ?thesis by simp
  next
    case False
    with c have "tattempts t (i, n) = Some c" by (auto split: if_splits)
    from store_inv_attempt [OF inv this] show ?thesis by auto
  qed
next
  fix i n c assume c: "tattempts ?u (i, n) = Some c" and act: "active (aState c)"
  show "repairing (aState c) \<and> latest ?u i n \<and> (\<exists>k. tjobs ?u i = Some k \<and> jState k = aState c)"
  proof (cases "(i, n) = (aJobID a, aNumber a)")
    case True
    have "latest ?u (aJobID a) (aNumber a)" using last by (simp add: latest_def)
    with True c act st key phase show ?thesis by (simp add: phase_of_def attempt_states_active)
  next
    case False
    with c have c': "tattempts t (i, n) = Some c" by (auto split: if_splits)
    with False act others have "i \<noteq> aJobID a" by auto
    with store_inv_active [OF inv c' act] key show ?thesis by (auto simp: latest_def)
  qed
next
  fix i k assume k: "tjobs ?u i = Some k" and rep: "repairing (jState k)"
  show "jPendingAction k = [] \<and> (\<exists>n c. tattempts ?u (i, n) = Some c \<and> aState c = jState k)"
  proof (cases "i = aJobID a")
    case True
    with k key phase have "jPendingAction k = []" "jState k = aState a"
      by (auto simp: phase_of_def)
    moreover have "tattempts ?u (i, aNumber a) = Some a" using True by simp
    ultimately show ?thesis by metis
  next
    case False
    with k key have "tjobs t i = Some k" by auto
    from store_inv_repairing [OF inv this rep] False show ?thesis by auto
  qed
qed

lemma engine_step_inv:
  assumes "engine_step i t t'" "store_inv t"
  shows "store_inv t'"
  using assms
proof (induction rule: engine_step.induct)
  case (start t j j' a)
  note hyp = start.hyps and inv = start.prems
  have "\<not> active (aState b)" if "tattempts t (i, n) = Some b" for n b
    using store_inv_active(1,3) [OF inv that] hyp(1,2) by (auto simp: phase_of_def)
  moreover have "n \<le> aNumber a" if "tattempts t (i, n) \<noteq> None" for n
    using hyp(7) [OF that] by simp
  ultimately show ?case
    using hyp inv by (intro put_attempt_inv) (simp_all add: phase_of_def attempt_states_def)
next
  case (update t a b j j')
  note hyp = update.hyps and inv = update.prems
  have b: "repairing (aState b)" "latest t i (aNumber a)" "jState j = aState b"
    using store_inv_active [OF inv hyp(1,2)] hyp(5) by auto
  have pend: "jPendingAction j = []"
    using store_inv_repairing(1) [OF inv hyp(5)] b by simp
  have "\<not> active (aState c)" if "tattempts t (i, m) = Some c" "m \<noteq> aNumber a" for m c
  proof
    assume "active (aState c)"
    from store_inv_active(2) [OF inv that(1) this] have "aNumber a \<le> m"
      using hyp(1) by (simp add: latest_def)
    moreover have "m \<le> aNumber a" using b(2) that(1) by (simp add: latest_def)
    ultimately show False using that(2) by simp
  qed
  moreover have "0 < aNumber a" using store_inv_attempt(2) [OF inv hyp(1)] .
  ultimately show ?case
    using inv hyp(3,4,6,7) b(2) pend by (intro put_attempt_inv) (simp_all add: latest_def)
qed

lemma env_steps_inv: "env_steps F R t t' \<Longrightarrow> store_inv t \<Longrightarrow> store_inv t'"
  by (rule frozen_inv [OF env_steps_frozen])

section \<open>What no step takes away\<close>

text \<open>No job disappears or changes its service.\<close>

definition persists :: "tables \<Rightarrow> tables \<Rightarrow> bool" where
  "persists t t' \<longleftrightarrow> (\<forall>i j. tjobs t i = Some j \<longrightarrow>
     (\<exists>j'. tjobs t' i = Some j' \<and> jService j' = jService j))"

lemma persists_refl: "persists t t"
  by (simp add: persists_def)

lemma persists_trans:
  assumes "persists t u" "persists u v"
  shows "persists t v"
  unfolding persists_def
proof (intro allI impI)
  fix i j assume "tjobs t i = Some j"
  with assms(1) obtain k where k: "tjobs u i = Some k"
    "jService k = jService j" unfolding persists_def by blast
  with assms(2) obtain l where "tjobs v i = Some l"
    "jService l = jService k" unfolding persists_def by blast
  with k show "\<exists>l. tjobs v i = Some l \<and> jService l = jService j"
    by (intro exI [of _ l]) simp
qed

lemma persists_put_job:
  assumes "\<And>j. tjobs t (jID j') = Some j \<Longrightarrow> jService j' = jService j"
  shows "persists t (put_job j' t)"
  unfolding persists_def
proof (intro allI impI)
  fix i j assume "tjobs t i = Some j"
  with assms show "\<exists>k. tjobs (put_job j' t) i = Some k \<and> jService k = jService j"
    by (cases "i = jID j'") simp_all
qed

lemma env_step_persists: "env_step F R t t' \<Longrightarrow> persists t t'"
proof (induction rule: env_step.induct)
  case (create j t)
  then show ?case by (intro persists_put_job) simp
next
  case (move t j' j)
  then show ?case by (intro persists_put_job) (simp add: advances_def)
qed (simp add: persists_def)

lemma env_steps_persists: "env_steps F R t t' \<Longrightarrow> persists t t'"
  by (induction rule: rtranclp_induct) (blast intro: persists_refl persists_trans env_step_persists)+

lemma engine_step_persists:
  assumes "engine_step i t t'"
  shows "persists t t'"
proof -
  have put: "persists t (put_job j' (put_attempt a t))"
    if "tjobs t (jID j') = Some j" "jRevision j' = jRevision j" "jService j' = jService j" for j j' a
    using persists_put_job [of "put_attempt a t" j'] that by (simp add: persists_def)
  from assms show ?thesis
    by (cases rule: engine_step.cases) (simp_all add: put)
qed

text \<open>A job keeps its revision unless a step may begin a new one of it.\<close>

lemma env_steps_revision:
  assumes "env_steps F R t t'" "i \<notin> R" "tjobs t i = Some j"
  shows "\<exists>j'. tjobs t' i = Some j' \<and> jRevision j' = jRevision j"
  using assms(1)
proof (induction rule: rtranclp_induct)
  case base
  with assms show ?case by simp
next
  case (step u v)
  then obtain k where k: "tjobs u i = Some k" "jRevision k = jRevision j" by blast
  from step(2) show ?case
  proof (cases rule: env_step.cases)
    case (move j' j1)
    with k assms(2) show ?thesis by (cases "jID j' = i") (auto simp: advances_def)
  qed (use k in \<open>auto\<close>)
qed

text \<open>A removal under way stays so until it is finished.\<close>

lemma env_steps_removing:
  assumes "env_steps F R t t'" "i \<notin> F" "tjobs t i = Some j" "phase_of j = (Removing, Delete)"
  shows "\<exists>j'. tjobs t' i = Some j' \<and> phase_of j' = (Removing, Delete)"
  using assms(1)
proof (induction rule: rtranclp_induct)
  case base
  with assms show ?case by simp
next
  case (step u v)
  then obtain k where k: "tjobs u i = Some k" "phase_of k = (Removing, Delete)" by blast
  from step(2) show ?case
  proof (cases rule: env_step.cases)
    case (move j' j)
    show ?thesis
    proof (cases "jID j' = i")
      case True
      with move k assms(2) have "lifecycle False (Removing, Delete) (phase_of j')"
        by (simp add: advances_def)
      from lifecycle_removing [OF this] True move(1) show ?thesis by (simp add: phase_of_def)
    next
      case False
      with move(1) k show ?thesis by simp
    qed
  qed (use k in \<open>auto\<close>)
qed

lemma engine_step_removing:
  assumes "engine_step k t t'" "store_inv t" "tjobs t i = Some j" "phase_of j = (Removing, Delete)"
  shows "tjobs t' i = Some j"
  using assms(1)
proof (cases rule: engine_step.cases)
  case (start j1 j1' a)
  with assms(3,4) have "i \<noteq> k" by (metis jstate.distinct option.inject prod.inject)
  with start assms(3) show ?thesis by simp
next
  case (update a b j1 j1')
  from store_inv_active(1,3) [OF assms(2) update(2,3)] update(6) have "repairing (jState j1)" by auto
  with assms(3,4) update(6) have "i \<noteq> k" by (auto simp: phase_of_def repairing_def)
  with update assms(3) show ?thesis by simp
qed

text \<open>A repair of another job leaves a job and its attempts alone.\<close>

lemma engine_step_other:
  assumes "engine_step k t t'" "i \<noteq> k"
  shows "tjobs t' i = tjobs t i" "tattempts t' (i, n) = tattempts t (i, n)"
  using assms by (auto elim!: engine_step.cases)

end
