(* ===== verification/Jobs_Refinement.thy ===== *)
theory Jobs_Refinement
  imports Jobs_Spec
begin

text \<open>
  Every transaction of the job store refines the abstract specification: as a transition of the
  tables it is a sequence of \<open>env_step\<close>s, and \<open>Start\<close> and \<open>UpdateAttempt\<close>, when they succeed, are
  one \<open>engine_step\<close> each. The functional behaviour of the transactions that decide something
  (conflicts, the planning history, the life cycle) is stated here too.
\<close>

section \<open>Transactions as requests\<close>

datatype store_call =
    CObserve job
  | CSetPlan int string raw string gotime
  | CRequest int string string int gotime "job option"
  | CFinishPlanning job
  | CFinishRemoval job "go_error option" gotime
  | CStartRemoval int gotime
  | CReconcile string "queue_key list" gotime

primrec run_call :: "'db gorm \<Rightarrow> store_call \<Rightarrow> 'db \<Rightarrow> go_error option \<times> 'db" where
  "run_call g (CObserve j) d = map_prod err_of id (Observe g j d)"
| "run_call g (CSetPlan i f p w at) d = map_prod err_of id (SetPlan g i f p w at d)"
| "run_call g (CRequest i a w ms at e) d = map_prod err_of id (requestAction g i a w ms at e d)"
| "run_call g (CFinishPlanning j) d = map_prod err_of id (FinishPlanning g j d)"
| "run_call g (CFinishRemoval j e at) d = map_prod err_of id (FinishRemoval g j e at d)"
| "run_call g (CStartRemoval i at) d = map_prod err_of id (StartRemoval g i at d)"
| "run_call g (CReconcile s ks at) d = map_prod err_of id (ReconcileQueue g s ks at d)"

text \<open>
  What the scheduler keeps to when it calls the store: a finished plan is observed, ready or
  blocked, and the service name, which scopes the queue, is not empty.
\<close>

primrec call_ok :: "store_call \<Rightarrow> bool" where
  "call_ok (CObserve j) = True"
| "call_ok (CSetPlan i f p w at) = True"
| "call_ok (CRequest i a w ms at e) = True"
| "call_ok (CFinishPlanning j) = (jState j \<in> {Observed, Ready, Blocked})"
| "call_ok (CFinishRemoval j e at) = True"
| "call_ok (CStartRemoval i at) = True"
| "call_ok (CReconcile s ks at) = (s \<noteq> [])"

text \<open>The job whose removal a request finishes.\<close>

primrec finishes :: "store_call \<Rightarrow> int set" where
  "finishes (CObserve j) = {}"
| "finishes (CSetPlan i f p w at) = {}"
| "finishes (CRequest i a w ms at e) = {}"
| "finishes (CFinishPlanning j) = {}"
| "finishes (CFinishRemoval j e at) = {jID j}"
| "finishes (CStartRemoval i at) = {}"
| "finishes (CReconcile s ks at) = {}"

text \<open>The job of which a request begins a new revision.\<close>

primrec requests :: "store_call \<Rightarrow> int set" where
  "requests (CObserve j) = {}"
| "requests (CSetPlan i f p w at) = {}"
| "requests (CRequest i a w ms at e) = {i}"
| "requests (CFinishPlanning j) = {}"
| "requests (CFinishRemoval j e at) = {}"
| "requests (CStartRemoval i at) = {}"
| "requests (CReconcile s ks at) = {}"

section \<open>Transactions\<close>

lemma transaction_cases:
  assumes "transaction g body d = (r, d')"
  obtains (failed) e where "r = Inl e" "d' = d"
    | (committed) a where "r = Inr a" "body d = Inr (a, d')"
  using assms by (auto simp: transaction_def split: sum.splits prod.splits option.splits)

lemma transaction_Inr:
  assumes "transaction g body d = (Inr a, d')"
  shows "body d = Inr (a, d')"
  using assms by (auto simp: transaction_def split: sum.splits prod.splits option.splits)

lemma transaction_Inl:
  assumes "transaction g body d = (Inl e, d')"
  shows "d' = d"
  using assms by (auto simp: transaction_def split: sum.splits prod.splits option.splits)

lemma transaction_body_error: "body d = Inl e \<Longrightarrow> transaction g body d = (Inl e, d)"
  by (simp add: transaction_def)

section \<open>Refinement\<close>

lemma put_result_steps: "env_steps F R t (put_result r t)"
  by (rule r_into_rtranclp) (rule env_step.remember)

context gorm_db
begin

lemma first_job_facts:
  assumes "first_job g d i = Inr j"
  shows "tjobs (view d) i = Some j" "jID j = i" "i \<noteq> 0"
  using first_job_row [OF assms] job_key by auto

lemma save_step:
  assumes "save_job g d j' = Inr d'" "tjobs (view d) (jID j') = Some j"
    and "advances (jID j' \<in> F) (jID j' \<in> R) j j'"
  shows "env_step F R (view d) (view d')"
proof -
  have "jID j' \<noteq> 0" using job_key [OF assms(2)] by simp
  from save_job_row [OF assms(1) this] show ?thesis
    by (simp add: env_step.move [OF assms(2,3)])
qed

lemma save_move:
  assumes "save_job g d j' = Inr d'" "tjobs (view d) (jID j') = Some j" "advances False False j j'"
  shows "env_step {} {} (view d) (view d')"
  using assms by (intro save_step) simp_all

lemma save_move_others:
  assumes "save_job g d j' = Inr d'" "tjobs (view d) (jID j') = Some j"
    and "advances False False j j'"
  shows "env_steps {} {} (view d) (view d') \<and> (i \<noteq> jID j' \<longrightarrow> tjobs (view d') i = tjobs (view d) i)"
proof -
  have "jID j' \<noteq> 0" using job_key [OF assms(2)] by simp
  from save_job_row [OF assms(1) this] r_into_rtranclp [of "env_step {} {}", OF save_move [OF assms]]
  show ?thesis by simp
qed

lemma remember_steps:
  assumes "rememberPlanning g d j = Inr d'"
  shows "env_steps {} {} (view d) (view d')" "tjobs (view d') = tjobs (view d)"
    "tattempts (view d') = tattempts (view d)"
  using assms
  by (auto simp: rememberPlanning_def dest!: upsert_result_row split: if_splits
      intro: put_result_steps)

lemma remember_save_steps:
  assumes "and_then (rememberPlanning g d j') (\<lambda>d1. and_then (save_job g d1 j') (\<lambda>d2. Inr ((), d2))) =
      Inr (u, d')"
    and "tjobs (view d) (jID j') = Some j" "advances False False j j'"
  shows "env_steps {} {} (view d) (view d')"
proof -
  from assms(1) obtain d1 where r: "rememberPlanning g d j' = Inr d1" and s: "save_job g d1 j' = Inr d'"
    by (auto simp: and_then_Inr_iff)
  note steps = remember_steps [OF r]
  from save_move [OF s _ assms(3)] assms(2) steps(2) have "env_step {} {} (view d1) (view d')"
    by simp
  with steps(1) show ?thesis by (rule rtranclp.rtrancl_into_rtrancl)
qed

lemma observePlanning_steps:
  assumes "observePlanning g d j observed = Inr (changed, j', d')"
  shows "env_steps {} {} (view d) (view d')" "tjobs (view d') = tjobs (view d)"
    "jID j' = jID j" "phase_of j' = phase_of j" "jRevision j' = jRevision j" "jService j' = jService j"
proof -
  let ?j1 = "if jPlanningFingerprint j = []
     then j\<lparr>jPlanningFingerprint := (if jPreviousPlanningFingerprint observed = []
        then jPlanningFingerprint observed else jPreviousPlanningFingerprint observed)\<rparr> else j"
  have opt: "env_steps {} {} (view x) (view y) \<and> tjobs (view y) = tjobs (view x)"
    if "(if b then rememberPlanning g x k else Inr x) = Inr y" for b k x y
    using that remember_steps by (auto split: if_splits)
  have "env_steps {} {} (view d) (view d') \<and> tjobs (view d') = tjobs (view d) \<and>
      jID j' = jID j \<and> phase_of j' = phase_of j \<and> jRevision j' = jRevision j \<and>
      jService j' = jService j"
  proof (cases "jPlanningFingerprint observed = []")
    case True
    with assms show ?thesis by (auto simp: observePlanning_def)
  next
    case False
    with assms obtain d1 where
      1: "(if jPlanningFingerprint j = [] \<and> (jState ?j1 \<noteq> Observed \<or> jPlanningAttempts ?j1 > 0)
           then rememberPlanning g d ?j1 else Inr d) = Inr d1" and
      2: "(if jState ?j1 \<noteq> Observed \<and> raw_len (jPlan ?j1) \<noteq> 0
           then rememberPlanning g d1 ?j1 else Inr d1) = Inr d'" and
      3: "j' = ?j1\<lparr>jPlanningFingerprint := jPlanningFingerprint observed\<rparr>"
      unfolding observePlanning_def Let_def by (auto simp only: and_then_Inr_iff if_False)
    from opt [OF 1] opt [OF 2] have "env_steps {} {} (view d) (view d')" "tjobs (view d') = tjobs (view d)"
      by (auto intro: rtranclp_trans)
    with 3 show ?thesis by (simp add: phase_of_def)
  qed
  then show "env_steps {} {} (view d) (view d')" "tjobs (view d') = tjobs (view d)"
    "jID j' = jID j" "phase_of j' = phase_of j" "jRevision j' = jRevision j" "jService j' = jService j" by blast+
qed

lemma restorePlanning_phase:
  assumes "restorePlanning g d j = Inr j'"
  shows "jID j' = jID j" "phase_of j' = phase_of j \<or> phase_of j' = (Blocked, jPendingAction j)"
    "jRevision j' = jRevision j" "jService j' = jService j"
  using assms
  by (auto simp: restorePlanning_def Let_def phase_of_def split: if_splits sum.splits)

lemma observe_changed_lifecycle:
  assumes "observe_changed g d j observed changed = Inr j'" "\<not> active (jState j)"
  shows "jID j' = jID j" "advances False False j j'"
proof -
  consider (reset) "changed" "replannable (jState j)" | (same) "j' = j"
    using assms by (auto simp: observe_changed_def replannable_def split: if_splits)
  then have "jID j' = jID j \<and> advances False False j j'"
  proof cases
    case reset
    then have "restorePlanning g d (j\<lparr>jPlan := None, jState := Observed,
        jReason := jPlanningChange observed, jStableSince := jUpdatedAt observed,
        jRetryAt := zero_time, jPlanningAttempts := 0\<rparr>) = Inr j'"
      using assms(1) by (simp add: observe_changed_def replannable_def)
    from restorePlanning_phase [OF this] reset(2) show ?thesis
      by (auto simp: advances_def phase_of_def intro: lifecycle.intros)
  qed (simp add: advances_def lifecycle.stay)
  then show "jID j' = jID j" "advances False False j j'" by blast+
qed

lemma observe_row_steps:
  assumes "observe_row g d row observed = Inr (j', d')"
  shows "env_steps {} {} (view d) (view d')" "tjobs (view d') = tjobs (view d)"
    "jID j' = jID row" "advances False False row j'"
proof -
  let ?j = "row\<lparr>jTitle := jTitle observed, jUpdatedAt := jUpdatedAt observed, jInQueue := True,
                jCollectionError := jCollectionError observed\<rparr>"
  have j: "jID ?j = jID row" "phase_of ?j = phase_of row" "jState ?j = jState row"
    "jRevision ?j = jRevision row" "jService ?j = jService row" by (simp_all add: phase_of_def)
  have "env_steps {} {} (view d) (view d') \<and> tjobs (view d') = tjobs (view d) \<and> jID j' = jID row \<and>
      advances False False row j'"
  proof (cases "\<not> active (jState ?j) \<and> jEvidence observed \<noteq> None")
    case True
    with assms obtain changed k l where
      1: "observePlanning g d ?j observed = Inr (changed, k, d')" and
      2: "observe_changed g d' k observed changed = Inr l" and
      3: "j' = (if jState l \<noteq> Ready \<or> changed \<or> jPlanningFingerprint observed = []
            then l\<lparr>jSourceFingerprint := jSourceFingerprint observed,
                   jEvidence := jEvidence observed\<rparr> else l)"
      unfolding observe_row_def Let_def by (auto simp: and_then_Inr_iff)
    note p = observePlanning_steps [OF 1]
    have "\<not> active (jState k)" using p(4) True j by (simp add: phase_of_def)
    note c = observe_changed_lifecycle [OF 2 this]
    from 3 have "jID j' = jID l" "phase_of j' = phase_of l" "jRevision j' = jRevision l" "jService j' = jService l"
      by (simp_all add: phase_of_def)
    with p c j show ?thesis by (simp add: advances_def)
  next
    case False
    with assms have "j' = ?j" "d' = d"
      unfolding observe_row_def Let_def by auto
    with j show ?thesis by (simp add: advances_def lifecycle.stay)
  qed
  then show "env_steps {} {} (view d) (view d')" "tjobs (view d') = tjobs (view d)"
    "jID j' = jID row" "advances False False row j'" by blast+
qed

lemma Observe_steps:
  assumes "Observe g observed d = (r, d')"
  shows "env_steps {} {} (view d) (view d')"
  using assms unfolding Observe_def
proof (cases rule: transaction_cases)
  case (committed j)
  note body = committed(2)
  show ?thesis
  proof (cases "first_identity g d (jService observed) (jQueueID observed) (jDownloadID observed)")
    case (Inl e)
    with body have c: "create_job g d (observed\<lparr>jID := 0, jState := Observed,
        jStableSince := jUpdatedAt observed, jInQueue := True\<rparr>) = Inr (j, d')"
      by (simp split: if_splits)
    from create_job_row [OF c] obtain i where
      "i \<noteq> 0" "tjobs (view d) i = None" "jID j = i" "jState j = Observed"
      "view d' = put_job j (view d)"
      by auto
    then have "env_step {} {} (view d) (view d')"
      by (simp add: env_step.create)
    then show ?thesis by (rule r_into_rtranclp)
  next
    case (Inr row)
    with body obtain d1 where
      1: "observe_row g d row observed = Inr (j, d1)" and 2: "save_job g d1 j = Inr d'"
      by (auto simp: and_then_Inr_iff)
    note o = observe_row_steps [OF 1]
    have "tjobs (view d1) (jID j) = Some row"
      using first_identity_row [OF Inr] o(2,3) by simp
    from save_move [OF 2 this o(4)] o(1) show ?thesis
      by (rule rtranclp.rtrancl_into_rtrancl [rotated])
  qed
qed simp

lemma SetPlan_steps:
  assumes "SetPlan g i f p w at d = (r, d')"
  shows "env_steps {} {} (view d) (view d')"
  using assms unfolding SetPlan_def
proof (cases rule: transaction_cases)
  case (committed u)
  then obtain j where j: "first_job g d i = Inr j" and "replannable (jState j)" and
    rest: "and_then (rememberPlanning g d (j\<lparr>jPlan := p, jGuidance := w, jUpdatedAt := at,
        jState := Ready, jReason := []\<rparr>)) (\<lambda>d1. and_then (save_job g d1 (j\<lparr>jPlan := p,
        jGuidance := w, jUpdatedAt := at, jState := Ready, jReason := []\<rparr>)) (\<lambda>d2. Inr ((), d2))) =
        Inr (u, d')"
    by (auto simp: and_then_Inr_iff replannable_def Let_def)
  then show ?thesis
    using first_job_facts [OF j]
    by (intro remember_save_steps [OF rest]) (auto simp: advances_def phase_of_def intro: lifecycle.plan_set)
qed simp

lemma requestAction_steps:
  assumes "requestAction g i act w ms at expected d = (r, d')"
  shows "env_steps {} {i} (view d) (view d')"
  using assms unfolding requestAction_def
proof (cases rule: transaction_cases)
  case (committed u)
  let ?j1 = "\<lambda>j. j\<lparr>jRevision := wrap64 (jRevision j + 1), jPendingAction := act, jReason := [],
     jRetryAt := zero_time, jUpdatedAt := at\<rparr>"
  let ?j2 = "\<lambda>j. if act = Reconsider then (?j1 j)\<lparr>jGuidance := w, jRuntimeToleranceMS := ms,
     jPlanningAttempts := 0, jState := Observed\<rparr> else ?j1 j"
  from committed obtain j where j: "first_job g d i = Inr j"
    and ok: "\<not> active (jState j)" "jState j \<noteq> Removed" "act = Reconsider \<or> act = Delete"
      "\<not> (act = Reconsider \<and> jState j = Imported)"
    and save: "save_job g d (?j2 j) = Inr d'"
    by (auto simp: and_then_Inr_iff Let_def)
  from ok have "advances (jID (?j2 j) \<in> {}) (jID (?j2 j) \<in> {i}) j (?j2 j)"
    using first_job_facts [OF j]
    by (auto simp: advances_def phase_of_def replannable_def intro: lifecycle.intros)
  moreover have "tjobs (view d) (jID (?j2 j)) = Some j"
    using first_job_facts [OF j] by simp
  ultimately show ?thesis using save_step [OF save] by blast
qed simp

lemma FinishPlanning_steps:
  assumes "FinishPlanning g planned d = (r, d')" "jState planned \<in> {Observed, Ready, Blocked}"
  shows "env_steps {} {} (view d) (view d')"
  using assms(1) unfolding FinishPlanning_def
proof (cases rule: transaction_cases)
  case (committed u)
  let ?j1 = "\<lambda>j. j\<lparr>jPlan := jPlan planned, jState := jState planned, jReason := jReason planned,
     jRetryAt := jRetryAt planned, jPlanningAttempts := jPlanningAttempts planned,
     jUpdatedAt := jUpdatedAt planned\<rparr>"
  let ?j2 = "\<lambda>j. if jState planned = Ready \<or> jState planned = Blocked
     then (?j1 j)\<lparr>jPendingAction := []\<rparr> else ?j1 j"
  from committed obtain j where j: "first_job g d (jID planned) = Inr j" and ok: "replannable (jState j)"
    and rest: "and_then (rememberPlanning g d (?j2 j)) (\<lambda>d1. and_then (save_job g d1 (?j2 j))
        (\<lambda>d2. Inr ((), d2))) = Inr (u, d')"
    by (auto simp: and_then_Inr_iff replannable_def Let_def)
  have "advances False False j (?j2 j)"
    using ok assms(2) by (auto simp: advances_def phase_of_def intro: lifecycle.intros)
  then show ?thesis
    using first_job_facts [OF j] by (intro remember_save_steps [OF rest]) auto
qed simp

lemma FinishRemoval_steps:
  assumes "FinishRemoval g requested failure at d = (r, d')"
  shows "env_steps {jID requested} {} (view d) (view d')"
  using assms unfolding FinishRemoval_def
proof (cases rule: transaction_cases)
  case (committed u)
  let ?j1 = "\<lambda>j. j\<lparr>jUpdatedAt := at\<rparr>"
  let ?j2 = "\<lambda>j. case failure of
      None \<Rightarrow> (?j1 j)\<lparr>jState := Removed, jInQueue := False, jPendingAction := [],
               jReason := ''queue tracking removed; media retained''\<rparr>
    | Some e \<Rightarrow> (?j1 j)\<lparr>jState := Blocked, jReason := error_text e, jRetryAt := at + 5 * minute\<rparr>"
  from committed obtain j where j: "first_job g d (jID requested) = Inr j"
    and ok: "jPendingAction j = Delete" and save: "save_job g d (?j2 j) = Inr d'"
    by (auto simp: and_then_Inr_iff Let_def)
  have key: "jID (?j2 j) = jID requested"
    using first_job_facts [OF j] by (simp split: option.split)
  have "advances (jID (?j2 j) \<in> {jID requested}) (jID (?j2 j) \<in> {}) j (?j2 j)" unfolding key
    using ok by (auto simp: advances_def phase_of_def split: option.split intro: lifecycle.intros)
  moreover have "tjobs (view d) (jID (?j2 j)) = Some j"
    unfolding key using first_job_facts [OF j] by simp
  ultimately show ?thesis using save_step [OF save] by blast
qed simp

lemma StartRemoval_steps:
  assumes "StartRemoval g i at d = (r, d')"
  shows "env_steps {} {} (view d) (view d')"
  using assms unfolding StartRemoval_def
proof (cases rule: transaction_cases)
  case (committed u)
  let ?j2 = "\<lambda>j. j\<lparr>jState := Removing, jUpdatedAt := at\<rparr>"
  from committed obtain j where j: "first_job g d i = Inr j"
    and ok: "jPendingAction j = Delete" "\<not> repairing (jState j)"
    and save: "save_job g d (?j2 j) = Inr d'"
    by (auto simp: and_then_Inr_iff Let_def repairing_def)
  have "advances False False j (?j2 j)"
    using ok by (auto simp: advances_def phase_of_def intro: lifecycle.removal_started)
  moreover have "tjobs (view d) (jID (?j2 j)) = Some j"
    using first_job_facts [OF j] by simp
  ultimately show ?thesis using save_move [OF save] by blast
qed simp

text \<open>
  \<open>ReconcileQueue\<close> writes rows it read before the loop; they are still the stored ones, since the
  rows have distinct keys and every iteration writes its own.
\<close>

lemma reconcile_present_steps:
  assumes "reconcile_present g j key d = Inr d'" "tjobs (view d) (jID j) = Some j"
  shows "env_steps {} {} (view d) (view d')" "i \<noteq> jID j \<Longrightarrow> tjobs (view d') i = tjobs (view d) i"
proof -
  let ?j1 = "j\<lparr>jQueueID := kQueueID key, jInQueue := True\<rparr>"
  let ?j2 = "if jState ?j1 = Removed
     then ?j1\<lparr>jState := Blocked, jReason := ''queue entry is present again''\<rparr> else ?j1"
  have "env_steps {} {} (view d) (view d') \<and> (i \<noteq> jID j \<longrightarrow> tjobs (view d') i = tjobs (view d) i)"
  proof (cases "jQueueID j = kQueueID key \<and> jInQueue j \<and> jState j \<noteq> Removed")
    case True
    with assms(1) have "d' = d" by (simp add: reconcile_present_def)
    then show ?thesis by simp
  next
    case False
    from assms(1) have save: "save_job g d ?j2 = Inr d'"
      by (simp only: reconcile_present_def Let_def False if_False)
    have key: "jID ?j2 = jID j" by simp
    have "advances False False j ?j2"
      by (simp add: advances_def phase_of_def lifecycle.stay lifecycle.queued_again)
    from save_move_others [OF save _ this, of i, unfolded key, OF assms(2)] show ?thesis .
  qed
  then show "env_steps {} {} (view d) (view d')" "i \<noteq> jID j \<Longrightarrow> tjobs (view d') i = tjobs (view d) i"
    by blast+
qed

lemma reconcile_absent_steps:
  assumes "reconcile_absent g j at d = Inr d'" "tjobs (view d) (jID j) = Some j"
  shows "env_steps {} {} (view d) (view d')" "i \<noteq> jID j \<Longrightarrow> tjobs (view d') i = tjobs (view d) i"
proof -
  let ?j1 = "j\<lparr>jInQueue := False, jUpdatedAt := at\<rparr>"
  let ?j2 = "if \<not> active (jState ?j1) \<and> jState ?j1 \<noteq> Imported
     then ?j1\<lparr>jState := Removed, jReason := ''no longer in the queue'', jPendingAction := []\<rparr>
     else ?j1"
  have "env_steps {} {} (view d) (view d') \<and> (i \<noteq> jID j \<longrightarrow> tjobs (view d') i = tjobs (view d) i)"
  proof (cases "\<not> jInQueue j")
    case True
    with assms(1) have "d' = d" by (simp add: reconcile_absent_def)
    then show ?thesis by simp
  next
    case False
    from assms(1) have save: "save_job g d ?j2 = Inr d'"
      by (simp only: reconcile_absent_def Let_def False if_False)
    have key: "jID ?j2 = jID j" by simp
    have "advances False False j ?j2"
      by (simp add: advances_def phase_of_def lifecycle.stay lifecycle.left_queue)
    from save_move_others [OF save _ this, of i, unfolded key, OF assms(2)] show ?thesis .
  qed
  then show "env_steps {} {} (view d) (view d')" "i \<noteq> jID j \<Longrightarrow> tjobs (view d') i = tjobs (view d) i"
    by blast+
qed

lemma reconcile_loop_steps:
  "\<lbrakk>reconcile_loop g present previous at index js d = Inr d'; distinct (map jID js);
    \<forall>j \<in> set js. tjobs (view d) (jID j) = Some j\<rbrakk> \<Longrightarrow> env_steps {} {} (view d) (view d')"
proof (induction js arbitrary: index d)
  case (Cons j js)
  from Cons.prems(1) obtain m d1 where
    step: "(if m \<ge> 0
       then and_then (MatchQueue (present ! nat m) previous) (\<lambda>owner.
              if owner \<noteq> index then Inr d else reconcile_present g j (present ! nat m) d)
       else reconcile_absent g j at d) = Inr d1" and
    rest: "reconcile_loop g present previous at (index + 1) js d1 = Inr d'"
    by (auto simp only: reconcile_loop.simps and_then_Inr_iff)
  have row: "tjobs (view d) (jID j) = Some j" using Cons.prems(3) by simp
  from step consider (skip) "d1 = d" | (present) "reconcile_present g j (present ! nat m) d = Inr d1"
    | (absent) "reconcile_absent g j at d = Inr d1"
    by (auto simp: and_then_Inr_iff split: if_splits)
  then have one: "env_steps {} {} (view d) (view d1) \<and>
      (\<forall>i. i \<noteq> jID j \<longrightarrow> tjobs (view d1) i = tjobs (view d) i)"
  proof cases
    case present
    from reconcile_present_steps [OF this row] show ?thesis by blast
  next
    case absent
    from reconcile_absent_steps [OF this row] show ?thesis by blast
  qed simp
  have "env_steps {} {} (view d1) (view d')"
  proof (rule Cons.IH [OF rest])
    show "\<forall>k \<in> set js. tjobs (view d1) (jID k) = Some k"
    proof
      fix k assume k: "k \<in> set js"
      with Cons.prems(2) have "jID k \<noteq> jID j" by (metis distinct.simps(2) image_eqI list.set_map list.simps(9))
      with one k Cons.prems(3) show "tjobs (view d1) (jID k) = Some k" by simp
    qed
  qed (use Cons.prems(2) in simp)
  with one show ?case by (blast intro: rtranclp_trans)
qed simp

lemma ReconcileQueue_steps:
  assumes "ReconcileQueue g service present at d = (r, d')" "service \<noteq> []"
  shows "env_steps {} {} (view d) (view d')"
  using assms(1) unfolding ReconcileQueue_def
proof (cases rule: transaction_cases)
  case (committed u)
  then obtain js where js: "find_jobs g d service = Inr js" and
    loop: "reconcile_loop g present (map QueueKey js) at 0 js d = Inr d'"
    by (auto simp: and_then_Inr_iff)
  note rows = find_jobs_rows [OF js assms(2)]
  have "\<forall>j \<in> set js. tjobs (view d) (jID j) = Some j"
    using rows job_key by blast
  with rows show ?thesis by (intro reconcile_loop_steps [OF loop]) blast+
qed simp

theorem run_call_steps:
  assumes "call_ok c"
  shows "env_steps (finishes c) (requests c) (view d) (view (snd (run_call g c d)))"
  using assms
  by (cases c) (simp_all add: Observe_steps [OF surjective_pairing]
      SetPlan_steps [OF surjective_pairing] requestAction_steps [OF surjective_pairing]
      FinishPlanning_steps [OF surjective_pairing] FinishRemoval_steps [OF surjective_pairing]
      StartRemoval_steps [OF surjective_pairing] ReconcileQueue_steps [OF surjective_pairing])

subsection \<open>The two transactions of the repair engine\<close>

lemma Start_facts:
  assumes "Start g i at d = (Inr a, d')" "store_inv (view d)"
  obtains j where "tjobs (view d) i = Some j" "phase_of j = (Ready, [])" "i \<noteq> 0"
    "view d' = put_job (j\<lparr>jState := Running, jReason := [], jUpdatedAt := at\<rparr>)
       (put_attempt a (view d))"
    "aJobID a = i" "aState a = Running" "aPlan a = jPlan j" "aImportRequest a = None"
    "0 < aNumber a" "\<forall>n. tattempts (view d) (i, n) \<noteq> None \<longrightarrow> n < aNumber a"
proof -
  from transaction_Inr [OF assms(1) [unfolded Start_def]] obtain j previous d1 where
    j: "first_job g d i = Inr j" and ready: "jState j = Ready" "jPendingAction j = []" and
    prev: "(case last_attempt g d i of Inr previous \<Rightarrow> Inr (aNumber previous)
             | Inl e \<Rightarrow> if error_is e ErrRecordNotFound then Inr 0 else Inl e) = Inr previous" and
    c: "create_attempt g d a = Inr d1" and
    s: "save_job g d1 (j\<lparr>jState := Running, jReason := [], jUpdatedAt := at\<rparr>) = Inr d'" and
    a: "aJobID a = i" "aNumber a = previous + 1" "aState a = Running" "aPlan a = jPlan j"
      "aImportRequest a = None"
    by (auto simp: and_then_Inr_iff Let_def)
  note f = first_job_facts [OF j]
  have p: "0 \<le> previous \<and> (\<forall>n. tattempts (view d) (i, n) \<noteq> None \<longrightarrow> n \<le> previous)"
  proof (cases "last_attempt g d i")
    case (Inl e)
    with prev have "error_is e ErrRecordNotFound" "previous = 0" by (auto split: if_splits)
    with last_attempt_none [OF Inl _ f(3)] show ?thesis by auto
  next
    case (Inr b)
    with prev last_attempt_row [OF Inr f(3)] store_inv_attempt(2) [OF assms(2)] show ?thesis
      by force
  qed
  have "view d1 = put_attempt a (view d)" by (rule create_attempt_row [OF c])
  with save_job_row [OF s] f
  have v: "view d' = put_job (j\<lparr>jState := Running, jReason := [], jUpdatedAt := at\<rparr>) (put_attempt a (view d))"
    by simp
  show thesis
    by (rule that [OF f(1) _ f(3) v a(1,3,4,5)])
      (use ready p a in \<open>auto simp: phase_of_def\<close>)
qed

lemma Start_step:
  assumes "Start g i at d = (Inr a, d')" "store_inv (view d)"
  shows "engine_step i (view d) (view d')"
proof -
  from assms obtain j where f: "tjobs (view d) i = Some j" "phase_of j = (Ready, [])" "i \<noteq> 0"
    "view d' = put_job (j\<lparr>jState := Running, jReason := [], jUpdatedAt := at\<rparr>)
       (put_attempt a (view d))"
    "aJobID a = i" "aState a = Running" "aPlan a = jPlan j" "aImportRequest a = None"
    "0 < aNumber a" "\<forall>n. tattempts (view d) (i, n) \<noteq> None \<longrightarrow> n < aNumber a"
    by (rule Start_facts)
  have "jID j = i" using job_key [OF f(1)] by simp
  with f show ?thesis
    by (simp only: f(4)) (rule engine_step.start [OF f(1)]; simp add: phase_of_def)
qed

lemma UpdateAttempt_facts:
  assumes "UpdateAttempt g a d = (Inr u, d')" "aJobID a \<noteq> 0" "aNumber a \<noteq> 0"
  obtains b j where "tattempts (view d) (aJobID a, aNumber a) = Some b" "active (aState b)"
    "tjobs (view d) (aJobID a) = Some j" "jID j = aJobID a"
    "view d' = put_job (j\<lparr>jState := aState a, jReason := aReason a, jUpdatedAt := aUpdatedAt a\<rparr>)
       (put_attempt (a\<lparr>aPlan := aPlan b, aStartedAt := aStartedAt b\<rparr>) (view d))"
proof -
  let ?c = "\<lambda>b. b\<lparr>aState := aState a, aReason := aReason a, aUpdatedAt := aUpdatedAt a,
      aOutputPath := aOutputPath a, aImportReceipt := aImportReceipt a,
      aImportRequest := aImportRequest a, aHistoryIDBefore := aHistoryIDBefore a,
      aCommandID := aCommandID a, aImportStartedAt := aImportStartedAt a,
      aImportTerminalAt := aImportTerminalAt a\<rparr>"
  from transaction_Inr [OF assms(1) [unfolded UpdateAttempt_def]] obtain b d1 j where
    b: "first_attempt g d (aJobID a) (aNumber a) = Inr b" and act: "active (aState b)" and
    sa: "save_attempt g d (?c b) = Inr d1" and j: "first_job g d1 (aJobID a) = Inr j" and
    sj: "save_job g d1 (j\<lparr>jState := aState a, jReason := aReason a, jUpdatedAt := aUpdatedAt a\<rparr>) =
      Inr d'"
    by (auto simp: and_then_Inr_iff Let_def)
  have row: "tattempts (view d) (aJobID a, aNumber a) = Some b"
    by (rule first_attempt_row [OF b assms(2,3)])
  from attempt_key [OF row] have key: "aJobID b = aJobID a" "aNumber b = aNumber a" by simp_all
  then have c: "?c b = a\<lparr>aPlan := aPlan b, aStartedAt := aStartedAt b\<rparr>" by simp
  have v1: "view d1 = put_attempt (?c b) (view d)"
    using save_attempt_row [OF sa] key assms(2,3) by simp
  note f = first_job_facts [OF j]
  show thesis
    using that [OF row act, of j] f v1 save_job_row [OF sj] c by simp
qed

lemma UpdateAttempt_step:
  assumes "UpdateAttempt g a d = (Inr u, d')" "aJobID a \<noteq> 0" "aNumber a \<noteq> 0"
    "aState a \<in> attempt_states"
  shows "engine_step (aJobID a) (view d) (view d')"
proof -
  from assms(1-3) obtain b j where f: "tattempts (view d) (aJobID a, aNumber a) = Some b"
    "active (aState b)" "tjobs (view d) (aJobID a) = Some j" "jID j = aJobID a"
    "view d' = put_job (j\<lparr>jState := aState a, jReason := aReason a, jUpdatedAt := aUpdatedAt a\<rparr>)
       (put_attempt (a\<lparr>aPlan := aPlan b, aStartedAt := aStartedAt b\<rparr>) (view d))"
    by (rule UpdateAttempt_facts)
  show ?thesis
    unfolding f(5) by (rule engine_step.update [where b = b and j = j])
      (use f assms(4) in \<open>simp_all add: phase_of_def\<close>)
qed

end

end
