(* ===== verification/Jobs_Behaviour.thy ===== *)
theory Jobs_Behaviour
  imports Jobs_Refinement
begin

text \<open>
  What the transactions of the job store decide: which queue row a job follows (\<open>MatchQueue\<close>,
  \<open>ReconcileQueue\<close>), when a finished plan is stale (\<open>FinishPlanning\<close> after \<open>RequestAction\<close>), and
  when an earlier planning result is restored (\<open>Observe\<close>).
\<close>

section \<open>Matching queue rows\<close>

definition followers :: "queue_key \<Rightarrow> queue_key list \<Rightarrow> nat list" where
  "followers wanted candidates =
     filter (\<lambda>k. kDownloadID wanted \<noteq> [] \<and> kDownloadID (candidates ! k) = kDownloadID wanted)
       [0..<length candidates]"

definition first_index :: "'a \<Rightarrow> 'a list \<Rightarrow> nat" where
  "first_index x xs = length (takeWhile (\<lambda>y. y \<noteq> x) xs)"

definition match_spec :: "queue_key \<Rightarrow> queue_key list \<Rightarrow> go_error + int" where
  "match_spec wanted candidates =
     (if wanted \<in> set candidates then Inr (int (first_index wanted candidates))
      else case followers wanted candidates of
          [] \<Rightarrow> Inr (- 1)
        | [k] \<Rightarrow> Inr (int k)
        | _ \<Rightarrow> Inl (ErrorText ''download matches multiple queue entries; cannot follow changed queue ID''))"

lemma followers_Nil [simp]: "followers w [] = []"
  by (simp add: followers_def)

lemma followers_Cons:
  "followers w (c # cs) =
     (if kDownloadID w \<noteq> [] \<and> kDownloadID c = kDownloadID w then 0 # map Suc (followers w cs)
      else map Suc (followers w cs))"
  by (simp add: followers_def upt_conv_Cons filter_map comp_def del: upt_Suc flip: map_Suc_upt)

lemma first_index_less: "x \<in> set xs \<Longrightarrow> first_index x xs < length xs \<and> xs ! first_index x xs = x"
  by (induction xs) (auto simp: first_index_def)

lemma first_index_nth: "distinct xs \<Longrightarrow> k < length xs \<Longrightarrow> first_index (xs ! k) xs = k"
  by (metis first_index_less nth_eq_iff_index_eq nth_mem)

lemma match_loop_exact:
  "w \<in> set cs \<Longrightarrow> match_loop w cs i m n = Inr (i + int (first_index w cs))"
  by (induction cs arbitrary: i m n) (auto simp: first_index_def)

lemma match_loop_follow:
  "w \<notin> set cs \<Longrightarrow> match_loop w cs i m n =
     (if n + length (followers w cs) > 1
      then Inl (ErrorText ''download matches multiple queue entries; cannot follow changed queue ID'')
      else Inr (if followers w cs = [] then m else i + int (last (followers w cs))))"
  by (induction cs arbitrary: i m n) (auto simp: followers_Cons last_map)

lemma MatchQueue_spec: "MatchQueue w cs = match_spec w cs"
  by (auto simp: MatchQueue_def match_spec_def match_loop_exact match_loop_follow split: list.split)

lemma MatchQueue_exact: "w \<in> set cs \<Longrightarrow> MatchQueue w cs = Inr (int (first_index w cs))"
  by (simp add: MatchQueue_spec match_spec_def)

lemma MatchQueue_none:
  assumes "w \<notin> set cs" "kDownloadID w = [] \<or> kDownloadID w \<notin> kDownloadID ` set cs"
  shows "MatchQueue w cs = Inr (- 1)"
proof -
  have "followers w cs = []"
    using assms(2) by (auto simp: followers_def filter_empty_conv image_iff all_set_conv_all_nth)
  with assms show ?thesis by (simp add: MatchQueue_spec match_spec_def)
qed

lemma MatchQueue_one:
  assumes "w \<notin> set cs" "kDownloadID w \<noteq> []" "k < length cs" "kDownloadID (cs ! k) = kDownloadID w"
    and "\<And>l. l < length cs \<Longrightarrow> kDownloadID (cs ! l) = kDownloadID w \<Longrightarrow> l = k"
  shows "MatchQueue w cs = Inr (int k)"
proof -
  have "set (followers w cs) = {k}"
    using assms(2-4) by (auto simp: followers_def intro: assms(5))
  moreover have "distinct (followers w cs)" by (simp add: followers_def)
  ultimately have "followers w cs = [k]"
    by (intro distinct_singleton)
  with assms(1) show ?thesis by (simp add: MatchQueue_spec match_spec_def)
qed

section \<open>Queue reconciliation\<close>

definition reconcile_one ::
  "'db gorm \<Rightarrow> queue_key list \<Rightarrow> queue_key list \<Rightarrow> gotime \<Rightarrow> int \<Rightarrow> job \<Rightarrow> 'db \<Rightarrow> go_error + 'db" where
  "reconcile_one g present previous at index j d =
     and_then (MatchQueue (QueueKey j) present) (\<lambda>matched.
       if matched \<ge> 0
       then and_then (MatchQueue (present ! nat matched) previous) (\<lambda>owner.
              if owner \<noteq> index then Inr d else reconcile_present g j (present ! nat matched) d)
       else reconcile_absent g j at d)"

lemma reconcile_loop_one:
  "reconcile_loop g present previous at index (j # js) d =
     and_then (reconcile_one g present previous at index j d)
       (reconcile_loop g present previous at (index + 1) js)"
  by (cases "MatchQueue (QueueKey j) present") (simp_all add: reconcile_one_def)

lemma reconcile_loop_append:
  "reconcile_loop g present previous at index (us @ vs) d = Inr d' \<longleftrightarrow>
     (\<exists>d1. reconcile_loop g present previous at index us d = Inr d1 \<and>
           reconcile_loop g present previous at (index + int (length us)) vs d1 = Inr d')"
  by (induction us arbitrary: index d)
    (auto simp: reconcile_loop_one and_then_Inr_iff algebra_simps simp del: reconcile_loop.simps(2))

context gorm_db
begin

lemma reconcile_one_others:
  assumes "reconcile_one g present previous at index j d = Inr d'" "tjobs (view d) (jID j) = Some j"
    and "i \<noteq> jID j"
  shows "tjobs (view d') i = tjobs (view d) i"
  using assms reconcile_present_steps(2) reconcile_absent_steps(2)
  by (auto simp: reconcile_one_def and_then_Inr_iff split: if_splits)

lemma reconcile_loop_others:
  "\<lbrakk>reconcile_loop g present previous at index js d = Inr d'; distinct (map jID js);
    \<forall>j \<in> set js. tjobs (view d) (jID j) = Some j; i \<notin> set (map jID js)\<rbrakk>
   \<Longrightarrow> tjobs (view d') i = tjobs (view d) i"
proof (induction js arbitrary: index d)
  case (Cons j js)
  from Cons.prems(1) obtain d1 where one: "reconcile_one g present previous at index j d = Inr d1"
    and rest: "reconcile_loop g present previous at (index + 1) js d1 = Inr d'"
    by (auto simp: reconcile_loop_one and_then_Inr_iff simp del: reconcile_loop.simps(2))
  have same: "tjobs (view d1) k = tjobs (view d) k" if "k \<noteq> jID j" for k
    using reconcile_one_others [OF one] Cons.prems(3) that by simp
  have "\<forall>k \<in> set js. tjobs (view d1) (jID k) = Some k"
    using Cons.prems(2,3) same by (metis distinct.simps(2) image_eqI list.set_intros(2) list.set_map list.simps(9))
  with Cons.IH [OF rest] Cons.prems same show ?case by simp
qed simp

text \<open>The row of one job after the loop is the one its own iteration wrote.\<close>

lemma reconcile_loop_row:
  assumes loop: "reconcile_loop g present previous at 0 js d = Inr d'"
    and dist: "distinct (map jID js)" and rows: "\<forall>j \<in> set js. tjobs (view d) (jID j) = Some j"
    and k: "k < length js"
  obtains d1 d2 where "reconcile_one g present previous at (int k) (js ! k) d1 = Inr d2"
    "tjobs (view d1) (jID (js ! k)) = Some (js ! k)"
    "tjobs (view d') (jID (js ! k)) = tjobs (view d2) (jID (js ! k))"
proof -
  from k obtain us j vs where js: "js = us @ j # vs" and len: "length us = k" and nth: "js ! k = j"
    by (metis id_take_nth_drop length_take min.absorb4)
  from loop js len obtain d1 where 1: "reconcile_loop g present previous at 0 us d = Inr d1"
    and "reconcile_loop g present previous at (int k) (j # vs) d1 = Inr d'"
    by (auto simp only: reconcile_loop_append add_0)
  then obtain d2 where 2: "reconcile_one g present previous at (int k) j d1 = Inr d2"
    and 3: "reconcile_loop g present previous at (int k + 1) vs d2 = Inr d'"
    by (auto simp only: reconcile_loop_one and_then_Inr_iff)
  from dist js have d: "distinct (map jID us)" "distinct (map jID vs)"
    "jID j \<notin> set (map jID us)" "jID j \<notin> set (map jID vs)"
    "set (map jID us) \<inter> set (map jID vs) = {}"
    by auto
  have us: "\<forall>j \<in> set us. tjobs (view d) (jID j) = Some j" using rows js by simp
  have keep1: "tjobs (view d1) i = tjobs (view d) i" if "i \<notin> set (map jID us)" for i
    by (rule reconcile_loop_others [OF 1 d(1) us that])
  have row: "tjobs (view d1) (jID j) = Some j"
    using keep1 [OF d(3)] rows js by simp
  have "\<forall>j \<in> set vs. tjobs (view d2) (jID j) = Some j"
  proof
    fix l assume l: "l \<in> set vs"
    then have "jID l \<in> set (map jID vs)" by simp
    with d(4,5) have "jID l \<noteq> jID j" "jID l \<notin> set (map jID us)"
      by (metis, blast)
    with reconcile_one_others [OF 2 row] keep1 rows l js show "tjobs (view d2) (jID l) = Some l"
      by simp
  qed
  from that [unfolded nth, OF 2 row] reconcile_loop_others [OF 3 d(2) this d(4)] show thesis by simp
qed

lemma ReconcileQueue_loop:
  assumes "ReconcileQueue g s present at d = (Inr u, d')" "s \<noteq> []"
  obtains js where "reconcile_loop g present (map QueueKey js) at 0 js d = Inr d'"
    "distinct (map jID js)" "\<forall>j \<in> set js. tjobs (view d) (jID j) = Some j"
    "\<forall>j. j \<in> set js \<longleftrightarrow> tjobs (view d) (jID j) = Some j \<and> jService j = s"
    "distinct (map QueueKey js)"
proof -
  from transaction_Inr [OF assms(1) [unfolded ReconcileQueue_def]] obtain js where
    js: "find_jobs g d s = Inr js" and
    loop: "reconcile_loop g present (map QueueKey js) at 0 js d = Inr d'"
    by (auto simp only: and_then_Inr_iff sum.inject prod.inject)
  note rows = find_jobs_rows [OF js assms(2)]
  have self: "tjobs (view d) (jID j) = Some j" if "tjobs (view d) i = Some j" for i j
    using job_key [OF that] that by simp
  have mem: "\<forall>j. j \<in> set js \<longleftrightarrow> tjobs (view d) (jID j) = Some j \<and> jService j = s"
    unfolding conjunct2 [OF rows] mem_Collect_eq using self by blast
  have "inj_on QueueKey (set js)"
  proof (rule inj_onI)
    fix j k assume "j \<in> set js" "k \<in> set js" and key: "QueueKey j = QueueKey k"
    with mem have row: "tjobs (view d) (jID j) = Some j" "tjobs (view d) (jID k) = Some k"
      and "jService j = s" "jService k = s" by blast+
    then have "jService j = jService k" by simp
    from key have "jQueueID j = jQueueID k" "jDownloadID j = jDownloadID k"
      by (simp_all add: QueueKey_def)
    with \<open>jService j = jService k\<close> have "jID j = jID k" by (intro job_unique [OF row])
    then have "Some j = Some k" using row by metis
    then show "j = k" by (rule option.inject [THEN iffD1])
  qed
  with rows have "distinct (map QueueKey js)" by (simp add: distinct_map)
  moreover have "\<forall>j \<in> set js. tjobs (view d) (jID j) = Some j" using mem by blast
  ultimately show thesis using that [OF loop conjunct1 [OF rows] _ mem] by blast
qed

lemma reconcile_present_row:
  assumes "reconcile_present g j key d = Inr d'" "tjobs (view d) (jID j) = Some j"
  shows "\<exists>j'. tjobs (view d') (jID j) = Some j' \<and> jQueueID j' = kQueueID key \<and> jInQueue j' \<and>
    jState j' \<noteq> Removed \<and> (jState j \<noteq> Removed \<longrightarrow> jState j' = jState j)"
proof (cases "jQueueID j = kQueueID key \<and> jInQueue j \<and> jState j \<noteq> Removed")
  case True
  with assms show ?thesis by (auto simp: reconcile_present_def)
next
  case False
  let ?j1 = "j\<lparr>jQueueID := kQueueID key, jInQueue := True\<rparr>"
  let ?j2 = "if jState ?j1 = Removed
     then ?j1\<lparr>jState := Blocked, jReason := ''queue entry is present again''\<rparr> else ?j1"
  from assms(1) have "save_job g d ?j2 = Inr d'"
    by (simp only: reconcile_present_def Let_def False if_False)
  from save_job_row [OF this] job_key [OF assms(2)]
  have "tjobs (view d') (jID j) = Some (stored ?j2)" by simp
  then show ?thesis by (simp add: stored_def)
qed

lemma reconcile_absent_row:
  assumes "reconcile_absent g j at d = Inr d'" "tjobs (view d) (jID j) = Some j"
  shows "\<exists>j'. tjobs (view d') (jID j) = Some j' \<and> \<not> jInQueue j' \<and>
    jState j' = (if jInQueue j \<and> \<not> active (jState j) \<and> jState j \<noteq> Imported then Removed else jState j)"
proof (cases "jInQueue j")
  case False
  with assms show ?thesis by (auto simp: reconcile_absent_def)
next
  case True
  let ?j1 = "j\<lparr>jInQueue := False, jUpdatedAt := at\<rparr>"
  let ?j2 = "if \<not> active (jState ?j1) \<and> jState ?j1 \<noteq> Imported
     then ?j1\<lparr>jState := Removed, jReason := ''no longer in the queue'', jPendingAction := []\<rparr>
     else ?j1"
  from assms(1) have "save_job g d ?j2 = Inr d'"
    by (simp only: reconcile_absent_def Let_def True if_False not_True_eq_False)
  from save_job_row [OF this] job_key [OF assms(2)]
  have "tjobs (view d') (jID j) = Some (stored ?j2)" by simp
  with True show ?thesis by (simp add: stored_def)
qed

theorem reconcile_queue_row:
  assumes ok: "ReconcileQueue g s present at d = (Inr u, d')" and s: "s \<noteq> []"
    and j: "tjobs (view d) i = Some j" "jService j = s"
  shows "\<exists>j'. tjobs (view d') i = Some j' \<and>
     (QueueKey j \<in> set present \<longrightarrow> jInQueue j' \<and> jQueueID j' = jQueueID j \<and> jState j' \<noteq> Removed) \<and>
     (QueueKey j \<notin> set present \<and> (jDownloadID j = [] \<or> jDownloadID j \<notin> kDownloadID ` set present) \<longrightarrow>
        \<not> jInQueue j' \<and>
        jState j' = (if jInQueue j \<and> \<not> active (jState j) \<and> jState j \<noteq> Imported then Removed
                     else jState j))"
proof -
  from ok s obtain js where loop: "reconcile_loop g present (map QueueKey js) at 0 js d = Inr d'"
    and dist: "distinct (map jID js)" and rows: "\<forall>j \<in> set js. tjobs (view d) (jID j) = Some j"
    and mem: "\<forall>j. j \<in> set js \<longleftrightarrow> tjobs (view d) (jID j) = Some j \<and> jService j = s"
    and keys: "distinct (map QueueKey js)"
    by (rule ReconcileQueue_loop)
  have i: "jID j = i" using job_key [OF j(1)] by simp
  with j mem have "j \<in> set js" by simp
  then obtain k where k: "k < length js" "js ! k = j" by (metis in_set_conv_nth)
  from reconcile_loop_row [OF loop dist rows k(1)] k(2) i obtain d1 d2 where
    one: "reconcile_one g present (map QueueKey js) at (int k) j d1 = Inr d2" and
    row: "tjobs (view d1) (jID j) = Some j" and final: "tjobs (view d') i = tjobs (view d2) i"
    by metis
  have own: "first_index (QueueKey j) (map QueueKey js) = k"
    using first_index_nth [OF keys, of k] k by simp
  have mine: "QueueKey j \<in> set (map QueueKey js)" using \<open>j \<in> set js\<close> by simp
  consider (present) "QueueKey j \<in> set present"
    | (absent) "QueueKey j \<notin> set present" "jDownloadID j = [] \<or> jDownloadID j \<notin> kDownloadID ` set present"
    | (other) "QueueKey j \<notin> set present" "\<not> (jDownloadID j = [] \<or> jDownloadID j \<notin> kDownloadID ` set present)"
    by blast
  then show ?thesis
  proof cases
    case present
    note idx = first_index_less [OF this]
    from one have "reconcile_present g j (QueueKey j) d1 = Inr d2"
      using idx by (simp add: reconcile_one_def MatchQueue_exact [OF present] MatchQueue_exact [OF mine] own)
    from reconcile_present_row [OF this row] present final i show ?thesis
      by (auto simp: QueueKey_def)
  next
    case absent
    then have "MatchQueue (QueueKey j) present = Inr (- 1)"
      by (intro MatchQueue_none) (simp_all add: QueueKey_def)
    with one have "reconcile_absent g j at d1 = Inr d2" by (simp add: reconcile_one_def)
    from reconcile_absent_row [OF this row] absent final i show ?thesis by auto
  next
    case other
    from one reconcile_present_row [OF _ row] reconcile_absent_row [OF _ row] row
    have "\<exists>j'. tjobs (view d2) (jID j) = Some j'"
      by (auto simp: reconcile_one_def and_then_Inr_iff split: if_splits) blast+
    with other final i show ?thesis by auto
  qed
qed

text \<open>
  An operator's request starts a new revision: a plan computed for another one is refused, and
  nothing of it is stored.
\<close>

lemma FinishPlanning_stale:
  assumes "tjobs (view d) (jID planned) = Some j" "jRevision planned \<noteq> jRevision j"
  shows "\<exists>e. FinishPlanning g planned d = (Inl e, d)"
proof (cases "first_job g d (jID planned)")
  case (Inl e)
  then show ?thesis by (simp add: FinishPlanning_def transaction_def)
next
  case (Inr k)
  with first_job_row [OF Inr] assms show ?thesis
    by (simp add: FinishPlanning_def transaction_def)
qed

lemma requestAction_revision:
  assumes "requestAction g i act w ms at expected d = (Inr u, d')" "tjobs (view d) i = Some j"
  shows "\<exists>j'. tjobs (view d') i = Some j' \<and> jRevision j' = wrap64 (jRevision j + 1) \<and> jPendingAction j' = act"
proof -
  let ?j1 = "\<lambda>j. j\<lparr>jRevision := wrap64 (jRevision j + 1), jPendingAction := act, jReason := [],
     jRetryAt := zero_time, jUpdatedAt := at\<rparr>"
  let ?j2 = "\<lambda>j. if act = Reconsider then (?j1 j)\<lparr>jGuidance := w, jRuntimeToleranceMS := ms,
     jPlanningAttempts := 0, jState := Observed\<rparr> else ?j1 j"
  from transaction_Inr [OF assms(1) [unfolded requestAction_def]] obtain k where
    k: "first_job g d i = Inr k" and save: "save_job g d (?j2 k) = Inr d'"
    by (auto simp: and_then_Inr_iff Let_def)
  note f = first_job_facts [OF k]
  have kj: "k = j" using f(1) assms(2) by (metis option.inject)
  have "view d' = put_job (?j2 k) (view d)" using save_job_row [OF save] f(2,3) by simp
  then have "tjobs (view d') i = Some (stored (?j2 k))" using f(2) by simp
  then show ?thesis unfolding kj by (simp add: stored_def)
qed

text \<open>Starting and updating an attempt keep the revision of every job.\<close>

lemma Start_revision:
  assumes "Start g i at d = (Inr a, d')" "tjobs (view d) k = Some j"
  shows "\<exists>j'. tjobs (view d') k = Some j' \<and> jRevision j' = jRevision j"
proof -
  from transaction_Inr [OF assms(1) [unfolded Start_def]] obtain row d1 where
    row: "first_job g d i = Inr row" and c: "create_attempt g d a = Inr d1" and
    s: "save_job g d1 (row\<lparr>jState := Running, jReason := [], jUpdatedAt := at\<rparr>) = Inr d'"
    by (auto simp: and_then_Inr_iff Let_def)
  note f = first_job_facts [OF row]
  from create_attempt_row [OF c] save_job_row [OF s] f
  have "view d' = put_job (row\<lparr>jState := Running, jReason := [], jUpdatedAt := at\<rparr>) (put_attempt a (view d))"
    by simp
  with assms(2) f show ?thesis by (cases "k = i") simp_all
qed

lemma UpdateAttempt_revision:
  assumes "UpdateAttempt g a d = (Inr u, d')" "aJobID a \<noteq> 0" "aNumber a \<noteq> 0"
    and "tjobs (view d) k = Some j"
  shows "\<exists>j'. tjobs (view d') k = Some j' \<and> jRevision j' = jRevision j"
proof -
  from assms(1-3) obtain b row where f: "tattempts (view d) (aJobID a, aNumber a) = Some b"
    "active (aState b)" "tjobs (view d) (aJobID a) = Some row" "jID row = aJobID a"
    "view d' = put_job (row\<lparr>jState := aState a, jReason := aReason a, jUpdatedAt := aUpdatedAt a\<rparr>)
       (put_attempt (a\<lparr>aPlan := aPlan b, aStartedAt := aStartedAt b\<rparr>) (view d))"
    by (rule UpdateAttempt_facts)
  with f(3-5) assms(4) show ?thesis by (cases "k = aJobID a") simp_all
qed

text \<open>A complete planning result for the observed inputs is restored instead of planning again.\<close>

lemma remember_others:
  assumes "rememberPlanning g d j = Inr d'" "k \<noteq> (jID j, jPlanningFingerprint j, jRevision j)"
  shows "tresults (view d') k = tresults (view d) k"
  using assms by (auto simp: rememberPlanning_def dest!: upsert_result_row split: if_splits)

lemma observePlanning_changed:
  assumes "observePlanning g d j observed = Inr (changed, j', d')"
    and "jPlanningFingerprint observed \<noteq> []"
    and "jPlanningFingerprint j \<notin> {[], jPlanningFingerprint observed}"
  shows "changed" "jPlanningFingerprint j' = jPlanningFingerprint observed"
    "tresults (view d') (i, jPlanningFingerprint observed, r) =
       tresults (view d) (i, jPlanningFingerprint observed, r)"
proof -
  from assms obtain d1 where
    1: "changed = (jPlanningFingerprint j \<noteq> jPlanningFingerprint observed)"
      "j' = j\<lparr>jPlanningFingerprint := jPlanningFingerprint observed\<rparr>" and
    2: "d' = d \<or> rememberPlanning g d j = Inr d'"
    unfolding observePlanning_def Let_def by (auto simp: and_then_Inr_iff split: if_splits)
  show "changed" "jPlanningFingerprint j' = jPlanningFingerprint observed"
    using 1 assms(3) by simp_all
  show "tresults (view d') (i, jPlanningFingerprint observed, r) =
       tresults (view d) (i, jPlanningFingerprint observed, r)"
    using 2 remember_others [of d j d'] assms(3) by auto
qed

lemma restorePlanning_complete:
  assumes "restorePlanning g d j = Inr j'" "jPlanningFingerprint j \<noteq> []"
    and "tresults (view d) (jID j, jPlanningFingerprint j, jRevision j) = Some p" "pComplete p"
  shows "jState j' = Blocked" "jPlan j' = pPlan p" "jReason j' = already_planned"
    "jPlanningAttempts j' = pAttempts p"
proof -
  have "first_result g d (jID j) (jPlanningFingerprint j) (jRevision j) = Inr p"
  proof (cases "first_result g d (jID j) (jPlanningFingerprint j) (jRevision j)")
    case (Inl e)
    with assms first_result_none [OF Inl] show ?thesis
      by (auto simp: restorePlanning_def split: if_splits)
  next
    case (Inr q)
    with assms(3) first_result_row [OF Inr] show ?thesis by simp
  qed
  with assms show "jState j' = Blocked" "jPlan j' = pPlan p" "jReason j' = already_planned"
    "jPlanningAttempts j' = pAttempts p"
    by (auto simp: restorePlanning_def)
qed

theorem observe_restores_planning:
  assumes ok: "Observe g observed d = (Inr j', d')"
    and row: "first_identity g d (jService observed) (jQueueID observed) (jDownloadID observed) = Inr row"
    and ev: "jEvidence observed \<noteq> None" and rep: "replannable (jState row)"
    and fp: "jPlanningFingerprint observed \<noteq> []"
      "jPlanningFingerprint row \<notin> {[], jPlanningFingerprint observed}"
    and res: "tresults (view d) (jID row, jPlanningFingerprint observed, jRevision row) = Some p"
      "pComplete p"
  shows "jState j' = Blocked \<and> jPlan j' = pPlan p \<and> jReason j' = already_planned \<and>
    jPlanningAttempts j' = pAttempts p \<and>
    tjobs (view d') = (tjobs (view d))(jID row \<mapsto> stored j')"
proof -
  let ?j = "row\<lparr>jTitle := jTitle observed, jUpdatedAt := jUpdatedAt observed, jInQueue := True,
                jCollectionError := jCollectionError observed\<rparr>"
  from transaction_Inr [OF ok [unfolded Observe_def]] row obtain d1 where
    o: "observe_row g d row observed = Inr (j', d1)" and s: "save_job g d1 j' = Inr d'"
    by (auto simp: and_then_Inr_iff)
  note os = observe_row_steps [OF o]
  have "jID row \<noteq> 0" using first_identity_row [OF row] job_key by blast
  with save_job_row [OF s] os(2,3) have view: "tjobs (view d') = (tjobs (view d))(jID row \<mapsto> stored j')"
    by simp
  have na: "\<not> active (jState ?j) \<and> jEvidence observed \<noteq> None"
    using rep ev by (simp add: replannable_def)
  with o obtain changed k l where
    1: "observePlanning g d ?j observed = Inr (changed, k, d1)" and
    2: "observe_changed g d1 k observed changed = Inr l" and
    3: "j' = (if jState l \<noteq> Ready \<or> changed \<or> jPlanningFingerprint observed = []
          then l\<lparr>jSourceFingerprint := jSourceFingerprint observed,
                 jEvidence := jEvidence observed\<rparr> else l)"
    unfolding observe_row_def Let_def by (auto simp: and_then_Inr_iff)
  have fp': "jPlanningFingerprint ?j \<notin> {[], jPlanningFingerprint observed}" using fp(2) by simp
  note c = observePlanning_changed [OF 1 fp(1) fp']
  note p = observePlanning_steps [OF 1]
  let ?k = "k\<lparr>jPlan := None, jState := Observed, jReason := jPlanningChange observed,
     jStableSince := jUpdatedAt observed, jRetryAt := zero_time, jPlanningAttempts := 0\<rparr>"
  have "replannable (jState k)" using p(4) rep by (simp add: phase_of_def)
  with 2 c(1) have r: "restorePlanning g d1 ?k = Inr l"
    by (simp add: observe_changed_def replannable_def)
  have fpk: "jPlanningFingerprint ?k \<noteq> []" using c(2) fp(1) by simp
  have resk: "tresults (view d1) (jID ?k, jPlanningFingerprint ?k, jRevision ?k) = Some p"
    using c(2) c(3) [of "jID row" "jRevision row"] p(3,5) res(1) by simp
  from restorePlanning_complete [OF r fpk resk res(2)] 3 view show ?thesis by simp
qed

end

end
