(* ===== verification/Repair_Programs.thy ===== *)
theory Repair_Programs
  imports Jobs_Behaviour
begin

text \<open>
  Programs of the repair service as trees of calls: each node is one call to the job store, to the
  service adapter or to the clock, with the rest of the program as a function of its result. A
  program is finite by construction; other threads and a crash may come between any two calls.
  \<open>internal/repair/engine.go\<close> and \<open>internal/repair/scheduler.go\<close> give the calls and their types.
\<close>

section \<open>The types of the service interface\<close>

record prepared_import =
  piOutputPath :: string
  piRequest :: raw
  piHistoryIDBefore :: int

record import_status =
  isReceipt :: raw
  isFailure :: string

record observation =
  oJobs :: "job list"
  oQueue :: "queue_key list"
  oComplete :: "queue_key list"

record decision =
  dData :: raw
  dRepair :: bool
  dReason :: string

section \<open>Programs\<close>

text \<open>
  \<open>SubmitC\<close> carries the attempt it submits for; the adapter sees its import request only, as in
  the call \<open>Adapter.Submit(ctx, attempt.ImportRequest)\<close>.
\<close>

datatype 'a prog =
    Done 'a
  | NowC "gotime \<Rightarrow> 'a prog"
  | CtxErrC "go_error option \<Rightarrow> 'a prog"
  | DisabledC "go_error + bool \<Rightarrow> 'a prog"
  | GetC int "go_error + job \<Rightarrow> 'a prog"
  | ListC string "go_error + job list \<Rightarrow> 'a prog"
  | LatestAttemptC int "go_error + attempt \<Rightarrow> 'a prog"
  | StartC int gotime "go_error + attempt \<Rightarrow> 'a prog"
  | UpdateAttemptC attempt "go_error option \<Rightarrow> 'a prog"
  | ObserveC job "go_error + job \<Rightarrow> 'a prog"
  | ReconcileQueueC string "queue_key list" gotime "go_error option \<Rightarrow> 'a prog"
  | RequestActionC int string string int gotime "go_error option \<Rightarrow> 'a prog"
  | FinishPlanningC job "go_error option \<Rightarrow> 'a prog"
  | StartRemovalC int gotime "go_error + job \<Rightarrow> 'a prog"
  | FinishRemovalC job "go_error option" gotime "go_error option \<Rightarrow> 'a prog"
  | RepairC job attempt "go_error + prepared_import \<Rightarrow> 'a prog"
  | SubmitC attempt "go_error + int \<Rightarrow> 'a prog"
  | CheckImportC attempt "go_error + import_status \<Rightarrow> 'a prog"
  | ServiceObserveC "job list" "go_error + observation \<Rightarrow> 'a prog"
  | PlanC job "go_error + decision \<Rightarrow> 'a prog"
  | ReadyC job "bool \<Rightarrow> 'a prog"
  | RemoveC job "go_error option \<Rightarrow> 'a prog"

primrec bind :: "'a prog \<Rightarrow> ('a \<Rightarrow> 'b prog) \<Rightarrow> 'b prog" where
  "bind (Done a) f = f a"
| "bind (NowC k) f = NowC (\<lambda>r. bind (k r) f)"
| "bind (CtxErrC k) f = CtxErrC (\<lambda>r. bind (k r) f)"
| "bind (DisabledC k) f = DisabledC (\<lambda>r. bind (k r) f)"
| "bind (GetC i k) f = GetC i (\<lambda>r. bind (k r) f)"
| "bind (ListC s k) f = ListC s (\<lambda>r. bind (k r) f)"
| "bind (LatestAttemptC i k) f = LatestAttemptC i (\<lambda>r. bind (k r) f)"
| "bind (StartC i t k) f = StartC i t (\<lambda>r. bind (k r) f)"
| "bind (UpdateAttemptC a k) f = UpdateAttemptC a (\<lambda>r. bind (k r) f)"
| "bind (ObserveC j k) f = ObserveC j (\<lambda>r. bind (k r) f)"
| "bind (ReconcileQueueC s ks t k) f = ReconcileQueueC s ks t (\<lambda>r. bind (k r) f)"
| "bind (RequestActionC i act w ms t k) f = RequestActionC i act w ms t (\<lambda>r. bind (k r) f)"
| "bind (FinishPlanningC j k) f = FinishPlanningC j (\<lambda>r. bind (k r) f)"
| "bind (StartRemovalC i t k) f = StartRemovalC i t (\<lambda>r. bind (k r) f)"
| "bind (FinishRemovalC j e t k) f = FinishRemovalC j e t (\<lambda>r. bind (k r) f)"
| "bind (RepairC j a k) f = RepairC j a (\<lambda>r. bind (k r) f)"
| "bind (SubmitC a k) f = SubmitC a (\<lambda>r. bind (k r) f)"
| "bind (CheckImportC a k) f = CheckImportC a (\<lambda>r. bind (k r) f)"
| "bind (ServiceObserveC js k) f = ServiceObserveC js (\<lambda>r. bind (k r) f)"
| "bind (PlanC j k) f = PlanC j (\<lambda>r. bind (k r) f)"
| "bind (ReadyC j k) f = ReadyC j (\<lambda>r. bind (k r) f)"
| "bind (RemoveC j k) f = RemoveC j (\<lambda>r. bind (k r) f)"

section \<open>One call\<close>

text \<open>
  \<open>call g p d l p' d' l'\<close>: the next call of \<open>p\<close> on the database \<open>d\<close>, with the submissions \<open>l\<close> made
  so far. A call to the store runs its transaction, or reports any error with or without the effect
  of the transaction (a lost reply); the adapter, the clock and the control file answer anything.
\<close>

type_synonym key = "int \<times> int"

inductive call ::
  "'db gorm \<Rightarrow> 'a prog \<Rightarrow> 'db \<Rightarrow> key list \<Rightarrow> 'a prog \<Rightarrow> 'db \<Rightarrow> key list \<Rightarrow> bool"
  for g :: "'db gorm" where
  now: "call g (NowC k) d l (k t) d l"
| ctx: "call g (CtxErrC k) d l (k e) d l"
| disabled: "call g (DisabledC k) d l (k r) d l"
| get: "call g (GetC i k) d l (k (Get g i d)) d l"
| get_fault: "call g (GetC i k) d l (k (Inl e)) d l"
| list: "call g (ListC s k) d l (k (List g s d)) d l"
| list_fault: "call g (ListC s k) d l (k (Inl e)) d l"
| latest: "call g (LatestAttemptC i k) d l (k (LatestAttempt g i d)) d l"
| latest_fault: "call g (LatestAttemptC i k) d l (k (Inl e)) d l"
| start: "Start g i t d = (r, d') \<Longrightarrow> call g (StartC i t k) d l (k r) d' l"
| start_fault: "d' = d \<or> d' = snd (Start g i t d) \<Longrightarrow>
    call g (StartC i t k) d l (k (Inl e)) d' l"
| update: "UpdateAttempt g a d = (r, d') \<Longrightarrow> call g (UpdateAttemptC a k) d l (k (err_of r)) d' l"
| update_fault: "d' = d \<or> d' = snd (UpdateAttempt g a d) \<Longrightarrow>
    call g (UpdateAttemptC a k) d l (k (Some e)) d' l"
| observe: "Observe g j d = (r, d') \<Longrightarrow> call g (ObserveC j k) d l (k r) d' l"
| observe_fault: "d' = d \<or> d' = snd (Observe g j d) \<Longrightarrow>
    call g (ObserveC j k) d l (k (Inl e)) d' l"
| reconcile: "ReconcileQueue g s ks t d = (r, d') \<Longrightarrow>
    call g (ReconcileQueueC s ks t k) d l (k (err_of r)) d' l"
| reconcile_fault: "d' = d \<or> d' = snd (ReconcileQueue g s ks t d) \<Longrightarrow>
    call g (ReconcileQueueC s ks t k) d l (k (Some e)) d' l"
| request: "RequestAction g i act w ms t d = (r, d') \<Longrightarrow>
    call g (RequestActionC i act w ms t k) d l (k (err_of r)) d' l"
| request_fault: "d' = d \<or> d' = snd (RequestAction g i act w ms t d) \<Longrightarrow>
    call g (RequestActionC i act w ms t k) d l (k (Some e)) d' l"
| finish_planning: "FinishPlanning g j d = (r, d') \<Longrightarrow>
    call g (FinishPlanningC j k) d l (k (err_of r)) d' l"
| finish_planning_fault: "d' = d \<or> d' = snd (FinishPlanning g j d) \<Longrightarrow>
    call g (FinishPlanningC j k) d l (k (Some e)) d' l"
| start_removal: "StartRemoval g i t d = (r, d') \<Longrightarrow> call g (StartRemovalC i t k) d l (k r) d' l"
| start_removal_fault: "d' = d \<or> d' = snd (StartRemoval g i t d) \<Longrightarrow>
    call g (StartRemovalC i t k) d l (k (Inl e)) d' l"
| finish_removal: "FinishRemoval g j f t d = (r, d') \<Longrightarrow>
    call g (FinishRemovalC j f t k) d l (k (err_of r)) d' l"
| finish_removal_fault: "d' = d \<or> d' = snd (FinishRemoval g j f t d) \<Longrightarrow>
    call g (FinishRemovalC j f t k) d l (k (Some e)) d' l"
| repair: "call g (RepairC j a k) d l (k r) d l"
| submit: "call g (SubmitC a k) d l (k r) d ((aJobID a, aNumber a) # l)"
| check: "call g (CheckImportC a k) d l (k r) d l"
| service_observe: "call g (ServiceObserveC js k) d l (k r) d l"
| plan: "call g (PlanC j k) d l (k r) d l"
| ready: "call g (ReadyC j k) d l (k b) d l"
| remove: "call g (RemoveC j k) d l (k e) d l"

end
