(* ===== verification/Repair_Engine.thy ===== *)
theory Repair_Engine
  imports Repair_Programs
begin

text \<open>
  The repair engine (\<open>internal/repair/engine.go\<close>) and the scheduler
  (\<open>internal/repair/scheduler.go\<close>) as programs. Logging and the \<open>LastObservation\<close> gauge are left
  out; a returned error is the value of the program.
\<close>

section \<open>The engine\<close>

definition finish :: "attempt \<Rightarrow> jstate \<Rightarrow> string \<Rightarrow> go_error option prog" where
  "finish attempt state reason =
     NowC (\<lambda>now.
     UpdateAttemptC (attempt\<lparr>aState := state, aReason := reason, aUpdatedAt := now\<rparr>) Done)"

text \<open>The end of \<open>reconcile\<close>: store the attempt and join the errors.\<close>

definition reconcile_store :: "go_error option \<Rightarrow> attempt \<Rightarrow> go_error option prog" where
  "reconcile_store err attempt =
     NowC (\<lambda>now.
     UpdateAttemptC (attempt\<lparr>aUpdatedAt := now\<rparr>) (\<lambda>storeErr.
     Done (errors_join err storeErr)))"

text \<open>The command has finished without a receipt: wait for the history, then fail.\<close>

definition reconcile_failure :: "string \<Rightarrow> attempt \<Rightarrow> go_error option prog" where
  "reconcile_failure failure attempt =
     NowC (\<lambda>now.
     let attempt = attempt\<lparr>aReason := ''command finished; waiting for import history''\<rparr>
     in reconcile_store None
          (if time_sub now (aImportTerminalAt attempt) \<ge> 30 * second
           then attempt\<lparr>aState := Failed, aReason := failure\<rparr> else attempt))"

definition reconcile :: "attempt \<Rightarrow> go_error option prog" where
  "reconcile attempt =
     CheckImportC attempt (\<lambda>status.
     case status of
       Inl err \<Rightarrow> reconcile_store (Some err)
                   (attempt\<lparr>aReason := ''checking import: '' @ error_text err\<rparr>)
     | Inr status \<Rightarrow>
         if raw_len (isReceipt status) \<noteq> 0
         then reconcile_store None
                (attempt\<lparr>aState := Imported, aReason := [], aImportReceipt := isReceipt status\<rparr>)
         else if isFailure status \<noteq> []
         then (if aImportTerminalAt attempt = zero_time
               then NowC (\<lambda>now. reconcile_failure (isFailure status) (attempt\<lparr>aImportTerminalAt := now\<rparr>))
               else reconcile_failure (isFailure status) attempt)
         else if aCommandID attempt = 0
         then reconcile_store None
                (attempt\<lparr>aReason := ''import submission uncertain; checking history without resubmitting''\<rparr>)
         else reconcile_store None attempt)"

text \<open>The part of \<open>execute\<close> after the intent to import has been stored.\<close>

definition submit :: "attempt \<Rightarrow> go_error option prog" where
  "submit attempt =
     SubmitC attempt (\<lambda>command.
     NowC (\<lambda>now.
     let attempt = (case command of
           Inl submitErr \<Rightarrow>
             attempt\<lparr>aReason := ''import submission uncertain: '' @ error_text submitErr\<rparr>
         | Inr commandID \<Rightarrow> attempt\<lparr>aCommandID := commandID\<rparr>)\<lparr>aUpdatedAt := now\<rparr>
     in UpdateAttemptC attempt (\<lambda>err.
        case err of
          Some err \<Rightarrow> Done (errors_join (err_of command) (Some err))
        | None \<Rightarrow> bind (reconcile attempt) (\<lambda>err. Done (errors_join (err_of command) err)))))"

definition execute :: "job \<Rightarrow> attempt \<Rightarrow> go_error option prog" where
  "execute job attempt =
     RepairC job attempt (\<lambda>prepared.
     case prepared of
       Inl err \<Rightarrow>
         bind (finish attempt (if as_blocked err \<noteq> None then Blocked else Failed) (error_text err))
           (\<lambda>finishErr. Done (errors_join (Some err) finishErr))
     | Inr prepared \<Rightarrow>
         NowC (\<lambda>now.
         let attempt = attempt\<lparr>aOutputPath := piOutputPath prepared,
               aImportRequest := piRequest prepared,
               aHistoryIDBefore := piHistoryIDBefore prepared, aState := Importing,
               aImportStartedAt := now, aUpdatedAt := now\<rparr>
         in UpdateAttemptC attempt (\<lambda>err.
            case err of Some err \<Rightarrow> Done (Some err) | None \<Rightarrow> submit attempt)))"

definition Run :: "int \<Rightarrow> go_error option prog" where
  "Run i =
     GetC i (\<lambda>job.
     case job of
       Inl err \<Rightarrow> Done (Some err)
     | Inr job \<Rightarrow>
         if jState job = Ready
         then NowC (\<lambda>now.
              StartC i now (\<lambda>attempt.
              case attempt of Inl err \<Rightarrow> Done (Some err) | Inr attempt \<Rightarrow> execute job attempt))
         else if jState job \<noteq> Running \<and> jState job \<noteq> Importing then Done None
         else LatestAttemptC i (\<lambda>attempt.
              case attempt of
                Inl err \<Rightarrow> Done (Some err)
              | Inr attempt \<Rightarrow>
                  if aState attempt = Running
                  then finish attempt Failed ''repair interrupted before import; reconsider to retry''
                  else reconcile attempt))"

section \<open>The scheduler\<close>

subsection \<open>Planning\<close>

text \<open>The loop of \<open>planningDelay\<close>: at most \<open>attempt - 1\<close> doublings.\<close>

function delay_loop :: "int \<Rightarrow> int \<Rightarrow> int \<Rightarrow> int" where
  "delay_loop count attempt delay =
     (if count < attempt \<and> delay < 6 * hour then delay_loop (count + 1) attempt (delay * 2) else delay)"
  by auto
termination
  by (relation "measure (\<lambda>(count, attempt, delay). nat (attempt - count))") auto

declare delay_loop.simps [simp del]

definition planningDelay :: "int \<Rightarrow> int" where
  "planningDelay attempt = min (delay_loop 1 attempt (5 * minute)) (6 * hour)"

definition plan :: "job \<Rightarrow> go_error option prog" where
  "plan job =
     PlanC job (\<lambda>decision.
     NowC (\<lambda>now.
     let job = job\<lparr>jPlanningAttempts := jPlanningAttempts job + 1, jUpdatedAt := now\<rparr>;
         job = (case decision of
             Inl err \<Rightarrow> job\<lparr>jReason := ''planning: '' @ error_text err,
                           jRetryAt := jUpdatedAt job + planningDelay (jPlanningAttempts job)\<rparr>
           | Inr decision \<Rightarrow> job\<lparr>jPlan := dData decision, jReason := dReason decision,
                                jState := (if dRepair decision then Ready else Blocked)\<rparr>)
     in FinishPlanningC job (\<lambda>err. Done (errors_join (err_of decision) err))))"

subsection \<open>Advancing repairs\<close>

definition advanceJob :: "job \<Rightarrow> bool \<Rightarrow> go_error option prog" where
  "advanceJob job disabled =
     (if jState job = Importing \<or> jState job = Running then Run (jID job)
      else if \<not> jInQueue job then Done None
      else NowC (\<lambda>now.
        if now < jRetryAt job then Done None
        else if jPendingAction job = Delete then Done None
        else if jState job = Observed \<and> jCollectionError job = [] \<and> raw_len (jEvidence job) \<noteq> 0
        then plan job
        else if jState job = Ready \<and> jCollectionError job = [] \<and> \<not> disabled
        then ReadyC job (\<lambda>ready. if ready then Run (jID job) else Done None)
        else Done None))"

fun advance_loop :: "bool \<Rightarrow> job list \<Rightarrow> go_error option \<Rightarrow> go_error option prog" where
  "advance_loop disabled [] failures = Done failures"
| "advance_loop disabled (job # jobs) failures =
     CtxErrC (\<lambda>cancelled.
     case cancelled of
       Some err \<Rightarrow> Done (Some err)
     | None \<Rightarrow>
         bind (advanceJob job disabled) (\<lambda>err.
         advance_loop disabled jobs
           (case err of
              None \<Rightarrow> failures
            | Some err \<Rightarrow> if error_is err ErrConflict then failures
                          else errors_join failures
                                 (Some (ErrWrap (''job '' @ itoa (jID job) @ '': '') err)))))"

definition advance :: "string \<Rightarrow> go_error option prog" where
  "advance name =
     ListC name (\<lambda>listed.
     case listed of
       Inl err \<Rightarrow> Done (Some err)
     | Inr listed \<Rightarrow>
         DisabledC (\<lambda>disabled.
         case disabled of
           Inl err \<Rightarrow> Done (Some err)
         | Inr disabled \<Rightarrow> advance_loop disabled listed None))"

subsection \<open>Observing the queue\<close>

fun removals_loop :: "queue_key list \<Rightarrow> job list \<Rightarrow> go_error option prog" where
  "removals_loop complete [] = Done None"
| "removals_loop complete (job # jobs) =
     (if QueueKey job \<notin> set complete \<or> jPendingAction job \<noteq> [] \<or> jState job = Removed
      then removals_loop complete jobs
      else NowC (\<lambda>now.
           RequestActionC (jID job) Delete [] 0 now (\<lambda>err.
           case err of
             None \<Rightarrow> removals_loop complete jobs
           | Some err \<Rightarrow> if error_is err ErrConflict then removals_loop complete jobs
                         else Done (Some err))))"

definition requestCompletedRemovals :: "string \<Rightarrow> queue_key list \<Rightarrow> go_error option prog" where
  "requestCompletedRemovals name complete =
     DisabledC (\<lambda>disabled.
     case disabled of
       Inl err \<Rightarrow> Done (Some err)
     | Inr disabled \<Rightarrow>
         if disabled \<or> complete = [] then Done None
         else ListC name (\<lambda>listed.
              case listed of
                Inl err \<Rightarrow> Done (Some err)
              | Inr listed \<Rightarrow> removals_loop complete listed))"

fun observe_loop :: "string \<Rightarrow> job list \<Rightarrow> go_error option prog" where
  "observe_loop name [] = Done None"
| "observe_loop name (job # jobs) =
     NowC (\<lambda>now.
     ObserveC (job\<lparr>jService := name, jUpdatedAt := now\<rparr>) (\<lambda>current.
     case current of Inl err \<Rightarrow> Done (Some err) | Inr _ \<Rightarrow> observe_loop name jobs))"

definition observe :: "string \<Rightarrow> go_error option prog" where
  "observe name =
     ListC name (\<lambda>previous.
     case previous of
       Inl err \<Rightarrow> Done (Some err)
     | Inr previous \<Rightarrow>
         ServiceObserveC previous (\<lambda>observed.
         case observed of
           Inl err \<Rightarrow> Done (Some err)
         | Inr observed \<Rightarrow>
             NowC (\<lambda>now.
             ReconcileQueueC name (oQueue observed) now (\<lambda>err.
             case err of
               Some err \<Rightarrow> Done (Some err)
             | None \<Rightarrow>
                 bind (observe_loop name (oJobs observed)) (\<lambda>err.
                 case err of
                   Some err \<Rightarrow> Done (Some err)
                 | None \<Rightarrow> requestCompletedRemovals name (oComplete observed))))))"

text \<open>
  One turn of the loop of \<open>Run\<close>: observe the queue when it is time, then advance the repairs; the
  result is the time of the next observation.
\<close>

definition tick :: "string \<Rightarrow> int \<Rightarrow> gotime \<Rightarrow> gotime prog" where
  "tick name interval nextObservation =
     NowC (\<lambda>now.
     bind (if \<not> now < nextObservation
           then bind (observe name) (\<lambda>err.
                case err of
                  Some _ \<Rightarrow> Done (now + interval)
                | None \<Rightarrow> NowC (\<lambda>_. Done (now + interval)))
           else Done nextObservation) (\<lambda>nextObservation.
     bind (advance name) (\<lambda>_. Done nextObservation)))"

subsection \<open>Removing queue tracking\<close>

fun remove_loop :: "job list \<Rightarrow> go_error option \<Rightarrow> go_error option prog" where
  "remove_loop [] failures = Done failures"
| "remove_loop (job # jobs) failures =
     (if jPendingAction job \<noteq> Delete then remove_loop jobs failures
      else NowC (\<lambda>now.
        if now < jRetryAt job then remove_loop jobs failures
        else NowC (\<lambda>now.
          StartRemovalC (jID job) now (\<lambda>requested.
          case requested of
            Inl err \<Rightarrow> if error_is err ErrConflict then remove_loop jobs failures else Done (Some err)
          | Inr requested \<Rightarrow>
              RemoveC requested (\<lambda>removeErr.
              NowC (\<lambda>now.
              FinishRemovalC requested removeErr now (\<lambda>storeErr.
              remove_loop jobs
                (case errors_join removeErr storeErr of
                   None \<Rightarrow> failures
                 | Some err \<Rightarrow> errors_join failures
                     (Some (ErrWrap (''job '' @ itoa (jID job) @ '': '') err))))))))))"

definition removeRequested :: "string \<Rightarrow> go_error option prog" where
  "removeRequested name =
     ListC name (\<lambda>listed.
     case listed of Inl err \<Rightarrow> Done (Some err) | Inr listed \<Rightarrow> remove_loop listed None)"

end
