(* ===== verification/Repair_Protocol.thy ===== *)
theory Repair_Protocol
  imports Repair_Engine
begin

text \<open>
  What the threads of the repair service keep to. \<open>follows\<close> says which calls a program may make,
  given the jobs it knows to be its service's own and the stage of the repair or removal it is in:
  only a worker starts and updates attempts, only for its own service, and it submits an import
  only right after storing the intent; only the actions thread starts and finishes removals. The
  programs of the engine and the scheduler follow it.
\<close>

section \<open>The protocol\<close>

datatype role = Worker | Actions

datatype stage =
    Idle
  | Fresh attempt
  | Intended attempt
  | Removal job

definition attempt_key :: "attempt \<Rightarrow> key" where
  "attempt_key a = (aJobID a, aNumber a)"

text \<open>The stage after a stored update.\<close>

definition next_stage :: "stage \<Rightarrow> attempt \<Rightarrow> stage" where
  "next_stage q a =
     (case q of Fresh b \<Rightarrow> if attempt_key a = attempt_key b \<and> aState a = Importing then Intended a else Idle
      | _ \<Rightarrow> Idle)"

inductive follows :: "role \<Rightarrow> string \<Rightarrow> int set \<Rightarrow> stage \<Rightarrow> 'a prog \<Rightarrow> bool"
  for r :: role and s :: string where
  finished: "follows r s K q (Done x)"
| drop: "follows r s K Idle p \<Longrightarrow> follows r s K q p"
| now: "(\<And>t. follows r s K q (k t)) \<Longrightarrow> follows r s K q (NowC k)"
| ctx: "(\<And>e. follows r s K q (k e)) \<Longrightarrow> follows r s K q (CtxErrC k)"
| disabled: "(\<And>x. follows r s K q (k x)) \<Longrightarrow> follows r s K q (DisabledC k)"
| get: "(\<And>x. follows r s K q (k x)) \<Longrightarrow> follows r s K q (GetC i k)"
| list: "(\<And>e. follows r s K q (k (Inl e))) \<Longrightarrow>
    (\<And>js. \<forall>j \<in> set js. jService j = s \<Longrightarrow> follows r s (K \<union> jID ` set js) q (k (Inr js))) \<Longrightarrow>
    follows r s K q (ListC s k)"
| latest: "i \<in> K \<Longrightarrow> (\<And>e. follows r s K q (k (Inl e))) \<Longrightarrow>
    (\<And>a. aJobID a = i \<Longrightarrow> 0 < aNumber a \<Longrightarrow> aState a \<in> attempt_states \<Longrightarrow>
       follows r s K q (k (Inr a))) \<Longrightarrow>
    follows r s K q (LatestAttemptC i k)"
| start: "r = Worker \<Longrightarrow> i \<in> K \<Longrightarrow> (\<And>e. follows r s K Idle (k (Inl e))) \<Longrightarrow>
    (\<And>a. aJobID a = i \<Longrightarrow> 0 < aNumber a \<Longrightarrow> follows r s K (Fresh a) (k (Inr a))) \<Longrightarrow>
    follows r s K q (StartC i t k)"
| update: "r = Worker \<Longrightarrow> aJobID a \<in> K \<Longrightarrow> 0 < aNumber a \<Longrightarrow> aState a \<in> attempt_states \<Longrightarrow>
    (\<And>e. follows r s K Idle (k (Some e))) \<Longrightarrow> follows r s K (next_stage q a) (k None) \<Longrightarrow>
    follows r s K q (UpdateAttemptC a k)"
| observe: "(\<And>x. follows r s K Idle (k x)) \<Longrightarrow> follows r s K q (ObserveC j k)"
| reconcile: "s \<noteq> [] \<Longrightarrow> (\<And>e. follows r s K Idle (k e)) \<Longrightarrow> follows r s K q (ReconcileQueueC s ks t k)"
| request: "(\<And>e. follows r s K Idle (k e)) \<Longrightarrow> follows r s K q (RequestActionC i act w ms t k)"
| finish_planning: "jState j \<in> {Observed, Ready, Blocked} \<Longrightarrow> (\<And>e. follows r s K Idle (k e)) \<Longrightarrow>
    follows r s K q (FinishPlanningC j k)"
| start_removal: "r = Actions \<Longrightarrow> i \<in> K \<Longrightarrow> (\<And>e. follows r s K Idle (k (Inl e))) \<Longrightarrow>
    (\<And>j. jID j = i \<Longrightarrow> follows r s K (Removal j) (k (Inr j))) \<Longrightarrow>
    follows r s K q (StartRemovalC i t k)"
| finish_removal: "r = Actions \<Longrightarrow> jID j \<in> K \<Longrightarrow> (\<And>e. follows r s K Idle (k e)) \<Longrightarrow>
    follows r s K q (FinishRemovalC j f t k)"
| repair: "q = Fresh a \<Longrightarrow> (\<And>x. follows r s K q (k x)) \<Longrightarrow> follows r s K q (RepairC j a k)"
| submit: "r = Worker \<Longrightarrow> q = Intended a \<Longrightarrow> (\<And>x. follows r s K Idle (k x)) \<Longrightarrow>
    follows r s K q (SubmitC a k)"
| check: "(\<And>x. follows r s K q (k x)) \<Longrightarrow> follows r s K q (CheckImportC a k)"
| service_observe: "(\<And>x. follows r s K q (k x)) \<Longrightarrow> follows r s K q (ServiceObserveC js k)"
| plan: "(\<And>x. follows r s K q (k x)) \<Longrightarrow> follows r s K q (PlanC j k)"
| ready: "(\<And>b. follows r s K q (k b)) \<Longrightarrow> follows r s K q (ReadyC j k)"
| remove: "q = Removal j \<Longrightarrow> (\<And>e. follows r s K q (k e)) \<Longrightarrow> follows r s K q (RemoveC j k)"

text \<open>Knowing more jobs does not hurt.\<close>

lemma follows_mono: "follows r s K q p \<Longrightarrow> K \<subseteq> L \<Longrightarrow> follows r s L q p"
proof (induction arbitrary: L rule: follows.induct)
  case (list K q k)
  have "follows r s (L \<union> jID ` set js) q (k (Inr js))" if "\<forall>j \<in> set js. jService j = s" for js
    using list.IH(2) [OF that] list.prems by blast
  with list show ?case by (intro follows.list) blast+
qed (blast intro: follows.intros)+

text \<open>Sequential composition: the second program starts afresh.\<close>

lemma follows_bind:
  "follows r s K q p \<Longrightarrow> (\<And>x L. K \<subseteq> L \<Longrightarrow> follows r s L Idle (f x)) \<Longrightarrow> follows r s K q (bind p f)"
proof (induction rule: follows.induct)
  case (list K q k)
  have "follows r s (K \<union> jID ` set js) q (bind (k (Inr js)) f)" if "\<forall>j \<in> set js. jService j = s" for js
    using list.IH(2) [OF that] list.prems by blast
  with list show ?case by (simp add: follows.list)
next
  case (finished K q x)
  then show ?case by (simp add: follows.drop)
next
  case (drop K p q)
  then show ?case by (blast intro: follows.drop)
qed (simp_all add: follows.intros)

section \<open>The engine follows the protocol\<close>

lemma follows_finish:
  "\<lbrakk>aJobID a \<in> K; 0 < aNumber a; st \<in> attempt_states\<rbrakk> \<Longrightarrow> follows Worker s K q (finish a st reason)"
  unfolding finish_def by (intro follows.now follows.update follows.finished) simp_all

lemma follows_reconcile_store:
  "\<lbrakk>aJobID a \<in> K; 0 < aNumber a; aState a \<in> attempt_states\<rbrakk> \<Longrightarrow>
   follows Worker s K q (reconcile_store e a)"
  unfolding reconcile_store_def by (intro follows.now follows.update follows.finished) simp_all

lemma follows_reconcile_failure:
  "\<lbrakk>aJobID a \<in> K; 0 < aNumber a; aState a \<in> attempt_states\<rbrakk> \<Longrightarrow>
   follows Worker s K q (reconcile_failure f a)"
  unfolding reconcile_failure_def Let_def
  by (intro follows.now follows_reconcile_store) (simp_all add: attempt_states_def)

lemma follows_reconcile:
  "\<lbrakk>aJobID a \<in> K; 0 < aNumber a; aState a \<in> attempt_states\<rbrakk> \<Longrightarrow> follows Worker s K q (reconcile a)"
  unfolding reconcile_def
  by (rule follows.check)
    (auto split: sum.split intro!: follows.now follows_reconcile_store follows_reconcile_failure
      simp: attempt_states_def)

lemma follows_submit:
  "\<lbrakk>aJobID a \<in> K; 0 < aNumber a; aState a = Importing\<rbrakk> \<Longrightarrow>
   follows Worker s K (Intended a) (submit a)"
  unfolding submit_def Let_def
  by (intro follows.submit follows.now follows.update)
    (auto split: sum.split option.split simp: attempt_states_def
      intro!: follows.finished follows_bind [OF follows_reconcile])

lemma follows_execute:
  assumes "aJobID a \<in> K" "0 < aNumber a"
  shows "follows Worker s K (Fresh a) (execute j a)"
  unfolding execute_def
proof (rule follows.repair [OF refl])
  fix x
  show "follows Worker s K (Fresh a) (case x of
       Inl err \<Rightarrow>
         bind (finish a (if as_blocked err \<noteq> None then Blocked else Failed) (error_text err))
           (\<lambda>finishErr. Done (errors_join (Some err) finishErr))
     | Inr prepared \<Rightarrow>
         NowC (\<lambda>now.
         let attempt = a\<lparr>aOutputPath := piOutputPath prepared,
               aImportRequest := piRequest prepared,
               aHistoryIDBefore := piHistoryIDBefore prepared, aState := Importing,
               aImportStartedAt := now, aUpdatedAt := now\<rparr>
         in UpdateAttemptC attempt (\<lambda>err.
            case err of Some err \<Rightarrow> Done (Some err) | None \<Rightarrow> submit attempt)))"
  proof (cases x)
    case (Inl err)
    then show ?thesis
      using assms by (auto intro!: follows_bind follows_finish follows.finished simp: attempt_states_def)
  next
    case (Inr p)
    show ?thesis
      unfolding Inr sum.case Let_def using assms
      by (intro follows.now follows.update)
        (simp_all add: attempt_states_def next_stage_def attempt_key_def follows_submit follows.finished)
  qed
qed

lemma follows_Run: "i \<in> K \<Longrightarrow> follows Worker s K q (Run i)"
  unfolding Run_def
  by (rule follows.get)
    (auto split: sum.split intro!: follows.finished follows.now follows.start follows.latest
      follows_execute follows_finish follows_reconcile simp: attempt_states_def)

section \<open>The scheduler follows the protocol\<close>

lemma follows_plan: "jState j = Observed \<Longrightarrow> follows r s K q (plan j)"
  unfolding plan_def Let_def
  by (intro follows.plan follows.now follows.finish_planning follows.finished)
    (simp split: sum.split)

lemma follows_advanceJob: "jID j \<in> K \<Longrightarrow> follows Worker s K q (advanceJob j disabled)"
  unfolding advanceJob_def
  by (auto intro!: follows_Run follows.finished follows.now follows_plan follows.ready)

lemma follows_advance_loop:
  "jID ` set js \<subseteq> K \<Longrightarrow> follows Worker s K Idle (advance_loop disabled js failures)"
proof (induction js arbitrary: K failures)
  case (Cons j js)
  have "follows Worker s K Idle (bind (advanceJob j disabled) f)"
    if "\<And>e L. K \<subseteq> L \<Longrightarrow> follows Worker s L Idle (f e)" for f :: "go_error option \<Rightarrow> go_error option prog"
    using Cons.prems that by (intro follows_bind follows_advanceJob) auto
  with Cons show ?case
    by (auto split: option.split intro!: follows.ctx follows.finished)
qed (simp add: follows.finished)

lemma follows_advance: "follows Worker s K Idle (advance s)"
  unfolding advance_def
  by (intro follows.list)
    (auto split: sum.split intro!: follows.finished follows.disabled follows_advance_loop)

lemma follows_removals_loop: "follows r s K Idle (removals_loop complete js)"
  by (induction js)
    (auto split: option.split intro!: follows.finished follows.now follows.request)

lemma follows_requestCompletedRemovals: "follows r s K Idle (requestCompletedRemovals s complete)"
  unfolding requestCompletedRemovals_def
  by (rule follows.disabled)
    (auto split: sum.split intro!: follows.finished follows.list follows_removals_loop)

lemma follows_observe_loop: "follows r s K Idle (observe_loop s js)"
  by (induction js)
    (auto split: sum.split intro!: follows.finished follows.now follows.observe)

lemma follows_observe: "s \<noteq> [] \<Longrightarrow> follows r s K Idle (observe s)"
  unfolding observe_def
  by (rule follows.list)
    (auto split: sum.split option.split intro!: follows.finished follows.service_observe follows.now
      follows.reconcile follows_bind [OF follows_observe_loop] follows_requestCompletedRemovals)

lemma follows_tick: "s \<noteq> [] \<Longrightarrow> follows Worker s K Idle (tick s interval next)"
  unfolding tick_def
  by (rule follows.now)
    (auto split: option.split intro!: follows_bind [OF follows_bind [OF follows_observe]]
      follows_bind [OF follows_advance]
      follows.finished follows.now)

lemma follows_remove_loop:
  "jID ` set js \<subseteq> K \<Longrightarrow> follows Actions s K Idle (remove_loop js failures)"
  by (induction js arbitrary: failures)
    (auto split: sum.split option.split intro!: follows.finished follows.now follows.start_removal
      follows.remove follows.finish_removal)

lemma follows_removeRequested: "follows Actions s K Idle (removeRequested s)"
  unfolding removeRequested_def
  by (rule follows.list) (auto split: sum.split intro!: follows.finished follows_remove_loop)

end
