(* ===== verification/Repair_System.thy ===== *)
theory Repair_System
  imports Repair_Protocol
begin

text \<open>
  The running service: for every media service a worker thread and an actions thread
  (\<open>Scheduler.Run\<close> and \<open>runActions\<close>), the requests of the operators, and crashes, all sharing the
  database. The invariant says that the store invariant holds, that no attempt has been submitted
  twice, and that what each thread relies on holds whatever the others do.
\<close>

section \<open>The transition system\<close>

record 'db sys =
  sdb :: 'db
  submitted :: "key list"
  workers :: "string \<Rightarrow> gotime prog"
  actors :: "string \<Rightarrow> go_error option prog"

definition boot :: "'db \<Rightarrow> key list \<Rightarrow> 'db sys" where
  "boot d l = \<lparr>sdb = d, submitted = l, workers = (\<lambda>_. Done zero_time), actors = (\<lambda>_. Done None)\<rparr>"

inductive sys_step :: "'db gorm \<Rightarrow> int \<Rightarrow> 'db sys \<Rightarrow> 'db sys \<Rightarrow> bool" for g and interval where
  worker: "call g (workers \<sigma> s) (sdb \<sigma>) (submitted \<sigma>) p d l \<Longrightarrow>
    sys_step g interval \<sigma> (\<sigma>\<lparr>sdb := d, submitted := l, workers := (workers \<sigma>)(s := p)\<rparr>)"
| worker_turn: "workers \<sigma> s = Done next \<Longrightarrow> s \<noteq> [] \<Longrightarrow>
    sys_step g interval \<sigma> (\<sigma>\<lparr>workers := (workers \<sigma>)(s := tick s interval next)\<rparr>)"
| actor: "call g (actors \<sigma> s) (sdb \<sigma>) (submitted \<sigma>) p d l \<Longrightarrow>
    sys_step g interval \<sigma> (\<sigma>\<lparr>sdb := d, submitted := l, actors := (actors \<sigma>)(s := p)\<rparr>)"
| actor_turn: "actors \<sigma> s = Done e \<Longrightarrow> s \<noteq> [] \<Longrightarrow>
    sys_step g interval \<sigma> (\<sigma>\<lparr>actors := (actors \<sigma>)(s := removeRequested s)\<rparr>)"
| operator: "requestAction g i act w ms at expected (sdb \<sigma>) = (r, d) \<Longrightarrow>
    sys_step g interval \<sigma> (\<sigma>\<lparr>sdb := d\<rparr>)"
| crash: "sys_step g interval \<sigma> (boot (sdb \<sigma>) (submitted \<sigma>))"

section \<open>What a thread relies on\<close>

definition owned :: "string \<Rightarrow> tables \<Rightarrow> int set" where
  "owned s t = {i. \<exists>j. tjobs t i = Some j \<and> jService j = s}"

definition stage_holds :: "stage \<Rightarrow> tables \<Rightarrow> key list \<Rightarrow> bool" where
  "stage_holds q t l =
     (case q of
        Idle \<Rightarrow> True
      | Fresh a \<Rightarrow> attempt_key a \<notin> set l \<and>
          (\<exists>b. tattempts t (attempt_key a) = Some b \<and> aState b = Running)
      | Intended a \<Rightarrow> attempt_key a \<notin> set l \<and>
          (\<exists>b. tattempts t (attempt_key a) = Some b \<and> aState b = Importing \<and>
               aImportRequest b = aImportRequest a)
      | Removal j \<Rightarrow> \<exists>k. tjobs t (jID j) = Some k \<and> phase_of k = (Removing, Delete))"

text \<open>The job a stage is about.\<close>

primrec stage_job :: "stage \<Rightarrow> int set" where
  "stage_job Idle = {}"
| "stage_job (Fresh a) = {aJobID a}"
| "stage_job (Intended a) = {aJobID a}"
| "stage_job (Removal j) = {jID j}"

definition role_stage :: "role \<Rightarrow> stage \<Rightarrow> bool" where
  "role_stage r q = (case q of Idle \<Rightarrow> True | Removal _ \<Rightarrow> r = Actions | _ \<Rightarrow> r = Worker)"

definition standing :: "role \<Rightarrow> string \<Rightarrow> int set \<Rightarrow> stage \<Rightarrow> tables \<Rightarrow> key list \<Rightarrow> bool" where
  "standing r s K q t l \<longleftrightarrow>
     K \<subseteq> owned s t \<and> stage_job q \<subseteq> K \<and> role_stage r q \<and> stage_holds q t l"

definition thread_ok :: "role \<Rightarrow> string \<Rightarrow> 'a prog \<Rightarrow> tables \<Rightarrow> key list \<Rightarrow> bool" where
  "thread_ok r s p t l \<longleftrightarrow> (\<exists>K q. follows r s K q p \<and> standing r s K q t l)"

definition log_ok :: "tables \<Rightarrow> key list \<Rightarrow> bool" where
  "log_ok t l \<longleftrightarrow> distinct l \<and> (\<forall>k \<in> set l. tattempts t k \<noteq> None)"

text \<open>
  What a thread of service \<open>s\<close> does to the tables and the log: steps of the environment, ending
  removals of its own jobs only and only as the actions thread; or a step of a repair of one of
  its jobs, or one submission for such a job, only as the worker.
\<close>

definition effect :: "role \<Rightarrow> string \<Rightarrow> tables \<Rightarrow> key list \<Rightarrow> tables \<Rightarrow> key list \<Rightarrow> bool" where
  "effect r s t l t' l' \<longleftrightarrow>
     (\<exists>F R. env_steps F R t t' \<and> l' = l \<and> (\<forall>i \<in> F. r = Actions \<and> i \<in> owned s t)) \<or>
     (r = Worker \<and> l' = l \<and> (\<exists>i \<in> owned s t. engine_step i t t')) \<or>
     (r = Worker \<and> t' = t \<and> (\<exists>k. l' = k # l \<and> fst k \<in> owned s t))"

lemma owned_disjoint: "s \<noteq> s' \<Longrightarrow> i \<in> owned s t \<Longrightarrow> i \<notin> owned s' t"
  by (auto simp: owned_def)

lemma owned_persists: "persists t t' \<Longrightarrow> owned s t \<subseteq> owned s t'"
  unfolding owned_def persists_def by blast

lemma effect_persists: "effect r s t l t' l' \<Longrightarrow> persists t t'"
  unfolding effect_def
  by (blast intro: env_steps_persists engine_step_persists persists_refl)

lemma engine_step_attempts:
  assumes "engine_step i t t'" "tattempts t k \<noteq> None"
  shows "tattempts t' k \<noteq> None"
  using assms by (auto elim!: engine_step.cases)

lemma env_steps_attempts: "env_steps F R t t' \<Longrightarrow> tattempts t' = tattempts t"
  using env_steps_frozen by (auto simp: frozen_def)

lemma effect_inv: "effect r s t l t' l' \<Longrightarrow> store_inv t \<Longrightarrow> store_inv t'"
  unfolding effect_def by (blast intro: env_steps_inv engine_step_inv)

text \<open>What another thread relies on is not disturbed.\<close>

lemma attempt_stable:
  assumes eff: "effect r s t l t' l'" and other: "(r, s) \<noteq> (Worker, s')"
    and own: "aJobID a \<in> owned s' t"
  shows "tattempts t' (attempt_key a) = tattempts t (attempt_key a)"
    "attempt_key a \<in> set l' \<longleftrightarrow> attempt_key a \<in> set l"
proof -
  have dis: "aJobID a \<notin> owned s t" if "r = Worker"
    using other that own owned_disjoint [of s' s "aJobID a" t] by simp
  from eff consider (env) F R where "env_steps F R t t'" "l' = l"
    | (engine) i where "engine_step i t t'" "l' = l" "i \<in> owned s t" "r = Worker"
    | (log) k where "t' = t" "l' = k # l" "fst k \<in> owned s t" "r = Worker"
    unfolding effect_def by blast
  then have "tattempts t' (attempt_key a) = tattempts t (attempt_key a) \<and>
      (attempt_key a \<in> set l' \<longleftrightarrow> attempt_key a \<in> set l)"
  proof cases
    case env
    then show ?thesis by (simp add: env_steps_attempts)
  next
    case engine
    with dis have "aJobID a \<noteq> i" by blast
    with engine engine_step_other(2) show ?thesis by (simp add: attempt_key_def)
  next
    case log
    with dis have "attempt_key a \<noteq> k" by (auto simp: attempt_key_def)
    with log show ?thesis by simp
  qed
  then show "tattempts t' (attempt_key a) = tattempts t (attempt_key a)"
    "attempt_key a \<in> set l' \<longleftrightarrow> attempt_key a \<in> set l" by blast+
qed

lemma removal_stable:
  assumes eff: "effect r s t l t' l'" and inv: "store_inv t" and other: "(r, s) \<noteq> (Actions, s')"
    and own: "i \<in> owned s' t" and k: "tjobs t i = Some k" "phase_of k = (Removing, Delete)"
  shows "\<exists>k. tjobs t' i = Some k \<and> phase_of k = (Removing, Delete)"
proof -
  from eff consider (env) F R where "env_steps F R t t'" "\<forall>i \<in> F. r = Actions \<and> i \<in> owned s t"
    | (engine) i where "engine_step i t t'" | (same) "t' = t"
    unfolding effect_def by blast
  then show ?thesis
  proof cases
    case env
    have "i \<notin> F" using env(2) own other owned_disjoint [of s s' i t] by auto
    from env_steps_removing [OF env(1) this k] show ?thesis .
  next
    case engine
    from engine_step_removing [OF engine inv k] k(2) show ?thesis by blast
  next
    case same
    with k show ?thesis by blast
  qed
qed

lemma stage_stable:
  assumes eff: "effect r s t l t' l'" and inv: "store_inv t" and other: "(r, s) \<noteq> (r', s')"
    and job: "stage_job q \<subseteq> owned s' t" and role: "role_stage r' q" and holds: "stage_holds q t l"
  shows "stage_holds q t' l'"
proof (cases q)
  case Idle
  then show ?thesis by (simp add: stage_holds_def)
next
  case (Removal j)
  with role other have "(r, s) \<noteq> (Actions, s')" by (simp add: role_stage_def)
  from removal_stable [OF eff inv this] Removal job holds show ?thesis
    by (auto simp: stage_holds_def)
next
  case (Fresh a)
  with role other have "(r, s) \<noteq> (Worker, s')" by (simp add: role_stage_def)
  from attempt_stable [OF eff this, of a] Fresh job holds show ?thesis
    by (simp add: stage_holds_def)
next
  case (Intended a)
  with role other have "(r, s) \<noteq> (Worker, s')" by (simp add: role_stage_def)
  from attempt_stable [OF eff this, of a] Intended job holds show ?thesis
    by (simp add: stage_holds_def)
qed

lemma thread_stable:
  assumes "effect r s t l t' l'" "store_inv t" "(r, s) \<noteq> (r', s')" "thread_ok r' s' p t l"
  shows "thread_ok r' s' p t' l'"
proof -
  from assms(4) obtain K q where "follows r' s' K q p" "K \<subseteq> owned s' t" "stage_job q \<subseteq> K"
    "role_stage r' q" "stage_holds q t l"
    unfolding thread_ok_def standing_def by blast
  with stage_stable [OF assms(1-3), of q] owned_persists [OF effect_persists [OF assms(1)], of s']
  show ?thesis unfolding thread_ok_def standing_def by blast
qed

lemma standing_idle: "K \<subseteq> owned s t \<Longrightarrow> standing r s K Idle t l"
  by (simp add: standing_def role_stage_def stage_holds_def)

lemma thread_start:
  assumes "follows r s {} Idle p"
  shows "thread_ok r s p t l"
  unfolding thread_ok_def using assms standing_idle [of "{}" s t r l] by auto

lemma thread_Done: "thread_ok r s (Done x) t l"
  by (rule thread_start) (rule follows.finished)

section \<open>Every call keeps to what the threads rely on\<close>

lemma env_effect: "env_steps {} R t t' \<Longrightarrow> effect r s t l t' l"
  unfolding effect_def by blast

lemma env_log: "env_steps F R t t' \<Longrightarrow> log_ok t l \<Longrightarrow> log_ok t' l"
  by (simp add: log_ok_def env_steps_attempts)

lemma thread_idle:
  assumes "follows r s K Idle p" "K \<subseteq> owned s t" "persists t t'"
  shows "thread_ok r s p t' l"
  unfolding thread_ok_def using assms owned_persists [of t t' s] standing_idle [of K s t']
  by blast

text \<open>The outcome of a call: its effect, the log, and the rest of the program.\<close>

definition call_sound ::
  "role \<Rightarrow> string \<Rightarrow> tables \<Rightarrow> key list \<Rightarrow> 'a prog \<Rightarrow> tables \<Rightarrow> key list \<Rightarrow> bool" where
  "call_sound r s t l p' t' l' \<longleftrightarrow> effect r s t l t' l' \<and> log_ok t' l' \<and> thread_ok r s p' t' l'"

lemma sound_same:
  assumes "follows r s K q p'" "standing r s K q t l" "log_ok t l"
  shows "call_sound r s t l p' t l"
  using assms env_effect [of "{}" t t] unfolding call_sound_def thread_ok_def by blast

lemma sound_env:
  assumes "env_steps F R t t'" "\<forall>i \<in> F. r = Actions \<and> i \<in> owned s t"
    "follows r s K Idle p'" "K \<subseteq> owned s t" "log_ok t l"
  shows "call_sound r s t l p' t' l"
proof -
  have "effect r s t l t' l" using assms(1,2) unfolding effect_def by blast
  with assms show ?thesis
    unfolding call_sound_def by (blast intro: env_log thread_idle env_steps_persists)
qed

lemma sound_engine:
  assumes "engine_step i t t'" "i \<in> owned s t" "log_ok t l"
    "follows Worker s K q p'" "K \<subseteq> owned s t" "stage_job q \<subseteq> K" "role_stage Worker q"
    "stage_holds q t' l"
  shows "call_sound Worker s t l p' t' l"
proof -
  have "effect Worker s t l t' l" using assms(1,2) unfolding effect_def by blast
  moreover from assms(1,3) have "log_ok t' l" by (simp add: log_ok_def engine_step_attempts)
  moreover have "standing Worker s K q t' l"
    unfolding standing_def
    using assms(5-8) owned_persists [OF engine_step_persists [OF assms(1)], of s] by blast
  ultimately show ?thesis using assms(4) unfolding call_sound_def thread_ok_def by blast
qed

lemma sound_submit:
  assumes "standing Worker s K (Intended a) t l" "follows Worker s K Idle p'" "log_ok t l"
  shows "call_sound Worker s t l p' t (attempt_key a # l)"
proof -
  from assms(1) have own: "aJobID a \<in> owned s t" "K \<subseteq> owned s t" and
    new: "attempt_key a \<notin> set l" "tattempts t (attempt_key a) \<noteq> None"
    by (auto simp: standing_def stage_holds_def)
  have "effect Worker s t l t (attempt_key a # l)"
    unfolding effect_def using own(1) by (auto simp: attempt_key_def)
  moreover have "log_ok t (attempt_key a # l)" using new assms(3) by (simp add: log_ok_def)
  moreover have "thread_ok Worker s p' t (attempt_key a # l)"
    by (rule thread_idle [OF assms(2) own(2) persists_refl])
  ultimately show ?thesis unfolding call_sound_def by blast
qed

context gorm_db
begin

lemma owned_nonzero: "i \<in> owned s (view d) \<Longrightarrow> i \<noteq> 0"
  by (auto simp: owned_def dest: job_key)

lemma sound_List:
  assumes err: "\<And>e. follows r s K q (k (Inl e))"
    and ok: "\<And>js. \<forall>j \<in> set js. jService j = s \<Longrightarrow> follows r s (K \<union> jID ` set js) q (k (Inr js))"
    and s: "s \<noteq> []" and st: "standing r s K q (view d) l" and log: "log_ok (view d) l"
  shows "call_sound r s (view d) l (k (List g s d)) (view d) l"
proof (cases "find_jobs g d s")
  case (Inl e)
  with sound_same [OF err st log] show ?thesis by (simp add: List_def)
next
  case (Inr js)
  have rows: "\<exists>i. tjobs (view d) i = Some j \<and> jService j = s" if "j \<in> set js" for j
    using find_jobs_rows [OF Inr s] that by auto
  then have "\<forall>j \<in> set (sort_key jID js). jService j = s" by auto
  from ok [OF this] have f: "follows r s (K \<union> jID ` set js) q (k (List g s d))"
    by (simp add: List_def Inr)
  have "jID ` set js \<subseteq> owned s (view d)"
    using rows job_key unfolding owned_def by fastforce
  with st have "standing r s (K \<union> jID ` set js) q (view d) l" by (auto simp: standing_def)
  from sound_same [OF f this log] show ?thesis .
qed

lemma sound_Latest:
  assumes i: "i \<in> K" and err: "\<And>e. follows r s K q (k (Inl e))"
    and ok: "\<And>a. aJobID a = i \<Longrightarrow> 0 < aNumber a \<Longrightarrow> aState a \<in> attempt_states \<Longrightarrow>
       follows r s K q (k (Inr a))"
    and st: "standing r s K q (view d) l" and log: "log_ok (view d) l" and inv: "store_inv (view d)"
  shows "call_sound r s (view d) l (k (LatestAttempt g i d)) (view d) l"
proof (cases "last_attempt g d i")
  case (Inl e)
  with sound_same [OF err st log] show ?thesis by (simp add: LatestAttempt_def)
next
  case (Inr a)
  from i st have "i \<noteq> 0" using owned_nonzero by (auto simp: standing_def)
  with last_attempt_row [OF Inr] have row: "tattempts (view d) (i, aNumber a) = Some a" by simp
  from attempt_key [OF row] store_inv_attempt [OF inv row]
  have "follows r s K q (k (Inr a))" by (intro ok) simp_all
  from sound_same [OF this st log] Inr show ?thesis by (simp add: LatestAttempt_def)
qed

lemma sound_Start:
  assumes start: "Start g i at d = (x, d')" and i: "i \<in> K"
    and err: "\<And>e. follows Worker s K Idle (k (Inl e))"
    and ok: "\<And>a. aJobID a = i \<Longrightarrow> 0 < aNumber a \<Longrightarrow> follows Worker s K (Fresh a) (k (Inr a))"
    and K: "K \<subseteq> owned s (view d)" and log: "log_ok (view d) l" and inv: "store_inv (view d)"
  shows "call_sound Worker s (view d) l (k x) (view d') l"
proof (cases x)
  case (Inl e)
  with start have "d' = d" unfolding Start_def by (blast dest: transaction_Inl)
  with Inl sound_same [OF err standing_idle [OF K] log] show ?thesis by simp
next
  case (Inr a)
  with start have start: "Start g i at d = (Inr a, d')" by simp
  from start inv obtain j where f: "tjobs (view d) i = Some j" "phase_of j = (Ready, [])" "i \<noteq> 0"
    "view d' = put_job (j\<lparr>jState := Running, jReason := [], jUpdatedAt := at\<rparr>)
       (put_attempt a (view d))"
    "aJobID a = i" "aState a = Running" "aPlan a = jPlan j" "aImportRequest a = None"
    "0 < aNumber a" "\<forall>n. tattempts (view d) (i, n) \<noteq> None \<longrightarrow> n < aNumber a"
    by (rule Start_facts)
  have "tattempts (view d) (i, aNumber a) = None" using f(10) by (metis less_irrefl)
  with log have "attempt_key a \<notin> set l" using f(5) by (auto simp: log_ok_def attempt_key_def)
  moreover have "tattempts (view d') (attempt_key a) = Some a"
    using f(4) by (simp add: attempt_key_def)
  ultimately have "stage_holds (Fresh a) (view d') l" using f(6) by (simp add: stage_holds_def)
  with Inr sound_engine [OF Start_step [OF start inv] _ log ok [OF f(5,9)] K] i K f(5) show ?thesis
    by (auto simp: role_stage_def)
qed

lemma sound_Update:
  assumes upd: "UpdateAttempt g a d = (x, d')"
    and a: "aJobID a \<in> K" "0 < aNumber a" "aState a \<in> attempt_states"
    and err: "\<And>e. follows Worker s K Idle (k (Some e))"
    and ok: "follows Worker s K (next_stage q a) (k None)"
    and st: "standing Worker s K q (view d) l" and log: "log_ok (view d) l"
  shows "call_sound Worker s (view d) l (k (err_of x)) (view d') l"
proof (cases x)
  case (Inl e)
  from st have K: "K \<subseteq> owned s (view d)" by (simp add: standing_def)
  from Inl upd have "d' = d" unfolding UpdateAttempt_def by (blast dest: transaction_Inl)
  with Inl sound_same [OF err standing_idle [OF K] log] show ?thesis by simp
next
  case (Inr u)
  with upd have upd: "UpdateAttempt g a d = (Inr u, d')" by simp
  from st have K: "K \<subseteq> owned s (view d)" by (simp add: standing_def)
  with a(1) have "aJobID a \<noteq> 0" using owned_nonzero by auto
  with upd a(2) obtain b j where f: "tattempts (view d) (aJobID a, aNumber a) = Some b"
    "view d' = put_job (j\<lparr>jState := aState a, jReason := aReason a, jUpdatedAt := aUpdatedAt a\<rparr>)
       (put_attempt (a\<lparr>aPlan := aPlan b, aStartedAt := aStartedAt b\<rparr>) (view d))"
    by (auto elim!: UpdateAttempt_facts)
  have step: "engine_step (aJobID a) (view d) (view d')"
    using UpdateAttempt_step [OF upd \<open>aJobID a \<noteq> 0\<close> _ a(3)] a(2) by simp
  have row: "tattempts (view d') (attempt_key a) = Some (a\<lparr>aPlan := aPlan b, aStartedAt := aStartedAt b\<rparr>)"
    using f(2) by (simp add: attempt_key_def)
  have "stage_holds (next_stage q a) (view d') l \<and> stage_job (next_stage q a) \<subseteq> K \<and>
      role_stage Worker (next_stage q a)"
    using st a(1) row
    by (auto simp: next_stage_def stage_holds_def standing_def role_stage_def split: stage.split)
  with Inr sound_engine [OF step _ log ok K] a(1) K show ?thesis by auto
qed

lemma StartRemoval_facts:
  assumes "StartRemoval g i at d = (Inr j, d')"
  shows "jID j = i" "\<exists>k. tjobs (view d') i = Some k \<and> phase_of k = (Removing, Delete)"
proof -
  from transaction_Inr [OF assms [unfolded StartRemoval_def]] obtain k where
    k: "first_job g d i = Inr k" "jPendingAction k = Delete" and
    j: "j = k\<lparr>jState := Removing, jUpdatedAt := at\<rparr>" and save: "save_job g d j = Inr d'"
    by (auto simp: and_then_Inr_iff Let_def)
  note f = first_job_facts [OF k(1)]
  with j show key: "jID j = i" by simp
  from save_job_row [OF save] key f(3) have "tjobs (view d') i = Some (stored j)" by simp
  with j k(2) show "\<exists>k. tjobs (view d') i = Some k \<and> phase_of k = (Removing, Delete)"
    by (simp add: phase_of_def)
qed

lemma sound_StartRemoval:
  assumes start: "StartRemoval g i at d = (x, d')" and i: "i \<in> K"
    and err: "\<And>e. follows Actions s K Idle (k (Inl e))"
    and ok: "\<And>j. jID j = i \<Longrightarrow> follows Actions s K (Removal j) (k (Inr j))"
    and K: "K \<subseteq> owned s (view d)" and log: "log_ok (view d) l"
  shows "call_sound Actions s (view d) l (k x) (view d') l"
proof (cases x)
  case (Inl e)
  with start have "d' = d" unfolding StartRemoval_def by (blast dest: transaction_Inl)
  with Inl sound_same [OF err standing_idle [OF K] log] show ?thesis by simp
next
  case (Inr j)
  with start have start: "StartRemoval g i at d = (Inr j, d')" by simp
  note f = StartRemoval_facts [OF start] and steps = StartRemoval_steps [OF start]
  from K owned_persists [OF env_steps_persists [OF steps], of s] i f
  have "standing Actions s K (Removal j) (view d') l"
    by (auto simp: standing_def role_stage_def stage_holds_def)
  with ok [OF f(1)] Inr have "thread_ok Actions s (k x) (view d') l"
    unfolding thread_ok_def by blast
  with env_effect [OF steps] env_log [OF steps log] show ?thesis by (simp add: call_sound_def)
qed

end

section \<open>One call of a thread\<close>

inductive_cases call_DoneE: "call g (Done x) d l p' d' l'"
inductive_cases call_NowE: "call g (NowC k) d l p' d' l'"
inductive_cases call_CtxErrE: "call g (CtxErrC k) d l p' d' l'"
inductive_cases call_DisabledE: "call g (DisabledC k) d l p' d' l'"
inductive_cases call_GetE: "call g (GetC i k) d l p' d' l'"
inductive_cases call_ListE: "call g (ListC s k) d l p' d' l'"
inductive_cases call_LatestE: "call g (LatestAttemptC i k) d l p' d' l'"
inductive_cases call_StartE: "call g (StartC i t k) d l p' d' l'"
inductive_cases call_UpdateE: "call g (UpdateAttemptC a k) d l p' d' l'"
inductive_cases call_ObserveE: "call g (ObserveC j k) d l p' d' l'"
inductive_cases call_ReconcileE: "call g (ReconcileQueueC s ks t k) d l p' d' l'"
inductive_cases call_RequestE: "call g (RequestActionC i act w ms t k) d l p' d' l'"
inductive_cases call_FinishPlanningE: "call g (FinishPlanningC j k) d l p' d' l'"
inductive_cases call_StartRemovalE: "call g (StartRemovalC i t k) d l p' d' l'"
inductive_cases call_FinishRemovalE: "call g (FinishRemovalC j f t k) d l p' d' l'"
inductive_cases call_RepairE: "call g (RepairC j a k) d l p' d' l'"
inductive_cases call_SubmitE: "call g (SubmitC a k) d l p' d' l'"
inductive_cases call_CheckE: "call g (CheckImportC a k) d l p' d' l'"
inductive_cases call_ServiceObserveE: "call g (ServiceObserveC js k) d l p' d' l'"
inductive_cases call_PlanE: "call g (PlanC j k) d l p' d' l'"
inductive_cases call_ReadyE: "call g (ReadyC j k) d l p' d' l'"
inductive_cases call_RemoveE: "call g (RemoveC j k) d l p' d' l'"

lemmas quiet_calls = call_NowE call_CtxErrE call_DisabledE call_GetE call_RepairE call_CheckE
  call_ServiceObserveE call_PlanE call_ReadyE call_RemoveE

context gorm_db
begin

lemma sound_reply:
  assumes "env_steps {} R (view d) (view (snd x))" "d' = d \<or> d' = snd x"
    and "follows r s K Idle p'" "K \<subseteq> owned s (view d)" "log_ok (view d) l"
  shows "call_sound r s (view d) l p' (view d') l"
  using assms sound_env [of "{}" R "view d" "view d'" r s K p' l] by auto

theorem call_is_sound:
  "\<lbrakk>follows r s K q p; call g p d l p' d' l'; s \<noteq> []; standing r s K q (view d) l; log_ok (view d) l;
    store_inv (view d)\<rbrakk> \<Longrightarrow> call_sound r s (view d) l p' (view d') l'"
proof (induction arbitrary: p' rule: follows.induct)
  case (finished K q x)
  then show ?case by (blast elim: call_DoneE)
next
  case (drop K p q)
  from drop.prems(3) have "K \<subseteq> owned s (view d)" by (simp add: standing_def)
  from drop.IH [OF drop.prems(1,2) standing_idle [OF this] drop.prems(4,5)] show ?case .
next
  case (list K q k)
  note st = list.prems(3,4)
  have "call_sound r s (view d) l (k (List g s d)) (view d) l"
    by (rule sound_List [OF list.hyps(1) list.hyps(2) list.prems(2) st])
  with list.prems(1) sound_same [OF list.hyps(1) st] show ?case by (auto elim!: call_ListE)
next
  case (latest i K q k)
  note st = latest.prems(3,4)
  have "call_sound r s (view d) l (k (LatestAttempt g i d)) (view d) l"
    by (rule sound_Latest [OF latest.hyps(1,2) latest.hyps(3) st latest.prems(5)])
  with latest.prems(1) sound_same [OF latest.hyps(2) st] show ?case by (auto elim!: call_LatestE)
next
  case (start i K k q t)
  note r = start.hyps(1) and log = start.prems(4) and inv = start.prems(5)
  from start.prems(3) have K: "K \<subseteq> owned s (view d)" by (simp add: standing_def)
  have "call_sound r s (view d) l (k x) (view d1) l" if "Start g i t d = (x, d1)" for x d1
    unfolding r
    by (rule sound_Start [OF that start.hyps(2) start.hyps(3) [unfolded r]
          start.hyps(4) [unfolded r] K log inv])
  moreover have "call_sound r s (view d) l (k (Inl e)) (view (snd (Start g i t d))) l" for e
    unfolding r
    by (rule sound_Start [where k = "\<lambda>_. k (Inl e)", OF surjective_pairing start.hyps(2) _ _ K log inv])
      (use start.hyps(3) in \<open>auto simp: r intro: follows.drop\<close>)
  ultimately show ?case
    using start.prems(1) sound_same [OF start.hyps(3) standing_idle [OF K] log]
    by (auto elim!: call_StartE)
next
  case (update a K k q)
  note r = update.hyps(1) and st = update.prems(3) and log = update.prems(4)
  from st have K: "K \<subseteq> owned s (view d)" by (simp add: standing_def)
  have "call_sound r s (view d) l (k (err_of x)) (view d1) l" if "UpdateAttempt g a d = (x, d1)" for x d1
    unfolding r
    by (rule sound_Update [OF that update.hyps(2-4) update.hyps(5,6) [unfolded r] st [unfolded r] log])
  moreover have "call_sound r s (view d) l (k (Some e)) (view (snd (UpdateAttempt g a d))) l" for e
    unfolding r
    by (rule sound_Update [where k = "\<lambda>_. k (Some e)", OF surjective_pairing update.hyps(2-4) _ _
          st [unfolded r] log])
      (use update.hyps(5) in \<open>auto simp: r intro: follows.drop\<close>)
  ultimately show ?case
    using update.prems(1) sound_same [OF update.hyps(5) standing_idle [OF K] log]
    by (auto elim!: call_UpdateE)
next
  case (observe K k q j)
  from observe.prems(3) have K: "K \<subseteq> owned s (view d)" by (simp add: standing_def)
  have reply: "call_sound r s (view d) l (k x) (view d1) l" if "d1 = d \<or> d1 = snd (Observe g j d)" for x d1
    by (rule sound_reply [OF Observe_steps [OF surjective_pairing] that observe.hyps(1) K observe.prems(4)])
  from observe.prems(1) show ?case by (auto elim!: call_ObserveE intro!: reply)
next
  case (reconcile K k q ks t)
  from reconcile.prems(3) have K: "K \<subseteq> owned s (view d)" by (simp add: standing_def)
  have reply: "call_sound r s (view d) l (k x) (view d1) l" if "d1 = d \<or> d1 = snd (ReconcileQueue g s ks t d)" for x d1
    by (rule sound_reply [OF ReconcileQueue_steps [OF surjective_pairing reconcile.hyps(1)] that reconcile.hyps(2) K reconcile.prems(4)])
  from reconcile.prems(1) show ?case by (auto elim!: call_ReconcileE intro!: reply)
next
  case (request K k q i act w ms t)
  from request.prems(3) have K: "K \<subseteq> owned s (view d)" by (simp add: standing_def)
  have reply: "call_sound r s (view d) l (k x) (view d1) l" if "d1 = d \<or> d1 = snd (requestAction g i act w ms t None d)" for x d1
    by (rule sound_reply [OF requestAction_steps [OF surjective_pairing] that request.hyps(1) K request.prems(4)])
  from request.prems(1) show ?case by (auto elim!: call_RequestE intro!: reply simp: RequestAction_def)
next
  case (finish_planning j K k q)
  from finish_planning.prems(3) have K: "K \<subseteq> owned s (view d)" by (simp add: standing_def)
  have reply: "call_sound r s (view d) l (k x) (view d1) l" if "d1 = d \<or> d1 = snd (FinishPlanning g j d)" for x d1
    by (rule sound_reply [OF FinishPlanning_steps [OF surjective_pairing finish_planning.hyps(1)] that finish_planning.hyps(2) K finish_planning.prems(4)])
  from finish_planning.prems(1) show ?case by (auto elim!: call_FinishPlanningE intro!: reply)
next
  case (start_removal i K k q t)
  note r = start_removal.hyps(1) and log = start_removal.prems(4)
  from start_removal.prems(3) have K: "K \<subseteq> owned s (view d)" by (simp add: standing_def)
  have "call_sound r s (view d) l (k x) (view d1) l" if "StartRemoval g i t d = (x, d1)" for x d1
    unfolding r
    by (rule sound_StartRemoval [OF that start_removal.hyps(2) start_removal.hyps(3) [unfolded r]
          start_removal.hyps(4) [unfolded r] K log])
  moreover have "call_sound r s (view d) l (k (Inl e)) (view d1) l"
    if "d1 = d \<or> d1 = snd (StartRemoval g i t d)" for e d1
    by (rule sound_reply [OF StartRemoval_steps [OF surjective_pairing] that start_removal.hyps(3) K log])
  ultimately show ?case
    using start_removal.prems(1) by (auto elim!: call_StartRemovalE)
next
  case (finish_removal j K k q f t)
  note r = finish_removal.hyps(1) and log = finish_removal.prems(4)
  from finish_removal.prems(3) have K: "K \<subseteq> owned s (view d)" by (simp add: standing_def)
  then have own: "\<forall>i \<in> {jID j}. r = Actions \<and> i \<in> owned s (view d)" using r finish_removal.hyps(2) by auto
  have "call_sound r s (view d) l (k e) (view (snd (FinishRemoval g j f t d))) l" for e
    by (rule sound_env [OF FinishRemoval_steps [OF surjective_pairing] own finish_removal.hyps(3) K log])
  with finish_removal.prems(1) sound_same [OF finish_removal.hyps(3) standing_idle [OF K] log]
  show ?case by (auto elim!: call_FinishRemovalE)
next
  case (submit q a K k)
  note r = submit.hyps(1)
  have "call_sound r s (view d) l (k x) (view d) (attempt_key a # l)" for x
    unfolding r
    by (rule sound_submit [OF submit.prems(3) [unfolded submit.hyps(2) r] submit.hyps(3) [unfolded r]
          submit.prems(4)])
  with submit.prems(1) show ?case by (auto elim!: call_SubmitE simp: attempt_key_def)
qed (blast elim!: quiet_calls intro: sound_same)+

lemma thread_call:
  assumes "thread_ok r s p (view d) l" "call g p d l p' d' l'" "s \<noteq> []" "log_ok (view d) l"
    "store_inv (view d)"
  shows "call_sound r s (view d) l p' (view d') l'"
  using assms call_is_sound unfolding thread_ok_def by blast

end

section \<open>The invariant of the system\<close>

definition sys_inv :: "('db \<Rightarrow> tables) \<Rightarrow> 'db sys \<Rightarrow> bool" where
  "sys_inv view \<sigma> \<longleftrightarrow>
     store_inv (view (sdb \<sigma>)) \<and> log_ok (view (sdb \<sigma>)) (submitted \<sigma>) \<and>
     (\<forall>s. thread_ok Worker s (workers \<sigma> s) (view (sdb \<sigma>)) (submitted \<sigma>)) \<and>
     (\<forall>s. thread_ok Actions s (actors \<sigma> s) (view (sdb \<sigma>)) (submitted \<sigma>)) \<and>
     workers \<sigma> [] = Done zero_time \<and> actors \<sigma> [] = Done None"

lemma sys_inv_boot:
  "store_inv (view d) \<Longrightarrow> log_ok (view d) l \<Longrightarrow> sys_inv view (boot d l)"
  by (simp add: sys_inv_def boot_def thread_Done)

lemma sys_inv_sound:
  assumes "sys_inv view \<sigma>" "effect r s (view (sdb \<sigma>)) (submitted \<sigma>) (view d) l" "log_ok (view d) l"
    and "\<And>s'. (r, s) \<noteq> (Worker, s') \<Longrightarrow> W s' = workers \<sigma> s'"
    and "\<And>s'. (r, s) \<noteq> (Actions, s') \<Longrightarrow> A s' = actors \<sigma> s'"
    and "r = Worker \<Longrightarrow> thread_ok Worker s (W s) (view d) l"
    and "r = Actions \<Longrightarrow> thread_ok Actions s (A s) (view d) l" "s \<noteq> []"
  shows "sys_inv view (\<sigma>\<lparr>sdb := d, submitted := l, workers := W, actors := A\<rparr>)"
proof -
  from assms(1) have inv: "store_inv (view (sdb \<sigma>))"
    and ok: "\<And>s'. thread_ok Worker s' (workers \<sigma> s') (view (sdb \<sigma>)) (submitted \<sigma>)"
      "\<And>s'. thread_ok Actions s' (actors \<sigma> s') (view (sdb \<sigma>)) (submitted \<sigma>)"
    and idle: "workers \<sigma> [] = Done zero_time" "actors \<sigma> [] = Done None"
    by (simp_all add: sys_inv_def)
  have "thread_ok Worker s' (W s') (view d) l" for s'
    using assms(4,6) thread_stable [OF assms(2) inv _ ok(1), of s'] by (cases "(r, s) = (Worker, s')") auto
  moreover have "thread_ok Actions s' (A s') (view d) l" for s'
    using assms(5,7) thread_stable [OF assms(2) inv _ ok(2), of s'] by (cases "(r, s) = (Actions, s')") auto
  moreover have "W [] = Done zero_time" "A [] = Done None"
    using assms(4,5) [of "[]"] assms(8) idle by simp_all
  ultimately show ?thesis
    using assms(3) effect_inv [OF assms(2) inv] by (simp add: sys_inv_def)
qed

context gorm_db
begin

lemma sys_step_inv:
  assumes "sys_step g interval \<sigma> \<sigma>'" "sys_inv view \<sigma>"
  shows "sys_inv view \<sigma>'"
  using assms(1)
proof (cases rule: sys_step.cases)
  case (worker s p d l)
  from assms(2) have s: "s \<noteq> []" using worker(2) by (auto simp: sys_inv_def elim: call_DoneE)
  from assms(2) have "call_sound Worker s (view (sdb \<sigma>)) (submitted \<sigma>) p (view d) l"
    by (intro thread_call [OF _ worker(2) s]) (auto simp: sys_inv_def)
  then have "sys_inv view (\<sigma>\<lparr>sdb := d, submitted := l, workers := (workers \<sigma>)(s := p), actors := actors \<sigma>\<rparr>)"
    using s by (intro sys_inv_sound [OF assms(2)]) (auto simp: call_sound_def)
  then show ?thesis using worker(1) by simp
next
  case (actor s p d l)
  from assms(2) have s: "s \<noteq> []" using actor(2) by (auto simp: sys_inv_def elim: call_DoneE)
  from assms(2) have "call_sound Actions s (view (sdb \<sigma>)) (submitted \<sigma>) p (view d) l"
    by (intro thread_call [OF _ actor(2) s]) (auto simp: sys_inv_def)
  then have "sys_inv view (\<sigma>\<lparr>sdb := d, submitted := l, workers := workers \<sigma>, actors := (actors \<sigma>)(s := p)\<rparr>)"
    using s by (intro sys_inv_sound [OF assms(2)]) (auto simp: call_sound_def)
  then show ?thesis using actor(1) by simp
next
  case (worker_turn s "next")
  then show ?thesis
    using assms(2) thread_start [OF follows_tick [of s "{}" interval "next"]] by (simp add: sys_inv_def)
next
  case (actor_turn s e)
  then show ?thesis
    using assms(2) thread_start [OF follows_removeRequested [of s "{}"]] by (simp add: sys_inv_def)
next
  case (operator i act w ms at expected r d)
  note steps = requestAction_steps [OF operator(2)]
  from assms(2) have inv: "store_inv (view (sdb \<sigma>))" and log: "log_ok (view (sdb \<sigma>)) (submitted \<sigma>)"
    by (simp_all add: sys_inv_def)
  have eff: "effect r' [] (view (sdb \<sigma>)) (submitted \<sigma>) (view d) (submitted \<sigma>)" for r'
    by (rule env_effect [OF steps])
  have "thread_ok Worker s (workers \<sigma> s) (view d) (submitted \<sigma>)" for s
    by (rule thread_stable [OF eff [of Actions] inv]) (use assms(2) in \<open>simp_all add: sys_inv_def\<close>)
  moreover have "thread_ok Actions s (actors \<sigma> s) (view d) (submitted \<sigma>)" for s
    by (rule thread_stable [OF eff [of Worker] inv]) (use assms(2) in \<open>simp_all add: sys_inv_def\<close>)
  ultimately show ?thesis
    using assms(2) operator(1) env_steps_inv [OF steps inv] env_log [OF steps log]
    by (simp add: sys_inv_def)
next
  case crash
  with assms(2) show ?thesis by (simp add: sys_inv_def boot_def thread_Done)
qed

lemma reachable_inv:
  assumes "(sys_step g interval)\<^sup>*\<^sup>* (boot d []) \<sigma>" "store_inv (view d)"
  shows "sys_inv view \<sigma>"
  using assms(1)
proof (induction rule: rtranclp_induct)
  case base
  show ?case using sys_inv_boot [of view d "[]"] assms(2) by (simp add: log_ok_def)
next
  case (step \<sigma> \<sigma>')
  then show ?case by (blast intro: sys_step_inv)
qed

end

section \<open>What holds when a thread calls the adapter\<close>

lemma follows_SubmitC: "follows r s K q p \<Longrightarrow> p = SubmitC a k \<Longrightarrow> r = Worker \<and> q = Intended a"
  by (induction rule: follows.induct) simp_all

lemma follows_RepairC: "follows r s K q p \<Longrightarrow> p = RepairC j a k \<Longrightarrow> q = Fresh a"
  by (induction rule: follows.induct) simp_all

lemma follows_RemoveC: "follows r s K q p \<Longrightarrow> p = RemoveC j k \<Longrightarrow> q = Removal j"
  by (induction rule: follows.induct) simp_all

lemma repair_under_way:
  assumes "store_inv t" "tattempts t (attempt_key a) = Some b" "repairing (aState b)"
  shows "\<exists>j. tjobs t (aJobID a) = Some j \<and> jState j = aState b \<and> jPendingAction j = []"
proof -
  from assms(2) have row: "tattempts t (aJobID a, aNumber a) = Some b" by (simp add: attempt_key_def)
  have "active (aState b)" using assms(3) by (simp add: repairing_active)
  from store_inv_active(3) [OF assms(1) row this] obtain j where
    j: "tjobs t (aJobID a) = Some j" "jState j = aState b" by blast
  with assms(3) store_inv_repairing(1) [OF assms(1) j(1)] show ?thesis by auto
qed

lemma sys_submit:
  assumes "sys_inv view \<sigma>" "workers \<sigma> s = SubmitC a k"
  shows "attempt_key a \<notin> set (submitted \<sigma>) \<and>
    (\<exists>b. tattempts (view (sdb \<sigma>)) (attempt_key a) = Some b \<and> aState b = Importing \<and>
      aImportRequest b = aImportRequest a) \<and>
    (\<exists>j. tjobs (view (sdb \<sigma>)) (aJobID a) = Some j \<and> jState j = Importing \<and> jPendingAction j = [] \<and>
      jService j = s)"
proof -
  from assms obtain K q where f: "follows Worker s K q (SubmitC a k)"
    and st: "standing Worker s K q (view (sdb \<sigma>)) (submitted \<sigma>)" and inv: "store_inv (view (sdb \<sigma>))"
    unfolding sys_inv_def thread_ok_def by metis
  from follows_SubmitC [OF f] st obtain b where
    new: "attempt_key a \<notin> set (submitted \<sigma>)" and own: "aJobID a \<in> owned s (view (sdb \<sigma>))" and
    b: "tattempts (view (sdb \<sigma>)) (attempt_key a) = Some b" "aState b = Importing"
      "aImportRequest b = aImportRequest a"
    by (auto simp: standing_def stage_holds_def)
  from repair_under_way [OF inv b(1)] b(2) obtain j where
    "tjobs (view (sdb \<sigma>)) (aJobID a) = Some j" "jState j = Importing" "jPendingAction j = []"
    by (auto simp: repairing_def)
  with new own b show ?thesis by (auto simp: owned_def)
qed

lemma sys_repair:
  assumes "sys_inv view \<sigma>" "workers \<sigma> s = RepairC j a k"
  shows "\<exists>i. tjobs (view (sdb \<sigma>)) (aJobID a) = Some i \<and> jState i = Running \<and> jPendingAction i = []"
proof -
  from assms obtain K q where f: "follows Worker s K q (RepairC j a k)"
    and st: "standing Worker s K q (view (sdb \<sigma>)) (submitted \<sigma>)" and inv: "store_inv (view (sdb \<sigma>))"
    unfolding sys_inv_def thread_ok_def by metis
  from follows_RepairC [OF f] st obtain b where
    b: "tattempts (view (sdb \<sigma>)) (attempt_key a) = Some b" "aState b = Running"
    by (auto simp: standing_def stage_holds_def)
  from repair_under_way [OF inv b(1)] b(2) show ?thesis by (auto simp: repairing_def)
qed

lemma sys_remove:
  assumes "sys_inv view \<sigma>" "actors \<sigma> s = RemoveC j k"
  shows "(\<exists>i. tjobs (view (sdb \<sigma>)) (jID j) = Some i \<and> jState i = Removing \<and> jPendingAction i = Delete \<and>
      jService i = s) \<and>
    (\<forall>n b. tattempts (view (sdb \<sigma>)) (jID j, n) = Some b \<longrightarrow> \<not> active (aState b))"
proof -
  from assms obtain K q where f: "follows Actions s K q (RemoveC j k)"
    and st: "standing Actions s K q (view (sdb \<sigma>)) (submitted \<sigma>)" and inv: "store_inv (view (sdb \<sigma>))"
    unfolding sys_inv_def thread_ok_def by metis
  from follows_RemoveC [OF f] st obtain i where
    own: "jID j \<in> owned s (view (sdb \<sigma>))" and
    i: "tjobs (view (sdb \<sigma>)) (jID j) = Some i" "jState i = Removing" "jPendingAction i = Delete"
    by (auto simp: standing_def stage_holds_def phase_of_def)
  have "\<not> active (aState b)" if "tattempts (view (sdb \<sigma>)) (jID j, n) = Some b" for n b
    using store_inv_active(1,3) [OF inv that] i by (auto simp: repairing_def)
  with own i show ?thesis by (auto simp: owned_def)
qed

end
