(* ===== verification/Repair_Drive.thy ===== *)
theory Repair_Drive
  imports Repair_System
begin

text \<open>
  Running a program on given answers: an executable resolution of the choices of \<open>call\<close>. Every
  driven run is a run of the system.
\<close>

datatype answer =
    TimeA gotime
  | ErrA "go_error option"
  | BoolA bool
  | PreparedA "go_error + prepared_import"
  | CommandA "go_error + int"
  | StatusA "go_error + import_status"
  | ObservationA "go_error + observation"
  | DecisionA "go_error + decision"
  | StoreA

primrec step_with ::
  "'db gorm \<Rightarrow> 'a prog \<Rightarrow> answer \<Rightarrow> 'db \<Rightarrow> key list \<Rightarrow> ('a prog \<times> 'db \<times> key list) option" where
  "step_with g (Done x) ans d l = None"
| "step_with g (NowC k) ans d l = (case ans of TimeA t \<Rightarrow> Some (k t, d, l) | _ \<Rightarrow> None)"
| "step_with g (CtxErrC k) ans d l = (case ans of ErrA e \<Rightarrow> Some (k e, d, l) | _ \<Rightarrow> None)"
| "step_with g (DisabledC k) ans d l =
     (case ans of BoolA b \<Rightarrow> Some (k (Inr b), d, l) | ErrA (Some e) \<Rightarrow> Some (k (Inl e), d, l) | _ \<Rightarrow> None)"
| "step_with g (GetC i k) ans d l = (case ans of StoreA \<Rightarrow> Some (k (Get g i d), d, l) | _ \<Rightarrow> None)"
| "step_with g (ListC s k) ans d l = (case ans of StoreA \<Rightarrow> Some (k (List g s d), d, l) | _ \<Rightarrow> None)"
| "step_with g (LatestAttemptC i k) ans d l =
     (case ans of StoreA \<Rightarrow> Some (k (LatestAttempt g i d), d, l) | _ \<Rightarrow> None)"
| "step_with g (StartC i t k) ans d l =
     (case ans of StoreA \<Rightarrow> (case Start g i t d of (r, d') \<Rightarrow> Some (k r, d', l)) | _ \<Rightarrow> None)"
| "step_with g (UpdateAttemptC a k) ans d l =
     (case ans of StoreA \<Rightarrow> (case UpdateAttempt g a d of (r, d') \<Rightarrow> Some (k (err_of r), d', l)) | _ \<Rightarrow> None)"
| "step_with g (ObserveC j k) ans d l =
     (case ans of StoreA \<Rightarrow> (case Observe g j d of (r, d') \<Rightarrow> Some (k r, d', l)) | _ \<Rightarrow> None)"
| "step_with g (ReconcileQueueC s ks t k) ans d l =
     (case ans of StoreA \<Rightarrow> (case ReconcileQueue g s ks t d of (r, d') \<Rightarrow> Some (k (err_of r), d', l))
      | _ \<Rightarrow> None)"
| "step_with g (RequestActionC i act w ms t k) ans d l =
     (case ans of StoreA \<Rightarrow> (case RequestAction g i act w ms t d of (r, d') \<Rightarrow> Some (k (err_of r), d', l))
      | _ \<Rightarrow> None)"
| "step_with g (FinishPlanningC j k) ans d l =
     (case ans of StoreA \<Rightarrow> (case FinishPlanning g j d of (r, d') \<Rightarrow> Some (k (err_of r), d', l)) | _ \<Rightarrow> None)"
| "step_with g (StartRemovalC i t k) ans d l =
     (case ans of StoreA \<Rightarrow> (case StartRemoval g i t d of (r, d') \<Rightarrow> Some (k r, d', l)) | _ \<Rightarrow> None)"
| "step_with g (FinishRemovalC j f t k) ans d l =
     (case ans of StoreA \<Rightarrow> (case FinishRemoval g j f t d of (r, d') \<Rightarrow> Some (k (err_of r), d', l))
      | _ \<Rightarrow> None)"
| "step_with g (RepairC j a k) ans d l = (case ans of PreparedA r \<Rightarrow> Some (k r, d, l) | _ \<Rightarrow> None)"
| "step_with g (SubmitC a k) ans d l =
     (case ans of CommandA r \<Rightarrow> Some (k r, d, (aJobID a, aNumber a) # l) | _ \<Rightarrow> None)"
| "step_with g (CheckImportC a k) ans d l = (case ans of StatusA r \<Rightarrow> Some (k r, d, l) | _ \<Rightarrow> None)"
| "step_with g (ServiceObserveC js k) ans d l =
     (case ans of ObservationA r \<Rightarrow> Some (k r, d, l) | _ \<Rightarrow> None)"
| "step_with g (PlanC j k) ans d l = (case ans of DecisionA r \<Rightarrow> Some (k r, d, l) | _ \<Rightarrow> None)"
| "step_with g (ReadyC j k) ans d l = (case ans of BoolA b \<Rightarrow> Some (k b, d, l) | _ \<Rightarrow> None)"
| "step_with g (RemoveC j k) ans d l = (case ans of ErrA e \<Rightarrow> Some (k e, d, l) | _ \<Rightarrow> None)"

lemma step_with_call: "step_with g p ans d l = Some (p', d', l') \<Longrightarrow> call g p d l p' d' l'"
  by (cases p; cases ans)
    (auto split: prod.splits option.splits intro: call.intros)

primrec drive ::
  "'db gorm \<Rightarrow> answer list \<Rightarrow> 'a prog \<Rightarrow> 'db \<Rightarrow> key list \<Rightarrow> ('a prog \<times> 'db \<times> key list) option" where
  "drive g [] p d l = Some (p, d, l)"
| "drive g (ans # anss) p d l =
     (case step_with g p ans d l of None \<Rightarrow> None | Some (p', d', l') \<Rightarrow> drive g anss p' d' l')"

lemma drive_worker:
  "drive g anss (workers \<sigma> s) (sdb \<sigma>) (submitted \<sigma>) = Some (p, d, l) \<Longrightarrow>
   (sys_step g interval)\<^sup>*\<^sup>* \<sigma> (\<sigma>\<lparr>sdb := d, submitted := l, workers := (workers \<sigma>)(s := p)\<rparr>)"
proof (induction anss arbitrary: \<sigma>)
  case Nil
  then have "\<sigma>\<lparr>sdb := d, submitted := l, workers := (workers \<sigma>)(s := p)\<rparr> = \<sigma>"
    by (cases \<sigma>) auto
  then show ?case by (simp only: rtranclp.rtrancl_refl)
next
  case (Cons ans anss)
  then obtain p1 d1 l1 where 1: "step_with g (workers \<sigma> s) ans (sdb \<sigma>) (submitted \<sigma>) = Some (p1, d1, l1)"
    and 2: "drive g anss p1 d1 l1 = Some (p, d, l)"
    by (auto split: option.splits)
  let ?\<tau> = "\<sigma>\<lparr>sdb := d1, submitted := l1, workers := (workers \<sigma>)(s := p1)\<rparr>"
  have "sys_step g interval \<sigma> ?\<tau>" by (rule sys_step.worker [OF step_with_call [OF 1]])
  moreover have "(sys_step g interval)\<^sup>*\<^sup>* ?\<tau> 
      (\<sigma>\<lparr>sdb := d, submitted := l, workers := (workers \<sigma>)(s := p)\<rparr>)"
    using Cons.IH [of ?\<tau>] 2 by (simp add: fun_upd_def cong: if_cong)
  ultimately show ?case by (rule converse_rtranclp_into_rtranclp)
qed

lemma drive_actor:
  "drive g anss (actors \<sigma> s) (sdb \<sigma>) (submitted \<sigma>) = Some (p, d, l) \<Longrightarrow>
   (sys_step g interval)\<^sup>*\<^sup>* \<sigma> (\<sigma>\<lparr>sdb := d, submitted := l, actors := (actors \<sigma>)(s := p)\<rparr>)"
proof (induction anss arbitrary: \<sigma>)
  case Nil
  then have "\<sigma>\<lparr>sdb := d, submitted := l, actors := (actors \<sigma>)(s := p)\<rparr> = \<sigma>"
    by (cases \<sigma>) auto
  then show ?case by (simp only: rtranclp.rtrancl_refl)
next
  case (Cons ans anss)
  then obtain p1 d1 l1 where 1: "step_with g (actors \<sigma> s) ans (sdb \<sigma>) (submitted \<sigma>) = Some (p1, d1, l1)"
    and 2: "drive g anss p1 d1 l1 = Some (p, d, l)"
    by (auto split: option.splits)
  let ?\<tau> = "\<sigma>\<lparr>sdb := d1, submitted := l1, actors := (actors \<sigma>)(s := p1)\<rparr>"
  have "sys_step g interval \<sigma> ?\<tau>" by (rule sys_step.actor [OF step_with_call [OF 1]])
  moreover have "(sys_step g interval)\<^sup>*\<^sup>* ?\<tau> 
      (\<sigma>\<lparr>sdb := d, submitted := l, actors := (actors \<sigma>)(s := p)\<rparr>)"
    using Cons.IH [of ?\<tau>] 2 by (simp add: fun_upd_def cong: if_cong)
  ultimately show ?case by (rule converse_rtranclp_into_rtranclp)
qed

end
