(* ===== verification/Jobs_Memory.thy ===== *)
theory Jobs_Memory
  imports Jobs_Refinement
begin

text \<open>
  A database in memory that obeys the laws of \<open>gorm_db\<close>: three lists of rows with the primary
  keys and the unique index of the schema (\<open>store.go\<close>). It shows that the laws can hold, and it
  makes every transaction of the store executable on concrete rows.
\<close>

section \<open>Rows with a key\<close>

definition upsert :: "('a \<Rightarrow> 'k) \<Rightarrow> 'a \<Rightarrow> 'a list \<Rightarrow> 'a list" where
  "upsert key x xs =
     (if key x \<in> set (map key xs) then map (\<lambda>y. if key y = key x then x else y) xs else xs @ [x])"

lemma find_replace:
  "find (\<lambda>y. key y = k) (map (\<lambda>y. if key y = key x then x else y) xs) =
     (if k = key x \<and> k \<in> set (map key xs) then Some x else find (\<lambda>y. key y = k) xs)"
  by (induction xs) auto

lemma find_append: "find P (xs @ ys) = (case find P xs of None \<Rightarrow> find P ys | Some x \<Rightarrow> Some x)"
  by (induction xs) auto

lemma find_key_None: "find (\<lambda>y. key y = k) xs = None \<longleftrightarrow> k \<notin> set (map key xs)"
  by (induction xs) auto

lemma find_upsert:
  "find (\<lambda>y. key y = k) (upsert key x xs) =
     (if k = key x then Some x else find (\<lambda>y. key y = k) xs)"
proof (cases "key x \<in> set (map key xs)")
  case True
  then show ?thesis by (simp add: upsert_def find_replace)
next
  case False
  then have "find (\<lambda>y. key y = key x) xs = None" by (simp only: find_key_None not_False_eq_True)
  with False show ?thesis by (auto simp: upsert_def find_append split: option.split)
qed

section \<open>The schema\<close>

record memory =
  mJobs :: "job list"
  mAttempts :: "attempt list"
  mResults :: "planning_result list"

definition identity :: "job \<Rightarrow> string \<times> int \<times> string" where
  "identity j = (jService j, jQueueID j, jDownloadID j)"

definition attempt_id :: "attempt \<Rightarrow> int \<times> int" where
  "attempt_id a = (aJobID a, aNumber a)"

definition result_id :: "planning_result \<Rightarrow> int \<times> string \<times> int" where
  "result_id r = (pJobID r, pFingerprint r, pRevision r)"

definition constraints :: "memory \<Rightarrow> bool" where
  "constraints m \<longleftrightarrow> distinct (map jID (mJobs m)) \<and> distinct (map identity (mJobs m)) \<and>
     list_all (\<lambda>j. jID j \<noteq> 0 \<and> stored j = j) (mJobs m) \<and>
     distinct (map attempt_id (mAttempts m))"

definition memory_view :: "memory \<Rightarrow> tables" where
  "memory_view m =
     (if constraints m
      then \<lparr>tjobs = (\<lambda>i. find (\<lambda>j. jID j = i) (mJobs m)),
            tattempts = (\<lambda>k. find (\<lambda>a. attempt_id a = k) (mAttempts m)),
            tresults = (\<lambda>k. find (\<lambda>r. result_id r = k) (mResults m))\<rparr>
      else empty_tables)"

definition checked :: "memory \<Rightarrow> memory \<Rightarrow> go_error + memory" where
  "checked m m' =
     (if constraints m \<and> constraints m' then Inr m' else Inl (ErrorText ''constraint failed''))"

definition row_or_missing :: "memory \<Rightarrow> 'a option \<Rightarrow> go_error + 'a" where
  "row_or_missing m row =
     (if constraints m then case row of None \<Rightarrow> Inl ErrRecordNotFound | Some x \<Rightarrow> Inr x
      else Inl (ErrorText ''malformed database''))"

definition next_id :: "memory \<Rightarrow> int" where
  "next_id m = foldr max (map jID (mJobs m)) 0 + 1"

primrec latest_row :: "int \<Rightarrow> attempt list \<Rightarrow> attempt option" where
  "latest_row i [] = None"
| "latest_row i (a # rows) =
     (if aJobID a \<noteq> i then latest_row i rows
      else case latest_row i rows of
          None \<Rightarrow> Some a
        | Some b \<Rightarrow> if aNumber b \<le> aNumber a then Some a else Some b)"

definition mem_first_job :: "memory \<Rightarrow> int \<Rightarrow> go_error + job" where
  "mem_first_job m i = row_or_missing m (find (\<lambda>j. jID j = i) (mJobs m))"

definition mem_first_identity :: "memory \<Rightarrow> string \<Rightarrow> int \<Rightarrow> string \<Rightarrow> go_error + job" where
  "mem_first_identity m s q w = row_or_missing m (find (\<lambda>j. identity j = (s, q, w)) (mJobs m))"

definition mem_find_jobs :: "memory \<Rightarrow> string \<Rightarrow> go_error + job list" where
  "mem_find_jobs m s =
     (if constraints m then Inr (filter (\<lambda>j. s = [] \<or> jService j = s) (mJobs m))
      else Inl (ErrorText ''malformed database''))"

definition mem_create_job :: "memory \<Rightarrow> job \<Rightarrow> go_error + job \<times> memory" where
  "mem_create_job m j =
     (let j' = j\<lparr>jID := next_id m\<rparr>
      in map_sum id (Pair j') (checked m (m\<lparr>mJobs := mJobs m @ [stored j']\<rparr>)))"

definition mem_save_job :: "memory \<Rightarrow> job \<Rightarrow> go_error + memory" where
  "mem_save_job m j = checked m (m\<lparr>mJobs := upsert jID (stored j) (mJobs m)\<rparr>)"

definition mem_first_attempt :: "memory \<Rightarrow> int \<Rightarrow> int \<Rightarrow> go_error + attempt" where
  "mem_first_attempt m i n =
     row_or_missing m (find (\<lambda>a. attempt_id a = (i, n)) (mAttempts m))"

definition mem_last_attempt :: "memory \<Rightarrow> int \<Rightarrow> go_error + attempt" where
  "mem_last_attempt m i = row_or_missing m (latest_row i (mAttempts m))"

definition mem_find_attempts :: "memory \<Rightarrow> int \<Rightarrow> go_error + attempt list" where
  "mem_find_attempts m i = Inr (filter (\<lambda>a. i = 0 \<or> aJobID a = i) (mAttempts m))"

definition mem_create_attempt :: "memory \<Rightarrow> attempt \<Rightarrow> go_error + memory" where
  "mem_create_attempt m a =
     (if attempt_id a \<in> set (map attempt_id (mAttempts m))
      then Inl (ErrorText ''constraint failed'')
      else checked m (m\<lparr>mAttempts := upsert attempt_id a (mAttempts m)\<rparr>))"

definition mem_save_attempt :: "memory \<Rightarrow> attempt \<Rightarrow> go_error + memory" where
  "mem_save_attempt m a =
     checked m (m\<lparr>mAttempts := upsert attempt_id a (mAttempts m)\<rparr>)"

definition mem_first_result :: "memory \<Rightarrow> int \<Rightarrow> string \<Rightarrow> int \<Rightarrow> go_error + planning_result" where
  "mem_first_result m i f r =
     row_or_missing m (find (\<lambda>p. result_id p = (i, f, r)) (mResults m))"

definition mem_upsert_result :: "memory \<Rightarrow> planning_result \<Rightarrow> go_error + memory" where
  "mem_upsert_result m r =
     checked m (m\<lparr>mResults := upsert result_id r (mResults m)\<rparr>)"

definition memory_gorm :: "memory gorm" where
  "memory_gorm =
     \<lparr>first_job = mem_first_job,
      first_identity = mem_first_identity,
      find_jobs = mem_find_jobs,
      create_job = mem_create_job,
      save_job = mem_save_job,
      first_attempt = mem_first_attempt,
      last_attempt = mem_last_attempt,
      find_attempts = mem_find_attempts,
      create_attempt = mem_create_attempt,
      save_attempt = mem_save_attempt,
      first_result = mem_first_result,
      upsert_result = mem_upsert_result,
      commit = (\<lambda>_. None)\<rparr>"

lemma memory_gorm_sel [simp]:
  "first_job memory_gorm = mem_first_job"
  "first_identity memory_gorm = mem_first_identity"
  "find_jobs memory_gorm = mem_find_jobs"
  "create_job memory_gorm = mem_create_job"
  "save_job memory_gorm = mem_save_job"
  "first_attempt memory_gorm = mem_first_attempt"
  "last_attempt memory_gorm = mem_last_attempt"
  "find_attempts memory_gorm = mem_find_attempts"
  "create_attempt memory_gorm = mem_create_attempt"
  "save_attempt memory_gorm = mem_save_attempt"
  "first_result memory_gorm = mem_first_result"
  "upsert_result memory_gorm = mem_upsert_result"
  "commit memory_gorm = (\<lambda>_. None)"
  by (simp_all add: memory_gorm_def)

lemmas mem_ops = mem_first_job_def mem_first_identity_def mem_find_jobs_def mem_create_job_def
  mem_save_job_def mem_first_attempt_def mem_last_attempt_def mem_find_attempts_def
  mem_create_attempt_def mem_save_attempt_def mem_first_result_def mem_upsert_result_def

definition empty_memory :: memory where
  "empty_memory = \<lparr>mJobs = [], mAttempts = [], mResults = []\<rparr>"

lemmas memory_defs = mem_ops memory_view_def constraints_def checked_def row_or_missing_def
  next_id_def upsert_def identity_def attempt_id_def result_id_def empty_memory_def
  empty_tables_def

section \<open>The laws\<close>

lemma checked_Inr: "checked m m1 = Inr m' \<longleftrightarrow> constraints m \<and> constraints m1 \<and> m' = m1"
  by (auto simp: checked_def)

lemma row_or_missing_Inr: "row_or_missing m row = Inr x \<longleftrightarrow> constraints m \<and> row = Some x"
  by (auto simp: row_or_missing_def split: option.split)

lemma row_or_missing_Inl:
  "row_or_missing m row = Inl e \<Longrightarrow> error_is e ErrRecordNotFound \<Longrightarrow> constraints m \<and> row = None"
  by (auto simp: row_or_missing_def split: option.splits if_splits)

lemma view_tables:
  "constraints m \<Longrightarrow> tjobs (memory_view m) = (\<lambda>i. find (\<lambda>j. jID j = i) (mJobs m))"
  "constraints m \<Longrightarrow> tattempts (memory_view m) = (\<lambda>k. find (\<lambda>a. attempt_id a = k) (mAttempts m))"
  "constraints m \<Longrightarrow> tresults (memory_view m) = (\<lambda>k. find (\<lambda>r. result_id r = k) (mResults m))"
  "\<not> constraints m \<Longrightarrow> memory_view m = empty_tables"
  by (simp_all add: memory_view_def)

lemma view_job_mem:
  assumes "tjobs (memory_view m) i = Some j"
  shows "constraints m" "j \<in> set (mJobs m)" "jID j = i"
  using assms by (auto simp: memory_view_def empty_tables_def find_Some_iff split: if_splits)

lemma find_key_mem:
  assumes "distinct (map key xs)" "x \<in> set xs"
  shows "find (\<lambda>y. key y = key x) xs = Some x"
proof -
  obtain y where y: "find (\<lambda>y. key y = key x) xs = Some y"
    using assms(2) find_key_None [of key "key x" xs] by fastforce
  from find_Some_iff_mem [OF y] have "y = x" using distinct_map_inj [OF assms(1) _ assms(2)] by blast
  with y show ?thesis by simp
qed

lemma constraints_mem:
  assumes "constraints m" "j \<in> set (mJobs m)"
  shows "jID j \<noteq> 0" "stored j = j" "find (\<lambda>k. jID k = jID j) (mJobs m) = Some j"
    "tjobs (memory_view m) (jID j) = Some j"
  using assms find_key_mem [of jID "mJobs m" j]
  by (simp_all add: constraints_def list_all_iff view_tables(1) [OF assms(1)])

lemma next_id_fresh: "constraints m \<Longrightarrow> next_id m \<noteq> 0 \<and> find (\<lambda>j. jID j = next_id m) (mJobs m) = None"
proof -
  have "x \<in> set xs \<Longrightarrow> x < foldr max xs 0 + 1" "0 \<le> foldr max xs 0" for x :: int and xs
    by (induction xs) auto
  note bound = this(1) [of _ "map jID (mJobs m)"] and pos = this(2) [of "map jID (mJobs m)"]
  from bound have "next_id m \<notin> set (map jID (mJobs m))" unfolding next_id_def by blast
  with pos show ?thesis unfolding find_key_None by (simp add: next_id_def)
qed

lemma latest_row_None: "latest_row i rows = None \<longleftrightarrow> (\<forall>a \<in> set rows. aJobID a \<noteq> i)"
  by (induction rows) (auto split: option.split)

lemma latest_row_Some:
  "latest_row i rows = Some a \<Longrightarrow> a \<in> set rows \<and> aJobID a = i \<and>
     (\<forall>b \<in> set rows. aJobID b = i \<longrightarrow> aNumber b \<le> aNumber a)"
proof (induction rows arbitrary: a)
  case (Cons r rows)
  show ?case
  proof (cases "latest_row i rows")
    case None
    with Cons.prems latest_row_None [of i rows] show ?thesis by (auto split: if_splits)
  next
    case (Some b)
    from Cons.IH [OF this] Cons.prems Some show ?thesis by (auto split: if_splits)
  qed
qed simp

lemma view_put:
  assumes "constraints m"
  shows "constraints (m\<lparr>mJobs := upsert jID (stored j) (mJobs m)\<rparr>) \<Longrightarrow>
      memory_view (m\<lparr>mJobs := upsert jID (stored j) (mJobs m)\<rparr>) = put_job j (memory_view m)"
    and "constraints (m\<lparr>mAttempts := upsert attempt_id a (mAttempts m)\<rparr>) \<Longrightarrow>
      memory_view (m\<lparr>mAttempts := upsert attempt_id a (mAttempts m)\<rparr>) = put_attempt a (memory_view m)"
    and "constraints (m\<lparr>mResults := upsert result_id r (mResults m)\<rparr>) \<Longrightarrow>
      memory_view (m\<lparr>mResults := upsert result_id r (mResults m)\<rparr>) = put_result r (memory_view m)"
  using assms
  by (simp_all add: memory_view_def put_job_def put_attempt_def put_result_def find_upsert fun_eq_iff
      attempt_id_def [of a] result_id_def [of r])

lemma save_job_law:
  "checked m (m\<lparr>mJobs := upsert jID (stored j) (mJobs m)\<rparr>) = Inr m' \<Longrightarrow>
     memory_view m' = put_job j (memory_view m)"
  by (auto simp: checked_Inr view_put)

lemma create_job_law:
  assumes "create_job memory_gorm m j = Inr (j', m')"
  shows "\<exists>i. i \<noteq> 0 \<and> tjobs (memory_view m) i = None \<and> j' = j\<lparr>jID := i\<rparr> \<and>
     memory_view m' = put_job j' (memory_view m)"
proof -
  from assms have j': "j' = j\<lparr>jID := next_id m\<rparr>" and
    m': "checked m (m\<lparr>mJobs := mJobs m @ [stored j']\<rparr>) = Inr m'"
    by (auto simp: mem_ops Let_def map_sum_def split: sum.splits)
  then have c: "constraints m" by (simp add: checked_Inr)
  note fresh = next_id_fresh [OF c]
  have "jID (stored j') \<notin> set (map jID (mJobs m))"
    using fresh find_key_None [of jID "next_id m" "mJobs m"] j' by simp
  then have "mJobs m @ [stored j'] = upsert jID (stored j') (mJobs m)"
    unfolding upsert_def by (simp only: if_False)
  with m' have "memory_view m' = put_job j' (memory_view m)"
    using save_job_law by simp
  with fresh j' c show ?thesis by (auto simp: view_tables)
qed

lemma last_attempt_law:
  assumes "last_attempt memory_gorm m i = Inr a"
  shows "tattempts (memory_view m) (i, aNumber a) = Some a"
    "tattempts (memory_view m) (i, n) \<noteq> None \<Longrightarrow> n \<le> aNumber a"
proof -
  from assms have c: "constraints m" and l: "latest_row i (mAttempts m) = Some a"
    by (simp_all add: mem_ops row_or_missing_Inr)
  note a = latest_row_Some [OF l]
  then have "attempt_id a = (i, aNumber a)" by (simp add: attempt_id_def)
  then show "tattempts (memory_view m) (i, aNumber a) = Some a"
    using a c find_key_mem [of attempt_id "mAttempts m" a] by (simp add: view_tables constraints_def)
  show "n \<le> aNumber a" if "tattempts (memory_view m) (i, n) \<noteq> None"
    using that a c by (auto simp: view_tables find_None_iff attempt_id_def)
qed

lemma last_attempt_none_law:
  assumes "last_attempt memory_gorm m i = Inl e" "error_is e ErrRecordNotFound"
  shows "tattempts (memory_view m) (i, n) = None"
proof -
  from assms have "constraints m \<and> latest_row i (mAttempts m) = None"
    unfolding memory_gorm_sel mem_ops by (intro row_or_missing_Inl) simp_all
  then show ?thesis by (auto simp: view_tables find_None_iff latest_row_None attempt_id_def)
qed

lemma job_unique_law:
  assumes "tjobs (memory_view m) i = Some j" "tjobs (memory_view m) i' = Some j'"
    "jService j = jService j'" "jQueueID j = jQueueID j'" "jDownloadID j = jDownloadID j'"
  shows "i = i'"
proof -
  note 1 = view_job_mem [OF assms(1)] and 2 = view_job_mem [OF assms(2)]
  have "identity j = identity j'" using assms(3-5) by (simp add: identity_def)
  with 1 2 have "j = j'" by (auto simp: constraints_def intro: distinct_map_inj [of identity])
  with 1 2 show ?thesis by simp
qed

lemma find_jobs_law:
  assumes "find_jobs memory_gorm m s = Inr js" "s \<noteq> []"
  shows "distinct (map jID js) \<and> set js = {j. \<exists>i. tjobs (memory_view m) i = Some j \<and> jService j = s}"
proof -
  from assms have c: "constraints m" and js: "js = filter (\<lambda>j. jService j = s) (mJobs m)"
    by (auto simp: mem_ops split: if_splits)
  have "distinct (map jID js)"
    using c js by (simp add: constraints_def distinct_map_filter)
  moreover have "j \<in> set (mJobs m) \<longleftrightarrow> (\<exists>i. tjobs (memory_view m) i = Some j)" for j
    using constraints_mem(4) [OF c] view_job_mem(2) by blast
  ultimately show ?thesis using js by auto
qed

interpretation mem: gorm_db memory_gorm memory_view
proof
  fix m i j assume "tjobs (memory_view m) i = Some j"
  from view_job_mem [OF this] constraints_mem [of m j] show "jID j = i \<and> i \<noteq> 0 \<and> stored j = j"
    by simp
next
  fix m i j i' j'
  assume "tjobs (memory_view m) i = Some j" "tjobs (memory_view m) i' = Some j'"
    "jService j = jService j'" "jQueueID j = jQueueID j'" "jDownloadID j = jDownloadID j'"
  then show "i = i'" by (rule job_unique_law)
next
  fix m i n a assume "tattempts (memory_view m) (i, n) = Some a"
  then show "aJobID a = i \<and> aNumber a = n"
    by (auto simp: memory_view_def empty_tables_def attempt_id_def find_Some_iff split: if_splits)
next
  fix m i j assume "first_job memory_gorm m i = Inr j"
  then show "tjobs (memory_view m) i = Some j"
    by (simp add: mem_ops row_or_missing_Inr view_tables)
next
  fix m s q w j assume "first_identity memory_gorm m s q w = Inr j"
  then have c: "constraints m" and f: "find (\<lambda>j. identity j = (s, q, w)) (mJobs m) = Some j"
    by (simp_all add: mem_ops row_or_missing_Inr)
  from find_Some_iff_mem [OF f] constraints_mem [OF c, of j]
  show "tjobs (memory_view m) (jID j) = Some j \<and> jService j = s \<and> jQueueID j = q \<and> jDownloadID j = w"
    by (simp add: identity_def)
next
  fix m s js assume "find_jobs memory_gorm m s = Inr js" "s \<noteq> []"
  then show "distinct (map jID js) \<and>
      set js = {j. \<exists>i. tjobs (memory_view m) i = Some j \<and> jService j = s}" by (rule find_jobs_law)
next
  fix m j j' m' assume "create_job memory_gorm m j = Inr (j', m')"
  then show "\<exists>i. i \<noteq> 0 \<and> tjobs (memory_view m) i = None \<and> j' = j\<lparr>jID := i\<rparr> \<and>
      memory_view m' = put_job j' (memory_view m)" by (rule create_job_law)
next
  fix m j m' assume "save_job memory_gorm m j = Inr m'"
  then show "memory_view m' = put_job j (memory_view m)"
    by (intro save_job_law) (simp add: mem_ops)
next
  fix m i n a assume "first_attempt memory_gorm m i n = Inr a"
  then show "tattempts (memory_view m) (i, n) = Some a"
    by (simp add: mem_ops row_or_missing_Inr view_tables)
next
  fix m i a assume "last_attempt memory_gorm m i = Inr a"
  from last_attempt_law [OF this] show "tattempts (memory_view m) (i, aNumber a) = Some a \<and>
      (\<forall>n. tattempts (memory_view m) (i, n) \<noteq> None \<longrightarrow> n \<le> aNumber a)" by blast
next
  fix m i e n assume "last_attempt memory_gorm m i = Inl e" "error_is e ErrRecordNotFound"
  then show "tattempts (memory_view m) (i, n) = None" by (rule last_attempt_none_law)
next
  fix m a m' assume "create_attempt memory_gorm m a = Inr m'"
  then show "memory_view m' = put_attempt a (memory_view m)"
    by (auto simp: mem_ops checked_Inr view_put split: if_splits)
next
  fix m a m' assume "save_attempt memory_gorm m a = Inr m'"
  then show "memory_view m' = put_attempt a (memory_view m)"
    by (auto simp: mem_ops checked_Inr view_put)
next
  fix m i f r p assume "first_result memory_gorm m i f r = Inr p"
  then show "tresults (memory_view m) (i, f, r) = Some p"
    by (simp add: mem_ops row_or_missing_Inr view_tables)
next
  fix m i f r e assume "first_result memory_gorm m i f r = Inl e" "error_is e ErrRecordNotFound"
  then have "row_or_missing m (find (\<lambda>p. result_id p = (i, f, r)) (mResults m)) = Inl e"
    by (simp add: mem_ops)
  from row_or_missing_Inl [OF this \<open>error_is e ErrRecordNotFound\<close>]
  show "tresults (memory_view m) (i, f, r) = None" by (simp add: view_tables)
next
  fix m p m' assume "upsert_result memory_gorm m p = Inr m'"
  then show "memory_view m' = put_result p (memory_view m)"
    by (auto simp: mem_ops checked_Inr view_put)
qed

lemma view_empty_memory: "memory_view empty_memory = empty_tables"
  by (simp add: memory_view_def constraints_def empty_memory_def empty_tables_def)

end
