(* ===== verification/Jobs_Properties.thy ===== *)
theory Jobs_Properties
  imports Jobs_Memory Jobs_Behaviour
begin

text \<open>
  The properties of the job store, over any database that obeys the laws of \<open>gorm_db\<close>, each
  with a witness on the database in memory.
\<close>

section \<open>Sequences of transactions\<close>

definition run_calls :: "'db gorm \<Rightarrow> store_call list \<Rightarrow> 'db \<Rightarrow> 'db" where
  "run_calls g cs d = fold (\<lambda>c d. snd (run_call g c d)) cs d"

text \<open>All transactions of the store: those outside a repair and the two of the repair engine.\<close>

datatype any_call = Outside store_call | CStart int gotime | CUpdate attempt

primrec run_any :: "'db gorm \<Rightarrow> any_call \<Rightarrow> 'db \<Rightarrow> go_error option \<times> 'db" where
  "run_any g (Outside c) d = run_call g c d"
| "run_any g (CStart i at) d = map_prod err_of id (Start g i at d)"
| "run_any g (CUpdate a) d = map_prod err_of id (UpdateAttempt g a d)"

definition run_all :: "'db gorm \<Rightarrow> any_call list \<Rightarrow> 'db \<Rightarrow> 'db" where
  "run_all g cs d = fold (\<lambda>c d. snd (run_any g c d)) cs d"

text \<open>An attempt that is updated has the key it was stored with, which is never zero.\<close>

primrec any_ok :: "any_call \<Rightarrow> bool" where
  "any_ok (Outside c) = call_ok c"
| "any_ok (CStart i at) = True"
| "any_ok (CUpdate a) = (aJobID a \<noteq> 0 \<and> aNumber a \<noteq> 0)"

context gorm_db
begin

lemma run_calls_steps: "list_all call_ok cs \<Longrightarrow> env_steps UNIV UNIV (view d) (view (run_calls g cs d))"
proof (induction cs arbitrary: d)
  case (Cons c cs)
  from Cons.prems have "env_steps UNIV UNIV (view d) (view (snd (run_call g c d)))"
    by (simp add: env_steps_mono [OF run_call_steps])
  also from Cons have "env_steps UNIV UNIV (view (snd (run_call g c d))) (view (run_calls g (c # cs) d))"
    by (simp add: run_calls_def)
  finally show ?case .
qed (simp add: run_calls_def)

lemma Start_inv: "store_inv (view d) \<Longrightarrow> store_inv (view (snd (Start g i at d)))"
proof (cases "Start g i at d")
  case (Pair r d')
  assume inv: "store_inv (view d)"
  show ?thesis
  proof (cases r)
    case (Inl e)
    with Pair inv show ?thesis using transaction_Inl by (fastforce simp: Start_def)
  next
    case (Inr a)
    with Pair inv show ?thesis by (simp add: engine_step_inv [OF Start_step])
  qed
qed

lemma UpdateAttempt_inv:
  assumes "store_inv (view d)" "aJobID a \<noteq> 0" "aNumber a \<noteq> 0" "aState a \<in> attempt_states"
  shows "store_inv (view (snd (UpdateAttempt g a d)))"
proof (cases "UpdateAttempt g a d")
  case (Pair r d')
  show ?thesis
  proof (cases r)
    case (Inl e)
    with Pair assms show ?thesis using transaction_Inl by (fastforce simp: UpdateAttempt_def)
  next
    case (Inr u)
    with Pair assms show ?thesis by (simp add: engine_step_inv [OF UpdateAttempt_step])
  qed
qed

lemma run_calls_repairing:
  assumes "list_all call_ok cs" "store_inv (view d)" "tjobs (view d) i = Some j" "repairing (jState j)"
  shows "tattempts (view (run_calls g cs d)) = tattempts (view d) \<and>
    (\<exists>j'. tjobs (view (run_calls g cs d)) i = Some j' \<and> jState j' = jState j \<and> jPendingAction j' = [])"
  using env_steps_frozen [OF run_calls_steps [OF assms(1), of d]] assms(3,4)
    store_inv_repairing(1) [OF assms(2-4)]
  by (fastforce simp: frozen_def phase_of_def)

text \<open>A transaction keeps the revision of a job or begins the next one.\<close>

lemma run_call_revision:
  assumes "call_ok c" "tjobs (view d) i = Some j"
  shows "\<exists>j'. tjobs (view (snd (run_call g c d))) i = Some j' \<and>
    jRevision j' \<in> {jRevision j, wrap64 (jRevision j + 1)}"
proof (cases "i \<in> requests c")
  case True
  then obtain act w ms at e where c: "c = CRequest i act w ms at e" by (cases c) simp_all
  show ?thesis
  proof (cases "requestAction g i act w ms at e d")
    case (Pair r d')
    show ?thesis
    proof (cases r)
      case (Inl x)
      with Pair have "d' = d" unfolding requestAction_def by (blast dest: transaction_Inl)
      with Pair c assms(2) show ?thesis by simp
    next
      case (Inr u)
      with Pair requestAction_revision [of i act w ms at e d u d' j] assms(2) c show ?thesis by auto
    qed
  qed
next
  case False
  from env_steps_revision [OF run_call_steps [OF assms(1)] this assms(2)] show ?thesis by blast
qed

lemma run_any_revision:
  assumes "any_ok c" "tjobs (view d) i = Some j"
  shows "\<exists>j'. tjobs (view (snd (run_any g c d))) i = Some j' \<and>
    jRevision j' \<in> {jRevision j, wrap64 (jRevision j + 1)}"
proof (cases c)
  case (Outside x)
  with run_call_revision [of x d i j] assms show ?thesis by simp
next
  case (CStart k at)
  show ?thesis
  proof (cases "Start g k at d")
    case (Pair r d')
    with CStart assms(2) Start_revision [of k at d _ d' i j] show ?thesis
      by (cases r) (auto simp: Start_def dest: transaction_Inl)
  qed
next
  case (CUpdate a)
  show ?thesis
  proof (cases "UpdateAttempt g a d")
    case (Pair r d')
    with CUpdate assms UpdateAttempt_revision [of a d _ d' i j] show ?thesis
      by (cases r) (auto simp: UpdateAttempt_def dest: transaction_Inl)
  qed
qed

lemma run_all_revision:
  assumes "list_all any_ok cs" "tjobs (view d) i = Some j"
    and "min_int64 \<le> jRevision j" "jRevision j + int (length cs) \<le> max_int64"
  shows "\<exists>j'. tjobs (view (run_all g cs d)) i = Some j' \<and> jRevision j \<le> jRevision j' \<and>
    jRevision j' \<le> jRevision j + int (length cs)"
  using assms
proof (induction cs arbitrary: d j)
  case (Cons c cs)
  from run_any_revision [of c d i j] Cons.prems obtain k where
    k: "tjobs (view (snd (run_any g c d))) i = Some k"
      "jRevision k \<in> {jRevision j, wrap64 (jRevision j + 1)}" by auto
  moreover have "wrap64 (jRevision j + 1) = jRevision j + 1"
    using Cons.prems by (intro wrap64_id) (simp add: in_int64_def)
  ultimately have r: "jRevision j \<le> jRevision k" "jRevision k \<le> jRevision j + 1" by auto
  have "list_all any_ok cs" "min_int64 \<le> jRevision k" "jRevision k + int (length cs) \<le> max_int64"
    using Cons.prems r by simp_all
  from Cons.IH [OF this(1) k(1) this(2,3)] r show ?case by (fastforce simp: run_all_def)
qed (simp add: run_all_def)

lemma stale_planning_refused:
  assumes "requestAction g i act w ms at expected d = (Inr u, d1)" "tjobs (view d) i = Some j"
    and "list_all any_ok cs" "jID planned = i" "jRevision planned \<le> jRevision j"
    and "min_int64 \<le> jRevision j" "jRevision j + 1 + int (length cs) \<le> max_int64"
  shows "\<exists>e. FinishPlanning g planned (run_all g cs d1) = (Inl e, run_all g cs d1)"
proof -
  have w: "wrap64 (jRevision j + 1) = jRevision j + 1"
    using assms(6,7) by (intro wrap64_id) (simp add: in_int64_def)
  from requestAction_revision [OF assms(1,2)] obtain j1 where
    j1: "tjobs (view d1) i = Some j1" "jRevision j1 = jRevision j + 1" unfolding w by blast
  then have "min_int64 \<le> jRevision j1" "jRevision j1 + int (length cs) \<le> max_int64"
    using assms(6,7) by simp_all
  from run_all_revision [OF assms(3) j1(1) this] obtain j2 where
    "tjobs (view (run_all g cs d1)) i = Some j2" "jRevision j1 \<le> jRevision j2" by blast
  with j1(2) assms(4,5) show ?thesis by (intro FinishPlanning_stale [of _ _ j2]) simp_all
qed

end

section \<open>Concrete rows\<close>

definition sample_job :: job where
  "sample_job = \<lparr>jID = 0, jService = ''radarr'', jQueueID = 7, jDownloadID = ''ABCD'',
     jTitle = ''Movie'', jSourceFingerprint = ''fp1'', jPlanningFingerprint = [],
     jPreviousPlanningFingerprint = [], jPlanningChange = [], jStableSince = 0,
     jEvidence = Some ''{}'', jCollectionError = [], jPlan = None, jGuidance = [],
     jRuntimeToleranceMS = 0, jRetryAt = zero_time, jPlanningAttempts = 0, jPendingAction = [],
     jRevision = 0, jInQueue = False, jState = Observed, jReason = [], jUpdatedAt = 100\<rparr>"

definition ready_job :: job where
  "ready_job = sample_job\<lparr>jID := 1, jState := Ready, jPlan := Some ''{}'', jInQueue := True\<rparr>"

definition ready_memory :: memory where
  "ready_memory = \<lparr>mJobs = [ready_job], mAttempts = [], mResults = []\<rparr>"

definition running_memory :: memory where
  "running_memory = snd (Start memory_gorm 1 200 ready_memory)"

definition lidarr_job :: job where
  "lidarr_job = sample_job\<lparr>jID := 1, jService := ''lidarr'', jState := Observed,
     jPlanningFingerprint := ''p2'', jInQueue := True\<rparr>"

definition planned_memory :: memory where
  "planned_memory = \<lparr>mJobs = [lidarr_job], mAttempts = [], mResults =
     [\<lparr>pJobID = 1, pFingerprint = ''p1'', pRevision = 0, pComplete = True, pAttempts = 2,
       pRetryAt = zero_time, pReason = [], pPlan = Some ''[1]''\<rparr>]\<rparr>"

lemmas sample_defs = sample_job_def ready_job_def ready_memory_def lidarr_job_def planned_memory_def
  memory_defs stored_def transaction_def active_def repairing_def replannable_def zero_time_def Let_def

lemma memory_store_inv:
  assumes "constraints m" "mAttempts m = []" "list_all (\<lambda>j. \<not> repairing (jState j)) (mJobs m)"
  shows "store_inv (memory_view m)"
proof (rule store_invI)
  fix i j assume j: "tjobs (memory_view m) i = Some j" and "repairing (jState j)"
  with view_job_mem(2) [OF j] assms(3)
  show "jPendingAction j = [] \<and> (\<exists>n a. tattempts (memory_view m) (i, n) = Some a \<and> aState a = jState j)"
    by (auto simp: list_all_iff)
qed (use assms in \<open>simp_all add: view_tables\<close>)

lemma ready_memory_inv: "store_inv (memory_view ready_memory)"
  by (rule memory_store_inv) (simp_all add: sample_defs)

lemma running_memory_eq: "running_memory =
  \<lparr>mJobs = [ready_job\<lparr>jState := Running, jReason := [], jUpdatedAt := 200\<rparr>],
   mAttempts = [\<lparr>aJobID = 1, aNumber = 1, aState = Running, aPlan = Some ''{}'', aOutputPath = [],
      aImportRequest = None, aHistoryIDBefore = 0, aCommandID = 0, aImportStartedAt = zero_time,
      aImportTerminalAt = zero_time, aImportReceipt = None, aReason = [], aStartedAt = 200,
      aUpdatedAt = 200\<rparr>], mResults = []\<rparr>"
  by (simp add: running_memory_def Start_def sample_defs)

lemma running_memory_inv: "store_inv (memory_view running_memory)"
  unfolding running_memory_def by (rule mem.Start_inv [OF ready_memory_inv])

section \<open>Properties\<close>

text \<open>
  C5: every transaction of the job store outside a repair refines the abstract life cycle: on the
  tables it is a sequence of abstract steps, whether it commits, is refused or fails; only
  \<open>FinishRemoval\<close> ends a removal, and only that of its own job, and only a request begins a new
  revision, and only of its own job.
\<close>

theorem store_refines_lifecycle:
  assumes "gorm_db g view" "call_ok c"
  shows "env_steps (finishes c) (requests c) (view d) (view (snd (run_call g c d)))"
  using gorm_db.run_call_steps [OF assms] .

theorem store_refines_lifecycle_witness:
  "env_steps {} {} (memory_view empty_memory)
     (memory_view (snd (run_call memory_gorm (CObserve sample_job) empty_memory)))"
  using store_refines_lifecycle [OF mem.gorm_db_axioms, of "CObserve sample_job" empty_memory]
  by simp

text \<open>
  C6: the store invariant (attempts belong to jobs and are numbered from 1, an active attempt is
  the latest of its job and in the same state as it, a job under repair has one and no pending
  action) is kept by every transaction, the two of the repair engine included.
\<close>

theorem store_keeps_invariant:
  assumes "gorm_db g view" "store_inv (view d)"
  shows "(call_ok c \<longrightarrow> store_inv (view (snd (run_call g c d)))) \<and>
    store_inv (view (snd (Start g i at d))) \<and>
    (aJobID a \<noteq> 0 \<and> aNumber a \<noteq> 0 \<and> aState a \<in> attempt_states \<longrightarrow>
      store_inv (view (snd (UpdateAttempt g a d))))"
  using gorm_db.Start_inv [OF assms] gorm_db.UpdateAttempt_inv [OF assms]
    env_steps_inv [OF gorm_db.run_call_steps [OF assms(1)] assms(2)] by blast

theorem store_keeps_invariant_witness:
  "store_inv (memory_view (snd (run_call memory_gorm (CStartRemoval 1 300) running_memory))) \<and>
   store_inv (memory_view (snd (UpdateAttempt memory_gorm
     (hd (mAttempts running_memory)\<lparr>aState := Importing\<rparr>) running_memory)))"
  using store_keeps_invariant [OF mem.gorm_db_axioms running_memory_inv,
      of "CStartRemoval 1 300" 1 0 "hd (mAttempts running_memory)\<lparr>aState := Importing\<rparr>"]
  by (simp add: running_memory_eq attempt_states_def)

text \<open>
  C7: nothing the scheduler or the operator asks of the store disturbs a repair that is under
  way: whatever transactions are run, the attempts stay as they are, and the job keeps its state
  and has no pending action.
\<close>

theorem repair_not_disturbed:
  assumes "gorm_db g view" "store_inv (view d)" "tjobs (view d) i = Some j" "repairing (jState j)"
    and "list_all call_ok cs"
  shows "tattempts (view (run_calls g cs d)) = tattempts (view d) \<and>
    (\<exists>j'. tjobs (view (run_calls g cs d)) i = Some j' \<and> jState j' = jState j \<and> jPendingAction j' = [])"
  using gorm_db.run_calls_repairing [OF assms(1,5,2-4)] .

theorem repair_not_disturbed_witness:
  "\<exists>j'. tjobs (memory_view (run_calls memory_gorm
      [CRequest 1 Delete [] 0 300 None, CReconcile ''radarr'' [] 400] running_memory)) 1 = Some j' \<and>
    jState j' = Running \<and> jPendingAction j' = []"
proof -
  have "tjobs (memory_view running_memory) 1 =
      Some (ready_job\<lparr>jState := Running, jReason := [], jUpdatedAt := 200\<rparr>)"
    by (simp add: running_memory_eq sample_defs)
  from repair_not_disturbed [OF mem.gorm_db_axioms running_memory_inv this,
      of "[CRequest 1 Delete [] 0 300 None, CReconcile ''radarr'' [] 400]"]
  show ?thesis by (simp add: repairing_def)
qed

text \<open>
  C8: an operator's request outdates every plan computed before it: after the request, and after
  any further transactions of the store, those of the repair engine included, finishing the
  planning of the old revision is refused and leaves the database as it is. A revision is counted in 64 bits;
  the transactions are fewer than the revisions that are left.
\<close>

theorem request_outdates_planning:
  assumes "gorm_db g view" "requestAction g i act w ms at expected d = (Inr u, d1)"
    and "tjobs (view d) i = Some j" "list_all any_ok cs" "jID planned = i"
    and "jRevision planned \<le> jRevision j"
    and "min_int64 \<le> jRevision j" "jRevision j + 1 + int (length cs) \<le> max_int64"
  shows "\<exists>e. FinishPlanning g planned (run_all g cs d1) = (Inl e, run_all g cs d1)"
  using gorm_db.stale_planning_refused [OF assms] .

theorem request_outdates_planning_witness:
  "\<exists>e. FinishPlanning memory_gorm ready_job
      (run_all memory_gorm [Outside (CReconcile ''radarr'' [] 400), CStart 1 500]
        (snd (RequestAction memory_gorm 1 Reconsider ''keep'' 0 300 ready_memory))) =
    (Inl e, run_all memory_gorm [Outside (CReconcile ''radarr'' [] 400), CStart 1 500]
        (snd (RequestAction memory_gorm 1 Reconsider ''keep'' 0 300 ready_memory)))"
proof -
  have request: "requestAction memory_gorm 1 Reconsider ''keep'' 0 300 None ready_memory =
      (Inr (), snd (RequestAction memory_gorm 1 Reconsider ''keep'' 0 300 ready_memory))"
    by (simp add: RequestAction_def requestAction_def sample_defs Reconsider_def)
  have row: "tjobs (memory_view ready_memory) 1 = Some ready_job"
    by (simp add: sample_defs)
  show ?thesis
    by (rule request_outdates_planning [OF mem.gorm_db_axioms request row])
      (simp_all add: ready_job_def sample_job_def min_int64_def max_int64_def)
qed

text \<open>
  C9: a job that comes back to inputs that were already planned completely in its revision is not
  planned again. When an observation with evidence finds such a job outside a repair or a removal,
  neither imported nor removed and last seen with other inputs, the row it saves is blocked, with
  the plan and the number of attempts of the stored result, and no other row is changed.
\<close>

theorem planned_inputs_not_replanned:
  assumes "gorm_db g view" "Observe g observed d = (Inr j', d')"
    and "first_identity g d (jService observed) (jQueueID observed) (jDownloadID observed) = Inr row"
    and "jEvidence observed \<noteq> None" "replannable (jState row)"
    and "jPlanningFingerprint observed \<noteq> []"
      "jPlanningFingerprint row \<notin> {[], jPlanningFingerprint observed}"
    and "tresults (view d) (jID row, jPlanningFingerprint observed, jRevision row) = Some p" "pComplete p"
  shows "jState j' = Blocked \<and> jPlan j' = pPlan p \<and> jReason j' = already_planned \<and>
    jPlanningAttempts j' = pAttempts p \<and>
    tjobs (view d') = (tjobs (view d))(jID row \<mapsto> stored j')"
  using gorm_db.observe_restores_planning [OF assms] .

theorem planned_inputs_not_replanned_witness:
  "jState (projr (fst (Observe memory_gorm (lidarr_job\<lparr>jPlanningFingerprint := ''p1''\<rparr>) planned_memory)))
     = Blocked \<and>
   jPlan (projr (fst (Observe memory_gorm (lidarr_job\<lparr>jPlanningFingerprint := ''p1''\<rparr>) planned_memory)))
     = Some ''[1]'' \<and>
   map_option jState (tjobs (memory_view
     (snd (Observe memory_gorm (lidarr_job\<lparr>jPlanningFingerprint := ''p1''\<rparr>) planned_memory))) 1) = Some Blocked"
proof -
  let ?o = "lidarr_job\<lparr>jPlanningFingerprint := ''p1''\<rparr>"
  let ?p = "\<lparr>pJobID = 1, pFingerprint = ''p1'', pRevision = 0, pComplete = True, pAttempts = 2,
       pRetryAt = zero_time, pReason = [], pPlan = Some ''[1]''\<rparr>"
  obtain j' d' where ok: "Observe memory_gorm ?o planned_memory = (Inr j', d')"
    by (simp add: Observe_def observe_row_def observePlanning_def observe_changed_def
        restorePlanning_def raw_len_def sample_defs)
  have row: "first_identity memory_gorm planned_memory (jService ?o) (jQueueID ?o) (jDownloadID ?o) =
      Inr lidarr_job"
    by (simp add: sample_defs)
  have "tresults (memory_view planned_memory)
      (jID lidarr_job, jPlanningFingerprint ?o, jRevision lidarr_job) = Some ?p"
    by (simp add: sample_defs)
  moreover have "jEvidence ?o \<noteq> None" "replannable (jState lidarr_job)" "jPlanningFingerprint ?o \<noteq> []"
    "jPlanningFingerprint lidarr_job \<notin> {[], jPlanningFingerprint ?o}" and id: "jID lidarr_job = 1"
    by (simp_all add: sample_defs)
  ultimately show ?thesis
    using planned_inputs_not_replanned [OF mem.gorm_db_axioms ok row, of ?p]
    by (simp add: ok id)
qed

text \<open>
  C11: \<open>MatchQueue\<close> returns the first row equal to the wanted key; without one it follows the
  download to its only row, says that there is none, or refuses to choose between several.
\<close>

theorem match_queue_decides: "MatchQueue wanted candidates = match_spec wanted candidates"
  by (rule MatchQueue_spec)

text \<open>
  C10: after the queue has been reconciled, a job whose row is in the queue is marked so, keeps its
  row and is not \<open>Removed\<close>; a job with neither its row nor its download in the queue has left it,
  and is \<open>Removed\<close> unless it is active or already imported.
\<close>

theorem reconcile_queue_rows:
  assumes "gorm_db g view" "ReconcileQueue g s present at d = (Inr u, d')" "s \<noteq> []"
    and "tjobs (view d) i = Some j" "jService j = s"
  shows "\<exists>j'. tjobs (view d') i = Some j' \<and>
     (QueueKey j \<in> set present \<longrightarrow> jInQueue j' \<and> jQueueID j' = jQueueID j \<and> jState j' \<noteq> Removed) \<and>
     (QueueKey j \<notin> set present \<and> (jDownloadID j = [] \<or> jDownloadID j \<notin> kDownloadID ` set present) \<longrightarrow>
        \<not> jInQueue j' \<and>
        jState j' = (if jInQueue j \<and> \<not> active (jState j) \<and> jState j \<noteq> Imported then Removed
                     else jState j))"
  using gorm_db.reconcile_queue_row [OF assms] .

theorem reconcile_queue_rows_witness:
  "\<exists>j'. tjobs (memory_view (snd (ReconcileQueue memory_gorm ''radarr'' [] 400 ready_memory))) 1 = Some j' \<and>
     \<not> jInQueue j' \<and> jState j' = Removed"
proof -
  obtain d' where ok: "ReconcileQueue memory_gorm ''radarr'' [] 400 ready_memory = (Inr (), d')"
    by (simp add: ReconcileQueue_def reconcile_absent_def MatchQueue_def sample_defs)
  have row: "tjobs (memory_view ready_memory) 1 = Some ready_job"
    by (simp add: sample_defs)
  from reconcile_queue_rows [OF mem.gorm_db_axioms ok _ row]
  show ?thesis by (simp add: ok) (simp add: sample_defs)
qed

end
