(* ===== verification/Repair_Properties.thy ===== *)
theory Repair_Properties
  imports Repair_Drive Jobs_Properties
begin

text \<open>
  The properties of the repair engine and the scheduler: what holds in every state of the system,
  whatever the interleaving of its threads and operators and wherever it crashes, and how the
  planning delay and the reconciliation of an attempt behave. The witnesses run the service on the
  database in memory.
\<close>

section \<open>A run of the service\<close>

definition prepared :: prepared_import where
  "prepared = \<lparr>piOutputPath = ''/out/movie.mkv'', piRequest = Some ''[7]'', piHistoryIDBefore = 40\<rparr>"

text \<open>The answers that take the worker from the start of a turn to the submission of an import.\<close>

definition to_submit :: "answer list" where
  "to_submit = [TimeA (zero_time - 1), StoreA, BoolA False, ErrA None, TimeA 300, BoolA True, StoreA,
     TimeA 300, StoreA, PreparedA (Inr prepared), TimeA 400, StoreA]"

definition booted :: "memory sys" where
  "booted = (boot ready_memory [])\<lparr>workers := (\<lambda>_. Done zero_time)(''radarr'' := tick ''radarr'' 60 zero_time)\<rparr>"

lemmas run_defs = to_submit_def prepared_def tick_def advance_def advanceJob_def Run_def execute_def
  submit_def List_def Get_def LatestAttempt_def Start_def UpdateAttempt_def

lemma booted_reachable: "(sys_step memory_gorm 60)\<^sup>*\<^sup>* (boot ready_memory []) booted"
proof -
  have "sys_step memory_gorm 60 (boot ready_memory [])
     ((boot ready_memory [])\<lparr>workers := (workers (boot ready_memory []))(''radarr'' := tick ''radarr'' 60 zero_time)\<rparr>)"
    by (rule sys_step.worker_turn) (simp_all add: boot_def)
  then show ?thesis unfolding booted_def by (simp add: boot_def r_into_rtranclp)
qed

lemma driven_to_submit:
  "\<exists>a k d. drive memory_gorm to_submit (tick ''radarr'' 60 zero_time) ready_memory [] = Some (SubmitC a k, d, [])"
  by (simp add: run_defs sample_defs)

lemma submit_reached:
  obtains \<sigma> a k where "(sys_step memory_gorm 60)\<^sup>*\<^sup>* (boot ready_memory []) \<sigma>"
    "workers \<sigma> ''radarr'' = SubmitC a k"
proof -
  from driven_to_submit obtain a k d where
    "drive memory_gorm to_submit (tick ''radarr'' 60 zero_time) ready_memory [] = Some (SubmitC a k, d, [])"
    by blast
  then have "(sys_step memory_gorm 60)\<^sup>*\<^sup>* booted
      (booted\<lparr>sdb := d, submitted := [], workers := (workers booted)(''radarr'' := SubmitC a k)\<rparr>)"
    by (intro drive_worker) (simp add: booted_def boot_def)
  from rtranclp_trans [OF booted_reachable this] show thesis by (rule that) simp
qed

lemma submission_reached:
  obtains \<sigma> where "(sys_step memory_gorm 60)\<^sup>*\<^sup>* (boot ready_memory []) \<sigma>" "submitted \<sigma> = [(1, 1)]"
proof -
  have "\<exists>p d. drive memory_gorm (to_submit @ [CommandA (Inr 9)]) (tick ''radarr'' 60 zero_time) ready_memory [] =
      Some (p, d, [(1, 1)])"
    by (simp add: run_defs sample_defs)
  then obtain p d where
    "drive memory_gorm (to_submit @ [CommandA (Inr 9)]) (tick ''radarr'' 60 zero_time) ready_memory [] =
      Some (p, d, [(1, 1)])" by blast
  then have "(sys_step memory_gorm 60)\<^sup>*\<^sup>* booted
      (booted\<lparr>sdb := d, submitted := [(1, 1)], workers := (workers booted)(''radarr'' := p)\<rparr>)"
    by (intro drive_worker) (simp add: booted_def boot_def)
  from rtranclp_trans [OF booted_reachable this] show thesis by (rule that) simp
qed

definition deleted_memory :: memory where
  "deleted_memory = \<lparr>mJobs = [ready_job\<lparr>jPendingAction := Delete\<rparr>], mAttempts = [], mResults = []\<rparr>"

lemma deleted_memory_inv: "store_inv (memory_view deleted_memory)"
  by (rule memory_store_inv) (simp_all add: deleted_memory_def sample_defs)

lemma removal_reached:
  obtains \<sigma> j k where "(sys_step memory_gorm 60)\<^sup>*\<^sup>* (boot deleted_memory []) \<sigma>"
    "actors \<sigma> ''radarr'' = RemoveC j k"
proof -
  let ?\<tau> = "(boot deleted_memory [])\<lparr>actors := (actors (boot deleted_memory []))(''radarr'' := removeRequested ''radarr'')\<rparr>"
  have "sys_step memory_gorm 60 (boot deleted_memory []) ?\<tau>"
    by (rule sys_step.actor_turn) (simp_all add: boot_def)
  moreover have "\<exists>j k d. drive memory_gorm [StoreA, TimeA 10, TimeA 10, StoreA] (removeRequested ''radarr'')
      deleted_memory [] = Some (RemoveC j k, d, [])"
    by (simp add: removeRequested_def List_def StartRemoval_def deleted_memory_def sample_defs)
  then obtain j k d where "drive memory_gorm [StoreA, TimeA 10, TimeA 10, StoreA]
      (actors ?\<tau> ''radarr'') (sdb ?\<tau>) (submitted ?\<tau>) = Some (RemoveC j k, d, [])"
    by (auto simp: boot_def)
  from drive_actor [OF this, of 60] have "(sys_step memory_gorm 60)\<^sup>*\<^sup>* ?\<tau>
      (?\<tau>\<lparr>sdb := d, submitted := [], actors := (actors ?\<tau>)(''radarr'' := RemoveC j k)\<rparr>)" .
  ultimately have "(sys_step memory_gorm 60)\<^sup>*\<^sup>* (boot deleted_memory [])
      (?\<tau>\<lparr>sdb := d, submitted := [], actors := (actors ?\<tau>)(''radarr'' := RemoveC j k)\<rparr>)"
    by (rule converse_rtranclp_into_rtranclp)
  then show thesis by (rule that) simp
qed

definition busy_memory :: memory where
  "busy_memory = \<lparr>mJobs = [ready_job, ready_job\<lparr>jID := 2, jQueueID := 8, jPendingAction := Delete\<rparr>],
     mAttempts = [], mResults = []\<rparr>"

lemma busy_memory_inv: "store_inv (memory_view busy_memory)"
  by (rule memory_store_inv) (simp_all add: busy_memory_def sample_defs)

lemma busy_reached:
  obtains \<sigma> a k j k' where "(sys_step memory_gorm 60)\<^sup>*\<^sup>* (boot busy_memory []) \<sigma>"
    "workers \<sigma> ''radarr'' = SubmitC a k" "actors \<sigma> ''radarr'' = RemoveC j k'"
proof -
  have "\<exists>a k d. drive memory_gorm to_submit (tick ''radarr'' 60 zero_time) busy_memory [] =
        Some (SubmitC a k, d, []) \<and>
      (\<exists>j k' d'. drive memory_gorm [StoreA, TimeA 10, TimeA 10, StoreA] (removeRequested ''radarr'') d [] =
        Some (RemoveC j k', d', []))"
    by (simp add: run_defs removeRequested_def StartRemoval_def busy_memory_def sample_defs)
  then obtain a k d j k' d' where
    w: "drive memory_gorm to_submit (tick ''radarr'' 60 zero_time) busy_memory [] = Some (SubmitC a k, d, [])" and
    r: "drive memory_gorm [StoreA, TimeA 10, TimeA 10, StoreA] (removeRequested ''radarr'') d [] =
        Some (RemoveC j k', d', [])"
    by blast
  let ?step = "sys_step memory_gorm 60" and ?s = "''radarr''"
  let ?b = "boot busy_memory []"
  let ?t = "?b\<lparr>workers := (workers ?b)(?s := tick ?s 60 zero_time)\<rparr>"
  let ?u = "?t\<lparr>sdb := d, submitted := [], workers := (workers ?t)(?s := SubmitC a k)\<rparr>"
  let ?v = "?u\<lparr>actors := (actors ?u)(?s := removeRequested ?s)\<rparr>"
  let ?w = "?v\<lparr>sdb := d', submitted := [], actors := (actors ?v)(?s := RemoveC j k')\<rparr>"
  have "?step ?b ?t" by (rule sys_step.worker_turn) (simp_all add: boot_def)
  moreover have "?step\<^sup>*\<^sup>* ?t ?u" by (rule drive_worker [where anss = to_submit]) (simp add: w boot_def)
  moreover have "?step ?u ?v" by (rule sys_step.actor_turn) (simp_all add: boot_def)
  moreover have "?step\<^sup>*\<^sup>* ?v ?w" 
    by (rule drive_actor [where anss = "[StoreA, TimeA 10, TimeA 10, StoreA]"]) (use r in simp)
  ultimately have "?step\<^sup>*\<^sup>* ?b ?w" by (meson converse_rtranclp_into_rtranclp rtranclp_trans)
  then show thesis by (rule that) simp_all
qed

section \<open>Safety in every reachable state\<close>

text \<open>
  C1: an import is submitted at most once for each attempt: in every state the system can reach
  from an empty log, through any interleaving of the workers, the actions threads, the operators
  and crashes, with lost replies and failing calls, no attempt occurs twice among the submissions.
\<close>

theorem submitted_at_most_once:
  assumes "gorm_db g view" "store_inv (view d)" "(sys_step g interval)\<^sup>*\<^sup>* (boot d []) \<sigma>"
  shows "distinct (submitted \<sigma>)"
  using gorm_db.reachable_inv [OF assms(1,3,2)] by (simp add: sys_inv_def log_ok_def)

theorem submitted_at_most_once_witness:
  "\<exists>\<sigma>. (sys_step memory_gorm 60)\<^sup>*\<^sup>* (boot ready_memory []) \<sigma> \<and> submitted \<sigma> = [(1, 1)] \<and>
     distinct (submitted \<sigma>)"
proof -
  obtain \<sigma> where r: "(sys_step memory_gorm 60)\<^sup>*\<^sup>* (boot ready_memory []) \<sigma>" "submitted \<sigma> = [(1, 1)]"
    by (rule submission_reached)
  from submitted_at_most_once [OF mem.gorm_db_axioms ready_memory_inv r(1)] r show ?thesis by blast
qed

text \<open>
  C2: an import is submitted only after the intent has been stored, and while nothing else may
  touch the job: when a worker is about to submit, the stored attempt is \<open>Importing\<close> with the very
  request that is submitted and has not been submitted before, and its job is \<open>Importing\<close>, of the
  worker's service and without a pending action.
\<close>

theorem submit_only_stored_intent:
  assumes "gorm_db g view" "store_inv (view d)" "(sys_step g interval)\<^sup>*\<^sup>* (boot d []) \<sigma>"
    and "workers \<sigma> s = SubmitC a k"
  shows "attempt_key a \<notin> set (submitted \<sigma>) \<and>
    (\<exists>b. tattempts (view (sdb \<sigma>)) (attempt_key a) = Some b \<and> aState b = Importing \<and>
      aImportRequest b = aImportRequest a) \<and>
    (\<exists>j. tjobs (view (sdb \<sigma>)) (aJobID a) = Some j \<and> jState j = Importing \<and> jPendingAction j = [] \<and>
      jService j = s)"
  using sys_submit [OF gorm_db.reachable_inv [OF assms(1,3,2)] assms(4)] .

theorem submit_only_stored_intent_witness:
  "\<exists>\<sigma> a k b. (sys_step memory_gorm 60)\<^sup>*\<^sup>* (boot ready_memory []) \<sigma> \<and>
     workers \<sigma> ''radarr'' = SubmitC a k \<and>
     tattempts (memory_view (sdb \<sigma>)) (attempt_key a) = Some b \<and> aState b = Importing"
proof -
  obtain \<sigma> a k where r: "(sys_step memory_gorm 60)\<^sup>*\<^sup>* (boot ready_memory []) \<sigma>"
    "workers \<sigma> ''radarr'' = SubmitC a k" by (rule submit_reached)
  from submit_only_stored_intent [OF mem.gorm_db_axioms ready_memory_inv r] r show ?thesis by blast
qed

text \<open>
  C4: the tracking of a queue entry is removed only while its job is \<open>Removing\<close>, of the same
  service and with the removal still requested, and no attempt of that job is active.
\<close>

theorem remove_only_while_removing:
  assumes "gorm_db g view" "store_inv (view d)" "(sys_step g interval)\<^sup>*\<^sup>* (boot d []) \<sigma>"
    and "actors \<sigma> s = RemoveC j k"
  shows "(\<exists>i. tjobs (view (sdb \<sigma>)) (jID j) = Some i \<and> jState i = Removing \<and> jPendingAction i = Delete \<and>
      jService i = s) \<and>
    (\<forall>n b. tattempts (view (sdb \<sigma>)) (jID j, n) = Some b \<longrightarrow> \<not> active (aState b))"
  using sys_remove [OF gorm_db.reachable_inv [OF assms(1,3,2)] assms(4)] .

theorem remove_only_while_removing_witness:
  "\<exists>\<sigma> j k i. (sys_step memory_gorm 60)\<^sup>*\<^sup>* (boot deleted_memory []) \<sigma> \<and>
     actors \<sigma> ''radarr'' = RemoveC j k \<and> tjobs (memory_view (sdb \<sigma>)) (jID j) = Some i \<and>
     jState i = Removing"
proof -
  obtain \<sigma> j k where r: "(sys_step memory_gorm 60)\<^sup>*\<^sup>* (boot deleted_memory []) \<sigma>"
    "actors \<sigma> ''radarr'' = RemoveC j k" by (rule removal_reached)
  from remove_only_while_removing [OF mem.gorm_db_axioms deleted_memory_inv r] r show ?thesis by blast
qed

text \<open>
  C3: a repair and a removal never work on the same job: whenever a worker is repairing or
  submitting for an attempt and an actions thread is removing the tracking of a job, the jobs
  differ.
\<close>

theorem repair_excludes_removal:
  assumes "gorm_db g view" "store_inv (view d)" "(sys_step g interval)\<^sup>*\<^sup>* (boot d []) \<sigma>"
    and "workers \<sigma> s = RepairC i a k \<or> workers \<sigma> s = SubmitC a k'"
    and "actors \<sigma> s' = RemoveC j k''"
  shows "aJobID a \<noteq> jID j"
proof -
  note inv = gorm_db.reachable_inv [OF assms(1,3,2)]
  have "\<exists>m. tjobs (view (sdb \<sigma>)) (aJobID a) = Some m \<and> jPendingAction m = []"
    using assms(4) sys_repair [OF inv] sys_submit [OF inv] by blast
  moreover have "\<exists>m. tjobs (view (sdb \<sigma>)) (jID j) = Some m \<and> jPendingAction m = Delete"
    using sys_remove [OF inv assms(5)] by blast
  ultimately show ?thesis by auto
qed

theorem repair_excludes_removal_witness:
  "\<exists>\<sigma> a k j k'. (sys_step memory_gorm 60)\<^sup>*\<^sup>* (boot busy_memory []) \<sigma> \<and>
     workers \<sigma> ''radarr'' = SubmitC a k \<and> actors \<sigma> ''radarr'' = RemoveC j k' \<and> aJobID a \<noteq> jID j"
proof -
  obtain \<sigma> a k j k' where r: "(sys_step memory_gorm 60)\<^sup>*\<^sup>* (boot busy_memory []) \<sigma>"
    "workers \<sigma> ''radarr'' = SubmitC a k" "actors \<sigma> ''radarr'' = RemoveC j k'" by (rule busy_reached)
  from repair_excludes_removal [OF mem.gorm_db_axioms busy_memory_inv r(1) disjI2 [OF r(2)] r(3)] r
  show ?thesis by blast
qed

section \<open>Planning and reconciliation\<close>

lemma delay_loop_power:
  "0 < delay \<Longrightarrow> min (delay_loop count attempt delay) (6 * hour) =
     min (delay * 2 ^ nat (attempt - count)) (6 * hour)"
proof (induction count attempt delay rule: delay_loop.induct)
  case (1 count attempt delay)
  show ?case
  proof (cases "count < attempt \<and> delay < 6 * hour")
    case True
    then have "nat (attempt - count) = Suc (nat (attempt - (count + 1)))" by arith
    then have "delay * 2 ^ nat (attempt - count) = delay * 2 * 2 ^ nat (attempt - (count + 1))"
      by simp
    with 1 True show ?thesis by (subst delay_loop.simps) simp
  next
    case False
    have "delay \<le> delay * 2 ^ nat (attempt - count)" using 1(2) by simp
    with False show ?thesis by (subst delay_loop.simps) auto
  qed
qed

text \<open>
  C13: a failed planning is retried after five minutes, doubled for every earlier failure and
  never more than six hours: the delay is \<open>min (5m * 2\<^sup>(attempt - 1)) 6h\<close> for every attempt number.
\<close>

theorem planning_delay_doubles:
  "planningDelay attempt = min (5 * minute * 2 ^ nat (attempt - 1)) (6 * hour)"
  using delay_loop_power [of "5 * minute" 1 attempt] by (simp add: planningDelay_def minute_def second_def)

text \<open>
  \<open>stores x p ts b\<close>: a run of the program in which the service answers \<open>x\<close> about the import and
  the clock is read at the times \<open>ts\<close>, in this order, stores the attempt \<open>b\<close>, and no other one.
\<close>

inductive stores :: "go_error + import_status \<Rightarrow> 'a prog \<Rightarrow> gotime list \<Rightarrow> attempt \<Rightarrow> bool"
  for x :: "go_error + import_status" where
  update: "k e = Done r \<Longrightarrow> stores x (UpdateAttemptC a k) [] a"
| now: "stores x (k t) ts b \<Longrightarrow> stores x (NowC k) (t # ts) b"
| check: "stores x (k x) ts b \<Longrightarrow> stores x (CheckImportC a k) ts b"

inductive_simps stores_simps [simp]:
  "stores x (Done r) ts b" "stores x (UpdateAttemptC a k) ts b" "stores x (NowC k) ts b"
  "stores x (CheckImportC a k) ts b"

text \<open>What the service reports of an import: a receipt, or the failure of its command.\<close>

primrec reported_receipt :: "go_error + import_status \<Rightarrow> raw" where
  "reported_receipt (Inl e) = None"
| "reported_receipt (Inr status) = isReceipt status"

primrec reported_failure :: "go_error + import_status \<Rightarrow> string" where
  "reported_failure (Inl e) = []"
| "reported_failure (Inr status) = (if raw_len (isReceipt status) \<noteq> 0 then [] else isFailure status)"

text \<open>
  \<open>outcome x ts a b\<close>: with the report \<open>x\<close> and the clock readings \<open>ts\<close> the attempt \<open>a\<close> becomes \<open>b\<close>.
  The end of a failed command is the time stored earlier or else the first reading; the command
  has failed for long when the last but one reading is 30 seconds after that end, or more.
\<close>

definition terminal_at :: "go_error + import_status \<Rightarrow> gotime list \<Rightarrow> attempt \<Rightarrow> gotime" where
  "terminal_at x ts a = (if reported_failure x \<noteq> [] \<and> aImportTerminalAt a = zero_time then hd ts
     else aImportTerminalAt a)"

definition failed_for_long :: "go_error + import_status \<Rightarrow> gotime list \<Rightarrow> attempt \<Rightarrow> bool" where
  "failed_for_long x ts a \<longleftrightarrow> reported_failure x \<noteq> [] \<and>
     30 * second \<le> time_sub (ts ! (length ts - 2)) (terminal_at x ts a)"

definition reconciled_state :: "go_error + import_status \<Rightarrow> gotime list \<Rightarrow> attempt \<Rightarrow> jstate" where
  "reconciled_state x ts a = (if raw_len (reported_receipt x) \<noteq> 0 then Imported
     else if failed_for_long x ts a then Failed else aState a)"

definition reconciled_reason :: "go_error + import_status \<Rightarrow> gotime list \<Rightarrow> attempt \<Rightarrow> string" where
  "reconciled_reason x ts a =
     (case x of Inl err \<Rightarrow> ''checking import: '' @ error_text err
      | Inr status \<Rightarrow>
          if raw_len (isReceipt status) \<noteq> 0 then []
          else if failed_for_long x ts a then isFailure status
          else if isFailure status \<noteq> [] then ''command finished; waiting for import history''
          else if aCommandID a = 0
          then ''import submission uncertain; checking history without resubmitting''
          else aReason a)"

definition outcome ::
  "go_error + import_status \<Rightarrow> gotime list \<Rightarrow> attempt \<Rightarrow> attempt \<Rightarrow> bool" where
  "outcome x ts a b \<longleftrightarrow>
     length ts = (if reported_failure x = [] then 1 else if aImportTerminalAt a = zero_time then 3 else 2) \<and>
     b = a\<lparr>aState := reconciled_state x ts a, aReason := reconciled_reason x ts a,
           aImportReceipt := (if raw_len (reported_receipt x) \<noteq> 0 then reported_receipt x else aImportReceipt a),
           aImportTerminalAt := terminal_at x ts a, aUpdatedAt := last ts\<rparr>"

lemmas outcome_defs = outcome_def reconciled_state_def reconciled_reason_def failed_for_long_def
  terminal_at_def

lemma stores_reconcile_store [simp]:
  "stores x (reconcile_store e a) ts b \<longleftrightarrow> (\<exists>now. ts = [now] \<and> b = a\<lparr>aUpdatedAt := now\<rparr>)"
  by (auto simp: reconcile_store_def)

lemma stores_reconcile_failure:
  "stores x (reconcile_failure f a) ts b \<longleftrightarrow> (\<exists>seen now. ts = [seen, now] \<and>
     (let late = 30 * second \<le> time_sub seen (aImportTerminalAt a) in
      b = a\<lparr>aState := if late then Failed else aState a,
            aReason := if late then f else ''command finished; waiting for import history'',
            aUpdatedAt := now\<rparr>))"
  by (auto simp: reconcile_failure_def Let_def)

lemma length_readings: "length ts = Suc 0 \<longleftrightarrow> (\<exists>t. ts = [t])" "length ts = 2 \<longleftrightarrow> (\<exists>t u. ts = [t, u])"
  "length ts = 3 \<longleftrightarrow> (\<exists>t u v. ts = [t, u, v])"
  by (auto simp: length_Suc_conv eval_nat_numeral)

text \<open>
  C12: checking an import stores exactly one attempt, and what it stores is determined by the
  report of the service and the times read from the clock. The attempt becomes \<open>Imported\<close> exactly
  when there is a receipt, which is stored with it. It becomes \<open>Failed\<close> exactly when there is none, a
  failed command is reported, and the time read in this very check is at least 30 seconds after the
  end of the command, which is the stored one or else the first time read. Otherwise it keeps its
  state; in every case it keeps its key, its request and everything but the reason and the times.
\<close>

theorem reconcile_outcomes:
  "stores x (reconcile a) ts b \<longleftrightarrow> outcome x ts a b"
proof (cases x)
  case (Inl err)
  then show ?thesis
    by (auto simp: reconcile_def outcome_defs length_readings)
next
  case (Inr status)
  consider (receipt) "raw_len (isReceipt status) \<noteq> 0"
    | (failure) "raw_len (isReceipt status) = 0" "isFailure status \<noteq> []"
    | (pending) "raw_len (isReceipt status) = 0" "isFailure status = []" by blast
  then show ?thesis
  proof cases
    case receipt
    with Inr show ?thesis by (auto simp: reconcile_def outcome_defs length_readings)
  next
    case failure
    show ?thesis
    proof (cases "aImportTerminalAt a = zero_time")
      case True
      have "stores x (reconcile a) ts b \<longleftrightarrow> (\<exists>t. \<exists>us. ts = t # us \<and>
          stores x (reconcile_failure (isFailure status) (a\<lparr>aImportTerminalAt := t\<rparr>)) us b)"
        using Inr failure True by (auto simp: reconcile_def)
      also have "\<dots> \<longleftrightarrow> outcome x ts a b"
        using Inr failure True
        by (auto simp: stores_reconcile_failure outcome_defs length_readings Let_def split del: if_split)
          (rule attempt.equality; simp)+
      finally show ?thesis .
    next
      case False
      have "stores x (reconcile a) ts b \<longleftrightarrow> stores x (reconcile_failure (isFailure status) a) ts b"
        using Inr failure False by (simp add: reconcile_def)
      also have "\<dots> \<longleftrightarrow> outcome x ts a b"
        using Inr failure False
        by (auto simp: stores_reconcile_failure outcome_defs length_readings Let_def split del: if_split)
          (rule attempt.equality; simp)+
      finally show ?thesis .
    qed
  next
    case pending
    with Inr show ?thesis by (auto simp: reconcile_def outcome_defs length_readings)
  qed
qed

end
