(* ===== verification/Go_Path.thy ===== *)
theory Go_Path
  imports Repair_Prelude
begin

text \<open>
  The functions of \<open>path/filepath\<close> and \<open>strings\<close> the sources use, for Unix paths: a path is a
  string, its separator the slash.
\<close>

section \<open>Strings\<close>

fun split_on :: "char \<Rightarrow> string \<Rightarrow> string list" where
  "split_on c [] = [[]]"
| "split_on c (x # xs) =
     (if x = c then [] # split_on c xs
      else (case split_on c xs of [] \<Rightarrow> [[x]] | y # ys \<Rightarrow> (x # y) # ys))"

fun join_with :: "string \<Rightarrow> string list \<Rightarrow> string" where
  "join_with sep [] = []"
| "join_with sep [x] = x"
| "join_with sep (x # y # ys) = x @ sep @ join_with sep (y # ys)"

lemma split_on_ne [simp]: "split_on c s \<noteq> []"
  by (induction s) (auto split: list.splits)

lemma join_split: "join_with [c] (split_on c s) = s"
proof (induction s)
  case (Cons x xs)
  obtain y ys where ys: "split_on c xs = y # ys"
    by (cases "split_on c xs") auto
  with Cons show ?case
    by (cases ys) auto
qed simp

lemma split_on_no_sep: "x \<in> set (split_on c s) \<Longrightarrow> c \<notin> set x"
  by (induction s arbitrary: x) (auto split: if_splits list.splits)

lemma split_on_clean: "c \<notin> set x \<Longrightarrow> split_on c x = [x]"
  by (induction x) auto

lemma split_on_append: "c \<notin> set x \<Longrightarrow> split_on c (x @ c # s) = x # split_on c s"
  by (induction x) auto

lemma split_on_sep: "split_on c (s @ c # x) = split_on c s @ split_on c x"
proof (induction s)
  case (Cons y s)
  obtain z zs where "split_on c s = z # zs"
    by (cases "split_on c s") auto
  with Cons show ?case
    by simp
qed simp

lemma split_join:
  "xs \<noteq> [] \<Longrightarrow> \<forall>x\<in>set xs. c \<notin> set x \<Longrightarrow> split_on c (join_with [c] xs) = xs"
  by (induction "[c]" xs rule: join_with.induct) (simp_all add: split_on_clean split_on_append)

definition has_prefix :: "string \<Rightarrow> string \<Rightarrow> bool" where
  "has_prefix s p \<longleftrightarrow> take (length p) s = p"

definition has_suffix :: "string \<Rightarrow> string \<Rightarrow> bool" where
  "has_suffix s p \<longleftrightarrow> length p \<le> length s \<and> drop (length s - length p) s = p"

lemma has_prefix_append [simp]: "has_prefix (p @ s) p"
  by (simp add: has_prefix_def)

lemma has_suffix_append [simp]: "has_suffix (s @ p) p"
  by (simp add: has_suffix_def)

section \<open>Paths\<close>

definition IsAbs :: "string \<Rightarrow> bool" where
  "IsAbs path \<longleftrightarrow> has_prefix path ''/''"

text \<open>
  The stack of components \<open>Clean\<close> keeps, last component first: an empty component and a dot are
  dropped, two dots drop the component before them unless there is none.
\<close>

fun clean_step :: "bool \<Rightarrow> string list \<Rightarrow> string \<Rightarrow> string list" where
  "clean_step rooted kept part =
     (if part = [] \<or> part = ''.'' then kept
      else if part = ''..''
      then (case kept of
              [] \<Rightarrow> if rooted then [] else [part]
            | k # ks \<Rightarrow> if k = ''..'' then part # kept else ks)
      else part # kept)"

definition Clean :: "string \<Rightarrow> string" where
  "Clean path =
     (let rooted = IsAbs path;
          parts = rev (foldl (clean_step rooted) [] (split_on CHR ''/'' path))
      in if rooted then CHR ''/'' # join_with ''/'' parts
         else if parts = [] then ''.'' else join_with ''/'' parts)"

fun trim_slashes :: "string \<Rightarrow> string" where
  "trim_slashes s = rev (dropWhile (\<lambda>c. c = CHR ''/'') (rev s))"

definition Base :: "string \<Rightarrow> string" where
  "Base path =
     (if path = [] then ''.''
      else let s = trim_slashes path
           in if s = [] then ''/'' else last (split_on CHR ''/'' s))"

definition Dir :: "string \<Rightarrow> string" where
  "Dir path = Clean (rev (dropWhile (\<lambda>c. c \<noteq> CHR ''/'') (rev path)))"

definition Join :: "string list \<Rightarrow> string" where
  "Join elem =
     (let rest = dropWhile (\<lambda>e. e = []) elem
      in if rest = [] then [] else Clean (join_with ''/'' rest))"

definition Ext :: "string \<Rightarrow> string" where
  "Ext path =
     (let name = last (split_on CHR ''/'' path)
      in if CHR ''.'' \<in> set name
         then CHR ''.'' # last (split_on CHR ''.'' name) else [])"

section \<open>Clean absolute paths\<close>

text \<open>The paths made of a slash and ordinary components are the ones \<open>Clean\<close> leaves alone.\<close>

definition plain :: "string \<Rightarrow> bool" where
  "plain part \<longleftrightarrow> part \<noteq> [] \<and> part \<noteq> ''.'' \<and> part \<noteq> ''..'' \<and> CHR ''/'' \<notin> set part"

definition abs_path :: "string list \<Rightarrow> string" where
  "abs_path parts = CHR ''/'' # join_with ''/'' parts"

lemma clean_step_plain:
  assumes "\<forall>part\<in>set parts. plain part"
  shows "foldl (clean_step rooted) kept parts = rev parts @ kept"
  using assms by (induction parts arbitrary: kept) (auto simp: plain_def)

lemma IsAbs_abs_path [simp]: "IsAbs (abs_path parts)"
  by (simp add: IsAbs_def has_prefix_def abs_path_def)

lemma Clean_abs_path:
  assumes "\<forall>part\<in>set parts. plain part"
  shows "Clean (abs_path parts) = abs_path parts"
proof (cases "parts = []")
  case True
  then show ?thesis
    by (simp add: Clean_def abs_path_def IsAbs_def has_prefix_def)
next
  case False
  have "split_on CHR ''/'' (abs_path parts) = [] # parts"
    using assms False by (simp add: abs_path_def split_join plain_def)
  then show ?thesis
    using assms by (simp add: Clean_def clean_step_plain) (simp add: abs_path_def)
qed

text \<open>What \<open>Clean\<close> keeps of an absolute path are ordinary components.\<close>

lemma clean_rooted_plain:
  assumes "\<forall>part\<in>set parts. CHR ''/'' \<notin> set part" "\<forall>part\<in>set kept. plain part"
  shows "\<forall>part\<in>set (foldl (clean_step True) kept parts). plain part"
  using assms
proof (induction parts arbitrary: kept)
  case (Cons p ps)
  have "\<forall>part\<in>set (clean_step True kept p). plain part"
    using Cons.prems by (cases kept) (auto simp: plain_def)
  with Cons show ?case
    by (simp del: clean_step.simps)
qed simp

lemma Clean_absolute:
  assumes "IsAbs path"
  obtains parts where "Clean path = abs_path parts" "\<forall>part\<in>set parts. plain part"
proof -
  let ?parts = "foldl (clean_step True) [] (split_on CHR ''/'' path)"
  have "\<forall>part\<in>set ?parts. plain part"
    by (rule clean_rooted_plain) (auto dest: split_on_no_sep)
  then show thesis
    using assms by (intro that [of "rev ?parts"]) (simp_all add: Clean_def abs_path_def)
qed

lemma Clean_idempotent:
  assumes "IsAbs path"
  shows "Clean (Clean path) = Clean path"
  using assms by (metis Clean_absolute Clean_abs_path)

lemma abs_path_snoc: "parts \<noteq> [] \<Longrightarrow> abs_path (parts @ [part]) = abs_path parts @ CHR ''/'' # part"
  by (induction "''/''" parts rule: join_with.induct) (auto simp: abs_path_def)

lemma last_split_snoc: "CHR ''/'' \<notin> set x \<Longrightarrow> last (split_on CHR ''/'' (s @ CHR ''/'' # x)) = x"
  by (simp add: split_on_sep split_on_clean)

lemma Base_last:
  assumes "plain part"
  shows "Base (s @ CHR ''/'' # part) = part"
proof -
  have "dropWhile (\<lambda>c. c = CHR ''/'') (rev (s @ CHR ''/'' # part)) = rev (s @ CHR ''/'' # part)"
    using assms by (cases part rule: rev_cases) (auto simp: plain_def)
  then show ?thesis
    using assms by (simp add: Base_def last_split_snoc plain_def)
qed

lemma Join_abs_path:
  assumes "\<forall>part\<in>set parts. plain part" "parts \<noteq> []" "plain name"
  shows "Join [abs_path parts, name] = abs_path (parts @ [name])"
proof -
  have "join_with ''/'' [abs_path parts, name] = abs_path (parts @ [name])"
    using assms(2) by (simp add: abs_path_snoc)
  moreover have "abs_path parts \<noteq> []"
    by (simp add: abs_path_def)
  ultimately show ?thesis
    using assms by (simp add: Join_def Clean_abs_path)
qed

end
