(* ===== verification/Join_State.thy ===== *)
theory Join_State
  imports Go_Path "HOL-Library.Char_ord" "HOL-Library.List_Lexorder"
begin

text \<open>
  The durable record of a join on the worker (\<open>worker/joinstate/record.go\<close>, \<open>store.go\<close>) and the
  replacement of its files (\<open>internal/privatefile\<close>). The state is the directory of executions;
  what the operating system may refuse is an argument. The message contracts, which are generated
  from schemas, the digests and the JSON codec are the record \<open>contracts\<close>; the bytes of a file are
  of any type \<open>'b\<close>. Nil and empty slices are one value of the model: the code normalises them when
  it copies a record.
\<close>

section \<open>Records\<close>

datatype join_state = Prepared | Staged | Published | Discarded | Failed | OtherState string

primrec state_text :: "join_state \<Rightarrow> string" where
  "state_text Prepared = ''prepared''"
| "state_text Staged = ''staged''"
| "state_text Published = ''published''"
| "state_text Discarded = ''discarded''"
| "state_text Failed = ''failed''"
| "state_text (OtherState s) = s"

record part =
  ptFileID :: string
  ptPathComponents :: "string list"
  ptExpectedFingerprint :: string

record join_specification =
  sExecutionID :: string
  sCaseID :: string
  sCapabilityID :: string
  sRootID :: string
  sParts :: "part list"
  sOutputContainer :: string
  sExpectedSourceBytes :: int
  sExpectedDurationMS :: int
  sDurationToleranceMS :: int
  sExpectedStreamCount :: int

record 'e staged_artifact =
  stFingerprint :: string
  stSizeBytes :: int
  stEvidence :: 'e

record published_artifact =
  puRootID :: string
  puPathComponents :: "string list"

record 'e execution =
  eVersion :: string
  eExecutionID :: string
  eArtifactID :: string
  eSpecification :: join_specification
  eState :: join_state
  eStaged :: "'e staged_artifact option"
  ePublished :: "published_artifact option"
  eFailure :: "string option"
  ePreparedAt :: gotime
  eUpdatedAt :: gotime

text \<open>The request to stage a join; its type is generated from the schema of the worker.\<close>

record stage_join_request =
  rqRequestID :: string
  rqExecutionID :: string
  rqCaseID :: string
  rqCapabilityID :: string
  rqRootID :: string
  rqParts :: "part list"
  rqOutputContainer :: string
  rqExpectedSourceBytes :: int
  rqExpectedDurationMS :: int
  rqDurationToleranceMS :: int
  rqExpectedStreamCount :: int

section \<open>What the code relies on\<close>

text \<open>
  The checks of the message contracts give the error of encoding the message, \<open>sha256Hex\<close> is the
  hexadecimal digest of some bytes, \<open>jcsTransform\<close> the canonical form of a JSON text, \<open>decode\<close> reads
  one JSON value and gives what follows it, \<open>trailing\<close> says what reading on finds.
\<close>

datatype trailing = EndOfInput | AnotherValue | BadInput go_error

record ('e, 'b) contracts =
  checkRequest :: "stage_join_request \<Rightarrow> go_error + unit"
  checkStaged :: "string \<Rightarrow> 'e staged_artifact \<Rightarrow> go_error + unit"
  checkPublished :: "string \<Rightarrow> string \<Rightarrow> published_artifact \<Rightarrow> go_error + unit"
  checkFailure :: "string \<Rightarrow> go_error + unit"
  checkDiscard :: "string \<Rightarrow> string \<Rightarrow> go_error + unit"
  marshalSpecification :: "join_specification \<Rightarrow> go_error + string"
  jcsTransform :: "string \<Rightarrow> go_error + string"
  sha256Hex :: "string \<Rightarrow> string"
  marshal :: "'e execution \<Rightarrow> go_error + 'b"
  decode :: "'b \<Rightarrow> go_error + 'e execution \<times> 'b"
  trailing :: "'b \<Rightarrow> trailing"
  size_of :: "'b \<Rightarrow> int"

definition ExecutionVersionV1 :: string where
  "ExecutionVersionV1 = ''radarr-repair-worker-join/v1''"

definition MaxExecutionBytes :: int where
  "MaxExecutionBytes = 8 * 2 ^ 20"

definition validationRequestID :: string where
  "validationRequestID = ''request:state-validation''"

definition artifactIDDomain :: string where
  "artifactIDDomain = ''radarr-repair-worker-artifact-v1'' @ [CHR 0x00]"

definition artifactIDPrefix :: string where
  "artifactIDPrefix = ''artifact:''"

section \<open>Identity and validation\<close>

definition cloneParts :: "part list \<Rightarrow> part list" where
  "cloneParts parts = map (\<lambda>part. part\<lparr>ptPathComponents := [] @ ptPathComponents part\<rparr>) parts"

definition cloneExecution :: "'e execution \<Rightarrow> 'e execution" where
  "cloneExecution execution =
     execution\<lparr>eSpecification := (eSpecification execution)
                 \<lparr>sParts := cloneParts (sParts (eSpecification execution))\<rparr>,
               ePublished := map_option (\<lambda>published.
                 published\<lparr>puPathComponents := [] @ puPathComponents published\<rparr>) (ePublished execution)\<rparr>"

lemma clone_id [simp]: "cloneParts parts = parts" "cloneExecution execution = execution"
  by (simp_all add: cloneParts_def cloneExecution_def option.map_ident)

lemma clone_fun: "cloneExecution = (\<lambda>execution. execution)"
  by (rule ext) simp

definition specificationFromRequest ::
  "('e, 'b) contracts \<Rightarrow> stage_join_request \<Rightarrow> go_error + join_specification" where
  "specificationFromRequest c request =
     and_then (checkRequest c request) (\<lambda>_.
     Inr \<lparr>sExecutionID = rqExecutionID request, sCaseID = rqCaseID request,
          sCapabilityID = rqCapabilityID request, sRootID = rqRootID request,
          sParts = cloneParts (rqParts request), sOutputContainer = rqOutputContainer request,
          sExpectedSourceBytes = rqExpectedSourceBytes request,
          sExpectedDurationMS = rqExpectedDurationMS request,
          sDurationToleranceMS = rqDurationToleranceMS request,
          sExpectedStreamCount = rqExpectedStreamCount request\<rparr>)"

definition artifactID :: "('e, 'b) contracts \<Rightarrow> join_specification \<Rightarrow> go_error + string" where
  "artifactID c specification =
     and_then (wrap_error ''encode join artifact identity: '' (marshalSpecification c specification)) (\<lambda>serialized.
     and_then (wrap_error ''canonicalize join artifact identity: '' (jcsTransform c serialized)) (\<lambda>canonical.
     Inr (artifactIDPrefix @ sha256Hex c (artifactIDDomain @ canonical))))"

definition validateSpecification :: "('e, 'b) contracts \<Rightarrow> join_specification \<Rightarrow> go_error + unit" where
  "validateSpecification c specification =
     wrap_error ''validate stored join specification: ''
       (checkRequest c
         \<lparr>rqRequestID = validationRequestID, rqExecutionID = sExecutionID specification,
          rqCaseID = sCaseID specification, rqCapabilityID = sCapabilityID specification,
          rqRootID = sRootID specification, rqParts = cloneParts (sParts specification),
          rqOutputContainer = sOutputContainer specification,
          rqExpectedSourceBytes = sExpectedSourceBytes specification,
          rqExpectedDurationMS = sExpectedDurationMS specification,
          rqDurationToleranceMS = sDurationToleranceMS specification,
          rqExpectedStreamCount = sExpectedStreamCount specification\<rparr>)"

definition validateStaged :: "('e, 'b) contracts \<Rightarrow> string \<Rightarrow> 'e staged_artifact \<Rightarrow> go_error + unit" where
  "validateStaged c identifier staged =
     wrap_error ''validate stored staged artifact: '' (checkStaged c identifier staged)"

definition validatePublished ::
  "('e, 'b) contracts \<Rightarrow> string \<Rightarrow> string \<Rightarrow> published_artifact \<Rightarrow> go_error + unit" where
  "validatePublished c identifier fingerprint published =
     wrap_error ''validate stored published artifact: ''
       (checkPublished c identifier fingerprint published)"

definition validateFailure :: "('e, 'b) contracts \<Rightarrow> string \<Rightarrow> go_error + unit" where
  "validateFailure c reason = wrap_error ''validate stored join failure: '' (checkFailure c reason)"

text \<open>The switch over the state at the end of \<open>validateExecution\<close>.\<close>

definition validateOutcome :: "('e, 'b) contracts \<Rightarrow> 'e execution \<Rightarrow> go_error + unit" where
  "validateOutcome c execution =
     (case eState execution of
        Prepared \<Rightarrow>
          ensure (\<not> (eStaged execution \<noteq> None \<or> ePublished execution \<noteq> None \<or> eFailure execution \<noteq> None))
            (ErrorText ''prepared join execution contains outcome data'')
      | Published \<Rightarrow>
          (case (eStaged execution, ePublished execution, eFailure execution) of
             (Some staged, Some published, None) \<Rightarrow>
               and_then (validateStaged c (eArtifactID execution) staged) (\<lambda>_.
               validatePublished c (eArtifactID execution) (stFingerprint staged) published)
           | _ \<Rightarrow> Inl (ErrorText ''published join execution has inconsistent outcome data''))
      | Failed \<Rightarrow>
          (case (eStaged execution, ePublished execution, eFailure execution) of
             (None, None, Some reason) \<Rightarrow> validateFailure c reason
           | _ \<Rightarrow> Inl (ErrorText ''failed join execution has inconsistent outcome data''))
      | OtherState s \<Rightarrow> Inl (ErrorText (''unsupported join execution state '' @ quote s))
      | s \<Rightarrow>
          (case (eStaged execution, ePublished execution, eFailure execution) of
             (Some staged, None, None) \<Rightarrow> validateStaged c (eArtifactID execution) staged
           | _ \<Rightarrow> Inl (ErrorText (state_text s @ '' join execution has inconsistent outcome data''))))"

definition validateExecution :: "('e, 'b) contracts \<Rightarrow> 'e execution \<Rightarrow> go_error + unit" where
  "validateExecution c execution =
     and_then (ensure (eVersion execution = ExecutionVersionV1)
       (ErrorText (''unsupported join execution version '' @ quote (eVersion execution)))) (\<lambda>_.
     and_then (ensure (eExecutionID execution = sExecutionID (eSpecification execution))
       (ErrorText ''execution ID does not match its join specification'')) (\<lambda>_.
     and_then (validateSpecification c (eSpecification execution)) (\<lambda>_.
     and_then (artifactID c (eSpecification execution)) (\<lambda>expectedArtifactID.
     and_then (ensure (eArtifactID execution = expectedArtifactID)
       (ErrorText ''artifact ID does not match its join specification'')) (\<lambda>_.
     and_then (ensure (\<not> (ePreparedAt execution = zero_time \<or> eUpdatedAt execution = zero_time))
       (ErrorText ''join execution timestamps are required'')) (\<lambda>_.
     and_then (ensure (\<not> eUpdatedAt execution < ePreparedAt execution)
       (ErrorText ''join execution update precedes preparation'')) (\<lambda>_.
     validateOutcome c execution)))))))"

section \<open>The stored form\<close>

definition oversized :: "int \<Rightarrow> go_error" where
  "oversized n = ErrorText (''join execution is '' @ itoa n @ '' bytes, limit is '' @ itoa MaxExecutionBytes)"

definition EncodeExecution :: "('e, 'b) contracts \<Rightarrow> 'e execution \<Rightarrow> go_error + 'b" where
  "EncodeExecution c execution =
     and_then (validateExecution c execution) (\<lambda>_.
     and_then (wrap_error ''encode join execution: '' (marshal c execution)) (\<lambda>data.
     and_then (ensure (\<not> size_of c data > MaxExecutionBytes) (oversized (size_of c data))) (\<lambda>_.
     Inr data)))"

text \<open>\<open>n\<close> is the number of bytes that were read of \<open>data\<close>.\<close>

definition decode_read :: "('e, 'b) contracts \<Rightarrow> int \<Rightarrow> 'b \<Rightarrow> go_error + 'e execution" where
  "decode_read c n data =
     and_then (ensure (\<not> n > MaxExecutionBytes) (oversized n)) (\<lambda>_.
     and_then (wrap_error ''decode join execution: '' (decode c data)) (\<lambda>(execution, rest).
     and_then (case trailing c rest of
                 EndOfInput \<Rightarrow> Inr ()
               | AnotherValue \<Rightarrow> Inl (ErrorText ''decode join execution: multiple JSON values'')
               | BadInput e \<Rightarrow> Inl (ErrWrap ''decode join execution trailing JSON: '' e)) (\<lambda>_.
     and_then (validateExecution c execution) (\<lambda>_.
     Inr (cloneExecution execution)))))"

definition DecodeExecution :: "('e, 'b) contracts \<Rightarrow> 'b \<Rightarrow> go_error + 'e execution" where
  "DecodeExecution c data = decode_read c (size_of c data) data"

end
