(* ===== verification/Join_Store.thy ===== *)
theory Join_Store
  imports Join_State "HOL-Library.AList"
begin

text \<open>
  The store of join executions (\<open>worker/joinstate/store.go\<close>) over the directory that holds their
  files, and the atomic replacement of a file (\<open>internal/privatefile\<close>). An operation takes what the
  host refuses during the call and returns its result and the directory it leaves.
\<close>

section \<open>The directory and the host\<close>

datatype 'b dirent = Regular 'b | Irregular | Symlink

type_synonym 'b directory = "(string \<times> 'b dirent) list"

text \<open>
  What the host answers during one call: the errors of the lock file, of opening, inspecting and
  reading a file by its name, of listing the directory, and of replacing a file. \<open>hTemp\<close> is the
  name of the temporary file and \<open>hLeft\<close> what stays under it when its removal fails.
\<close>

datatype replace_fault =
    NoFault
  | CreateFault go_error
  | ChmodFault go_error
  | WriteFault go_error
  | SyncFault go_error
  | CloseFault go_error
  | RenameFault go_error
  | DirectoryFault go_error

record 'b host =
  hLockOpen :: "go_error option"
  hLockChmod :: "go_error option"
  hFlock :: "go_error option"
  hOpen :: "string \<Rightarrow> go_error option"
  hStat :: "string \<Rightarrow> go_error option"
  hRead :: "string \<Rightarrow> go_error option"
  hReadDir :: "go_error option"
  hReplace :: replace_fault
  hTemp :: string
  hLeft :: "'b option"

definition check_fault :: "go_error option \<Rightarrow> go_error + unit" where
  "check_fault e = (case e of None \<Rightarrow> Inr () | Some e \<Rightarrow> Inl e)"

text \<open>The answers of the host about the directories of the store, by path.\<close>

datatype file_mode = DirectoryMode | SymlinkMode | OtherMode

record directory_host =
  dMkdirAll :: "string \<Rightarrow> go_error option"
  dLstat :: "string \<Rightarrow> go_error + file_mode"
  dChmod :: "string \<Rightarrow> go_error option"
  dOpen :: "string \<Rightarrow> go_error option"
  dSync :: "string \<Rightarrow> go_error option"

section \<open>Private files\<close>

definition EnsureDirectory :: "directory_host \<Rightarrow> string \<Rightarrow> go_error + unit" where
  "EnsureDirectory d path =
     and_then (check_fault (dMkdirAll d path)) (\<lambda>_.
     and_then (dLstat d path) (\<lambda>mode.
     and_then (ensure (mode = DirectoryMode) (ErrorText (quote path @ '' is not a directory''))) (\<lambda>_.
     check_fault (dChmod d path))))"

definition SyncDirectory :: "directory_host \<Rightarrow> string \<Rightarrow> go_error + unit" where
  "SyncDirectory d path =
     and_then (check_fault (dOpen d (Clean path))) (\<lambda>_. check_fault (dSync d (Clean path)))"

definition keep_temporary :: "'b host \<Rightarrow> 'b directory \<Rightarrow> 'b directory" where
  "keep_temporary h dir =
     (case hLeft h of None \<Rightarrow> dir | Some b \<Rightarrow> AList.update (hTemp h) (Regular b) dir)"

definition Replace :: "'b host \<Rightarrow> string \<Rightarrow> 'b \<Rightarrow> 'b directory \<Rightarrow> (go_error + unit) \<times> 'b directory" where
  "Replace h name data dir =
     (case hReplace h of
        CreateFault e \<Rightarrow> (Inl (ErrWrap ''create temporary state record: '' e), dir)
      | ChmodFault e \<Rightarrow>
          (Inl (ErrWrap ''set temporary state record permissions: '' e), keep_temporary h dir)
      | WriteFault e \<Rightarrow> (Inl (ErrWrap ''write temporary state record: '' e), keep_temporary h dir)
      | SyncFault e \<Rightarrow> (Inl (ErrWrap ''sync temporary state record: '' e), keep_temporary h dir)
      | CloseFault e \<Rightarrow> (Inl (ErrWrap ''close temporary state record: '' e), keep_temporary h dir)
      | RenameFault e \<Rightarrow> (Inl (ErrWrap ''publish state record: '' e), keep_temporary h dir)
      | DirectoryFault e \<Rightarrow>
          (Inl (ErrWrap ''sync state records directory: '' e), AList.update name (Regular data) dir)
      | NoFault \<Rightarrow> (Inr (), AList.update name (Regular data) dir))"

section \<open>Names\<close>

definition executionsDirectoryName :: string where
  "executionsDirectoryName = ''executions''"

definition executionPathDomain :: string where
  "executionPathDomain = ''radarr-repair-worker-execution-path-v1'' @ [CHR 0x00]"

definition validateExecutionID :: "('e, 'b) contracts \<Rightarrow> string \<Rightarrow> go_error + unit" where
  "validateExecutionID c executionID =
     wrap_error (''invalid execution ID '' @ quote executionID @ '': '')
       (checkDiscard c executionID ''artifact:state-validation'')"

definition validateArtifactID :: "('e, 'b) contracts \<Rightarrow> string \<Rightarrow> go_error + unit" where
  "validateArtifactID c identifier =
     wrap_error (''invalid join artifact ID '' @ quote identifier @ '': '')
       (checkDiscard c validationRequestID identifier)"

text \<open>The name of the file of an execution in the directory of executions.\<close>

definition execution_name :: "('e, 'b) contracts \<Rightarrow> string \<Rightarrow> string" where
  "execution_name c executionID = sha256Hex c (executionPathDomain @ executionID) @ ''.json''"

definition executionPath :: "('e, 'b) contracts \<Rightarrow> string \<Rightarrow> go_error + string" where
  "executionPath c executionID =
     and_then (validateExecutionID c executionID) (\<lambda>_. Inr (execution_name c executionID))"

definition isTemporaryExecutionName :: "string \<Rightarrow> bool" where
  "isTemporaryExecutionName name \<longleftrightarrow> has_prefix name ''.state-'' \<and> has_suffix name ''.tmp''"

definition New :: "directory_host \<Rightarrow> string \<Rightarrow> go_error + string \<times> string" where
  "New d root =
     (if root = [] \<or> \<not> IsAbs root \<or> Clean root \<noteq> root \<or> Dir root = root
      then Inl (ErrorText ''join state root must be a clean absolute path'')
      else and_then (wrap_error ''prepare join state root: '' (EnsureDirectory d root)) (\<lambda>_.
        let executionsDir = Join [root, executionsDirectoryName] in
        and_then (wrap_error ''prepare join executions directory: '' (EnsureDirectory d executionsDir)) (\<lambda>_.
        and_then (wrap_error ''sync join state root: '' (SyncDirectory d root)) (\<lambda>_.
        Inr (root, executionsDir)))))"

section \<open>Reading and writing\<close>

definition lock :: "'b host \<Rightarrow> go_error + unit" where
  "lock h =
     and_then (wrap_error ''open join state lock: '' (check_fault (hLockOpen h))) (\<lambda>_.
     and_then (wrap_error ''set join state lock permissions: '' (check_fault (hLockChmod h))) (\<lambda>_.
     wrap_error ''lock join state: '' (check_fault (hFlock h))))"

definition readExecution ::
  "('e, 'b) contracts \<Rightarrow> 'b host \<Rightarrow> string \<Rightarrow> 'b directory \<Rightarrow> go_error + 'e execution option" where
  "readExecution c h name dir =
     (case map_of dir name of
        None \<Rightarrow> Inr None
      | Some entry \<Rightarrow>
          and_then (wrap_error ''open join execution: '' (check_fault
            (if entry = Symlink then Some (ErrorText ''too many levels of symbolic links'') else hOpen h name))) (\<lambda>_.
          and_then (wrap_error ''inspect join execution: '' (check_fault (hStat h name))) (\<lambda>_.
          (case entry of
             Regular data \<Rightarrow>
               and_then (wrap_error ''read join execution: '' (check_fault (hRead h name))) (\<lambda>_.
               and_then (wrap_error ''validate stored join execution: ''
                 (decode_read c (min (size_of c data) (MaxExecutionBytes + 1)) data)) (\<lambda>execution.
               Inr (Some execution)))
           | _ \<Rightarrow> Inl (ErrorText ''join execution is not a regular file'')))))"

definition writeExecution ::
  "('e, 'b) contracts \<Rightarrow> 'b host \<Rightarrow> string \<Rightarrow> 'e execution \<Rightarrow> 'b directory \<Rightarrow> (go_error + unit) \<times> 'b directory" where
  "writeExecution c h name execution dir =
     (case EncodeExecution c execution of
        Inl e \<Rightarrow> (Inl e, dir)
      | Inr data \<Rightarrow> (let (r, dir') = Replace h name data dir in (wrap_error ''store join execution: '' r, dir')))"

section \<open>Operations\<close>

text \<open>A result and the directory when a step before the write fails.\<close>

definition or_keep ::
  "go_error + 'a \<Rightarrow> 'b directory \<Rightarrow> ('a \<Rightarrow> (go_error + 'c) \<times> 'b directory) \<Rightarrow> (go_error + 'c) \<times> 'b directory" where
  "or_keep r dir f = (case r of Inl e \<Rightarrow> (Inl e, dir) | Inr a \<Rightarrow> f a)"

lemma or_keep_simps [simp]:
  "or_keep (Inl e) dir f = (Inl e, dir)" "or_keep (Inr a) dir f = f a"
  by (simp_all add: or_keep_def)

text \<open>The result of an operation: the execution and whether the call changed it.\<close>

type_synonym ('e, 'b) outcome = "(go_error + 'e execution \<times> bool) \<times> 'b directory"

definition conflict :: "string \<Rightarrow> go_error" where
  "conflict executionID =
     ErrorText (''execution '' @ quote executionID @ '' is already bound to a different join specification'')"

definition Prepare ::
  "('e, 'b) contracts \<Rightarrow> 'b host \<Rightarrow> stage_join_request \<Rightarrow> gotime \<Rightarrow> 'b directory \<Rightarrow> ('e, 'b) outcome" where
  "Prepare c h request preparedAt dir =
     or_keep (ensure (preparedAt \<noteq> zero_time) (ErrorText ''join preparation time is required'')) dir (\<lambda>_.
     or_keep (specificationFromRequest c request) dir (\<lambda>specification.
     or_keep (artifactID c specification) dir (\<lambda>identifier.
     or_keep (executionPath c (sExecutionID specification)) dir (\<lambda>path.
     or_keep (lock h) dir (\<lambda>_.
     or_keep (readExecution c h path dir) dir (\<lambda>found.
     (case found of
        Some previous \<Rightarrow>
          if eArtifactID previous = identifier \<and> eSpecification previous = specification
          then (Inr (cloneExecution previous, False), dir)
          else (Inl (conflict (sExecutionID specification)), dir)
      | None \<Rightarrow>
          (let execution =
             \<lparr>eVersion = ExecutionVersionV1, eExecutionID = sExecutionID specification,
              eArtifactID = identifier, eSpecification = specification, eState = Prepared,
              eStaged = None, ePublished = None, eFailure = None,
              ePreparedAt = preparedAt, eUpdatedAt = preparedAt\<rparr>;
            (r, dir') = writeExecution c h path execution dir
           in or_keep r dir' (\<lambda>_. (Inr (cloneExecution execution, True), dir'))))))))))"

definition Get ::
  "('e, 'b) contracts \<Rightarrow> 'b host \<Rightarrow> string \<Rightarrow> 'b directory \<Rightarrow> go_error + 'e execution option" where
  "Get c h executionID dir =
     and_then (executionPath c executionID) (\<lambda>path.
     and_then (readExecution c h path dir) (\<lambda>found.
     (case found of
        None \<Rightarrow> Inr None
      | Some execution \<Rightarrow>
          if eExecutionID execution \<noteq> executionID
          then Inl (ErrorText (''stored join execution has unexpected ID '' @ quote (eExecutionID execution)))
          else Inr (Some (cloneExecution execution)))))"

text \<open>
  The lookup by artifact holds no lock: \<open>at n\<close> is the directory when the file \<open>n\<close> is opened.
\<close>

fun find_loop ::
  "('e, 'b) contracts \<Rightarrow> 'b host \<Rightarrow> string \<Rightarrow> (string \<Rightarrow> 'b directory) \<Rightarrow> string list
     \<Rightarrow> 'e execution option \<Rightarrow> go_error + 'e execution option" where
  "find_loop c h identifier at [] match = Inr match"
| "find_loop c h identifier at (name # names) match =
     (if isTemporaryExecutionName name then find_loop c h identifier at names match
      else and_then (readExecution c h name (at name)) (\<lambda>found.
        (case found of
           None \<Rightarrow>
             Inl (ErrorText (''join execution '' @ quote name @ '' disappeared during artifact lookup''))
         | Some execution \<Rightarrow>
             and_then (executionPath c (eExecutionID execution)) (\<lambda>expectedPath.
             if expectedPath \<noteq> name
             then Inl (ErrorText (''join execution file '' @ quote name @ '' does not match execution ''
                                  @ quote (eExecutionID execution)))
             else if eArtifactID execution \<noteq> identifier then find_loop c h identifier at names match
             else if match \<noteq> None
             then Inl (ErrorText (''multiple join executions contain artifact '' @ quote identifier))
             else find_loop c h identifier at names (Some (cloneExecution execution))))))"

definition FindByArtifactID ::
  "('e, 'b) contracts \<Rightarrow> 'b host \<Rightarrow> string \<Rightarrow> 'b directory \<Rightarrow> (string \<Rightarrow> 'b directory)
     \<Rightarrow> go_error + 'e execution option" where
  "FindByArtifactID c h identifier dir at =
     and_then (validateArtifactID c identifier) (\<lambda>_.
     and_then (wrap_error ''read join executions: '' (check_fault (hReadDir h))) (\<lambda>_.
     map_sum id (map_option cloneExecution) (find_loop c h identifier at (sort (map fst dir)) None)))"

definition matchArtifact :: "'e execution \<Rightarrow> string \<Rightarrow> string \<Rightarrow> go_error + unit" where
  "matchArtifact execution identifier fingerprint =
     (if eArtifactID execution \<noteq> identifier
      then Inl (ErrorText (''artifact ID does not match join execution '' @ quote (eExecutionID execution)))
      else case eStaged execution of
        Some staged \<Rightarrow>
          ensure (stFingerprint staged = fingerprint)
            (ErrorText (''artifact fingerprint does not match join execution '' @ quote (eExecutionID execution)))
      | None \<Rightarrow> Inr ())"

definition update ::
  "('e, 'b) contracts \<Rightarrow> 'b host \<Rightarrow> string \<Rightarrow> gotime \<Rightarrow> ('e execution \<Rightarrow> go_error + 'e execution \<times> bool)
     \<Rightarrow> 'b directory \<Rightarrow> ('e, 'b) outcome" where
  "update c h executionID updatedAt change dir =
     or_keep (ensure (updatedAt \<noteq> zero_time) (ErrorText ''join update time is required'')) dir (\<lambda>_.
     or_keep (executionPath c executionID) dir (\<lambda>path.
     or_keep (lock h) dir (\<lambda>_.
     or_keep (readExecution c h path dir) dir (\<lambda>found.
     (case found of
        None \<Rightarrow> (Inl (ErrorText (''join execution '' @ quote executionID @ '' is not prepared'')), dir)
      | Some previous \<Rightarrow>
          or_keep (ensure (\<not> updatedAt < ePreparedAt previous)
            (ErrorText ''join update time precedes preparation'')) dir (\<lambda>_.
          or_keep (change (cloneExecution previous)) dir (\<lambda>(next, changed).
          if \<not> changed then (Inr (cloneExecution previous, False), dir)
          else
            (let next = next\<lparr>eUpdatedAt := updatedAt\<rparr>;
                 (r, dir') = writeExecution c h path next dir
             in or_keep r dir' (\<lambda>_. (Inr (cloneExecution next, True), dir'))))))))))"

text \<open>The function each of the four operations passes to \<open>update\<close>.\<close>

definition stage_change ::
  "string \<Rightarrow> string \<Rightarrow> 'e staged_artifact \<Rightarrow> 'e execution \<Rightarrow> go_error + 'e execution \<times> bool" where
  "stage_change executionID identifier staged previous =
     and_then (matchArtifact previous identifier (stFingerprint staged)) (\<lambda>_.
     (case eState previous of
        Prepared \<Rightarrow> Inr (previous\<lparr>eState := Staged, eStaged := Some staged\<rparr>, True)
      | Staged \<Rightarrow>
          if eStaged previous = Some staged then Inr (previous, False)
          else Inl (ErrorText (''execution '' @ quote executionID @ '' is already bound to different staged evidence''))
      | s \<Rightarrow> Inl (ErrorText (''cannot stage join execution from state '' @ quote (state_text s)))))"

definition fail_change :: "string \<Rightarrow> string \<Rightarrow> 'e execution \<Rightarrow> go_error + 'e execution \<times> bool" where
  "fail_change executionID reason previous =
     (case eState previous of
        Prepared \<Rightarrow> Inr (previous\<lparr>eState := Failed, eFailure := Some reason\<rparr>, True)
      | Failed \<Rightarrow>
          if eFailure previous = Some reason then Inr (previous, False)
          else Inl (ErrorText (''execution '' @ quote executionID @ '' is already bound to a different failure''))
      | s \<Rightarrow> Inl (ErrorText (''cannot fail join execution from state '' @ quote (state_text s))))"

definition publish_change ::
  "string \<Rightarrow> string \<Rightarrow> string \<Rightarrow> published_artifact \<Rightarrow> 'e execution \<Rightarrow> go_error + 'e execution \<times> bool" where
  "publish_change executionID identifier fingerprint published previous =
     and_then (matchArtifact previous identifier fingerprint) (\<lambda>_.
     (case eState previous of
        Staged \<Rightarrow> Inr (previous\<lparr>eState := Published, ePublished := Some published\<rparr>, True)
      | Published \<Rightarrow>
          if ePublished previous = Some published then Inr (previous, False)
          else Inl (ErrorText (''execution '' @ quote executionID @ '' is already bound to a different published artifact''))
      | s \<Rightarrow> Inl (ErrorText (''cannot publish join execution from state '' @ quote (state_text s)))))"

definition discard_change ::
  "string \<Rightarrow> string \<Rightarrow> 'e execution \<Rightarrow> go_error + 'e execution \<times> bool" where
  "discard_change identifier fingerprint previous =
     and_then (matchArtifact previous identifier fingerprint) (\<lambda>_.
     (case eState previous of
        Staged \<Rightarrow> Inr (previous\<lparr>eState := Discarded\<rparr>, True)
      | Discarded \<Rightarrow> Inr (previous, False)
      | s \<Rightarrow> Inl (ErrorText (''cannot discard join execution from state '' @ quote (state_text s)))))"

definition MarkStaged ::
  "('e, 'b) contracts \<Rightarrow> 'b host \<Rightarrow> string \<Rightarrow> string \<Rightarrow> 'e staged_artifact \<Rightarrow> gotime \<Rightarrow> 'b directory \<Rightarrow> ('e, 'b) outcome" where
  "MarkStaged c h executionID identifier staged updatedAt dir =
     update c h executionID updatedAt (stage_change executionID identifier staged) dir"

definition MarkStageFailed ::
  "('e, 'b) contracts \<Rightarrow> 'b host \<Rightarrow> string \<Rightarrow> string \<Rightarrow> gotime \<Rightarrow> 'b directory \<Rightarrow> ('e, 'b) outcome" where
  "MarkStageFailed c h executionID reason updatedAt dir =
     or_keep (validateFailure c reason) dir (\<lambda>_.
     update c h executionID updatedAt (fail_change executionID reason) dir)"

definition MarkPublished ::
  "('e, 'b) contracts \<Rightarrow> 'b host \<Rightarrow> string \<Rightarrow> string \<Rightarrow> string \<Rightarrow> published_artifact \<Rightarrow> gotime \<Rightarrow> 'b directory
     \<Rightarrow> ('e, 'b) outcome" where
  "MarkPublished c h executionID identifier fingerprint published updatedAt dir =
     update c h executionID updatedAt (publish_change executionID identifier fingerprint published) dir"

definition MarkDiscarded ::
  "('e, 'b) contracts \<Rightarrow> 'b host \<Rightarrow> string \<Rightarrow> string \<Rightarrow> string \<Rightarrow> gotime \<Rightarrow> 'b directory \<Rightarrow> ('e, 'b) outcome" where
  "MarkDiscarded c h executionID identifier fingerprint updatedAt dir =
     update c h executionID updatedAt (discard_change identifier fingerprint) dir"

end
