(* ===== verification/Join_Lifecycle.thy ===== *)
theory Join_Lifecycle
  imports Join_Store
begin

text \<open>
  What the store of join executions promises: the life of one record as a step relation, the
  invariant of the directory, and the effect of every operation, under any faults of the host, as
  a step of that relation on the one record it is about.
\<close>

section \<open>The life of a record\<close>

text \<open>
  A prepared join is staged or fails; a staged one is published or discarded. No other field but
  the time of the update changes.
\<close>

inductive join_next :: "'e execution \<Rightarrow> 'e execution \<Rightarrow> bool" for p where
  stages: "eState p = Prepared \<Longrightarrow> join_next p (p\<lparr>eState := Staged, eStaged := Some s, eUpdatedAt := t\<rparr>)"
| fails: "eState p = Prepared \<Longrightarrow> join_next p (p\<lparr>eState := Failed, eFailure := Some reason, eUpdatedAt := t\<rparr>)"
| publishes: "eState p = Staged \<Longrightarrow> join_next p (p\<lparr>eState := Published, ePublished := Some a, eUpdatedAt := t\<rparr>)"
| discards: "eState p = Staged \<Longrightarrow> join_next p (p\<lparr>eState := Discarded, eUpdatedAt := t\<rparr>)"

inductive_cases join_nextE: "join_next p q"

definition same_identity :: "'e execution \<Rightarrow> 'e execution \<Rightarrow> bool" where
  "same_identity p q \<longleftrightarrow>
     eVersion q = eVersion p \<and> eExecutionID q = eExecutionID p \<and> eArtifactID q = eArtifactID p \<and>
     eSpecification q = eSpecification p \<and> ePreparedAt q = ePreparedAt p"

definition final_state :: "join_state \<Rightarrow> bool" where
  "final_state s \<longleftrightarrow> s = Published \<or> s = Discarded \<or> s = Failed"

lemma join_next_identity: "join_next p q \<Longrightarrow> same_identity p q"
  by (erule join_nextE) (simp_all add: same_identity_def)

lemma join_next_not_final: "join_next p q \<Longrightarrow> \<not> final_state (eState p)"
  by (erule join_nextE) (simp_all add: final_state_def)

lemma join_nexts_identity: "join_next\<^sup>*\<^sup>* p q \<Longrightarrow> same_identity p q"
  by (induction rule: rtranclp_induct) (auto dest: join_next_identity simp: same_identity_def)

lemma join_nexts_final: "join_next\<^sup>*\<^sup>* p q \<Longrightarrow> final_state (eState p) \<Longrightarrow> q = p"
  by (erule converse_rtranclpE) (auto dest: join_next_not_final)

section \<open>Records of a directory\<close>

definition record_at :: "('e, 'b) contracts \<Rightarrow> 'b directory \<Rightarrow> string \<Rightarrow> 'e execution option" where
  "record_at c dir name =
     (case map_of dir name of
        Some (Regular data) \<Rightarrow> (case DecodeExecution c data of Inr e \<Rightarrow> Some e | Inl _ \<Rightarrow> None)
      | _ \<Rightarrow> None)"

definition dir_ok :: "('e, 'b) contracts \<Rightarrow> 'b directory \<Rightarrow> bool" where
  "dir_ok c dir \<longleftrightarrow> distinct (map fst dir) \<and>
     (\<forall>name \<in> set (map fst dir). \<not> isTemporaryExecutionName name \<longrightarrow>
        (case record_at c dir name of
           Some e \<Rightarrow> executionPath c (eExecutionID e) = Inr name
         | None \<Rightarrow> False))"

definition host_ok :: "'b host \<Rightarrow> bool" where
  "host_ok h \<longleftrightarrow> isTemporaryExecutionName (hTemp h)"

definition unchanged :: "'b directory \<Rightarrow> 'b directory \<Rightarrow> bool" where
  "unchanged dir dir' \<longleftrightarrow> (\<forall>n. \<not> isTemporaryExecutionName n \<longrightarrow> map_of dir' n = map_of dir n) \<and>
     (distinct (map fst dir) \<longrightarrow> distinct (map fst dir'))"

lemma unchanged_refl [simp]: "unchanged dir dir"
  by (simp add: unchanged_def)

lemma unchanged_record: "unchanged dir dir' \<Longrightarrow> \<not> isTemporaryExecutionName n \<Longrightarrow> record_at c dir' n = record_at c dir n"
  by (simp add: unchanged_def record_at_def)

lemma record_at_name: "record_at c dir n = Some e \<Longrightarrow> n \<in> set (map fst dir)"
  by (cases "map_of dir n") (auto simp: record_at_def dest: map_of_SomeD intro: image_eqI [rotated])

lemma execution_name_kept [simp]: "\<not> isTemporaryExecutionName (execution_name c i)"
proof -
  let ?p = "sha256Hex c (executionPathDomain @ i)"
  have "drop (length (?p @ ''.json'') - 4) (?p @ ''.json'') = ''json''"
    by simp
  then show ?thesis
    by (simp add: isTemporaryExecutionName_def has_suffix_def execution_name_def)
qed

lemma executionPath_Inr: "executionPath c i = Inr n \<longleftrightarrow> validateExecutionID c i = Inr () \<and> n = execution_name c i"
  by (auto simp: executionPath_def and_then_Inr_iff)

lemma trailing_end:
  "(case t of EndOfInput \<Rightarrow> Inr () | AnotherValue \<Rightarrow> Inl e | BadInput x \<Rightarrow> Inl (f x)) = Inr u \<longleftrightarrow> t = EndOfInput"
  by (cases t) simp_all

lemma DecodeExecution_Inr:
  "DecodeExecution c b = Inr e \<longleftrightarrow>
     size_of c b \<le> MaxExecutionBytes \<and>
     (\<exists>rest. decode c b = Inr (e, rest) \<and> trailing c rest = EndOfInput) \<and> validateExecution c e = Inr ()"
  by (auto simp: DecodeExecution_def decode_read_def and_then_Inr_iff trailing_end split: prod.splits)

lemma decode_read_limit:
  "decode_read c (min (size_of c b) (MaxExecutionBytes + 1)) b = Inr e \<longleftrightarrow> DecodeExecution c b = Inr e"
  by (auto simp: DecodeExecution_def decode_read_def and_then_Inr_iff)

lemma readExecution_Some:
  assumes "readExecution c h name dir = Inr (Some e)"
  shows "record_at c dir name = Some e"
  using assms
  by (auto simp: readExecution_def record_at_def and_then_Inr_iff decode_read_limit
      split: option.splits dirent.splits if_splits)

lemma readExecution_None:
  assumes "readExecution c h name dir = Inr None"
  shows "map_of dir name = None"
  using assms
  by (auto simp: readExecution_def and_then_Inr_iff split: option.splits dirent.splits if_splits)

section \<open>What an operation does to the directory\<close>

lemma keep_temporary_unchanged:
  assumes "host_ok h"
  shows "unchanged dir (keep_temporary h dir)"
  using assms
  by (auto simp: keep_temporary_def unchanged_def host_ok_def update_conv' distinct_update split: option.splits)

lemma writeExecution_cases:
  assumes "host_ok h" "writeExecution c h name e dir = (r, dir')"
  obtains (kept) x where "r = Inl x" "unchanged dir dir'"
    | (stored) b where "EncodeExecution c e = Inr b" "dir' = AList.update name (Regular b) dir"
        "r = Inr () \<or> (\<exists>x y. hReplace h = DirectoryFault x \<and> r = Inl y)"
proof (cases "EncodeExecution c e")
  case (Inl x)
  then show thesis
    using assms(2) kept by (auto simp: writeExecution_def)
next
  case (Inr b)
  show thesis
  proof (cases "\<exists>x. hReplace h = DirectoryFault x \<or> hReplace h = NoFault")
    case True
    then show thesis
      using assms(2) Inr by (intro stored [of b]) (auto simp: writeExecution_def Replace_def)
  next
    case False
    then show thesis
      using assms Inr kept
      by (auto simp: writeExecution_def Replace_def keep_temporary_unchanged split: replace_fault.splits)
  qed
qed

text \<open>
  The effect of a call about the file \<open>name\<close>: an error that leaves every record, an answer that
  leaves the directory, or the store of a record one step on. In the last case the call fails
  only if the directory could not be synced after the file was replaced.
\<close>

inductive effect ::
  "('e, 'b) contracts \<Rightarrow> 'b host \<Rightarrow> string \<Rightarrow> 'b directory \<Rightarrow> ('e, 'b) outcome \<Rightarrow> bool"
  for c h name dir where
  kept: "unchanged dir dir' \<Longrightarrow> effect c h name dir (Inl x, dir')"
| same: "record_at c dir name = Some e \<Longrightarrow> effect c h name dir (Inr (e, False), dir)"
| created: "map_of dir name = None \<Longrightarrow> eState e = Prepared \<Longrightarrow> executionPath c (eExecutionID e) = Inr name
    \<Longrightarrow> EncodeExecution c e = Inr b
    \<Longrightarrow> r = Inr (e, True) \<or> (\<exists>x y. hReplace h = DirectoryFault x \<and> r = Inl y)
    \<Longrightarrow> effect c h name dir (r, AList.update name (Regular b) dir)"
| advanced: "record_at c dir name = Some p \<Longrightarrow> join_next p e
    \<Longrightarrow> EncodeExecution c e = Inr b
    \<Longrightarrow> r = Inr (e, True) \<or> (\<exists>x y. hReplace h = DirectoryFault x \<and> r = Inl y)
    \<Longrightarrow> effect c h name dir (r, AList.update name (Regular b) dir)"

inductive_cases effectE: "effect c h name dir res"

lemma or_keep_effect:
  assumes "\<And>a. r = Inr a \<Longrightarrow> effect c h name dir (f a)"
  shows "effect c h name dir (or_keep r dir f)"
  using assms by (cases r) (auto intro: effect.kept)

lemma Prepare_effect:
  fixes c :: "('a, 'b) contracts"
  assumes "host_ok h"
  shows "effect c h (execution_name c (rqExecutionID request)) dir (Prepare c h request preparedAt dir)"
  unfolding Prepare_def
proof (intro or_keep_effect)
  fix sp aid path found
  assume spec: "specificationFromRequest c request = Inr sp"
    and path: "executionPath c (sExecutionID sp) = Inr path"
    and read: "readExecution c h path dir = Inr found"
  have key: "sExecutionID sp = rqExecutionID request"
    using spec by (auto simp: specificationFromRequest_def and_then_Inr_iff)
  with path have name: "path = execution_name c (rqExecutionID request)"
    by (simp add: executionPath_Inr)
  define e :: "'a execution" where
    "e = \<lparr>eVersion = ExecutionVersionV1, eExecutionID = sExecutionID sp,
      eArtifactID = aid, eSpecification = sp, eState = Prepared, eStaged = None,
      ePublished = None, eFailure = None, ePreparedAt = preparedAt, eUpdatedAt = preparedAt\<rparr>"
  have e: "eState e = Prepared" "eExecutionID e = sExecutionID sp"
    by (simp_all add: e_def)
  show "effect c h (execution_name c (rqExecutionID request)) dir
    (case found of
       Some previous \<Rightarrow>
         if eArtifactID previous = aid \<and> eSpecification previous = sp
         then (Inr (cloneExecution previous, False), dir)
         else (Inl (conflict (sExecutionID sp)), dir)
     | None \<Rightarrow>
         (let execution =
            \<lparr>eVersion = ExecutionVersionV1, eExecutionID = sExecutionID sp,
             eArtifactID = aid, eSpecification = sp, eState = Prepared,
             eStaged = None, ePublished = None, eFailure = None,
             ePreparedAt = preparedAt, eUpdatedAt = preparedAt\<rparr>;
            (r, dir') = writeExecution c h path execution dir
          in or_keep r dir' (\<lambda>_. (Inr (cloneExecution execution, True), dir'))))"
  proof (cases found)
    case None
    obtain r dir' where w: "writeExecution c h path e dir = (r, dir')"
      by fastforce
    have "effect c h path dir (or_keep r dir' (\<lambda>_. (Inr (e, True), dir')))"
      using assms w
    proof (cases rule: writeExecution_cases)
      case (kept x)
      then show ?thesis
        by (simp add: effect.kept)
    next
      case (stored b)
      have "map_of dir path = None"
        using read None by (auto dest: readExecution_None)
      with stored show ?thesis
        using path e by (auto intro!: effect.created)
    qed
    then show ?thesis
      using w None by (simp add: name e_def)
  next
    case (Some p)
    then show ?thesis
      using read by (auto simp: name intro: effect.kept effect.same dest: readExecution_Some)
  qed
qed

lemma update_effect:
  assumes "host_ok h"
    and step: "\<And>p q t. change p = Inr (q, True) \<Longrightarrow> join_next p (q\<lparr>eUpdatedAt := t\<rparr>)"
  shows "effect c h (execution_name c executionID) dir (update c h executionID updatedAt change dir)"
  unfolding update_def
proof (intro or_keep_effect)
  fix path found
  assume path: "executionPath c executionID = Inr path"
    and read: "readExecution c h path dir = Inr found"
  have name: "path = execution_name c executionID"
    using path by (simp add: executionPath_Inr)
  show "effect c h (execution_name c executionID) dir
    (case found of
       None \<Rightarrow> (Inl (ErrorText (''join execution '' @ quote executionID @ '' is not prepared'')), dir)
     | Some previous \<Rightarrow>
         or_keep (ensure (\<not> updatedAt < ePreparedAt previous)
           (ErrorText ''join update time precedes preparation'')) dir (\<lambda>_.
         or_keep (change (cloneExecution previous)) dir (\<lambda>(next, changed).
         if \<not> changed then (Inr (cloneExecution previous, False), dir)
         else
           (let next = next\<lparr>eUpdatedAt := updatedAt\<rparr>;
                (r, dir') = writeExecution c h path next dir
            in or_keep r dir' (\<lambda>_. (Inr (cloneExecution next, True), dir'))))))"
  proof (cases found)
    case None
    then show ?thesis
      by (simp add: effect.kept)
  next
    case (Some p)
    with read have p: "record_at c dir path = Some p"
      by (simp add: readExecution_Some)
    have "effect c h path dir
      (case qc of (next, changed) \<Rightarrow>
         if \<not> changed then (Inr (cloneExecution p, False), dir)
         else
           (let next = next\<lparr>eUpdatedAt := updatedAt\<rparr>;
                (r, dir') = writeExecution c h path next dir
            in or_keep r dir' (\<lambda>_. (Inr (cloneExecution next, True), dir'))))"
      if qc: "change (cloneExecution p) = Inr qc" for qc
    proof (cases "snd qc")
      case False
      then show ?thesis
        using p by (cases qc) (simp add: effect.same)
    next
      case True
      define q where "q = (fst qc)\<lparr>eUpdatedAt := updatedAt\<rparr>"
      have q: "join_next p q"
        using qc True step [of p "fst qc"] by (cases qc) (simp add: q_def)
      obtain r dir' where w: "writeExecution c h path q dir = (r, dir')"
        by fastforce
      have "effect c h path dir (or_keep r dir' (\<lambda>_. (Inr (q, True), dir')))"
        using assms(1) w
      proof (cases rule: writeExecution_cases)
        case (kept x)
        then show ?thesis
          by (simp add: effect.kept)
      next
        case (stored b)
        then show ?thesis
          using q p by (auto intro!: effect.advanced)
      qed
      then show ?thesis
        using w True by (cases qc) (simp add: q_def)
    qed
    then show ?thesis
      using Some by (auto simp: name intro!: or_keep_effect)
  qed
qed

end
