(* ===== verification/Join_Properties.thy ===== *)
theory Join_Properties
  imports Join_Lifecycle
begin

text \<open>
  The properties of the join executions on the worker. The law the store relies on, that the JSON
  form of a record decodes to the record, is the locale \<open>join_codec\<close>; the calls of a worker's life
  are a list of operations, each with the faults of the host during it.
\<close>

section \<open>Calls\<close>

datatype 'e join_op =
    OpPrepare stage_join_request gotime
  | OpStaged string string "'e staged_artifact" gotime
  | OpFailed string string gotime
  | OpPublished string string string published_artifact gotime
  | OpDiscarded string string string gotime

fun run_op :: "('e, 'b) contracts \<Rightarrow> 'b host \<Rightarrow> 'e join_op \<Rightarrow> 'b directory \<Rightarrow> ('e, 'b) outcome" where
  "run_op c h (OpPrepare request t) dir = Prepare c h request t dir"
| "run_op c h (OpStaged i a s t) dir = MarkStaged c h i a s t dir"
| "run_op c h (OpFailed i reason t) dir = MarkStageFailed c h i reason t dir"
| "run_op c h (OpPublished i a f p t) dir = MarkPublished c h i a f p t dir"
| "run_op c h (OpDiscarded i a f t) dir = MarkDiscarded c h i a f t dir"

fun op_id :: "'e join_op \<Rightarrow> string" where
  "op_id (OpPrepare request t) = rqExecutionID request"
| "op_id (OpStaged i a s t) = i"
| "op_id (OpFailed i reason t) = i"
| "op_id (OpPublished i a f p t) = i"
| "op_id (OpDiscarded i a f t) = i"

fun at_time :: "gotime \<Rightarrow> 'e join_op \<Rightarrow> 'e join_op" where
  "at_time t (OpPrepare request _) = OpPrepare request t"
| "at_time t (OpStaged i a s _) = OpStaged i a s t"
| "at_time t (OpFailed i reason _) = OpFailed i reason t"
| "at_time t (OpPublished i a f p _) = OpPublished i a f p t"
| "at_time t (OpDiscarded i a f _) = OpDiscarded i a f t"

fun run_ops :: "('e, 'b) contracts \<Rightarrow> ('b host \<times> 'e join_op) list \<Rightarrow> 'b directory \<Rightarrow> 'b directory" where
  "run_ops c [] dir = dir"
| "run_ops c ((h, op) # calls) dir = run_ops c calls (snd (run_op c h op dir))"

definition hosts_ok :: "('b host \<times> 'e join_op) list \<Rightarrow> bool" where
  "hosts_ok calls \<longleftrightarrow> list_all (\<lambda>(h, op). host_ok h) calls"

lemma stage_change_next: "stage_change i a s p = Inr (q, True) \<Longrightarrow> join_next p (q\<lparr>eUpdatedAt := t\<rparr>)"
  by (auto simp: stage_change_def and_then_Inr_iff intro: join_next.stages split: join_state.splits if_splits)

lemma fail_change_next: "fail_change i r p = Inr (q, True) \<Longrightarrow> join_next p (q\<lparr>eUpdatedAt := t\<rparr>)"
  by (auto simp: fail_change_def intro: join_next.fails split: join_state.splits if_splits)

lemma publish_change_next: "publish_change i a f pub p = Inr (q, True) \<Longrightarrow> join_next p (q\<lparr>eUpdatedAt := t\<rparr>)"
  by (auto simp: publish_change_def and_then_Inr_iff intro: join_next.publishes split: join_state.splits if_splits)

lemma discard_change_next: "discard_change a f p = Inr (q, True) \<Longrightarrow> join_next p (q\<lparr>eUpdatedAt := t\<rparr>)"
  by (auto simp: discard_change_def and_then_Inr_iff intro: join_next.discards split: join_state.splits if_splits)

lemmas changes_next = stage_change_next fail_change_next publish_change_next discard_change_next

lemma run_op_effect:
  assumes "host_ok h"
  shows "effect c h (execution_name c (op_id op)) dir (run_op c h op dir)"
proof (cases op)
  case (OpPrepare request t)
  then show ?thesis
    using assms by (simp add: Prepare_effect)
qed (use assms in \<open>auto simp: MarkStaged_def MarkStageFailed_def MarkPublished_def MarkDiscarded_def
      intro!: update_effect or_keep_effect intro: changes_next\<close>)

section \<open>The codec\<close>

locale join_codec =
  fixes c :: "('e, 'b) contracts"
  assumes decode_marshal:
    "validateExecution c e = Inr () \<Longrightarrow> marshal c e = Inr data
       \<Longrightarrow> \<exists>rest. decode c data = Inr (e, rest) \<and> trailing c rest = EndOfInput"
begin

lemma encoded_decodes:
  assumes "EncodeExecution c e = Inr data"
  shows "DecodeExecution c data = Inr e"
proof -
  have "validateExecution c e = Inr ()" "marshal c e = Inr data" "size_of c data \<le> MaxExecutionBytes"
    using assms by (auto simp: EncodeExecution_def and_then_Inr_iff)
  with decode_marshal show ?thesis
    by (simp add: DecodeExecution_Inr)
qed

lemma record_at_stored:
  assumes "EncodeExecution c e = Inr data"
  shows "record_at c (AList.update name (Regular data) dir) n =
    (if n = name then Some e else record_at c dir n)"
  using encoded_decodes [OF assms] by (simp add: record_at_def update_conv')

lemma effect_record:
  assumes "effect c h name dir (r, dir')" "\<not> isTemporaryExecutionName n"
  shows "record_at c dir' n = record_at c dir n
    \<or> (\<exists>p q. n = name \<and> record_at c dir n = Some p \<and> join_next p q \<and> record_at c dir' n = Some q)
    \<or> (\<exists>q. n = name \<and> record_at c dir n = None \<and> eState q = Prepared \<and> record_at c dir' n = Some q)"
  using assms(1)
proof (cases rule: effect.cases)
  case kept
  then show ?thesis
    using assms(2) by (auto simp: unchanged_record)
next
  case (created e b)
  then have "record_at c dir name = None"
    by (simp add: record_at_def)
  with created show ?thesis
    by (auto simp: record_at_stored)
next
  case (advanced p e b)
  then show ?thesis
    by (auto simp: record_at_stored)
qed simp

lemma effect_dir_ok:
  assumes "effect c h name dir (r, dir')" "dir_ok c dir" "\<not> isTemporaryExecutionName name"
  shows "dir_ok c dir'"
  using assms(1)
proof (cases rule: effect.cases)
  case kept
  have "n \<in> set (map fst dir') \<longleftrightarrow> n \<in> set (map fst dir)" if "\<not> isTemporaryExecutionName n" for n
    using kept that by (metis list.set_map map_of_eq_None_iff unchanged_def)
  then show ?thesis
    using assms(2) kept unchanged_record unfolding dir_ok_def by (metis (no_types, lifting) unchanged_def)
next
  case same
  then show ?thesis
    using assms(2) by simp
next
  case (created e b)
  then show ?thesis
    using assms(2)
    by (auto simp: dir_ok_def record_at_stored distinct_update dom_update image_iff split: option.splits)
next
  case (advanced p e b)
  have "name \<in> set (map fst dir)"
    using advanced by (auto dest: record_at_name)
  then have "executionPath c (eExecutionID p) = Inr name"
    using assms(2,3) advanced by (auto simp: dir_ok_def)
  moreover have "eExecutionID e = eExecutionID p"
    using advanced by (auto dest: join_next_identity simp: same_identity_def)
  ultimately show ?thesis
    using assms(2) advanced
    by (auto simp: dir_ok_def record_at_stored distinct_update dom_update image_iff split: option.splits)
qed

lemma run_ops_dir_ok:
  assumes "hosts_ok calls" "dir_ok c dir"
  shows "dir_ok c (run_ops c calls dir)"
  using assms
proof (induction calls arbitrary: dir)
  case (Cons call calls)
  obtain h op where call: "call = (h, op)"
    by fastforce
  have "dir_ok c (snd (run_op c h op dir))"
    using Cons.prems call run_op_effect [of h c op dir]
    by (cases "run_op c h op dir") (auto simp: hosts_ok_def intro: effect_dir_ok)
  with Cons call show ?case
    by (simp add: hosts_ok_def)
qed simp

lemma run_ops_record:
  assumes "hosts_ok calls" "record_at c dir n = Some p" "\<not> isTemporaryExecutionName n"
  shows "\<exists>q. record_at c (run_ops c calls dir) n = Some q \<and> join_next\<^sup>*\<^sup>* p q"
  using assms
proof (induction calls arbitrary: dir p)
  case (Cons call calls)
  obtain h op where call: "call = (h, op)"
    by fastforce
  obtain q where q: "record_at c (snd (run_op c h op dir)) n = Some q" "join_next\<^sup>*\<^sup>* p q"
    using Cons.prems call run_op_effect [of h c op dir]
      effect_record [of h "execution_name c (op_id op)" dir "fst (run_op c h op dir)" "snd (run_op c h op dir)" n]
    by (auto simp: hosts_ok_def)
  have "\<exists>q'. record_at c (run_ops c calls (snd (run_op c h op dir))) n = Some q' \<and> join_next\<^sup>*\<^sup>* q q'"
    using Cons.IH [OF _ q(1)] Cons.prems call by (simp add: hosts_ok_def)
  with q(2) call show ?case
    by (auto intro: rtranclp_trans)
qed auto

end

section \<open>Retries and lookups\<close>

definition healthy :: "'b host \<Rightarrow> bool" where
  "healthy h \<longleftrightarrow> hLockOpen h = None \<and> hLockChmod h = None \<and> hFlock h = None \<and>
     hOpen h = (\<lambda>_. None) \<and> hStat h = (\<lambda>_. None) \<and> hRead h = (\<lambda>_. None) \<and> hReadDir h = None"

lemma check_fault_None [simp]: "check_fault None = Inr ()"
  by (simp add: check_fault_def)

lemma healthy_lock: "healthy h \<Longrightarrow> lock h = Inr ()"
  by (simp add: healthy_def lock_def)

lemma healthy_read:
  assumes "healthy h" "record_at c dir n = Some e"
  shows "readExecution c h n dir = Inr (Some e)"
proof -
  obtain b where b: "map_of dir n = Some (Regular b)" "DecodeExecution c b = Inr e"
    using assms(2) by (auto simp: record_at_def split: option.splits dirent.splits sum.splits)
  have "decode_read c (min (size_of c b) (MaxExecutionBytes + 1)) b = Inr e"
    using b(2) by (simp add: decode_read_limit)
  with assms(1) b(1) show ?thesis
    by (simp add: readExecution_def healthy_def)
qed

text \<open>Every change, applied to its own result, has nothing left to do.\<close>

lemma matchArtifact_time [simp]: "matchArtifact (q\<lparr>eUpdatedAt := t\<rparr>) a f = matchArtifact q a f"
  by (simp add: matchArtifact_def split: option.split)

lemma stage_change_again:
  "stage_change i a s p = Inr (q, b) \<Longrightarrow> stage_change i a s (q\<lparr>eUpdatedAt := t\<rparr>) = Inr (q\<lparr>eUpdatedAt := t\<rparr>, False)"
  by (auto simp: stage_change_def and_then_Inr_iff matchArtifact_def ensure_simps
      split: join_state.splits if_splits option.splits)

lemma fail_change_again:
  "fail_change i r p = Inr (q, b) \<Longrightarrow> fail_change i r (q\<lparr>eUpdatedAt := t\<rparr>) = Inr (q\<lparr>eUpdatedAt := t\<rparr>, False)"
  by (auto simp: fail_change_def split: join_state.splits if_splits)

lemma publish_change_again:
  "publish_change i a f u p = Inr (q, b) \<Longrightarrow> publish_change i a f u (q\<lparr>eUpdatedAt := t\<rparr>) = Inr (q\<lparr>eUpdatedAt := t\<rparr>, False)"
  by (auto simp: publish_change_def and_then_Inr_iff matchArtifact_def ensure_simps
      split: join_state.splits if_splits option.splits)

lemma discard_change_again:
  "discard_change a f p = Inr (q, b) \<Longrightarrow> discard_change a f (q\<lparr>eUpdatedAt := t\<rparr>) = Inr (q\<lparr>eUpdatedAt := t\<rparr>, False)"
  by (auto simp: discard_change_def and_then_Inr_iff matchArtifact_def ensure_simps
      split: join_state.splits if_splits option.splits)

lemma update_same:
  assumes "healthy h" "t \<noteq> zero_time" "executionPath c i = Inr n" "record_at c dir n = Some e"
    and "\<not> t < ePreparedAt e" "change e = Inr (e, False)"
  shows "update c h i t change dir = (Inr (e, False), dir)"
  using assms by (simp add: update_def healthy_lock healthy_read ensure_def)

lemma or_keep_Inr: "or_keep r dir f = (Inr a, d) \<longleftrightarrow> (\<exists>x. r = Inr x \<and> f x = (Inr a, d))"
  by (cases r) auto

lemma update_Inr:
  assumes "update c h i t change dir = (Inr (e, b), dir')"
  obtains n p q where "executionPath c i = Inr n" "record_at c dir n = Some p"
    "change p = Inr (q, b)" "e = (if b then q\<lparr>eUpdatedAt := t\<rparr> else p)"
proof -
  obtain n p q where n: "executionPath c i = Inr n" "readExecution c h n dir = Inr (Some p)"
    and q: "change p = Inr (q, b)" "e = (if b then q\<lparr>eUpdatedAt := t\<rparr> else p)"
    using assms
    by (auto simp: update_def or_keep_Inr Let_def case_prod_unfold split: option.splits if_splits)
  then show thesis
    by (auto intro: that dest: readExecution_Some)
qed

text \<open>The functions passed to \<open>update\<close>: settled on their own results.\<close>

definition settles :: "('e execution \<Rightarrow> go_error + 'e execution \<times> bool) \<Rightarrow> bool" where
  "settles change \<longleftrightarrow>
     (\<forall>p q b t. change p = Inr (q, b) \<longrightarrow>
        change (q\<lparr>eUpdatedAt := t\<rparr>) = Inr (q\<lparr>eUpdatedAt := t\<rparr>, False) \<and> (\<not> b \<longrightarrow> q = p))"

lemma changes_settle: "settles (stage_change i a s)" "settles (fail_change i r)" "settles (publish_change i a f u)" "settles (discard_change a f)"
proof -
  have "\<And>p q. stage_change i a s p = Inr (q, False) \<Longrightarrow> q = p" "\<And>p q. fail_change i r p = Inr (q, False) \<Longrightarrow> q = p"
    "\<And>p q. publish_change i a f u p = Inr (q, False) \<Longrightarrow> q = p" "\<And>p q. discard_change a f p = Inr (q, False) \<Longrightarrow> q = p"
    by (auto simp: stage_change_def fail_change_def publish_change_def discard_change_def and_then_Inr_iff split: join_state.splits if_splits)
  then show "settles (stage_change i a s)" "settles (fail_change i r)" "settles (publish_change i a f u)" "settles (discard_change a f)"
    by (auto simp: settles_def stage_change_again fail_change_again publish_change_again discard_change_again)
qed

lemma settled_result:
  assumes "settles change" "change p = Inr (q, b)" "e = (if b then q\<lparr>eUpdatedAt := t\<rparr> else p)"
  shows "change e = Inr (e, False)"
proof (cases b)
  case False
  have "change (q\<lparr>eUpdatedAt := eUpdatedAt q\<rparr>) = Inr (q\<lparr>eUpdatedAt := eUpdatedAt q\<rparr>, False)"
    using assms(1,2) unfolding settles_def by blast
  moreover have "q = p"
    using assms(1,2) False unfolding settles_def by blast
  ultimately show ?thesis
    using assms(3) False by simp
qed (use assms in \<open>auto simp: settles_def\<close>)

context join_codec
begin

lemma effect_result:
  assumes "effect c h n dir (Inr (e, b), dir')"
  shows "record_at c dir' n = Some e"
  using assms by (cases rule: effect.cases) (auto simp: record_at_stored)

lemma update_retry:
  assumes "host_ok h" "update c h i t change dir = (Inr (e, b), dir')" "settles change"
    and "\<And>p q t. change p = Inr (q, True) \<Longrightarrow> join_next p (q\<lparr>eUpdatedAt := t\<rparr>)"
    and "healthy h'" "t' \<noteq> zero_time" "ePreparedAt e \<le> t'"
  shows "update c h' i t' change dir' = (Inr (e, False), dir')"
proof -
  obtain n p q where n: "executionPath c i = Inr n"
    and q: "change p = Inr (q, b)" "e = (if b then q\<lparr>eUpdatedAt := t\<rparr> else p)"
    using assms(2) by (rule update_Inr)
  have "effect c h (execution_name c i) dir (Inr (e, b), dir')"
    using update_effect [where change = change and c = c and executionID = i and dir = dir and updatedAt = t]
      assms(1,2,4) by metis
  then have "record_at c dir' n = Some e"
    using n by (auto dest: effect_result simp: executionPath_Inr)
  moreover have "change e = Inr (e, False)"
    using assms(3) q by (rule settled_result)
  ultimately show ?thesis
    using assms(5-7) n by (intro update_same) auto
qed

lemma Prepare_retry:
  assumes "host_ok h" "Prepare c h request t dir = (Inr (e, b), dir')" "healthy h'" "t' \<noteq> zero_time"
  shows "Prepare c h' request t' dir' = (Inr (e, False), dir')"
proof -
  obtain sp aid n where n: "specificationFromRequest c request = Inr sp" "artifactID c sp = Inr aid"
      "executionPath c (sExecutionID sp) = Inr n"
    and e: "eArtifactID e = aid" "eSpecification e = sp"
    using assms(2)
    by (auto simp: Prepare_def or_keep_Inr Let_def case_prod_unfold split: option.splits if_splits)
  have "sExecutionID sp = rqExecutionID request"
    using n(1) by (auto simp: specificationFromRequest_def and_then_Inr_iff)
  then have "record_at c dir' n = Some e"
    using Prepare_effect [OF assms(1), of c request dir t] assms(2) n(3)
    by (auto simp: executionPath_Inr dest: effect_result)
  then show ?thesis
    using assms(3,4) n e by (simp add: Prepare_def healthy_lock healthy_read ensure_def)
qed

lemma run_op_retry:
  assumes "host_ok h" "run_op c h op dir = (Inr (e, b), dir')" "healthy h'" "t' \<noteq> zero_time"
    and "ePreparedAt e \<le> t'"
  shows "run_op c h' (at_time t' op) dir' = (Inr (e, False), dir')"
proof (cases op)
  case (OpPrepare request t)
  then show ?thesis
    using assms by (auto intro: Prepare_retry)
next
  case (OpFailed i reason t)
  then have "validateFailure c reason = Inr ()"
    and "update c h i t (fail_change i reason) dir = (Inr (e, b), dir')"
    using assms(2) by (auto simp: MarkStageFailed_def or_keep_Inr)
  then show ?thesis
    using OpFailed assms by (auto simp: MarkStageFailed_def intro!: update_retry changes_settle intro: changes_next)
qed (use assms in \<open>auto simp: MarkStaged_def MarkPublished_def MarkDiscarded_def
      intro!: update_retry changes_settle intro: changes_next\<close>)

end

section \<open>Lookup by artifact\<close>

definition has_artifact :: "('e, 'b) contracts \<Rightarrow> string \<Rightarrow> 'b directory \<Rightarrow> string \<Rightarrow> bool" where
  "has_artifact c a dir n \<longleftrightarrow> \<not> isTemporaryExecutionName n \<and>
     (case record_at c dir n of Some e \<Rightarrow> eArtifactID e = a | None \<Rightarrow> False)"

text \<open>The answer the lookup is meant to give, from the names of the files that hold the artifact.\<close>

definition artifact_answer ::
  "('e, 'b) contracts \<Rightarrow> string \<Rightarrow> 'b directory \<Rightarrow> string list \<Rightarrow> go_error + 'e execution option" where
  "artifact_answer c a dir names =
     (case names of
        [] \<Rightarrow> Inr None
      | [n] \<Rightarrow> Inr (record_at c dir n)
      | _ \<Rightarrow> Inl (ErrorText (''multiple join executions contain artifact '' @ quote a)))"

lemma find_loop_hits:
  assumes "healthy h" "dir_ok c dir" "set names \<subseteq> set (map fst dir)"
  shows "find_loop c h a (\<lambda>_. dir) names match =
    (case match of
       None \<Rightarrow> artifact_answer c a dir (filter (has_artifact c a dir) names)
     | Some e \<Rightarrow>
         if filter (has_artifact c a dir) names = [] then Inr (Some e)
         else Inl (ErrorText (''multiple join executions contain artifact '' @ quote a)))"
  using assms(3)
proof (induction names arbitrary: match)
  case Nil
  then show ?case
    by (auto simp: artifact_answer_def split: option.split)
next
  case (Cons n names)
  show ?case
  proof (cases "isTemporaryExecutionName n")
    case True
    then have "\<not> has_artifact c a dir n"
      by (simp add: has_artifact_def)
    with True Cons show ?thesis
      by (simp split: option.split)
  next
    case False
    then obtain e where e: "record_at c dir n = Some e" "executionPath c (eExecutionID e) = Inr n"
      using assms(2) Cons.prems by (auto simp: dir_ok_def split: option.splits)
    have "readExecution c h n dir = Inr (Some e)"
      using assms(1) e(1) by (rule healthy_read)
    moreover have "has_artifact c a dir n \<longleftrightarrow> eArtifactID e = a"
      using False e by (simp add: has_artifact_def)
    ultimately show ?thesis
      using False e Cons by (auto simp: artifact_answer_def split: option.splits list.splits)
  qed
qed

lemma FindByArtifactID_answer:
  assumes "healthy h" "dir_ok c dir" "validateArtifactID c a = Inr ()"
  shows "FindByArtifactID c h a dir (\<lambda>_. dir) =
    artifact_answer c a dir (filter (has_artifact c a dir) (sort (map fst dir)))"
proof -
  have "find_loop c h a (\<lambda>_. dir) (sort (map fst dir)) None =
    artifact_answer c a dir (filter (has_artifact c a dir) (sort (map fst dir)))"
    using assms find_loop_hits [of h c dir "sort (map fst dir)" a None] by simp
  moreover have "hReadDir h = None"
    using assms(1) by (simp add: healthy_def)
  ultimately show ?thesis
    using assms(3)
    by (cases "artifact_answer c a dir (filter (has_artifact c a dir) (sort (map fst dir)))")
      (simp_all add: FindByArtifactID_def clone_fun option.map_ident)
qed

section \<open>The root of the store\<close>

lemma New_root:
  assumes "New d root = Inr (r, executionsDir)"
  shows "\<exists>parts. parts \<noteq> [] \<and> (\<forall>part\<in>set parts. plain part) \<and> root = abs_path parts \<and> r = root
    \<and> executionsDir = abs_path (parts @ [executionsDirectoryName])"
proof -
  have root: "IsAbs root" "Clean root = root" "Dir root \<noteq> root" "r = root"
    and dir: "executionsDir = Join [root, executionsDirectoryName]"
    using assms by (auto simp: New_def Let_def and_then_Inr_iff split: if_splits)
  obtain parts where parts: "root = abs_path parts" "\<forall>part\<in>set parts. plain part"
    using root(1,2) by (metis Clean_absolute)
  have "parts \<noteq> []"
  proof
    assume "parts = []"
    then have "root = ''/''"
      using parts by (simp add: abs_path_def)
    moreover have "Dir ''/'' = ''/''"
      by (simp add: Dir_def Clean_def IsAbs_def has_prefix_def)
    ultimately show False
      using root(3) by simp
  qed
  moreover have "plain executionsDirectoryName"
    by (simp add: plain_def executionsDirectoryName_def)
  ultimately show ?thesis
    using parts root(4) dir Join_abs_path by blast
qed

section \<open>Concrete contracts\<close>

text \<open>
  Contracts for evaluating the store: a file holds a record or nothing, a digest is its own
  input, and the checks ask for what the schemas ask for in the sample.
\<close>

definition sample_contracts :: "(unit, unit execution option) contracts" where
  "sample_contracts =
     \<lparr>checkRequest = (\<lambda>r. ensure (rqExecutionID r \<noteq> [] \<and> rqParts r \<noteq> []) (ErrorText ''invalid request'')),
      checkStaged = (\<lambda>_ s. ensure (0 < stSizeBytes s) (ErrorText ''invalid artifact'')),
      checkPublished = (\<lambda>_ _ p. ensure (puPathComponents p \<noteq> []) (ErrorText ''invalid path'')),
      checkFailure = (\<lambda>r. ensure (r \<noteq> []) (ErrorText ''invalid reason'')),
      checkDiscard = (\<lambda>i a. ensure (i \<noteq> [] \<and> a \<noteq> []) (ErrorText ''invalid identifier'')),
      marshalSpecification = (\<lambda>s. Inr (sExecutionID s)),
      jcsTransform = Inr,
      sha256Hex = (\<lambda>s. s),
      marshal = (\<lambda>e. Inr (Some e)),
      decode = (\<lambda>b. case b of None \<Rightarrow> Inl (ErrorText ''EOF'') | Some e \<Rightarrow> Inr (e, None)),
      trailing = (\<lambda>b. case b of None \<Rightarrow> EndOfInput | Some _ \<Rightarrow> AnotherValue),
      size_of = (\<lambda>_. 512)\<rparr>"

interpretation sample: join_codec sample_contracts
  by unfold_locales (auto simp: sample_contracts_def)

definition calm_host :: "unit execution option host" where
  "calm_host =
     \<lparr>hLockOpen = None, hLockChmod = None, hFlock = None, hOpen = (\<lambda>_. None), hStat = (\<lambda>_. None),
      hRead = (\<lambda>_. None), hReadDir = None, hReplace = NoFault, hTemp = ''.state-1.tmp'', hLeft = None\<rparr>"

definition sample_request :: stage_join_request where
  "sample_request =
     \<lparr>rqRequestID = ''r'', rqExecutionID = ''x'', rqCaseID = ''c'', rqCapabilityID = ''k'', rqRootID = ''d'',
      rqParts = [\<lparr>ptFileID = ''f'', ptPathComponents = [''a.mkv''], ptExpectedFingerprint = ''p''\<rparr>],
      rqOutputContainer = ''mkv'', rqExpectedSourceBytes = 10, rqExpectedDurationMS = 100,
      rqDurationToleranceMS = 5, rqExpectedStreamCount = 2\<rparr>"

definition sample_artifact :: string where
  "sample_artifact = artifactIDPrefix @ artifactIDDomain @ ''x''"

definition sample_staged :: "unit staged_artifact" where
  "sample_staged = \<lparr>stFingerprint = ''g'', stSizeBytes = 10, stEvidence = ()\<rparr>"

definition sample_published :: published_artifact where
  "sample_published = \<lparr>puRootID = ''d'', puPathComponents = [''m.mkv'']\<rparr>"

lemma calm_host_ok: "host_ok calm_host" "healthy calm_host"
  by (simp_all add: host_ok_def healthy_def calm_host_def isTemporaryExecutionName_def has_prefix_def has_suffix_def)

lemmas join_sample_defs = sample_contracts_def calm_host_def sample_request_def sample_artifact_def
  sample_staged_def sample_published_def

lemmas join_op_defs = Prepare_def MarkStaged_def MarkPublished_def update_def stage_change_def publish_change_def
  matchArtifact_def specificationFromRequest_def artifactID_def executionPath_Inr executionPath_def
  validateExecutionID_def execution_name_def lock_def readExecution_def writeExecution_def Replace_def
  EncodeExecution_def decode_read_def validateExecution_def validateOutcome_def validateSpecification_def
  validateStaged_def validatePublished_def ensure_def zero_time_def MaxExecutionBytes_def

definition sample_prepared :: "unit execution" where
  "sample_prepared =
     \<lparr>eVersion = ExecutionVersionV1, eExecutionID = ''x'', eArtifactID = sample_artifact,
      eSpecification = \<lparr>sExecutionID = ''x'', sCaseID = ''c'', sCapabilityID = ''k'', sRootID = ''d'',
        sParts = [\<lparr>ptFileID = ''f'', ptPathComponents = [''a.mkv''], ptExpectedFingerprint = ''p''\<rparr>],
        sOutputContainer = ''mkv'', sExpectedSourceBytes = 10, sExpectedDurationMS = 100,
        sDurationToleranceMS = 5, sExpectedStreamCount = 2\<rparr>,
      eState = Prepared, eStaged = None, ePublished = None, eFailure = None, ePreparedAt = 5, eUpdatedAt = 5\<rparr>"

definition prepared_dir :: "unit execution option directory" where
  "prepared_dir = [(execution_name sample_contracts ''x'', Regular (Some sample_prepared))]"

definition sample_failed :: "unit execution" where
  "sample_failed = sample_prepared\<lparr>eState := Failed, eFailure := Some ''gone'', eUpdatedAt := 6\<rparr>"

definition failed_dir :: "unit execution option directory" where
  "failed_dir = [(execution_name sample_contracts ''x'', Regular (Some sample_failed))]"

definition sample_calls :: "(unit execution option host \<times> unit join_op) list" where
  "sample_calls =
     [(calm_host, OpFailed ''x'' ''gone'' 6),
      (calm_host, OpStaged ''x'' sample_artifact sample_staged 7)]"

lemma prepare_sample:
  "Prepare sample_contracts calm_host sample_request 5 [] = (Inr (sample_prepared, True), prepared_dir)"
  by (simp add: join_op_defs join_sample_defs sample_prepared_def prepared_dir_def Let_def)

lemma sample_valid:
  "validateExecution sample_contracts sample_prepared = Inr ()"
  "validateExecution sample_contracts sample_failed = Inr ()"
  by (simp_all add: join_op_defs join_sample_defs sample_prepared_def sample_failed_def validateFailure_def)

lemma sample_records:
  "record_at sample_contracts prepared_dir (execution_name sample_contracts ''x'') = Some sample_prepared"
  "record_at sample_contracts failed_dir (execution_name sample_contracts ''x'') = Some sample_failed"
  using sample_valid
  by (simp_all add: record_at_def prepared_dir_def failed_dir_def DecodeExecution_def decode_read_def
      sample_contracts_def MaxExecutionBytes_def ensure_def)

lemma prepared_dir_ok: "dir_ok sample_contracts prepared_dir"
proof -
  have "map fst prepared_dir = [execution_name sample_contracts ''x'']"
    by (simp add: prepared_dir_def)
  moreover have "executionPath sample_contracts (eExecutionID sample_prepared) = Inr (execution_name sample_contracts ''x'')"
    by (simp add: executionPath_def validateExecutionID_def sample_contracts_def sample_prepared_def ensure_def)
  ultimately show ?thesis
    by (simp add: dir_ok_def sample_records)
qed

lemma sample_calls_ok: "hosts_ok sample_calls"
  by (simp add: hosts_ok_def sample_calls_def calm_host_ok)

section \<open>Properties\<close>

text \<open>
  C15: the directory of executions stays well-formed whatever is called and whatever the host
  refuses: every file that is not a temporary one decodes, passes validation, and stands under
  the name that belongs to its execution identifier.
\<close>

theorem join_directory_invariant:
  assumes "join_codec c" "hosts_ok calls" "dir_ok c dir"
  shows "dir_ok c (run_ops c calls dir)"
  using assms by (rule join_codec.run_ops_dir_ok)

theorem join_directory_invariant_witness:
  "hosts_ok sample_calls \<and> dir_ok sample_contracts prepared_dir
   \<and> dir_ok sample_contracts (run_ops sample_contracts sample_calls prepared_dir)"
  using join_directory_invariant [OF sample.join_codec_axioms sample_calls_ok prepared_dir_ok]
    sample_calls_ok prepared_dir_ok by simp

text \<open>
  C16: the stored records refine the life of a join: through any calls, with any faults, a record
  stays in its file, moves only from prepared to staged or failed and from staged to published or
  discarded, keeps its version, identifiers, specification and time of preparation, and never
  changes again once it is published, discarded or failed.
\<close>

theorem join_records_refine_lifecycle:
  assumes "join_codec c" "hosts_ok calls" "record_at c dir n = Some p" "\<not> isTemporaryExecutionName n"
  shows "\<exists>q. record_at c (run_ops c calls dir) n = Some q \<and> join_next\<^sup>*\<^sup>* p q \<and> same_identity p q
    \<and> (final_state (eState p) \<longrightarrow> q = p)"
  using join_codec.run_ops_record [OF assms] by (auto dest: join_nexts_identity join_nexts_final)

theorem join_records_refine_lifecycle_witness:
  "record_at sample_contracts (run_ops sample_contracts sample_calls failed_dir)
     (execution_name sample_contracts ''x'') = Some sample_failed"
proof -
  have "final_state (eState sample_failed)"
    by (simp add: sample_failed_def final_state_def)
  with join_records_refine_lifecycle [OF sample.join_codec_axioms sample_calls_ok sample_records(2)
      execution_name_kept]
  show ?thesis
    by blast
qed

text \<open>
  C17: every operation can be retried: after a call succeeded, the same call at a later time, on a
  host that refuses nothing, gives the same record, reports that nothing changed, and leaves the
  directory as it is.
\<close>

theorem join_operations_idempotent:
  assumes "join_codec c" "host_ok h" "run_op c h op dir = (Inr (e, changed), dir')"
    and "healthy h'" "t \<noteq> zero_time" "ePreparedAt e \<le> t"
  shows "run_op c h' (at_time t op) dir' = (Inr (e, False), dir')"
  using assms by (rule join_codec.run_op_retry)

theorem join_operations_idempotent_witness:
  "Prepare sample_contracts calm_host sample_request 9 prepared_dir = (Inr (sample_prepared, False), prepared_dir)"
  using join_operations_idempotent [OF sample.join_codec_axioms calm_host_ok(1),
      of "OpPrepare sample_request 5" "[]" sample_prepared True prepared_dir calm_host 9]
    prepare_sample calm_host_ok by (simp add: zero_time_def sample_prepared_def)

text \<open>
  C18: an operation that fails has changed no record, except when the file was already replaced
  and only the sync of the directory failed.
\<close>

theorem join_errors_keep_records:
  assumes "host_ok h" "run_op c h op dir = (Inl err, dir')" "\<forall>x. hReplace h \<noteq> DirectoryFault x"
    and "\<not> isTemporaryExecutionName n"
  shows "record_at c dir' n = record_at c dir n"
proof -
  have "effect c h (execution_name c (op_id op)) dir (Inl err, dir')"
    using run_op_effect [OF assms(1), of c op dir] assms(2) by simp
  then have "unchanged dir dir'"
    using assms(3) by (cases rule: effect.cases) auto
  then show ?thesis
    using assms(4) by (rule unchanged_record)
qed

theorem join_errors_keep_records_witness:
  "fst (run_op sample_contracts calm_host (OpDiscarded ''x'' ''other'' ''g'' 6) prepared_dir) =
     Inl (ErrorText (''artifact ID does not match join execution '' @ quote ''x''))
   \<and> record_at sample_contracts (snd (run_op sample_contracts calm_host
       (OpDiscarded ''x'' ''other'' ''g'' 6) prepared_dir)) (execution_name sample_contracts ''x'')
     = Some sample_prepared"
proof -
  have read: "readExecution sample_contracts calm_host (execution_name sample_contracts ''x'') prepared_dir
      = Inr (Some sample_prepared)"
    using calm_host_ok(2) sample_records(1) by (rule healthy_read)
  have path: "executionPath sample_contracts ''x'' = Inr (execution_name sample_contracts ''x'')"
    by (simp add: executionPath_def validateExecutionID_def sample_contracts_def ensure_def)
  have run: "run_op sample_contracts calm_host (OpDiscarded ''x'' ''other'' ''g'' 6) prepared_dir =
      (Inl (ErrorText (''artifact ID does not match join execution '' @ quote ''x'')), prepared_dir)"
    using read path healthy_lock [OF calm_host_ok(2)]
    by (simp add: MarkDiscarded_def update_def discard_change_def matchArtifact_def ensure_def zero_time_def
        sample_prepared_def sample_artifact_def artifactIDPrefix_def)
  let ?res = "run_op sample_contracts calm_host (OpDiscarded ''x'' ''other'' ''g'' 6) prepared_dir"
  have err: "?res = (Inl (ErrorText (''artifact ID does not match join execution '' @ quote ''x'')), snd ?res)"
    by (simp only: run snd_conv)
  have "\<forall>x. hReplace calm_host \<noteq> DirectoryFault x"
    by (simp add: calm_host_def)
  from join_errors_keep_records [OF calm_host_ok(1) err this
      execution_name_kept [of sample_contracts "''x''"]]
  have "record_at sample_contracts (snd ?res) (execution_name sample_contracts ''x'') = Some sample_prepared"
    unfolding sample_records .
  with err show ?thesis
    by (metis fst_conv)
qed

text \<open>
  C19: the lookup by artifact gives the one record of the directory that has the artifact
  identifier, nothing if there is none, and an error if several have it.
\<close>

theorem find_by_artifact_decides:
  assumes "healthy h" "dir_ok c dir" "validateArtifactID c a = Inr ()"
  shows "FindByArtifactID c h a dir (\<lambda>_. dir) =
    artifact_answer c a dir (filter (has_artifact c a dir) (sort (map fst dir)))"
  using assms by (rule FindByArtifactID_answer)

theorem find_by_artifact_decides_witness:
  "FindByArtifactID sample_contracts calm_host sample_artifact prepared_dir (\<lambda>_. prepared_dir)
     = Inr (Some sample_prepared)"
proof -
  have "validateArtifactID sample_contracts sample_artifact = Inr ()"
    by (simp add: validateArtifactID_def sample_contracts_def validationRequestID_def ensure_def
        sample_artifact_def artifactIDPrefix_def)
  note find_by_artifact_decides [OF calm_host_ok(2) prepared_dir_ok this]
  moreover have "map fst prepared_dir = [execution_name sample_contracts ''x'']"
    by (simp add: prepared_dir_def)
  moreover have "has_artifact sample_contracts sample_artifact prepared_dir (execution_name sample_contracts ''x'')"
    by (simp add: has_artifact_def sample_records) (simp add: sample_prepared_def)
  ultimately show ?thesis
    by (simp add: artifact_answer_def sample_records)
qed

definition outcome_shape :: "'e execution \<Rightarrow> bool" where
  "outcome_shape e \<longleftrightarrow>
     (case eState e of
        Prepared \<Rightarrow> eStaged e = None \<and> ePublished e = None \<and> eFailure e = None
      | Staged \<Rightarrow> eStaged e \<noteq> None \<and> ePublished e = None \<and> eFailure e = None
      | Discarded \<Rightarrow> eStaged e \<noteq> None \<and> ePublished e = None \<and> eFailure e = None
      | Published \<Rightarrow> eStaged e \<noteq> None \<and> ePublished e \<noteq> None \<and> eFailure e = None
      | Failed \<Rightarrow> eStaged e = None \<and> ePublished e = None \<and> eFailure e \<noteq> None
      | OtherState _ \<Rightarrow> False)"

text \<open>
  C20: the outcome a stored record carries is the one its state stands for: none while it is
  prepared, the staged artifact once it is staged or discarded, the staged and the published
  artifact once it is published, the failure once it failed; no other state is stored.
\<close>

theorem join_outcome_matches_state:
  assumes "readExecution c h n dir = Inr (Some e)"
  shows "outcome_shape e \<and> eUpdatedAt e \<ge> ePreparedAt e \<and> eExecutionID e = sExecutionID (eSpecification e)
    \<and> artifactID c (eSpecification e) = Inr (eArtifactID e)"
proof -
  have "validateExecution c e = Inr ()"
    using readExecution_Some [OF assms]
    by (auto simp: record_at_def DecodeExecution_Inr split: option.splits dirent.splits sum.splits)
  then have "validateOutcome c e = Inr ()" "eUpdatedAt e \<ge> ePreparedAt e"
    "eExecutionID e = sExecutionID (eSpecification e)" "artifactID c (eSpecification e) = Inr (eArtifactID e)"
    by (auto simp: validateExecution_def and_then_Inr_iff)
  moreover from this(1) have "outcome_shape e"
    by (auto simp: validateOutcome_def outcome_shape_def split: join_state.splits option.splits)
  ultimately show ?thesis
    by simp
qed

theorem join_outcome_matches_state_witness:
  "outcome_shape sample_failed"
  using join_outcome_matches_state [OF healthy_read [OF calm_host_ok(2) sample_records(2)]] by simp

text \<open>
  C21: the store accepts only a root that is a clean absolute path other than the root of the file
  system, and its directory of executions is the child \<open>executions\<close> of that root.
\<close>

theorem join_store_root:
  assumes "New d root = Inr (r, executionsDir)"
  shows "\<exists>parts. parts \<noteq> [] \<and> (\<forall>part\<in>set parts. plain part) \<and> root = abs_path parts \<and> r = root
    \<and> executionsDir = abs_path (parts @ [executionsDirectoryName])"
  using assms by (rule New_root)

definition sample_directories :: directory_host where
  "sample_directories = \<lparr>dMkdirAll = (\<lambda>_. None), dLstat = (\<lambda>_. Inr DirectoryMode), dChmod = (\<lambda>_. None),
     dOpen = (\<lambda>_. None), dSync = (\<lambda>_. None)\<rparr>"

theorem join_store_root_witness:
  "New sample_directories ''/a/b'' = Inr (''/a/b'', ''/a/b/executions'')
   \<and> (\<exists>parts. ''/a/b'' = abs_path parts \<and> ''/a/b/executions'' = abs_path (parts @ [executionsDirectoryName]))"
proof -
  have "New sample_directories ''/a/b'' = Inr (''/a/b'', ''/a/b/executions'')"
    by (simp add: New_def sample_directories_def EnsureDirectory_def SyncDirectory_def Join_def Clean_def Dir_def
        IsAbs_def has_prefix_def executionsDirectoryName_def ensure_def)
  with join_store_root [OF this] show ?thesis
    by blast
qed

end
