(* ===== verification/Media_Evidence.thy ===== *)
theory Media_Evidence
  imports Complex_Main Go_Path
begin

text \<open>
  The observations of the Radarr controller (\<open>internal/controller\<close>): the records it keeps of the
  queue, the download, the files and their probes, and the rules that classify media files,
  queue records, downloads, manual imports and replacements. The names of Radarr's and of the
  download client's states are strings, as in the code.
\<close>

section \<open>Text\<close>

text \<open>
  \<open>strings.TrimSpace\<close> on UTF-8 bytes: the encodings of the white-space runes are removed from both
  ends.
\<close>

definition space_runes :: "string list" where
  "space_runes =
     [[CHR 0x09], [CHR 0x0A], [CHR 0x0B], [CHR 0x0C], [CHR 0x0D], [CHR 0x20],
      [CHR 0xC2, CHR 0x85], [CHR 0xC2, CHR 0xA0], [CHR 0xE1, CHR 0x9A, CHR 0x80]] @
     map (\<lambda>b. [CHR 0xE2, CHR 0x80, b])
       [CHR 0x80, CHR 0x81, CHR 0x82, CHR 0x83, CHR 0x84, CHR 0x85, CHR 0x86, CHR 0x87, CHR 0x88,
        CHR 0x89, CHR 0x8A, CHR 0xA8, CHR 0xA9, CHR 0xAF] @
     [[CHR 0xE2, CHR 0x81, CHR 0x9F], [CHR 0xE3, CHR 0x80, CHR 0x80]]"

fun strip_runes :: "nat \<Rightarrow> string list \<Rightarrow> string \<Rightarrow> string" where
  "strip_runes 0 runes s = s"
| "strip_runes (Suc n) runes s =
     (case find (has_prefix s) runes of
        None \<Rightarrow> s
      | Some r \<Rightarrow> strip_runes n runes (drop (length r) s))"

definition TrimSpace :: "string \<Rightarrow> string" where
  "TrimSpace s =
     (let left = strip_runes (length s) space_runes s
      in rev (strip_runes (length left) (map rev space_runes) (rev left)))"

text \<open>
  \<open>strings.ToUpper\<close> and \<open>strings.ToLower\<close> as far as a comparison with an ASCII literal can tell:
  besides the ASCII letters, the dotless i and the long s have ASCII upper cases, the dotted I and
  the Kelvin sign ASCII lower cases.
\<close>

definition upper_char :: "char \<Rightarrow> char" where
  "upper_char c = (let b = of_char c :: nat in if 97 \<le> b \<and> b \<le> 122 then char_of (b - 32) else c)"

definition lower_char :: "char \<Rightarrow> char" where
  "lower_char c = (let b = of_char c :: nat in if 65 \<le> b \<and> b \<le> 90 then char_of (b + 32) else c)"

fun ToUpper :: "string \<Rightarrow> string" where
  "ToUpper [] = []"
| "ToUpper [c] = [upper_char c]"
| "ToUpper (c # d # s) =
     (if c = CHR 0xC4 \<and> d = CHR 0xB1 then CHR ''I'' # ToUpper s
      else if c = CHR 0xC5 \<and> d = CHR 0xBF then CHR ''S'' # ToUpper s
      else upper_char c # ToUpper (d # s))"

fun ToLower :: "string \<Rightarrow> string" where
  "ToLower [] = []"
| "ToLower [c] = [lower_char c]"
| "ToLower [c, d] =
     (if c = CHR 0xC4 \<and> d = CHR 0xB0 then [CHR ''i''] else lower_char c # ToLower [d])"
| "ToLower (c # d # e # s) =
     (if c = CHR 0xC4 \<and> d = CHR 0xB0 then CHR ''i'' # ToLower (e # s)
      else if c = CHR 0xE2 \<and> d = CHR 0x84 \<and> e = CHR 0xAA then CHR ''k'' # ToLower s
      else lower_char c # ToLower (d # e # s))"

text \<open>
  \<open>strings.EqualFold\<close>: the ASCII letters, the Kelvin sign and the long s fold; a letter outside
  them is only equal to itself in the model.
\<close>

fun fold_case :: "string \<Rightarrow> string" where
  "fold_case [] = []"
| "fold_case [c] = [lower_char c]"
| "fold_case [c, d] =
     (if c = CHR 0xC5 \<and> d = CHR 0xBF then [CHR ''s''] else lower_char c # fold_case [d])"
| "fold_case (c # d # e # s) =
     (if c = CHR 0xC5 \<and> d = CHR 0xBF then CHR ''s'' # fold_case (e # s)
      else if c = CHR 0xE2 \<and> d = CHR 0x84 \<and> e = CHR 0xAA then CHR ''k'' # fold_case s
      else lower_char c # fold_case (d # e # s))"

definition EqualFold :: "string \<Rightarrow> string \<Rightarrow> bool" where
  "EqualFold s t \<longleftrightarrow> fold_case s = fold_case t"

lemma EqualFold_equiv: "EqualFold s s" "EqualFold s t \<Longrightarrow> EqualFold t s" "EqualFold s t \<Longrightarrow> EqualFold t u \<Longrightarrow> EqualFold s u"
  by (simp_all add: EqualFold_def)

definition completeText :: "string \<Rightarrow> bool" where
  "completeText value \<longleftrightarrow> value \<noteq> [] \<and> TrimSpace value = value"

section \<open>Files and probes\<close>

record snapshot =
  snDevice :: int
  snInode :: int
  snSizeBytes :: int
  snMTimeNS :: int

record rational =
  Numerator :: int
  Denominator :: int

record probe_tag =
  tgName :: string
  tgValue :: string

record probe_disposition =
  pdDefault :: "bool option"
  pdForced :: "bool option"
  pdHearingImpaired :: "bool option"
  pdVisualImpaired :: "bool option"

record probe_stream =
  psIndex :: int
  psKind :: "string option"
  psCodecName :: "string option"
  psCodecLongName :: "string option"
  psProfile :: "string option"
  psCodecTag :: "string option"
  psWidth :: "int option"
  psHeight :: "int option"
  psPixelFormat :: "string option"
  psSampleFormat :: "string option"
  psSampleRateHz :: "int option"
  psChannels :: "int option"
  psChannelLayout :: "string option"
  psFrameRate :: "rational option"
  psAverageRate :: "rational option"
  psTimeBase :: "rational option"
  psStartTicks :: "int option"
  psStartTimeMS :: "int option"
  psDurationTicks :: "int option"
  psDurationMS :: "int option"
  psBitRateBPS :: "int option"
  psFrameCount :: "int option"
  psDisposition :: "probe_disposition option"
  psTags :: "probe_tag list"

definition ProbeStreamVideo :: string where "ProbeStreamVideo = ''video''"
definition ProbeStreamAudio :: string where "ProbeStreamAudio = ''audio''"

record probe_format =
  pfNames :: "string list"
  pfLongName :: "string option"
  pfStreamCount :: "int option"
  pfProgramCount :: "int option"
  pfStartTimeMS :: "int option"
  pfDurationMS :: "int option"
  pfSizeBytes :: "int option"
  pfBitRateBPS :: "int option"
  pfProbeScore :: "int option"
  pfTags :: "probe_tag list"

record probe_program =
  pgID :: int
  pgNumber :: "int option"
  pgStreamCount :: "int option"
  pgPMTPID :: "int option"
  pgPCRPID :: "int option"
  pgStreamIndexes :: "int list"
  pgTags :: "probe_tag list"

record probe_chapter =
  pcID :: int
  pcTimeBase :: "rational option"
  pcStartTicks :: "int option"
  pcStartTimeMS :: "int option"
  pcEndTicks :: "int option"
  pcEndTimeMS :: "int option"
  pcTags :: "probe_tag list"

record probe_evidence =
  peFormat :: probe_format
  peStreams :: "probe_stream list"
  pePrograms :: "probe_program list"
  peChapters :: "probe_chapter list"

datatype probe_status = MediaProbeSucceeded | MediaProbeFailed | MediaProbeNotCollected | OtherProbeStatus string

datatype probe_reason =
    MediaProbeNotRegularFile | MediaProbeUnsupportedFormat | MediaProbeTimeout | MediaProbeError
  | MediaProbeInvalidOutput | MediaProbeIncompleteMetadata | MediaProbeNotCandidate
  | MediaProbeCollectionLimit | NoProbeReason

record probe_outcome =
  poStatus :: probe_status
  poEvidence :: "probe_evidence option"
  poReason :: probe_reason

definition SuccessfulMediaProbe :: "probe_evidence \<Rightarrow> probe_outcome" where
  "SuccessfulMediaProbe evidence =
     \<lparr>poStatus = MediaProbeSucceeded, poEvidence = Some evidence, poReason = NoProbeReason\<rparr>"

definition FailedMediaProbe :: "probe_reason \<Rightarrow> probe_outcome" where
  "FailedMediaProbe reason = \<lparr>poStatus = MediaProbeFailed, poEvidence = None, poReason = reason\<rparr>"

definition UncollectedMediaProbe :: "probe_reason \<Rightarrow> probe_outcome" where
  "UncollectedMediaProbe reason = \<lparr>poStatus = MediaProbeNotCollected, poEvidence = None, poReason = reason\<rparr>"

record download_file_reference =
  rfIndex :: int
  rfHasIndex :: bool
  rfLengthBytes :: int
  rfBytesCompleted :: int
  rfSelected :: bool

record inventory_file =
  ifID :: string
  ifPathComponents :: "string list"
  ifFingerprint :: snapshot
  ifDownloadFile :: "download_file_reference option"

record file_path_mapping =
  pmFileID :: string
  pmAbsolutePath :: string

record file_inventory =
  invFiles :: "inventory_file list"
  invPaths :: "file_path_mapping list"

section \<open>Media files\<close>

datatype media_extension =
    NoExtension | MediaExtensionTS | MediaExtensionM2TS | MediaExtensionMP4 | MediaExtensionMKV | MediaExtensionAVI

datatype media_disposition = MediaFileProbeCandidate | MediaFileEvidenceOnly

datatype media_exclusion =
    NotExcluded | MediaFileUntracked | MediaFileUnwanted | MediaFileIncomplete | MediaFileEmpty
  | MediaFileUnsupportedExtension

record media_assessment =
  maFile :: inventory_file
  maExtension :: media_extension
  maDisposition :: media_disposition
  maExclusionReason :: media_exclusion

definition ProbeCandidate :: "media_assessment \<Rightarrow> bool" where
  "ProbeCandidate assessment \<longleftrightarrow> maDisposition assessment = MediaFileProbeCandidate"

definition isRawDiscPath :: "string list \<Rightarrow> bool" where
  "isRawDiscPath pathComponents \<longleftrightarrow>
     list_ex (\<lambda>component. ToUpper component = ''BDMV'' \<or> ToUpper component = ''VIDEO_TS'') (butlast pathComponents)"

definition SupportsJoinPartsPath :: "string list \<Rightarrow> bool" where
  "SupportsJoinPartsPath pathComponents \<longleftrightarrow> pathComponents \<noteq> [] \<and> \<not> isRawDiscPath pathComponents"

definition supportedMediaExtension :: "string list \<Rightarrow> media_extension option" where
  "supportedMediaExtension pathComponents =
     (if pathComponents = [] then None
      else let extension = ToLower (Ext (last pathComponents))
           in if extension = ''.ts'' then Some MediaExtensionTS
              else if extension = ''.m2ts'' then Some MediaExtensionM2TS
              else if extension = ''.mp4'' then Some MediaExtensionMP4
              else if extension = ''.mkv'' then Some MediaExtensionMKV
              else if extension = ''.avi'' then Some MediaExtensionAVI
              else None)"

definition classifyMediaFile :: "inventory_file \<Rightarrow> media_assessment" where
  "classifyMediaFile file =
     (let supported = supportedMediaExtension (ifPathComponents file);
          assessment = \<lparr>maFile = file,
            maExtension = (case supported of Some extension \<Rightarrow> extension | None \<Rightarrow> NoExtension),
            maDisposition = MediaFileEvidenceOnly, maExclusionReason = NotExcluded\<rparr>
      in case ifDownloadFile file of
           None \<Rightarrow> assessment\<lparr>maExclusionReason := MediaFileUntracked\<rparr>
         | Some reference \<Rightarrow>
             if \<not> rfSelected reference then assessment\<lparr>maExclusionReason := MediaFileUnwanted\<rparr>
             else if rfBytesCompleted reference \<noteq> rfLengthBytes reference
             then assessment\<lparr>maExclusionReason := MediaFileIncomplete\<rparr>
             else if snSizeBytes (ifFingerprint file) \<le> 0 \<or> rfLengthBytes reference \<le> 0
             then assessment\<lparr>maExclusionReason := MediaFileEmpty\<rparr>
             else if supported = None then assessment\<lparr>maExclusionReason := MediaFileUnsupportedExtension\<rparr>
             else assessment\<lparr>maDisposition := MediaFileProbeCandidate\<rparr>)"

definition ClassifyMediaFiles :: "file_inventory \<Rightarrow> media_assessment list" where
  "ClassifyMediaFiles inventory = map classifyMediaFile (invFiles inventory)"

text \<open>A probe candidate is a selected, complete, non-empty file of a supported kind.\<close>

lemma classify_candidate:
  "ProbeCandidate (classifyMediaFile file) \<longleftrightarrow>
     (\<exists>reference extension. ifDownloadFile file = Some reference \<and> rfSelected reference
        \<and> rfBytesCompleted reference = rfLengthBytes reference
        \<and> 0 < snSizeBytes (ifFingerprint file) \<and> 0 < rfLengthBytes reference
        \<and> supportedMediaExtension (ifPathComponents file) = Some extension)"
  by (auto simp: ProbeCandidate_def classifyMediaFile_def Let_def split: option.splits)

lemma classify_extension:
  "maExtension (classifyMediaFile file) =
     (case supportedMediaExtension (ifPathComponents file) of Some extension \<Rightarrow> extension | None \<Rightarrow> NoExtension)"
  by (auto simp: classifyMediaFile_def Let_def split: option.splits)

end
