(* ===== verification/Radarr_Evidence.thy ===== *)
theory Radarr_Evidence
  imports Media_Evidence
begin

text \<open>
  What the controller observes of Radarr and of the download client, and what it concludes from it:
  which queue records are candidates for a repair (\<open>candidates.go\<close>), whether a download belongs to
  a record (\<open>correlation.go\<close>), which manual imports it can submit (\<open>manual_import.go\<close>) and whether
  an import may replace a movie file (\<open>replacement.go\<close>). Radarr sends sizes as floating-point
  numbers; they are only compared with zero.
\<close>

section \<open>Records\<close>

record status_message =
  smTitle :: string
  smMessages :: "string list"

record queue_record =
  qrID :: int
  qrMovieID :: "int option"
  qrTitle :: string
  qrSizeBytes :: rat
  qrSizeRemainingBytes :: rat
  qrTimeRemaining :: string
  qrEstimatedCompletionTime :: "gotime option"
  qrStatus :: string
  qrTrackedDownloadStatus :: string
  qrTrackedDownloadState :: string
  qrStatusMessages :: "status_message list"
  qrErrorMessage :: string
  qrDownloadID :: string
  qrProtocol :: string
  qrDownloadClient :: string
  qrIndexer :: string
  qrOutputPath :: string
  qrDownloadClientHasPostCategory :: bool

record radarr_movie =
  mvID :: int
  mvTMDBID :: int
  mvHasFile :: bool
  mvIMDbID :: "string option"
  mvTitle :: string
  mvOriginalTitle :: "string option"
  mvAlternateTitles :: "string list"
  mvYear :: int
  mvRuntimeMinutes :: "int option"

record radarr_quality =
  qlID :: int
  qlName :: string
  qlSource :: string
  qlResolution :: int
  qlModifier :: string

record quality_revision =
  rvVersion :: int
  rvReal :: int
  rvIsRepack :: bool

record quality_model =
  qmQuality :: radarr_quality
  qmRevision :: "quality_revision option"

record radarr_language =
  lgID :: int
  lgName :: string

record history_event =
  heID :: int
  heMovieID :: int
  heDownloadID :: string
  heEventType :: string
  heOccurredAt :: gotime
  heSourceTitle :: string
  heQuality :: "quality_model option"
  heLanguages :: "radarr_language list"

record manual_rejection =
  rjCode :: string
  rjType :: string
  rjReason :: string

record manual_import =
  miPath :: string
  miRelativePath :: string
  miFolderName :: string
  miSizeBytes :: int
  miMovieID :: int
  miDownloadID :: string
  miQuality :: "quality_model option"
  miLanguages :: "radarr_language list"
  miReleaseGroup :: string
  miIndexerFlags :: int
  miRejections :: "manual_rejection list"

record download_file =
  dfIndex :: int
  dfHasIndex :: bool
  dfPath :: string
  dfLengthBytes :: int
  dfBytesCompleted :: int
  dfSelected :: bool

datatype id_comparison = DownloadIDExact | DownloadIDASCIIInsensitive | OtherComparison string

datatype content_ownership = DownloadContentManifest | DownloadContentOutputTree | OtherOwnership string

record download =
  dlClient :: string
  dlSourceType :: string
  dlID :: string
  dlIDComparison :: id_comparison
  dlName :: string
  dlStable :: bool
  dlComplete :: bool
  dlOutputPath :: string
  dlLabels :: "string list"
  dlCreatedAt :: "gotime option"
  dlAddedAt :: "gotime option"
  dlCompletedAt :: "gotime option"
  dlTotalSizeBytes :: int
  dlContentOwnership :: content_ownership
  dlFiles :: "download_file list"

definition MatchesID :: "download \<Rightarrow> string \<Rightarrow> bool" where
  "MatchesID d value =
     (case dlIDComparison d of
        DownloadIDExact \<Rightarrow> value = dlID d
      | DownloadIDASCIIInsensitive \<Rightarrow> EqualFold value (dlID d)
      | OtherComparison _ \<Rightarrow> False)"

section \<open>Repair candidates\<close>

datatype candidate_rejection =
    CandidateUnsupportedSource
  | CandidateIncompleteDownload
  | CandidateUnsupportedQueueState
  | CandidateMissingDownloadID
  | CandidateInvalidOutputPath

record candidate_assessment =
  caRecord :: queue_record
  caRejectionReasons :: "candidate_rejection list"

definition candidate_eligible :: "candidate_assessment \<Rightarrow> bool" where
  "candidate_eligible assessment \<longleftrightarrow> caRejectionReasons assessment = []"

definition usableDownloadID :: "string \<Rightarrow> bool" where
  "usableDownloadID downloadID \<longleftrightarrow>
     downloadID \<noteq> [] \<and> TrimSpace downloadID = downloadID \<and> CHR 0x00 \<notin> set downloadID"

definition usableOutputPath :: "string \<Rightarrow> bool" where
  "usableOutputPath outputPath \<longleftrightarrow>
     (if outputPath = [] \<or> TrimSpace outputPath \<noteq> outputPath \<or> CHR 0x00 \<in> set outputPath \<or> \<not> IsAbs outputPath
      then False
      else let cleaned = Clean outputPath in cleaned = outputPath \<and> cleaned \<noteq> ''/'')"

definition eligibleQueueStates :: "(string \<times> string \<times> string) list" where
  "eligibleQueueStates =
     [(''completed'', ''warning'', ''importBlocked''), (''completed'', ''warning'', ''importPending'')]"

definition eligibleQueueState :: "queue_record \<Rightarrow> bool" where
  "eligibleQueueState record \<longleftrightarrow>
     (qrStatus record, qrTrackedDownloadStatus record, qrTrackedDownloadState record) \<in> set eligibleQueueStates"

text \<open>A reason is noted once.\<close>

definition add_reason :: "'r \<Rightarrow> bool \<Rightarrow> 'r list \<Rightarrow> 'r list" where
  "add_reason reason applies reasons =
     (if applies \<and> reason \<notin> set reasons then reasons @ [reason] else reasons)"

lemma add_reason_Nil [simp]: "add_reason r b rs = [] \<longleftrightarrow> \<not> b \<and> rs = []"
  by (auto simp: add_reason_def)

lemma add_reason_distinct: "distinct rs \<Longrightarrow> distinct (add_reason r b rs)"
  by (simp add: add_reason_def)

lemma set_add_reason: "set (add_reason r b rs) = (if b then insert r (set rs) else set rs)"
  by (auto simp: add_reason_def)

text \<open>\<open>downloads\<close> is \<open>None\<close> when the controller has no download client configured.\<close>

definition classifyRepairCandidate ::
  "queue_record \<Rightarrow> (string \<Rightarrow> string \<Rightarrow> bool) option \<Rightarrow> candidate_assessment" where
  "classifyRepairCandidate record downloads =
     (let supported = (case downloads of
            None \<Rightarrow> False
          | Some supports \<Rightarrow> supports (qrProtocol record) (qrDownloadClient record));
          reasons = add_reason CandidateUnsupportedSource (\<not> supported) [];
          reasons = add_reason CandidateIncompleteDownload
            (qrStatus record \<noteq> ''completed'' \<or> qrSizeRemainingBytes record \<noteq> 0) reasons;
          reasons = add_reason CandidateUnsupportedQueueState (\<not> eligibleQueueState record) reasons;
          reasons = add_reason CandidateMissingDownloadID (\<not> usableDownloadID (qrDownloadID record)) reasons;
          reasons = add_reason CandidateInvalidOutputPath (\<not> usableOutputPath (qrOutputPath record)) reasons
      in \<lparr>caRecord = record, caRejectionReasons = reasons\<rparr>)"

definition ClassifyRepairCandidates ::
  "queue_record list \<Rightarrow> (string \<Rightarrow> string \<Rightarrow> bool) option \<Rightarrow> candidate_assessment list" where
  "ClassifyRepairCandidates records downloads =
     map (\<lambda>record. classifyRepairCandidate record downloads) records"

section \<open>Correlation of a download\<close>

datatype correlation_rejection =
    CorrelationInvalidRadarrDownloadID
  | CorrelationInvalidDownloadID
  | CorrelationDownloadIDMismatch
  | CorrelationUnstableDownload
  | CorrelationIncompleteDownload
  | CorrelationNoSelectedFiles
  | CorrelationInvalidDownloadRoot
  | CorrelationDownloadRootMismatch

record download_correlation =
  crRadarr :: queue_record
  crDownload :: download
  crDownloadRoot :: string
  crRejectionReasons :: "correlation_rejection list"

definition correlation_eligible :: "download_correlation \<Rightarrow> bool" where
  "correlation_eligible correlation \<longleftrightarrow> crRejectionReasons correlation = []"

text \<open>The loop over the files of a manifest: the reasons and the number of selected files.\<close>

fun manifest_loop ::
  "download_file list \<Rightarrow> correlation_rejection list \<times> int \<Rightarrow> correlation_rejection list \<times> int" where
  "manifest_loop [] acc = acc"
| "manifest_loop (file # files) (reasons, selectedFiles) =
     (if \<not> dfSelected file then manifest_loop files (reasons, selectedFiles)
      else manifest_loop files
        (add_reason CorrelationIncompleteDownload (dfBytesCompleted file \<noteq> dfLengthBytes file) reasons,
         selectedFiles + 1))"

definition CorrelateDownload :: "queue_record \<Rightarrow> download \<Rightarrow> download_correlation" where
  "CorrelateDownload record d =
     (let reasons = add_reason CorrelationInvalidRadarrDownloadID (qrDownloadID record = []) [];
          validDownloadID = (dlID d \<noteq> [] \<and>
            (dlIDComparison d = DownloadIDExact \<or> dlIDComparison d = DownloadIDASCIIInsensitive));
          reasons = add_reason CorrelationInvalidDownloadID (\<not> validDownloadID) reasons;
          reasons = add_reason CorrelationDownloadIDMismatch
            (qrDownloadID record \<noteq> [] \<and> validDownloadID \<and> \<not> MatchesID d (qrDownloadID record)) reasons;
          reasons = add_reason CorrelationUnstableDownload (\<not> dlStable d) reasons;
          reasons = add_reason CorrelationIncompleteDownload (\<not> dlComplete d) reasons;
          reasons = (if dlContentOwnership d = DownloadContentManifest
            then let (reasons, selectedFiles) = manifest_loop (dlFiles d) (reasons, 0)
                 in add_reason CorrelationNoSelectedFiles (selectedFiles = 0) reasons
            else reasons);
          validRoots = (usableOutputPath (dlOutputPath d) \<and> usableOutputPath (qrOutputPath record))
      in if \<not> validRoots
         then \<lparr>crRadarr = record, crDownload = d, crDownloadRoot = [],
               crRejectionReasons = add_reason CorrelationInvalidDownloadRoot True reasons\<rparr>
         else if dlOutputPath d \<noteq> qrOutputPath record
         then \<lparr>crRadarr = record, crDownload = d, crDownloadRoot = [],
               crRejectionReasons = add_reason CorrelationDownloadRootMismatch True reasons\<rparr>
         else \<lparr>crRadarr = record, crDownload = d, crDownloadRoot = qrOutputPath record,
               crRejectionReasons = reasons\<rparr>)"

section \<open>Manual imports\<close>

datatype import_mode = RadarrImportModeCopy | OtherImportMode string

record command_file =
  cfPath :: string
  cfFolderName :: string
  cfQuality :: quality_model
  cfLanguages :: "radarr_language list"
  cfReleaseGroup :: string
  cfIndexerFlags :: int
  cfDownloadID :: string
  cfMovieID :: int

record import_command =
  icImportMode :: import_mode
  icFile :: command_file

record import_binding =
  bdFileID :: string
  bdExpectedFingerprint :: snapshot
  bdImportMode :: import_mode
  bdFile :: command_file

definition validLanguages :: "radarr_language list \<Rightarrow> bool" where
  "validLanguages languages \<longleftrightarrow> list_all (\<lambda>language. completeText (lgName language)) languages"

definition command_complete :: "import_command \<Rightarrow> bool" where
  "command_complete command \<longleftrightarrow>
     icImportMode command = RadarrImportModeCopy \<and>
     usableOutputPath (cfPath (icFile command)) \<and>
     (cfFolderName (icFile command) = [] \<or> completeText (cfFolderName (icFile command))) \<and>
     completeText (qlName (qmQuality (cfQuality (icFile command)))) \<and>
     validLanguages (cfLanguages (icFile command)) \<and>
     (cfReleaseGroup (icFile command) = [] \<or> completeText (cfReleaseGroup (icFile command))) \<and>
     completeText (cfDownloadID (icFile command)) \<and>
     0 < cfMovieID (icFile command)"

definition binding_complete :: "import_binding \<Rightarrow> bool" where
  "binding_complete binding \<longleftrightarrow>
     bdFileID binding \<noteq> [] \<and> 0 < snSizeBytes (bdExpectedFingerprint binding) \<and>
     command_complete \<lparr>icImportMode = bdImportMode binding, icFile = bdFile binding\<rparr>"

definition cloneRadarrQuality :: "quality_model option \<Rightarrow> quality_model option" where
  "cloneRadarrQuality quality =
     (case quality of
        None \<Rightarrow> None
      | Some q \<Rightarrow> Some (case qmRevision q of
          None \<Rightarrow> q
        | Some revision \<Rightarrow> q\<lparr>qmRevision := Some revision\<rparr>))"

definition cloneRadarrLanguages :: "radarr_language list \<Rightarrow> radarr_language list" where
  "cloneRadarrLanguages languages = map (\<lambda>language. language) languages"

lemma clone_radarr [simp]: "cloneRadarrQuality quality = quality" "cloneRadarrLanguages languages = languages"
proof -
  show "cloneRadarrQuality quality = quality"
  proof (cases quality)
    case (Some q)
    then show ?thesis
      by (cases q) (simp add: cloneRadarrQuality_def split: option.split)
  qed (simp add: cloneRadarrQuality_def)
qed (simp add: cloneRadarrLanguages_def)

text \<open>The loop of \<open>latestMatchingGrab\<close>, \<open>latest\<close> being the event found so far.\<close>

fun grab_loop :: "int \<Rightarrow> string \<Rightarrow> history_event list \<Rightarrow> history_event option \<Rightarrow> history_event option" where
  "grab_loop movieID downloadID [] latest = latest"
| "grab_loop movieID downloadID (event # history) latest =
     (if heEventType event \<noteq> ''grabbed'' \<or> heMovieID event \<noteq> movieID \<or> \<not> EqualFold (heDownloadID event) downloadID
      then grab_loop movieID downloadID history latest
      else case latest of
        None \<Rightarrow> grab_loop movieID downloadID history (Some event)
      | Some best \<Rightarrow>
          if heOccurredAt event > heOccurredAt best \<or>
             (heOccurredAt event = heOccurredAt best \<and> heID event > heID best)
          then grab_loop movieID downloadID history (Some event)
          else grab_loop movieID downloadID history latest)"

definition latestMatchingGrab :: "history_event list \<Rightarrow> int \<Rightarrow> string \<Rightarrow> history_event option" where
  "latestMatchingGrab history movieID downloadID = grab_loop movieID downloadID history None"

definition BindRadarrManualImportFile ::
  "inventory_file \<Rightarrow> string \<Rightarrow> manual_import \<Rightarrow> history_event list \<Rightarrow> import_binding option" where
  "BindRadarrManualImportFile file absolutePath manualImport history =
     (if \<not> ProbeCandidate (classifyMediaFile file) \<or> isRawDiscPath (ifPathComponents file) \<or>
         miPath manualImport \<noteq> absolutePath \<or>
         miSizeBytes manualImport \<noteq> snSizeBytes (ifFingerprint file)
      then None
      else
        let quality = cloneRadarrQuality (miQuality manualImport);
            languages = cloneRadarrLanguages (miLanguages manualImport);
            (quality, languages) =
              (if quality = None
               then case latestMatchingGrab history (miMovieID manualImport) (miDownloadID manualImport) of
                      None \<Rightarrow> (quality, languages)
                    | Some grab \<Rightarrow>
                        (cloneRadarrQuality (heQuality grab),
                         if languages = [] then cloneRadarrLanguages (heLanguages grab) else languages)
               else (quality, languages))
        in case quality of
             None \<Rightarrow> None
           | Some q \<Rightarrow>
               if \<not> completeText (qlName (qmQuality q)) \<or> \<not> validLanguages languages then None
               else
                 let binding = \<lparr>bdFileID = ifID file, bdExpectedFingerprint = ifFingerprint file,
                       bdImportMode = RadarrImportModeCopy,
                       bdFile = \<lparr>cfPath = miPath manualImport, cfFolderName = miFolderName manualImport,
                         cfQuality = q, cfLanguages = languages,
                         cfReleaseGroup = miReleaseGroup manualImport,
                         cfIndexerFlags = miIndexerFlags manualImport,
                         cfDownloadID = miDownloadID manualImport, cfMovieID = miMovieID manualImport\<rparr>\<rparr>
                 in if binding_complete binding then Some binding else None)"

definition BuildRadarrPublishedFileImport ::
  "string \<Rightarrow> int \<Rightarrow> string \<Rightarrow> history_event list \<Rightarrow> import_command option" where
  "BuildRadarrPublishedFileImport path movieID downloadID history =
     (case latestMatchingGrab history movieID downloadID of
        None \<Rightarrow> None
      | Some grab \<Rightarrow>
          (case cloneRadarrQuality (heQuality grab) of
             None \<Rightarrow> None
           | Some q \<Rightarrow>
               let command = \<lparr>icImportMode = RadarrImportModeCopy,
                     icFile = \<lparr>cfPath = path, cfFolderName = [], cfQuality = q,
                       cfLanguages = cloneRadarrLanguages (heLanguages grab), cfReleaseGroup = [],
                       cfIndexerFlags = 0, cfDownloadID = downloadID, cfMovieID = movieID\<rparr>\<rparr>
               in if command_complete command then Some command else None))"

section \<open>Replacements\<close>

datatype replacement_safety =
    ReplacementNotRequired | ReplacementAllowed | ReplacementSuperseded | ReplacementUnproved

definition supersededRejectionReasons :: "string list" where
  "supersededRejectionReasons = [''notQualityUpgrade'', ''notRevisionUpgrade'', ''notCustomFormatUpgrade'']"

definition incompleteDecisionRejectionReasons :: "string list" where
  "incompleteDecisionRejectionReasons = [''invalidMovie'', ''unableToParse'', ''error'', ''decisionError'']"

definition completedDecisionRejectionReasons :: "string list" where
  "completedDecisionRejectionReasons =
     [''minimumFreeSpace'', ''movieAlreadyImported'', ''movieNotFoundInRelease'', ''multiPartMovie'',
      ''noAudio'', ''sample'', ''sampleIndeterminate'', ''unknownMovie'', ''unpacking'']"

definition ClassifyReplacement :: "radarr_movie option \<Rightarrow> manual_import \<Rightarrow> replacement_safety" where
  "ClassifyReplacement movie manualImport =
     (case movie of
        None \<Rightarrow> ReplacementNotRequired
      | Some m \<Rightarrow>
          if \<not> mvHasFile m then ReplacementNotRequired
          else if list_ex (\<lambda>r. rjCode r \<in> set supersededRejectionReasons) (miRejections manualImport)
          then ReplacementSuperseded
          else if list_ex (\<lambda>r. rjCode r \<in> set incompleteDecisionRejectionReasons \<or>
                    rjCode r \<notin> set completedDecisionRejectionReasons) (miRejections manualImport)
          then ReplacementUnproved
          else ReplacementAllowed)"

definition AllReplacementsSuperseded :: "radarr_movie option \<Rightarrow> manual_import list \<Rightarrow> bool" where
  "AllReplacementsSuperseded movie manualImports =
     (case movie of
        None \<Rightarrow> False
      | Some m \<Rightarrow>
          mvHasFile m \<and> manualImports \<noteq> [] \<and>
          list_all (\<lambda>i. ClassifyReplacement movie i = ReplacementSuperseded) manualImports)"

end
