(* ===== verification/File_Identity.thy ===== *)
theory File_Identity
  imports Media_Evidence
begin

text \<open>
  The fingerprints of a file (\<open>internal/fileidentity/fingerprint.go\<close>): the fields of a snapshot as
  big-endian 64-bit words behind a domain, hashed. The digest is a parameter.
\<close>

section \<open>Words as bytes\<close>

text \<open>\<open>uint64(x)\<close> of a signed field and \<open>binary.BigEndian.PutUint64\<close>.\<close>

fun big_endian :: "nat \<Rightarrow> int \<Rightarrow> string" where
  "big_endian 0 x = []"
| "big_endian (Suc n) x = big_endian n (x div 256) @ [char_of (nat (x mod 256))]"

definition uint64 :: "int \<Rightarrow> int" where
  "uint64 x = x mod 18446744073709551616"

definition payload :: "string \<Rightarrow> int list \<Rightarrow> string" where
  "payload domain values = domain @ concat (map (\<lambda>v. big_endian 8 (uint64 v)) values)"

definition fingerprint :: "(string \<Rightarrow> string) \<Rightarrow> string \<Rightarrow> int list \<Rightarrow> string" where
  "fingerprint sha256Hex domain values = ''sha256:'' @ sha256Hex (payload domain values)"

definition strictFingerprintDomain :: string where
  "strictFingerprintDomain = ''radarr-repair-file-metadata-v1'' @ [CHR 0x00]"

definition stableFingerprintDomain :: string where
  "stableFingerprintDomain = ''media-repair-file-identity-v1'' @ [CHR 0x00]"

definition StrictFingerprint :: "(string \<Rightarrow> string) \<Rightarrow> snapshot \<Rightarrow> string" where
  "StrictFingerprint sha256Hex snap =
     fingerprint sha256Hex strictFingerprintDomain
       [snDevice snap, snInode snap, snSizeBytes snap, snMTimeNS snap]"

definition StableFingerprint :: "(string \<Rightarrow> string) \<Rightarrow> snapshot \<Rightarrow> string" where
  "StableFingerprint sha256Hex snap =
     fingerprint sha256Hex stableFingerprintDomain [snInode snap, snSizeBytes snap, snMTimeNS snap]"

text \<open>
  The metadata of an open file: \<open>None\<close> when there is none, and no status when the platform gives
  another kind of it.
\<close>

record file_info =
  fiStat :: "(int \<times> int) option"
  fiSize :: int
  fiModTimeNS :: int

definition FromFileInfo :: "file_info option \<Rightarrow> go_error + snapshot" where
  "FromFileInfo info =
     (case info of
        None \<Rightarrow> Inl (ErrorText ''filesystem metadata is absent'')
      | Some i \<Rightarrow>
          (case fiStat i of
             None \<Rightarrow> Inl (ErrorText ''unsupported filesystem metadata'')
           | Some (device, inode) \<Rightarrow>
               Inr \<lparr>snDevice = uint64 device, snInode = uint64 inode, snSizeBytes = fiSize i,
                    snMTimeNS = fiModTimeNS i\<rparr>))"

section \<open>The payload determines the fields\<close>

lemma big_endian_length [simp]: "length (big_endian n x) = n"
  by (induction n arbitrary: x) simp_all

lemma char_of_byte:
  fixes a b :: int
  assumes "0 \<le> a" "a < 256" "0 \<le> b" "b < 256" "(char_of (nat a) :: char) = char_of (nat b)"
  shows "a = b"
proof -
  have "(of_char (char_of (nat a) :: char) :: nat) = of_char (char_of (nat b) :: char)"
    using assms(5) by simp
  then have "nat a mod 256 = nat b mod 256"
    by (simp only: of_char_of)
  moreover have "nat a < 256" "nat b < 256"
    using assms(1-4) by auto
  ultimately show ?thesis
    using assms(1,3) by simp
qed

lemma big_endian_inject:
  assumes "0 \<le> x" "x < 256 ^ n" "0 \<le> y" "y < 256 ^ n" "big_endian n x = big_endian n y"
  shows "x = y"
  using assms
proof (induction n arbitrary: x y)
  case (Suc n)
  have digits: "big_endian n (x div 256) = big_endian n (y div 256)"
    "(char_of (nat (x mod 256)) :: char) = char_of (nat (y mod 256))"
    using Suc.prems(5) by simp_all
  have "z div 256 < 256 ^ n" if "z < 256 ^ Suc n" for z :: int
  proof -
    have "256 * (z div 256) + z mod 256 = z" "0 \<le> z mod 256" "(256 :: int) ^ Suc n = 256 * 256 ^ n"
      by simp_all
    then show ?thesis
      using that by linarith
  qed
  then have "x div 256 < 256 ^ n" "y div 256 < 256 ^ n"
    using Suc.prems(2,4) by blast+
  moreover have "0 \<le> x div 256" "0 \<le> y div 256"
    using Suc.prems(1,3) by (simp_all add: pos_imp_zdiv_nonneg_iff)
  ultimately have "x div 256 = y div 256"
    using digits(1) by (intro Suc.IH)
  moreover have "x mod 256 = y mod 256"
    using digits(2) by (intro char_of_byte) simp_all
  ultimately show ?case
    by (metis mult_div_mod_eq)
qed simp

lemma concat_blocks:
  assumes "\<And>v. length (f v) = k" "length xs = length ys" "concat (map f xs) = concat (map f ys)"
  shows "map f xs = map f ys"
  using assms(2,3)
proof (induction xs ys rule: list_induct2)
  case (Cons x xs y ys)
  have "length (f x) = length (f y)"
    by (simp add: assms(1))
  then show ?case
    using Cons by simp
qed simp

lemma payload_inject:
  assumes "length xs = length ys" "payload domain xs = payload domain ys"
  shows "map uint64 xs = map uint64 ys"
proof -
  have "map (\<lambda>v. big_endian 8 (uint64 v)) xs = map (\<lambda>v. big_endian 8 (uint64 v)) ys"
    using assms by (intro concat_blocks [where k = 8]) (simp_all add: payload_def)
  moreover have "uint64 v = uint64 w" if "big_endian 8 (uint64 v) = big_endian 8 (uint64 w)" for v w
    using that by (intro big_endian_inject [where n = 8]) (simp_all add: uint64_def)
  ultimately show ?thesis
    using assms(1) by (auto simp: list_eq_iff_nth_eq)
qed

text \<open>The ranges of the fields of a snapshot: two unsigned and two signed 64-bit numbers.\<close>

definition snapshot_ok :: "snapshot \<Rightarrow> bool" where
  "snapshot_ok snap \<longleftrightarrow>
     0 \<le> snDevice snap \<and> snDevice snap < 2 ^ 64 \<and> 0 \<le> snInode snap \<and> snInode snap < 2 ^ 64 \<and>
     in_int64 (snSizeBytes snap) \<and> in_int64 (snMTimeNS snap)"

lemma uint64_unsigned: "0 \<le> x \<Longrightarrow> x < 2 ^ 64 \<Longrightarrow> uint64 x = x"
  by (simp add: uint64_def)

lemma uint64_signed_inject:
  assumes "in_int64 x" "in_int64 y" "uint64 x = uint64 y"
  shows "x = y"
proof -
  have "(x + 9223372036854775808) mod 18446744073709551616 =
      (x mod 18446744073709551616 + 9223372036854775808) mod 18446744073709551616"
    by (rule mod_add_left_eq [symmetric])
  also have "\<dots> = (y mod 18446744073709551616 + 9223372036854775808) mod 18446744073709551616"
    using assms(3) by (simp only: uint64_def)
  also have "\<dots> = (y + 9223372036854775808) mod 18446744073709551616"
    by (rule mod_add_left_eq)
  finally have "(x + 9223372036854775808) mod 18446744073709551616 = (y + 9223372036854775808) mod 18446744073709551616" .
  then have "wrap64 x = wrap64 y"
    by (simp only: wrap64_def)
  then show ?thesis
    using assms(1,2) by (simp only: wrap64_id)
qed

lemma strict_payload_determines:
  assumes "snapshot_ok s" "snapshot_ok t"
    and "payload d [snDevice s, snInode s, snSizeBytes s, snMTimeNS s] =
      payload d [snDevice t, snInode t, snSizeBytes t, snMTimeNS t]"
  shows "s = t"
proof -
  have "map uint64 [snDevice s, snInode s, snSizeBytes s, snMTimeNS s] =
      map uint64 [snDevice t, snInode t, snSizeBytes t, snMTimeNS t]"
    using assms(3) by (intro payload_inject) simp_all
  then show ?thesis
    using assms(1,2) by (auto simp: snapshot_ok_def uint64_unsigned dest: uint64_signed_inject intro!: snapshot.equality)
qed

lemma stable_payload_determines:
  assumes "snapshot_ok s" "snapshot_ok t"
    and "payload d [snInode s, snSizeBytes s, snMTimeNS s] = payload d [snInode t, snSizeBytes t, snMTimeNS t]"
  shows "snInode s = snInode t \<and> snSizeBytes s = snSizeBytes t \<and> snMTimeNS s = snMTimeNS t"
proof -
  have "map uint64 [snInode s, snSizeBytes s, snMTimeNS s] = map uint64 [snInode t, snSizeBytes t, snMTimeNS t]"
    using assms(3) by (intro payload_inject) simp_all
  then show ?thesis
    using assms(1,2) by (auto simp: snapshot_ok_def uint64_unsigned dest: uint64_signed_inject)
qed

text \<open>The bytes whose digests are the two fingerprints of a file.\<close>

definition strict_payload :: "snapshot \<Rightarrow> string" where
  "strict_payload snap =
     payload strictFingerprintDomain [snDevice snap, snInode snap, snSizeBytes snap, snMTimeNS snap]"

definition stable_payload :: "snapshot \<Rightarrow> string" where
  "stable_payload snap = payload stableFingerprintDomain [snInode snap, snSizeBytes snap, snMTimeNS snap]"

text \<open>
  C24: unless the digest collides on the encodings of the two files, the strict fingerprint of a
  file determines its device, inode, size and modification time, and the stable fingerprint all of
  them but the device.
\<close>

theorem fingerprints_identify:
  assumes "inj_on sha256Hex {strict_payload s, strict_payload t}" "inj_on sha256Hex {stable_payload s, stable_payload t}"
    and "snapshot_ok s" "snapshot_ok t"
  shows "(StrictFingerprint sha256Hex s = StrictFingerprint sha256Hex t \<longleftrightarrow> s = t) \<and>
    (StableFingerprint sha256Hex s = StableFingerprint sha256Hex t \<longleftrightarrow>
      snInode s = snInode t \<and> snSizeBytes s = snSizeBytes t \<and> snMTimeNS s = snMTimeNS t)"
proof -
  have "StrictFingerprint sha256Hex s = StrictFingerprint sha256Hex t \<longleftrightarrow> strict_payload s = strict_payload t"
    using assms(1) by (auto simp: StrictFingerprint_def fingerprint_def strict_payload_def)
  moreover have "StableFingerprint sha256Hex s = StableFingerprint sha256Hex t \<longleftrightarrow> stable_payload s = stable_payload t"
    using assms(2) by (auto simp: StableFingerprint_def fingerprint_def stable_payload_def)
  moreover have "strict_payload s = strict_payload t \<longleftrightarrow> s = t"
    using strict_payload_determines [OF assms(3,4)] by (auto simp: strict_payload_def)
  moreover have "stable_payload s = stable_payload t \<longleftrightarrow>
      snInode s = snInode t \<and> snSizeBytes s = snSizeBytes t \<and> snMTimeNS s = snMTimeNS t"
    using stable_payload_determines [OF assms(3,4)] by (auto simp: stable_payload_def)
  ultimately show ?thesis
    by simp
qed

theorem fingerprints_identify_witness:
  "StrictFingerprint id \<lparr>snDevice = 1, snInode = 7, snSizeBytes = 10, snMTimeNS = -5\<rparr> \<noteq>
     StrictFingerprint id \<lparr>snDevice = 2, snInode = 7, snSizeBytes = 10, snMTimeNS = -5\<rparr> \<and>
   StableFingerprint id \<lparr>snDevice = 1, snInode = 7, snSizeBytes = 10, snMTimeNS = -5\<rparr> =
     StableFingerprint id \<lparr>snDevice = 2, snInode = 7, snSizeBytes = 10, snMTimeNS = -5\<rparr>"
  using fingerprints_identify [of id "\<lparr>snDevice = 1, snInode = 7, snSizeBytes = 10, snMTimeNS = -5\<rparr>"
      "\<lparr>snDevice = 2, snInode = 7, snSizeBytes = 10, snMTimeNS = -5\<rparr>"]
  by (simp add: snapshot_ok_def in_int64_def min_int64_def max_int64_def)

end
