(* ===== verification/Go_Float.thy ===== *)
theory Go_Float
  imports Complex_Main "HOL-Library.Log_Nat"
begin

text \<open>
  The floating-point numbers of Go as far as the sources compute with them.
\<close>

text \<open>
  A \<open>float64\<close> is the rational number it stands for. \<open>float64_round\<close> rounds to 53 significant bits,
  ties to even, which is the result of every operation of the sources: their values stay far from the bounds of
  the exponent.
\<close>

definition pow2 :: "int \<Rightarrow> rat" where
  "pow2 k = (if 0 \<le> k then 2 ^ nat k else 1 / 2 ^ nat (- k))"

definition exponent2 :: "rat \<Rightarrow> int" where
  "exponent2 q =
     (let (n, d) = quotient_of q; k = int (floorlog 2 (nat n)) - int (floorlog 2 (nat d))
      in if pow2 k \<le> q then k else k - 1)"

definition round_even :: "rat \<Rightarrow> int" where
  "round_even m =
     (let f = \<lfloor>m\<rfloor>; r = m - of_int f
      in if r < 1 / 2 \<or> (r = 1 / 2 \<and> even f) then f else f + 1)"

definition round_positive :: "rat \<Rightarrow> rat" where
  "round_positive q = (let u = pow2 (exponent2 q - 52) in of_int (round_even (q / u)) * u)"

definition float64_round :: "rat \<Rightarrow> rat" where
  "float64_round q =
     (if q = 0 then 0 else if q < 0 then - round_positive (- q) else round_positive q)"

lemma pow2_pos: "0 < pow2 k"
  by (simp add: pow2_def)

lemma round_even_nonneg: "0 \<le> m \<Longrightarrow> 0 \<le> round_even m"
  by (simp add: round_even_def Let_def)

lemma float64_round_nonneg: "0 \<le> q \<Longrightarrow> 0 \<le> float64_round q"
  using pow2_pos [of "exponent2 q - 52"] by (auto simp: float64_round_def round_positive_def Let_def round_even_nonneg)

text \<open>\<open>math.Round\<close>: the nearest integer, halves away from zero.\<close>

definition math_round :: "rat \<Rightarrow> int" where
  "math_round q = (if q < 0 then - \<lfloor>- q + 1 / 2\<rfloor> else \<lfloor>q + 1 / 2\<rfloor>)"

end
