(* ===== verification/Disc_Titles.thy ===== *)
theory Disc_Titles
  imports File_Identity Go_Float "HOL-Library.Char_ord" "HOL-Library.List_Lexorder"
begin

text \<open>
  The titles of a disc image (\<open>internal/mkvmerge\<close>, \<open>internal/dvdvideo\<close>): the playlists of a Blu-ray
  and the titles of a DVD that a completed download can offer as a feature. Running mkvmerge and
  lsdvd and reading their JSON and XML are parameters; what the code makes of the result is
  modelled. \<open>sort.Slice\<close> leaves the order of equal keys open; the model keeps their order.
\<close>

section \<open>Shared checks\<close>

definition minimumFeatureMS :: int where
  "minimumFeatureMS = 20 * 60 * 1000"

record disc_track =
  tkKind :: string
  tkCodec :: string
  tkLanguage :: string

definition cleanAbsolute :: "string \<Rightarrow> bool" where
  "cleanAbsolute path \<longleftrightarrow> path \<noteq> [] \<and> IsAbs path \<and> Clean path = path"

definition available :: "inventory_file \<Rightarrow> bool" where
  "available file =
     (if snSizeBytes (ifFingerprint file) \<le> 0 then False
      else case ifDownloadFile file of
        None \<Rightarrow> True
      | Some reference \<Rightarrow>
          rfSelected reference \<and> rfLengthBytes reference = snSizeBytes (ifFingerprint file) \<and>
          rfBytesCompleted reference = snSizeBytes (ifFingerprint file))"

definition is_digit :: "char \<Rightarrow> bool" where
  "is_digit c \<longleftrightarrow> (48 :: nat) \<le> of_char c \<and> of_char c \<le> (57 :: nat)"

section \<open>Blu-ray playlists\<close>

definition maximumPlaylists :: nat where
  "maximumPlaylists = 128"

record playlist =
  plDurationMS :: int
  plChapters :: int
  plClipPaths :: "string list"
  plTracks :: "disc_track list"

record playlist_candidate =
  bcPlaylistFileID :: string
  bcClipFileIDs :: "string list"
  bcDetails :: playlist

text \<open>The JSON mkvmerge prints, as far as it is read.\<close>

record identification =
  mkRecognized :: bool
  mkSupported :: bool
  mkPlaylist :: bool
  mkDurationNS :: int
  mkChapters :: int
  mkClipPaths :: "string list"
  mkErrors :: "string list"
  mkWarnings :: "string list"
  mkTracks :: "disc_track list"

fun track_loop :: "disc_track list \<Rightarrow> disc_track list \<Rightarrow> bool \<Rightarrow> go_error + disc_track list \<times> bool" where
  "track_loop [] tracks hasVideo = Inr (tracks, hasVideo)"
| "track_loop (track # rest) tracks hasVideo =
     (if tkKind track \<noteq> ''video'' \<and> tkKind track \<noteq> ''audio'' \<and> tkKind track \<noteq> ''subtitles''
      then track_loop rest tracks hasVideo
      else if tkCodec track = [] then Inl (ErrorText ''mkvmerge identified a track without a codec'')
      else track_loop rest (tracks @ [track]) (hasVideo \<or> tkKind track = ''video''))"

definition decodePlaylist :: "go_error + identification \<Rightarrow> go_error + playlist" where
  "decodePlaylist unmarshalled =
     and_then (wrap_error ''decode mkvmerge identification: '' unmarshalled) (\<lambda>identified.
     if \<not> mkRecognized identified \<or> \<not> mkSupported identified \<or> \<not> mkPlaylist identified \<or>
        mkErrors identified \<noteq> [] \<or> mkWarnings identified \<noteq> [] \<or>
        mkDurationNS identified \<le> 0 \<or> mkDurationNS identified > 7 * 24 * 60 * 60 * 1000000000 \<or>
        mkChapters identified < 0 \<or> mkChapters identified > 4096 \<or>
        mkClipPaths identified = [] \<or> length (mkClipPaths identified) > 1024
     then Inl (ErrorText ''mkvmerge did not identify a complete Blu-ray playlist'')
     else and_then (track_loop (mkTracks identified) [] False) (\<lambda>(tracks, hasVideo).
       if \<not> hasVideo then Inl (ErrorText ''mkvmerge playlist has no video track'')
       else Inr \<lparr>plDurationMS = quot64 (mkDurationNS identified) 1000000, plChapters = mkChapters identified,
                 plClipPaths = mkClipPaths identified, plTracks = tracks\<rparr>))"

fun path_index :: "file_path_mapping list \<Rightarrow> (string \<rightharpoonup> string) \<Rightarrow> go_error + (string \<rightharpoonup> string)" where
  "path_index [] paths = Inr paths"
| "path_index (m # ms) paths =
     (if paths (pmFileID m) \<noteq> None
      then Inl (ErrorText (''duplicate inventory file ID '' @ quote (pmFileID m)))
      else path_index ms (paths(pmFileID m \<mapsto> pmAbsolutePath m)))"

fun file_index ::
  "(string \<rightharpoonup> string) \<Rightarrow> inventory_file list \<Rightarrow> (string \<rightharpoonup> inventory_file) \<Rightarrow> go_error + (string \<rightharpoonup> inventory_file)" where
  "file_index paths [] files = Inr files"
| "file_index paths (file # rest) files =
     (case paths (ifID file) of
        None \<Rightarrow> Inl (ErrorText (''inventory file '' @ quote (ifID file) @ '' has no clean absolute path''))
      | Some path \<Rightarrow>
          if \<not> cleanAbsolute path
          then Inl (ErrorText (''inventory file '' @ quote (ifID file) @ '' has no clean absolute path''))
          else if files path \<noteq> None then Inl (ErrorText (''duplicate inventory path '' @ quote path))
          else file_index paths rest (files(path \<mapsto> file)))"

text \<open>
  The index by path has one entry per file and the index by identifier one per mapping: their sizes
  are the lengths of the lists.
\<close>

definition inventoryIndex ::
  "file_inventory \<Rightarrow> go_error + (string \<rightharpoonup> inventory_file) \<times> (string \<rightharpoonup> string)" where
  "inventoryIndex inventory =
     and_then (path_index (invPaths inventory) Map.empty) (\<lambda>paths.
     and_then (file_index paths (invFiles inventory) Map.empty) (\<lambda>files.
     if length (invFiles inventory) \<noteq> length (invPaths inventory)
     then Inl (ErrorText ''inventory files and paths differ'')
     else Inr (files, paths)))"

definition numberedFile :: "string \<Rightarrow> string \<Rightarrow> bool" where
  "numberedFile name extension =
     (if length name \<noteq> 5 + length extension \<or> \<not> has_suffix name extension then False
      else list_all is_digit (take 5 name))"

definition NumberedPlaylist :: "string \<Rightarrow> bool" where
  "NumberedPlaylist name = numberedFile name ''.mpls''"

definition NumberedClip :: "string \<Rightarrow> bool" where
  "NumberedClip name = numberedFile name ''.m2ts''"

definition is_playlist_file :: "inventory_file \<Rightarrow> bool" where
  "is_playlist_file file \<longleftrightarrow>
     (let parts = rev (ifPathComponents file)
      in 3 \<le> length parts \<and> parts ! 2 = ''BDMV'' \<and> parts ! 1 = ''PLAYLIST'' \<and> NumberedPlaylist (parts ! 0))"

definition playlistFiles :: "inventory_file list \<Rightarrow> inventory_file list" where
  "playlistFiles files =
     sort_key (\<lambda>file. join_with ''/'' (ifPathComponents file)) (filter is_playlist_file files)"

fun clips_loop ::
  "string \<Rightarrow> string list \<Rightarrow> (string \<rightharpoonup> inventory_file) \<Rightarrow> string list \<Rightarrow> string list option" where
  "clips_loop streamDir [] files clipIDs = Some clipIDs"
| "clips_loop streamDir (path # paths) files clipIDs =
     (if \<not> cleanAbsolute path \<or> Dir path \<noteq> streamDir \<or> \<not> NumberedClip (Base path) then None
      else case files path of
        None \<Rightarrow> None
      | Some file \<Rightarrow>
          if \<not> available file then None else clips_loop streamDir paths files (clipIDs @ [ifID file]))"

definition inventoryClips :: "string \<Rightarrow> string list \<Rightarrow> (string \<rightharpoonup> inventory_file) \<Rightarrow> string list option" where
  "inventoryClips playlistPath clipPaths files =
     (case clips_loop (Join [Dir (Dir playlistPath), ''STREAM'']) clipPaths files [] of
        None \<Rightarrow> None
      | Some clipIDs \<Rightarrow> if clipIDs = [] then None else Some clipIDs)"

text \<open>
  \<open>identify\<close> asks mkvmerge about a path and the strict fingerprint of the file, \<open>ctxErr\<close> is the error
  of the context before the file is identified.
\<close>

fun playlist_loop ::
  "(string \<Rightarrow> string) \<Rightarrow> (string \<Rightarrow> go_error option) \<Rightarrow> (string \<Rightarrow> string \<Rightarrow> go_error + playlist)
     \<Rightarrow> (string \<rightharpoonup> inventory_file) \<Rightarrow> (string \<rightharpoonup> string) \<Rightarrow> inventory_file list
     \<Rightarrow> playlist_candidate list \<Rightarrow> go_error + playlist_candidate list" where
  "playlist_loop sha ctxErr identify files paths [] candidates = Inr candidates"
| "playlist_loop sha ctxErr identify files paths (file # rest) candidates =
     (case ctxErr (ifID file) of
        Some err \<Rightarrow> Inl err
      | None \<Rightarrow>
          if \<not> available file then playlist_loop sha ctxErr identify files paths rest candidates
          else
            let path = (case paths (ifID file) of Some p \<Rightarrow> p | None \<Rightarrow> [])
            in and_then (wrap_error (''identify '' @ quote path @ '': '')
                 (identify path (StrictFingerprint sha (ifFingerprint file)))) (\<lambda>details.
               if plDurationMS details < minimumFeatureMS
               then playlist_loop sha ctxErr identify files paths rest candidates
               else case inventoryClips path (plClipPaths details) files of
                 None \<Rightarrow> playlist_loop sha ctxErr identify files paths rest candidates
               | Some clipIDs \<Rightarrow>
                   playlist_loop sha ctxErr identify files paths rest
                     (candidates @ [\<lparr>bcPlaylistFileID = ifID file, bcClipFileIDs = clipIDs, bcDetails = details\<rparr>])))"

definition ListFeaturePlaylists ::
  "(string \<Rightarrow> string) \<Rightarrow> (string \<Rightarrow> go_error option) \<Rightarrow> file_inventory
     \<Rightarrow> (string \<Rightarrow> string \<Rightarrow> go_error + playlist) option \<Rightarrow> go_error + playlist_candidate list" where
  "ListFeaturePlaylists sha ctxErr inventory identifier =
     (case identifier of
        None \<Rightarrow> Inl (ErrorText ''playlist identifier is required'')
      | Some identify \<Rightarrow>
          and_then (inventoryIndex inventory) (\<lambda>(files, paths).
          let playlists = playlistFiles (invFiles inventory) in
          if length playlists > maximumPlaylists
          then Inl (ErrorText (''download has more than '' @ itoa (int maximumPlaylists) @ '' Blu-ray playlists''))
          else playlist_loop sha ctxErr identify files paths playlists []))"

section \<open>DVD titles\<close>

definition maximumDiscs :: nat where
  "maximumDiscs = 8"

definition maximumFiles :: nat where
  "maximumFiles = 1024"

record dvd_title =
  dtNumber :: int
  dtDurationMS :: int
  dtChapters :: int
  dtAngles :: int
  dtTitleSet :: int
  dtTitleInSet :: int
  dtTracks :: "disc_track list"

record title_candidate =
  tcNavigationFileID :: string
  tcSourceFileIDs :: "string list"
  tcDetails :: dvd_title

text \<open>The XML lsdvd prints, and the value \<open>strconv.ParseFloat\<close> gives for the length of a title.\<close>

datatype float_value = NotANumber | Infinite | Finite rat

record title_xml =
  txNumber :: int
  txLength :: "go_error + float_value"
  txTitleSet :: int
  txTitleInSet :: int
  txAngles :: int
  txVideo :: string
  txAudio :: "(string \<times> string) list"
  txSubtitles :: "string list"
  txChapters :: "int list"

definition language :: "string \<Rightarrow> string" where
  "language code = (if code = ''xx'' then [] else code)"

definition audioCodec :: "string \<Rightarrow> string option" where
  "audioCodec format =
     (let f = ToLower format
      in if f = ''ac3'' then Some ''ac3''
         else if f = ''dts'' then Some ''dts''
         else if f = ''mpeg1'' \<or> f = ''mpeg2'' then Some ''mp2''
         else if f = ''lpcm'' then Some ''pcm_dvd''
         else None)"

fun audio_loop :: "int \<Rightarrow> (string \<times> string) list \<Rightarrow> disc_track list \<Rightarrow> go_error + disc_track list" where
  "audio_loop number [] tracks = Inr tracks"
| "audio_loop number ((format, lang) # audio) tracks =
     (case audioCodec format of
        None \<Rightarrow> Inl (ErrorText (''DVD title '' @ itoa number @ '' has unsupported audio codec''))
      | Some codec \<Rightarrow>
          audio_loop number audio (tracks @ [\<lparr>tkKind = ''audio'', tkCodec = codec, tkLanguage = language lang\<rparr>]))"

definition valid_seconds :: "go_error + float_value \<Rightarrow> rat option" where
  "valid_seconds parsed =
     (case parsed of
        Inr (Finite q) \<Rightarrow> if q \<le> 0 \<or> q > 7 * 24 * 60 * 60 then None else Some q
      | _ \<Rightarrow> None)"

definition decode_title :: "int \<Rightarrow> title_xml \<Rightarrow> go_error + dvd_title" where
  "decode_title index raw =
     (case valid_seconds (txLength raw) of
        None \<Rightarrow> Inl (ErrorText (''DVD title '' @ itoa (index + 1) @ '' has invalid metadata''))
      | Some durationSeconds \<Rightarrow>
          if txNumber raw \<noteq> index + 1 \<or> txTitleSet raw \<le> 0 \<or> txTitleSet raw > 99 \<or>
             txTitleInSet raw \<le> 0 \<or> txTitleInSet raw > 99 \<or> txAngles raw \<le> 0 \<or> txAngles raw > 9 \<or>
             txChapters raw = [] \<or> length (txChapters raw) > 4096 \<or> txVideo raw = []
          then Inl (ErrorText (''DVD title '' @ itoa (index + 1) @ '' has invalid metadata''))
          else if txChapters raw \<noteq> map (\<lambda>i. int i + 1) [0..<length (txChapters raw)]
          then Inl (ErrorText (''DVD title '' @ itoa (txNumber raw) @ '' has invalid chapters''))
          else
            and_then (audio_loop (txNumber raw) (txAudio raw)
              [\<lparr>tkKind = ''video'', tkCodec = ''mpeg2video'', tkLanguage = []\<rparr>]) (\<lambda>tracks.
            let tracks = tracks @ map (\<lambda>lang. \<lparr>tkKind = ''subtitles'', tkCodec = ''dvd_subtitle'',
                  tkLanguage = language lang\<rparr>) (txSubtitles raw)
            in if length tracks > 32
               then Inl (ErrorText (''DVD title '' @ itoa (txNumber raw) @ '' has too many tracks''))
               else Inr \<lparr>dtNumber = txNumber raw,
                 dtDurationMS = math_round (float64_round (durationSeconds * 1000)),
                 dtChapters = int (length (txChapters raw)), dtAngles = txAngles raw,
                 dtTitleSet = txTitleSet raw, dtTitleInSet = txTitleInSet raw, dtTracks = tracks\<rparr>))"

fun titles_decode :: "int \<Rightarrow> title_xml list \<Rightarrow> dvd_title list \<Rightarrow> go_error + dvd_title list" where
  "titles_decode index [] titles = Inr titles"
| "titles_decode index (raw # raws) titles =
     and_then (decode_title index raw) (\<lambda>title. titles_decode (index + 1) raws (titles @ [title]))"

definition decodeTitles :: "go_error + title_xml list \<Rightarrow> go_error + dvd_title list" where
  "decodeTitles unmarshalled =
     and_then (wrap_error ''decode DVD title XML: '' unmarshalled) (\<lambda>raws.
     if raws = [] \<or> length raws > 128 then Inl (ErrorText ''DVD has an invalid title count'')
     else titles_decode 0 raws [])"

definition ValidFileName :: "string \<Rightarrow> bool" where
  "ValidFileName name =
     (if name = ''VIDEO_TS.IFO'' \<or> name = ''VIDEO_TS.BUP'' \<or> name = ''VIDEO_TS.VOB'' then True
      else if \<not> has_prefix name ''VTS_'' \<or> length name \<noteq> length ''VTS_01_1.VOB'' \<or>
        \<not> is_digit (name ! 4) \<or> \<not> is_digit (name ! 5) \<or> name ! 6 \<noteq> CHR ''_'' \<or> \<not> is_digit (name ! 7)
      then False
      else drop 8 name = ''.IFO'' \<or> drop 8 name = ''.BUP'' \<or> drop 8 name = ''.VOB'')"

definition two_digits :: "int \<Rightarrow> string" where
  "two_digits n = (if n < 10 then CHR ''0'' # itoa n else itoa n)"

text \<open>\<open>None\<close> when a file has no path component to read.\<close>

definition hasTitleFiles :: "inventory_file list \<Rightarrow> int \<Rightarrow> bool option" where
  "hasTitleFiles files titleSet =
     (if titleSet < 1 \<or> titleSet > 99 then Some False
      else if list_ex (\<lambda>file. ifPathComponents file = []) files then None
      else
        let prefix = ''VTS_'' @ two_digits titleSet @ ''_'';
            names = map (\<lambda>file. last (ifPathComponents file)) files
        in Some (prefix @ ''0.IFO'' \<in> set names \<and> prefix @ ''1.VOB'' \<in> set names))"

definition hasMovieTracks :: "disc_track list \<Rightarrow> bool" where
  "hasMovieTracks tracks \<longleftrightarrow>
     list_ex (\<lambda>track. tkKind track = ''video'') tracks \<and> list_ex (\<lambda>track. tkKind track = ''audio'') tracks"

definition path_of :: "(string \<rightharpoonup> string) \<Rightarrow> inventory_file \<Rightarrow> string" where
  "path_of paths file = (case paths (ifID file) of Some p \<Rightarrow> p | None \<Rightarrow> [])"

definition discFiles ::
  "inventory_file list \<Rightarrow> (string \<rightharpoonup> string) \<Rightarrow> string \<Rightarrow> inventory_file list option" where
  "discFiles inventory paths directory =
     (let files = filter (\<lambda>file. Dir (path_of paths file) = directory) inventory
      in if list_ex (\<lambda>file. \<not> ValidFileName (Base (path_of paths file)) \<or> \<not> available file) files then None
         else if length files < 3 \<or> length files > maximumFiles then None
         else Some (sort_key (path_of paths) files))"

fun dvd_path_index :: "file_path_mapping list \<Rightarrow> (string \<rightharpoonup> string) \<Rightarrow> go_error + (string \<rightharpoonup> string)" where
  "dvd_path_index [] paths = Inr paths"
| "dvd_path_index (m # ms) paths =
     (if paths (pmFileID m) \<noteq> None \<or> \<not> IsAbs (pmAbsolutePath m) \<or> Clean (pmAbsolutePath m) \<noteq> pmAbsolutePath m
      then Inl (ErrorText ''DVD inventory has an invalid file path'')
      else dvd_path_index ms (paths(pmFileID m \<mapsto> pmAbsolutePath m)))"

fun titles_loop ::
  "string \<Rightarrow> inventory_file list \<Rightarrow> dvd_title list \<Rightarrow> title_candidate list \<Rightarrow> title_candidate list option" where
  "titles_loop navigationID files [] candidates = Some candidates"
| "titles_loop navigationID files (title # titles) candidates =
     (if dtDurationMS title < minimumFeatureMS \<or> dtAngles title \<noteq> 1
      then titles_loop navigationID files titles candidates
      else case hasTitleFiles files (dtTitleSet title) of
        None \<Rightarrow> None
      | Some False \<Rightarrow> titles_loop navigationID files titles candidates
      | Some True \<Rightarrow>
          if \<not> hasMovieTracks (dtTracks title) then titles_loop navigationID files titles candidates
          else titles_loop navigationID files titles
            (candidates @ [\<lparr>tcNavigationFileID = navigationID, tcSourceFileIDs = map ifID files, tcDetails = title\<rparr>]))"

fun disc_loop ::
  "(string \<Rightarrow> string) \<Rightarrow> (string \<Rightarrow> go_error option) \<Rightarrow> (string \<Rightarrow> string \<Rightarrow> go_error + dvd_title list)
     \<Rightarrow> inventory_file list \<Rightarrow> (string \<rightharpoonup> string) \<Rightarrow> inventory_file list
     \<Rightarrow> title_candidate list \<Rightarrow> (go_error + title_candidate list) option" where
  "disc_loop sha ctxErr identify inventory paths [] candidates = Some (Inr candidates)"
| "disc_loop sha ctxErr identify inventory paths (navigation # rest) candidates =
     (case ctxErr (ifID navigation) of
        Some err \<Rightarrow> Some (Inl err)
      | None \<Rightarrow>
          if \<not> available navigation then disc_loop sha ctxErr identify inventory paths rest candidates
          else
            let path = path_of paths navigation
            in if path = [] \<or> Base path \<noteq> ''VIDEO_TS.IFO''
               then Some (Inl (ErrorText ''DVD navigation file path differs from inventory''))
               else case discFiles inventory paths (Dir path) of
                 None \<Rightarrow> disc_loop sha ctxErr identify inventory paths rest candidates
               | Some files \<Rightarrow>
                   (case identify path (StrictFingerprint sha (ifFingerprint navigation)) of
                      Inl err \<Rightarrow> Some (Inl (ErrWrap (''identify DVD '' @ quote path @ '': '') err))
                    | Inr titles \<Rightarrow>
                        (case titles_loop (ifID navigation) files titles candidates of
                           None \<Rightarrow> None
                         | Some candidates \<Rightarrow>
                             disc_loop sha ctxErr identify inventory paths rest candidates)))"

definition is_navigation :: "inventory_file \<Rightarrow> bool" where
  "is_navigation file \<longleftrightarrow> ifPathComponents file \<noteq> [] \<and> last (ifPathComponents file) = ''VIDEO_TS.IFO''"

definition ListFeatureTitles ::
  "(string \<Rightarrow> string) \<Rightarrow> (string \<Rightarrow> go_error option) \<Rightarrow> file_inventory
     \<Rightarrow> (string \<Rightarrow> string \<Rightarrow> go_error + dvd_title list) option
     \<Rightarrow> (go_error + title_candidate list) option" where
  "ListFeatureTitles sha ctxErr inventory identifier =
     (case identifier of
        None \<Rightarrow> Some (Inl (ErrorText ''DVD title identifier is required''))
      | Some identify \<Rightarrow>
          (case dvd_path_index (invPaths inventory) Map.empty of
             Inl err \<Rightarrow> Some (Inl err)
           | Inr paths \<Rightarrow>
               if length (invPaths inventory) \<noteq> length (invFiles inventory)
               then Some (Inl (ErrorText ''DVD inventory paths and files differ''))
               else
                 let navigation = filter is_navigation (invFiles inventory)
                 in if length navigation > maximumDiscs
                    then Some (Inl (ErrorText ''download contains too many DVD structures''))
                    else disc_loop sha ctxErr identify (invFiles inventory) paths
                           (sort_key (path_of paths) navigation) []))"

end
