(* ===== verification/Repair_Case.thy ===== *)
theory Repair_Case
  imports Radarr_Evidence Disc_Titles "HOL-Library.Mapping"
begin

text \<open>
  A repair case (\<open>internal/casebuilder\<close>, \<open>contracts/model.go\<close>): the request that is sent to the
  planner, the snapshot that stays with the controller, and the planner's decision. The types of
  the request and of the decisions are generated from schemas; the records hold the fields the code
  reads, and the evidence it only carries along is of any type \<open>'v\<close>.
\<close>

section \<open>Capabilities and decisions\<close>

record offered_track =
  otKind :: string
  otCodec :: string
  otLanguage :: "string option"

record capability =
  cpAction :: string
  cpCapabilityID :: string
  cpCandidateFileIDS :: "string list"
  cpFileID :: "string option"
  cpPlaylistFileID :: "string option"
  cpNavigationFileID :: "string option"
  cpClipFileIDS :: "string list"
  cpSourceFileIDS :: "string list"
  cpDurationMS :: "int option"
  cpChapterCount :: "int option"
  cpTitleNumber :: "int option"
  cpTitleSet :: "int option"
  cpTitleInSet :: "int option"
  cpAngleCount :: "int option"
  cpTracks :: "offered_track list"

definition CapabilityActionJoinParts :: string where "CapabilityActionJoinParts = ''join_parts_v1''"
definition CapabilityActionManualImportFile :: string where "CapabilityActionManualImportFile = ''manual_import_file_v1''"
definition CapabilityActionRemuxBluray :: string where "CapabilityActionRemuxBluray = ''remux_bluray_v1''"
definition CapabilityActionRemuxDVD :: string where "CapabilityActionRemuxDVD = ''remux_dvd_v1''"

definition ActionNoRepair :: string where "ActionNoRepair = ''no_repair''"
definition ActionJoinParts :: string where "ActionJoinParts = ''join_parts_v1''"
definition ActionManualImportFile :: string where "ActionManualImportFile = ''manual_import_file_v1''"
definition ActionRemuxBluray :: string where "ActionRemuxBluray = ''remux_bluray_v1''"
definition ActionRemuxDVD :: string where "ActionRemuxDVD = ''remux_dvd_v1''"

lemmas action_defs = CapabilityActionJoinParts_def CapabilityActionManualImportFile_def
  CapabilityActionRemuxBluray_def CapabilityActionRemuxDVD_def ActionNoRepair_def ActionJoinParts_def
  ActionManualImportFile_def ActionRemuxBluray_def ActionRemuxDVD_def

record disc_decision =
  ddAction :: string
  ddCaseID :: string
  ddCapabilityID :: string

record join_decision = disc_decision +
  ddOrderedFileIDS :: "string list"

record manual_decision = disc_decision +
  ddFileID :: string

record repair_decision =
  rdKind :: string
  rdNoRepair :: "string option"
  rdJoinParts :: "join_decision option"
  rdManualImportFile :: "manual_decision option"
  rdRemuxBluray :: "disc_decision option"
  rdRemuxDVD :: "disc_decision option"

text \<open>The case a decision answers; \<open>rdNoRepair\<close> is the case identifier of a decision not to repair.\<close>

definition decision_CaseID :: "repair_decision \<Rightarrow> string" where
  "decision_CaseID decision =
     (let case_of = (\<lambda>caseID. case caseID of Some i \<Rightarrow> i | None \<Rightarrow> [])
      in if rdKind decision = ActionNoRepair then case_of (rdNoRepair decision)
         else if rdKind decision = ActionJoinParts then case_of (map_option ddCaseID (rdJoinParts decision))
         else if rdKind decision = ActionManualImportFile then case_of (map_option ddCaseID (rdManualImportFile decision))
         else if rdKind decision = ActionRemuxBluray then case_of (map_option ddCaseID (rdRemuxBluray decision))
         else if rdKind decision = ActionRemuxDVD then case_of (map_option ddCaseID (rdRemuxDVD decision))
         else [])"

text \<open>The one action of a decision, as \<open>EncodeDecision\<close> requires it before it encodes it.\<close>

datatype action_value =
    NoRepairValue string
  | JoinValue join_decision
  | ManualValue manual_decision
  | BluRayValue disc_decision
  | DVDValue disc_decision

definition decisionValue :: "repair_decision \<Rightarrow> go_error + action_value" where
  "decisionValue decision =
     (let present = [rdNoRepair decision \<noteq> None, rdJoinParts decision \<noteq> None, rdManualImportFile decision \<noteq> None,
                     rdRemuxBluray decision \<noteq> None, rdRemuxDVD decision \<noteq> None];
          mismatch = Inl (ErrorText (''repair decision kind '' @ quote (rdKind decision) @ '' does not match its action''));
          action = (\<lambda>value. case value of Some v \<Rightarrow> Inr v | None \<Rightarrow> mismatch)
      in if length (filter id present) \<noteq> 1
         then Inl (ErrorText ''repair decision must contain exactly one action'')
         else if rdKind decision = ActionNoRepair then action (map_option NoRepairValue (rdNoRepair decision))
         else if rdKind decision = ActionJoinParts then action (map_option JoinValue (rdJoinParts decision))
         else if rdKind decision = ActionManualImportFile then action (map_option ManualValue (rdManualImportFile decision))
         else if rdKind decision = ActionRemuxBluray then action (map_option BluRayValue (rdRemuxBluray decision))
         else if rdKind decision = ActionRemuxDVD then action (map_option DVDValue (rdRemuxDVD decision))
         else mismatch)"

section \<open>Cases\<close>

record 'v repair_case =
  rcCaseID :: string
  rcObservedAt :: gotime
  rcCapabilities :: "capability list"
  rcEvidence :: 'v

record file_probe =
  fpFileID :: string
  fpOutcome :: probe_outcome

record case_observation =
  obObservedAt :: gotime
  obCorrelation :: download_correlation
  obMovie :: "radarr_movie option"
  obHistory :: "history_event list"
  obManualImports :: "manual_import list"
  obInventory :: file_inventory
  obProbes :: "file_probe list"
  obBluRayPlaylists :: "playlist_candidate list"
  obDVDTitles :: "title_candidate list"

record local_snapshot =
  lsCaseID :: string
  lsObservation :: case_observation
  lsManualImportBindings :: "(string, import_binding) mapping"

record 'v assembly =
  asRequest :: "'v repair_case"
  asEncodedRequest :: string
  asLocalSnapshot :: local_snapshot

section \<open>The state of a case\<close>

definition withoutManualImportRejectionCodes :: "local_snapshot \<Rightarrow> local_snapshot" where
  "withoutManualImportRejectionCodes snap =
     (let observation = lsObservation snap;
          imports = map (\<lambda>i. i\<lparr>miRejections := map (\<lambda>r. r\<lparr>rjCode := []\<rparr>) (miRejections i)\<rparr>)
            (obManualImports observation)
      in snap\<lparr>lsObservation := observation\<lparr>obManualImports := imports\<rparr>\<rparr>)"

definition SameCaseState :: "'v assembly \<Rightarrow> 'v assembly \<Rightarrow> bool" where
  "SameCaseState left right \<longleftrightarrow>
     (let leftRequest = (asRequest left)\<lparr>rcObservedAt := rcObservedAt (asRequest right)\<rparr>;
          leftSnapshot = asLocalSnapshot left;
          rightSnapshot = asLocalSnapshot right;
          leftSnapshot = leftSnapshot\<lparr>lsObservation := (lsObservation leftSnapshot)
            \<lparr>obObservedAt := obObservedAt (lsObservation rightSnapshot)\<rparr>\<rparr>
      in leftRequest = asRequest right \<and>
         withoutManualImportRejectionCodes leftSnapshot = withoutManualImportRejectionCodes rightSnapshot)"

lemma SameCaseState_refl: "SameCaseState a a"
  by (simp add: SameCaseState_def Let_def)

end
