(* ===== verification/Stream_Compatibility.thy ===== *)
theory Stream_Compatibility
  imports Media_Evidence Go_Float
begin

text \<open>
  Comparison of the streams of the parts of a join, and of a joined file with the layout it was
  promised (\<open>internal/controller/stream_compatibility.go\<close>). Reading a nil pointer is the result
  \<open>None\<close>. \<open>slices.SortFunc\<close> leaves the order of equal keys open; the model keeps the order of the
  input for them.
\<close>

section \<open>Rates\<close>

definition muxedAverageRateRelativeTolerance :: rat where
  "muxedAverageRateRelativeTolerance = float64_round (1 / 1000)"

definition rationalWithinRelativeTolerance :: "rational \<Rightarrow> rational \<Rightarrow> rat \<Rightarrow> bool" where
  "rationalWithinRelativeTolerance reference candidate tolerance =
     (if Numerator reference \<le> 0 \<or> Denominator reference \<le> 0 \<or> Numerator candidate \<le> 0 \<or> Denominator candidate \<le> 0
      then False
      else
        let value = (\<lambda>r. float64_round
              (float64_round (of_int (Numerator r)) / float64_round (of_int (Denominator r))));
            referenceValue = value reference;
            candidateValue = value candidate
        in \<bar>float64_round (candidateValue - referenceValue)\<bar> \<le> float64_round (referenceValue * tolerance))"

section \<open>Layouts\<close>

datatype compatibility = StreamsCompatible | StreamsIncompatible | StreamsUnknown

datatype stream_reason =
    StreamReasonTooFewParts | StreamReasonMissingProbe | StreamReasonMissingVideo
  | StreamReasonStreamCountMismatch | StreamReasonMissingMetadata | StreamReasonLayoutMismatch

datatype stream_field =
    NoField | StreamFieldKind | StreamFieldCodecName | StreamFieldProfile | StreamFieldTimeBase
  | StreamFieldWidth | StreamFieldHeight | StreamFieldPixelFormat | StreamFieldAverageFrameRate
  | StreamFieldSampleFormat | StreamFieldSampleRate | StreamFieldChannels | StreamFieldChannelLayout

record stream_issue =
  siReason :: stream_reason
  siPartPosition :: "int option"
  siStreamPosition :: "int option"
  siField :: stream_field

record video_layout =
  vlWidth :: int
  vlHeight :: int
  vlPixelFormat :: string
  vlAverageRate :: rational

record audio_layout =
  alSampleFormat :: string
  alSampleRateHz :: int
  alChannels :: int
  alChannelLayout :: string

record layout_entry =
  leKind :: string
  leCodecName :: string
  leProfile :: "string option"
  leTimeBase :: rational
  leVideo :: "video_layout option"
  leAudio :: "audio_layout option"

type_synonym stream_layout = "layout_entry list"

record stream_assessment =
  saCompatibility :: compatibility
  saIssue :: "stream_issue option"
  saLayout :: "stream_layout option"

definition streamIssue :: "stream_reason \<Rightarrow> int option \<Rightarrow> int option \<Rightarrow> stream_field \<Rightarrow> stream_issue" where
  "streamIssue reason partPosition streamPosition field =
     \<lparr>siReason = reason, siPartPosition = partPosition, siStreamPosition = streamPosition, siField = field\<rparr>"

definition streamAssessment ::
  "compatibility \<Rightarrow> stream_reason \<Rightarrow> int option \<Rightarrow> int option \<Rightarrow> stream_field \<Rightarrow> stream_assessment" where
  "streamAssessment outcome reason partPosition streamPosition field =
     \<lparr>saCompatibility = outcome, saIssue = Some (streamIssue reason partPosition streamPosition field),
      saLayout = None\<rparr>"

definition Clone :: "stream_layout \<Rightarrow> stream_layout" where
  "Clone layout = map (\<lambda>stream. stream\<lparr>leProfile := leProfile stream, leVideo := leVideo stream,
     leAudio := leAudio stream\<rparr>) layout"

lemma Clone_id [simp]: "Clone layout = layout"
  by (simp add: Clone_def)

definition orderedStreams :: "probe_stream list \<Rightarrow> probe_stream list" where
  "orderedStreams streams = sort_key psIndex streams"

fun presence_loop :: "probe_stream list \<Rightarrow> bool \<Rightarrow> bool \<times> bool" where
  "presence_loop [] unknown = (False, unknown)"
| "presence_loop (stream # streams) unknown =
     (case psKind stream of
        None \<Rightarrow> presence_loop streams True
      | Some kind \<Rightarrow> if kind = ProbeStreamVideo then (True, unknown) else presence_loop streams unknown)"

definition videoPresence :: "probe_stream list \<Rightarrow> bool \<times> bool" where
  "videoPresence streams = presence_loop streams False"

definition entry_of :: "probe_stream \<Rightarrow> layout_entry option" where
  "entry_of stream =
     (case (psKind stream, psCodecName stream, psTimeBase stream) of
        (Some kind, Some codec, Some base) \<Rightarrow>
          (let entry = \<lparr>leKind = kind, leCodecName = codec, leProfile = psProfile stream,
                 leTimeBase = base, leVideo = None, leAudio = None\<rparr>
           in if kind = ProbeStreamVideo
              then (case (psWidth stream, psHeight stream, psPixelFormat stream, psAverageRate stream) of
                      (Some w, Some h, Some p, Some r) \<Rightarrow>
                        Some (entry\<lparr>leVideo := Some \<lparr>vlWidth = w, vlHeight = h, vlPixelFormat = p, vlAverageRate = r\<rparr>\<rparr>)
                    | _ \<Rightarrow> None)
              else if kind = ProbeStreamAudio
              then (case (psSampleFormat stream, psSampleRateHz stream, psChannels stream, psChannelLayout stream) of
                      (Some f, Some s, Some c, Some l) \<Rightarrow>
                        Some (entry\<lparr>leAudio := Some \<lparr>alSampleFormat = f, alSampleRateHz = s, alChannels = c,
                          alChannelLayout = l\<rparr>\<rparr>)
                    | _ \<Rightarrow> None)
              else Some entry)
      | _ \<Rightarrow> None)"

text \<open>\<open>None\<close> when a stream lacks a field the layout reads.\<close>

fun layoutFromStreams :: "probe_stream list \<Rightarrow> stream_layout option" where
  "layoutFromStreams [] = Some []"
| "layoutFromStreams (stream # streams) =
     (case entry_of stream of
        None \<Rightarrow> None
      | Some entry \<Rightarrow> map_option (\<lambda>layout. entry # layout) (layoutFromStreams streams))"

text \<open>The stream without any evidence.\<close>

definition empty_stream :: probe_stream where
  "empty_stream =
     \<lparr>psIndex = 0, psKind = None, psCodecName = None, psCodecLongName = None, psProfile = None, psCodecTag = None,
      psWidth = None, psHeight = None, psPixelFormat = None, psSampleFormat = None, psSampleRateHz = None,
      psChannels = None, psChannelLayout = None, psFrameRate = None, psAverageRate = None, psTimeBase = None,
      psStartTicks = None, psStartTimeMS = None, psDurationTicks = None, psDurationMS = None, psBitRateBPS = None,
      psFrameCount = None, psDisposition = None, psTags = []\<rparr>"

definition streamFromLayout :: "layout_entry \<Rightarrow> probe_stream option" where
  "streamFromLayout entry =
     (let stream = empty_stream\<lparr>psKind := Some (leKind entry), psCodecName := Some (leCodecName entry),
            psProfile := leProfile entry, psTimeBase := Some (leTimeBase entry)\<rparr>
      in if leKind entry = ProbeStreamVideo
         then map_option (\<lambda>v. stream\<lparr>psWidth := Some (vlWidth v), psHeight := Some (vlHeight v),
                psPixelFormat := Some (vlPixelFormat v), psAverageRate := Some (vlAverageRate v)\<rparr>) (leVideo entry)
         else if leKind entry = ProbeStreamAudio
         then map_option (\<lambda>a. stream\<lparr>psSampleFormat := Some (alSampleFormat a), psSampleRateHz := Some (alSampleRateHz a),
                psChannels := Some (alChannels a), psChannelLayout := Some (alChannelLayout a)\<rparr>) (leAudio entry)
         else Some stream)"

section \<open>Comparing streams\<close>

record comparison =
  cmMissing :: stream_field
  cmMissingReference :: bool
  cmMismatch :: stream_field

definition compareRequiredField ::
  "comparison \<Rightarrow> stream_field \<Rightarrow> 'a option \<Rightarrow> 'a option \<Rightarrow> comparison" where
  "compareRequiredField comparison field reference candidate =
     (case (reference, candidate) of
        (Some r, Some c) \<Rightarrow>
          if r \<noteq> c \<and> cmMismatch comparison = NoField then comparison\<lparr>cmMismatch := field\<rparr> else comparison
      | _ \<Rightarrow>
          if cmMissing comparison = NoField
          then comparison\<lparr>cmMissing := field, cmMissingReference := (reference = None)\<rparr> else comparison)"

definition compareOptionalField ::
  "comparison \<Rightarrow> stream_field \<Rightarrow> 'a option \<Rightarrow> 'a option \<Rightarrow> comparison" where
  "compareOptionalField comparison field reference candidate =
     (if reference = None \<and> candidate = None then comparison
      else compareRequiredField comparison field reference candidate)"

definition compareStreams :: "probe_stream \<Rightarrow> probe_stream \<Rightarrow> comparison" where
  "compareStreams reference candidate =
     (let c = \<lparr>cmMissing = NoField, cmMissingReference = False, cmMismatch = NoField\<rparr>;
          c = compareRequiredField c StreamFieldKind (psKind reference) (psKind candidate);
          c = compareRequiredField c StreamFieldCodecName (psCodecName reference) (psCodecName candidate);
          c = compareOptionalField c StreamFieldProfile (psProfile reference) (psProfile candidate);
          c = (if psTimeBase reference = None \<or> psTimeBase candidate = None
               then compareRequiredField c StreamFieldTimeBase (psTimeBase reference) (psTimeBase candidate)
               else c)
      in if psKind reference = None \<or> psKind candidate = None \<or> psKind reference \<noteq> psKind candidate then c
         else if psKind reference = Some ProbeStreamVideo
         then let c = compareRequiredField c StreamFieldWidth (psWidth reference) (psWidth candidate);
                  c = compareRequiredField c StreamFieldHeight (psHeight reference) (psHeight candidate);
                  c = compareRequiredField c StreamFieldPixelFormat (psPixelFormat reference) (psPixelFormat candidate)
              in compareRequiredField c StreamFieldAverageFrameRate (psAverageRate reference) (psAverageRate candidate)
         else if psKind reference = Some ProbeStreamAudio
         then let c = compareRequiredField c StreamFieldSampleFormat (psSampleFormat reference) (psSampleFormat candidate);
                  c = compareRequiredField c StreamFieldSampleRate (psSampleRateHz reference) (psSampleRateHz candidate);
                  c = compareRequiredField c StreamFieldChannels (psChannels reference) (psChannels candidate)
              in compareRequiredField c StreamFieldChannelLayout (psChannelLayout reference) (psChannelLayout candidate)
         else c)"

definition compareMuxedStream :: "probe_stream \<Rightarrow> probe_stream \<Rightarrow> comparison" where
  "compareMuxedStream reference candidate =
     (case (psAverageRate reference, psAverageRate candidate) of
        (Some r, Some c) \<Rightarrow>
          if rationalWithinRelativeTolerance r c muxedAverageRateRelativeTolerance
          then compareStreams (reference\<lparr>psAverageRate := Some c\<rparr>) candidate
          else compareStreams reference candidate
      | _ \<Rightarrow> compareStreams reference candidate)"

text \<open>
  The loop of \<open>MatchesMuxedOutput\<close>: \<open>previous\<close> is the index of the stream before, if any; the lists
  have the same length.
\<close>

fun muxed_loop :: "int option \<Rightarrow> stream_layout \<Rightarrow> probe_stream list \<Rightarrow> bool" where
  "muxed_loop previous (expected # layout) (stream # streams) =
     (if previous = Some (psIndex stream) then False
      else case streamFromLayout expected of
        None \<Rightarrow> False
      | Some reference \<Rightarrow>
          let c = compareMuxedStream reference stream
          in if cmMissing c \<noteq> NoField \<or> cmMismatch c \<noteq> NoField then False
             else muxed_loop (Some (psIndex stream)) layout streams)"
| "muxed_loop previous layout streams = True"

definition MatchesMuxedOutput :: "stream_layout \<Rightarrow> probe_stream list \<Rightarrow> bool" where
  "MatchesMuxedOutput layout streams =
     (if length streams \<noteq> length layout then False
      else muxed_loop None layout (orderedStreams streams))"

section \<open>The parts of a join\<close>

text \<open>
  The first loop of \<open>AssessStreamCompatibility\<close>: an early result, or the ordered streams of the
  parts, the first unknown and the first part that has streams.
\<close>

fun order_loop ::
  "int \<Rightarrow> probe_evidence list \<Rightarrow> probe_stream list list \<Rightarrow> stream_issue option \<Rightarrow> int option
     \<Rightarrow> stream_assessment + probe_stream list list \<times> stream_issue option \<times> int option" where
  "order_loop position [] streams firstUnknown reference = Inr (streams, firstUnknown, reference)"
| "order_loop position (probe # probes) streams firstUnknown reference =
     (if peStreams probe = []
      then order_loop (position + 1) probes (streams @ [[]])
             (if firstUnknown = None
              then Some (streamIssue StreamReasonMissingProbe (Some position) None NoField) else firstUnknown)
             reference
      else
        let ordered = orderedStreams (peStreams probe);
            reference = (if reference = None then Some position else reference);
            (hasVideo, hasUnknownKind) = videoPresence ordered
        in if \<not> hasVideo \<and> \<not> hasUnknownKind
           then Inl (streamAssessment StreamsIncompatible StreamReasonMissingVideo (Some position) None StreamFieldKind)
           else order_loop (position + 1) probes (streams @ [ordered])
                  (if \<not> hasVideo \<and> firstUnknown = None
                   then Some (streamIssue StreamReasonMissingMetadata (Some position) None StreamFieldKind)
                   else firstUnknown)
                  reference)"

fun compare_loop ::
  "int \<Rightarrow> int \<Rightarrow> int \<Rightarrow> probe_stream list \<Rightarrow> probe_stream list \<Rightarrow> stream_issue option
     \<Rightarrow> stream_assessment + stream_issue option" where
  "compare_loop referencePosition partPosition streamPosition (r # rs) (s # ss) firstUnknown =
     (let c = compareStreams r s
      in if cmMismatch c \<noteq> NoField
         then Inl (streamAssessment StreamsIncompatible StreamReasonLayoutMismatch (Some partPosition)
                (Some streamPosition) (cmMismatch c))
         else compare_loop referencePosition partPosition (streamPosition + 1) rs ss
                (if cmMissing c \<noteq> NoField \<and> firstUnknown = None
                 then Some (streamIssue StreamReasonMissingMetadata
                        (Some (if cmMissingReference c then referencePosition else partPosition))
                        (Some streamPosition) (cmMissing c))
                 else firstUnknown))"
| "compare_loop referencePosition partPosition streamPosition rs ss firstUnknown = Inr firstUnknown"

fun parts_loop ::
  "int \<Rightarrow> probe_stream list \<Rightarrow> int \<Rightarrow> probe_stream list list \<Rightarrow> stream_issue option
     \<Rightarrow> stream_assessment + stream_issue option" where
  "parts_loop referencePosition reference position [] firstUnknown = Inr firstUnknown"
| "parts_loop referencePosition reference position (streams # parts) firstUnknown =
     (if position = referencePosition \<or> streams = []
      then parts_loop referencePosition reference (position + 1) parts firstUnknown
      else if length streams \<noteq> length reference
      then Inl (streamAssessment StreamsIncompatible StreamReasonStreamCountMismatch (Some position) None NoField)
      else case compare_loop referencePosition position 0 reference streams firstUnknown of
        Inl assessment \<Rightarrow> Inl assessment
      | Inr firstUnknown \<Rightarrow> parts_loop referencePosition reference (position + 1) parts firstUnknown)"

definition AssessStreamCompatibility :: "probe_evidence list \<Rightarrow> stream_assessment option" where
  "AssessStreamCompatibility probes =
     (if length probes < 2
      then Some (streamAssessment StreamsUnknown StreamReasonTooFewParts None None NoField)
      else case order_loop 0 probes [] None None of
        Inl assessment \<Rightarrow> Some assessment
      | Inr (streams, firstUnknown, None) \<Rightarrow>
          Some \<lparr>saCompatibility = StreamsUnknown, saIssue = firstUnknown, saLayout = None\<rparr>
      | Inr (streams, firstUnknown, Some referencePosition) \<Rightarrow>
          (let reference = streams ! nat referencePosition
           in case parts_loop referencePosition reference 0 streams firstUnknown of
                Inl assessment \<Rightarrow> Some assessment
              | Inr (Some issue) \<Rightarrow>
                  Some \<lparr>saCompatibility = StreamsUnknown, saIssue = Some issue, saLayout = None\<rparr>
              | Inr None \<Rightarrow>
                  (case layoutFromStreams reference of
                     None \<Rightarrow> None
                   | Some layout \<Rightarrow>
                       Some \<lparr>saCompatibility = StreamsCompatible, saIssue = None, saLayout = Some layout\<rparr>)))"

section \<open>What the comparison decides\<close>

definition clean_comparison :: "comparison \<Rightarrow> bool" where
  "clean_comparison c \<longleftrightarrow> cmMissing c = NoField \<and> cmMismatch c = NoField"

lemma required_clean:
  assumes "field \<noteq> NoField"
  shows "clean_comparison (compareRequiredField c field a b) \<longleftrightarrow> clean_comparison c \<and> a \<noteq> None \<and> b = a"
  using assms by (auto simp: compareRequiredField_def clean_comparison_def split: option.splits)

lemma optional_clean:
  assumes "field \<noteq> NoField"
  shows "clean_comparison (compareOptionalField c field a b) \<longleftrightarrow> clean_comparison c \<and> b = a"
  using required_clean [OF assms, of c a b] by (auto simp: compareOptionalField_def)

text \<open>Two layout entries that differ in the time base at most.\<close>

definition same_entry :: "layout_entry \<Rightarrow> layout_entry \<Rightarrow> bool" where
  "same_entry e e' \<longleftrightarrow>
     leKind e' = leKind e \<and> leCodecName e' = leCodecName e \<and> leProfile e' = leProfile e \<and>
     leVideo e' = leVideo e \<and> leAudio e' = leAudio e"

lemma same_entry_refl [simp]: "same_entry e e"
  by (simp add: same_entry_def)

lemma kinds_differ [simp]: "ProbeStreamAudio \<noteq> ProbeStreamVideo" "ProbeStreamVideo \<noteq> ProbeStreamAudio"
  by (simp_all add: ProbeStreamAudio_def ProbeStreamVideo_def)

definition stream_agrees :: "probe_stream \<Rightarrow> probe_stream \<Rightarrow> bool" where
  "stream_agrees r s \<longleftrightarrow> (\<exists>e e'. entry_of r = Some e \<and> entry_of s = Some e' \<and> same_entry e e')"

lemma compareStreams_clean_fields:
  "clean_comparison (compareStreams r s) \<longleftrightarrow>
     psKind r \<noteq> None \<and> psKind s = psKind r \<and> psCodecName r \<noteq> None \<and> psCodecName s = psCodecName r \<and>
     psProfile s = psProfile r \<and> psTimeBase r \<noteq> None \<and> psTimeBase s \<noteq> None \<and>
     (psKind r = Some ProbeStreamVideo \<longrightarrow>
        psWidth r \<noteq> None \<and> psWidth s = psWidth r \<and> psHeight r \<noteq> None \<and> psHeight s = psHeight r \<and>
        psPixelFormat r \<noteq> None \<and> psPixelFormat s = psPixelFormat r \<and>
        psAverageRate r \<noteq> None \<and> psAverageRate s = psAverageRate r) \<and>
     (psKind r = Some ProbeStreamAudio \<longrightarrow>
        psSampleFormat r \<noteq> None \<and> psSampleFormat s = psSampleFormat r \<and>
        psSampleRateHz r \<noteq> None \<and> psSampleRateHz s = psSampleRateHz r \<and>
        psChannels r \<noteq> None \<and> psChannels s = psChannels r \<and>
        psChannelLayout r \<noteq> None \<and> psChannelLayout s = psChannelLayout r)"
proof -
  have start: "clean_comparison \<lparr>cmMissing = NoField, cmMissingReference = False, cmMismatch = NoField\<rparr>"
    by (simp add: clean_comparison_def)
  show ?thesis
    unfolding compareStreams_def Let_def
    by (auto simp: required_clean optional_clean start)
qed

lemma entry_of_Some:
  "entry_of r = Some e \<longleftrightarrow>
     psKind r = Some (leKind e) \<and> psCodecName r = Some (leCodecName e) \<and> psTimeBase r = Some (leTimeBase e) \<and>
     psProfile r = leProfile e \<and>
     (if leKind e = ProbeStreamVideo
      then leAudio e = None \<and> (\<exists>v. leVideo e = Some v \<and> psWidth r = Some (vlWidth v) \<and>
             psHeight r = Some (vlHeight v) \<and> psPixelFormat r = Some (vlPixelFormat v) \<and>
             psAverageRate r = Some (vlAverageRate v))
      else if leKind e = ProbeStreamAudio
      then leVideo e = None \<and> (\<exists>a. leAudio e = Some a \<and> psSampleFormat r = Some (alSampleFormat a) \<and>
             psSampleRateHz r = Some (alSampleRateHz a) \<and> psChannels r = Some (alChannels a) \<and>
             psChannelLayout r = Some (alChannelLayout a))
      else leVideo e = None \<and> leAudio e = None)"
  by (cases e) (auto simp: entry_of_def Let_def split: option.splits)

end
