(* ===== verification/Join_Feasibility.thy ===== *)
theory Join_Feasibility
  imports Stream_Compatibility
begin

text \<open>
  Whether files can be joined without re-encoding (\<open>internal/controller\<close>: \<open>duration.go\<close>,
  \<open>join_duration.go\<close>, \<open>input_container.go\<close>, \<open>output_container.go\<close>, \<open>stream_compatibility.go\<close>,
  \<open>join_feasibility.go\<close>). Sums of sizes and durations are 64-bit sums, written with \<open>wrap64\<close>; reading
  a nil pointer is the result \<open>None\<close>.
\<close>

section \<open>Durations\<close>

definition durationAgreementToleranceMS :: int where
  "durationAgreementToleranceMS = 1000"

datatype duration_source =
    DurationSourceFormat | DurationSourceLongestStream | DurationSourceConsistentFormatAndStream | DurationSourceUnknown

record duration_assessment =
  daFormatMS :: "int option"
  daLongestStreamMS :: "int option"
  daEffectiveMS :: "int option"
  daSource :: duration_source
  daConflict :: bool

definition usableDuration :: "int option \<Rightarrow> int option" where
  "usableDuration duration =
     (case duration of None \<Rightarrow> None | Some d \<Rightarrow> if d \<le> 0 then None else Some d)"

fun longest_loop :: "probe_stream list \<Rightarrow> int option \<Rightarrow> int option" where
  "longest_loop [] longest = longest"
| "longest_loop (stream # streams) longest =
     (if psKind stream \<noteq> Some ProbeStreamVideo \<and> psKind stream \<noteq> Some ProbeStreamAudio
      then longest_loop streams longest
      else case usableDuration (psDurationMS stream) of
        None \<Rightarrow> longest_loop streams longest
      | Some d \<Rightarrow>
          (case longest of
             None \<Rightarrow> longest_loop streams (Some d)
           | Some l \<Rightarrow> longest_loop streams (if d > l then Some d else longest)))"

definition longestAVStreamDuration :: "probe_stream list \<Rightarrow> int option" where
  "longestAVStreamDuration streams = longest_loop streams None"

definition AssessProbeDuration :: "probe_evidence \<Rightarrow> duration_assessment" where
  "AssessProbeDuration evidence =
     (let formatDuration = usableDuration (pfDurationMS (peFormat evidence));
          streamDuration = longestAVStreamDuration (peStreams evidence);
          assessment = \<lparr>daFormatMS = formatDuration, daLongestStreamMS = streamDuration,
            daEffectiveMS = None, daSource = DurationSourceUnknown, daConflict = False\<rparr>
      in case (formatDuration, streamDuration) of
           (None, None) \<Rightarrow> assessment
         | (Some f, None) \<Rightarrow> assessment\<lparr>daEffectiveMS := Some f, daSource := DurationSourceFormat\<rparr>
         | (None, Some s) \<Rightarrow> assessment\<lparr>daEffectiveMS := Some s, daSource := DurationSourceLongestStream\<rparr>
         | (Some f, Some s) \<Rightarrow>
             let (shorter, longer) = (if f > s then (s, f) else (f, s))
             in if wrap64 (longer - shorter) > durationAgreementToleranceMS
                then assessment\<lparr>daConflict := True\<rparr>
                else assessment\<lparr>daEffectiveMS := Some longer,
                       daSource := DurationSourceConsistentFormatAndStream\<rparr>)"

definition joinMuxToleranceMS :: int where
  "joinMuxToleranceMS = 1000"

datatype join_duration_reason =
    JoinDurationTooFewParts | JoinDurationMissing | JoinDurationConflict | JoinDurationOverflow

record join_duration_issue =
  jdReason :: join_duration_reason
  jdPartPosition :: "int option"

record join_duration =
  jnParts :: "duration_assessment list"
  jnExpectedMS :: "int option"
  jnToleranceMS :: "int option"
  jnIssue :: "join_duration_issue option"

definition absoluteDifference :: "int \<Rightarrow> int \<Rightarrow> int" where
  "absoluteDifference left right =
     (if left < right then wrap64 (right - left) else wrap64 (left - right))"

text \<open>The loop over the parts from \<open>position\<close> on: an issue, or the expected duration and the tolerance.\<close>

fun duration_loop ::
  "int \<Rightarrow> duration_assessment list \<Rightarrow> int \<Rightarrow> int \<Rightarrow> join_duration_issue + int \<times> int" where
  "duration_loop position [] expected tolerance = Inr (expected, tolerance)"
| "duration_loop position (part # parts) expected tolerance =
     (if daConflict part then Inl \<lparr>jdReason = JoinDurationConflict, jdPartPosition = Some position\<rparr>
      else case daEffectiveMS part of
        None \<Rightarrow> Inl \<lparr>jdReason = JoinDurationMissing, jdPartPosition = Some position\<rparr>
      | Some effective \<Rightarrow>
          if effective > wrap64 (max_int64 - expected)
          then Inl \<lparr>jdReason = JoinDurationOverflow, jdPartPosition = Some position\<rparr>
          else
            let partTolerance = (case (daFormatMS part, daLongestStreamMS part) of
                  (Some f, Some s) \<Rightarrow> absoluteDifference f s
                | _ \<Rightarrow> durationAgreementToleranceMS)
            in if partTolerance > wrap64 (max_int64 - tolerance)
               then Inl \<lparr>jdReason = JoinDurationOverflow, jdPartPosition = Some position\<rparr>
               else duration_loop (position + 1) parts (wrap64 (expected + effective))
                      (wrap64 (tolerance + partTolerance)))"

definition AssessJoinDuration :: "probe_evidence list \<Rightarrow> join_duration" where
  "AssessJoinDuration parts =
     (let assessed = map AssessProbeDuration parts;
          assessment = \<lparr>jnParts = assessed, jnExpectedMS = None, jnToleranceMS = None, jnIssue = None\<rparr>
      in if length parts < 2
         then assessment\<lparr>jnIssue := Some \<lparr>jdReason = JoinDurationTooFewParts, jdPartPosition = None\<rparr>\<rparr>
         else case duration_loop 0 assessed 0 joinMuxToleranceMS of
           Inl issue \<Rightarrow> assessment\<lparr>jnIssue := Some issue\<rparr>
         | Inr (expected, tolerance) \<Rightarrow>
             assessment\<lparr>jnExpectedMS := Some expected, jnToleranceMS := Some tolerance\<rparr>)"

section \<open>Containers\<close>

datatype input_container =
    InputContainerMPEGTS | InputContainerMP4 | InputContainerMatroska | InputContainerAVI | OtherInputContainer string

primrec container_text :: "input_container \<Rightarrow> string" where
  "container_text InputContainerMPEGTS = ''mpegts''"
| "container_text InputContainerMP4 = ''mp4''"
| "container_text InputContainerMatroska = ''matroska''"
| "container_text InputContainerAVI = ''avi''"
| "container_text (OtherInputContainer s) = s"

datatype input_status = InputContainerConfirmed | InputContainerIncompatible | InputContainerUnknown

datatype input_reason =
    InputContainerTooFewParts | InputContainerUnsupportedExtension | InputContainerMixedExtensions
  | InputContainerMissingProbeFormat | InputContainerProbeFormatMismatch

record input_observation =
  ioExtension :: media_extension
  ioFormatNames :: "string list"

record input_issue =
  iiReason :: input_reason
  iiPartPosition :: "int option"

record input_assessment =
  iaStatus :: input_status
  iaContainer :: "input_container option"
  iaIssue :: "input_issue option"

definition containerForExtension :: "media_extension \<Rightarrow> input_container option" where
  "containerForExtension extension =
     (case extension of
        MediaExtensionTS \<Rightarrow> Some InputContainerMPEGTS
      | MediaExtensionM2TS \<Rightarrow> None
      | MediaExtensionMP4 \<Rightarrow> Some InputContainerMP4
      | MediaExtensionMKV \<Rightarrow> Some InputContainerMatroska
      | MediaExtensionAVI \<Rightarrow> Some InputContainerAVI
      | NoExtension \<Rightarrow> None)"

definition containsFormatName :: "string list \<Rightarrow> string \<Rightarrow> bool" where
  "containsFormatName names want \<longleftrightarrow> list_ex (\<lambda>name. name = want) names"

definition inputContainerFailure :: "input_status \<Rightarrow> input_reason \<Rightarrow> int option \<Rightarrow> input_assessment" where
  "inputContainerFailure status reason position =
     \<lparr>iaStatus = status, iaContainer = None, iaIssue = Some \<lparr>iiReason = reason, iiPartPosition = position\<rparr>\<rparr>"

fun input_loop ::
  "input_container \<Rightarrow> int \<Rightarrow> input_observation list \<Rightarrow> int option \<Rightarrow> input_assessment" where
  "input_loop want position [] missing =
     (case missing of
        Some _ \<Rightarrow> inputContainerFailure InputContainerUnknown InputContainerMissingProbeFormat missing
      | None \<Rightarrow> \<lparr>iaStatus = InputContainerConfirmed, iaContainer = Some want, iaIssue = None\<rparr>)"
| "input_loop want position (observation # observations) missing =
     (case containerForExtension (ioExtension observation) of
        None \<Rightarrow>
          inputContainerFailure InputContainerIncompatible InputContainerUnsupportedExtension (Some position)
      | Some container \<Rightarrow>
          if container \<noteq> want
          then inputContainerFailure InputContainerIncompatible InputContainerMixedExtensions (Some position)
          else if ioFormatNames observation = []
          then input_loop want (position + 1) observations
                 (if missing = None then Some position else missing)
          else if \<not> containsFormatName (ioFormatNames observation) (container_text want)
          then inputContainerFailure InputContainerIncompatible InputContainerProbeFormatMismatch (Some position)
          else input_loop want (position + 1) observations missing)"

definition AssessInputContainer :: "input_observation list \<Rightarrow> input_assessment" where
  "AssessInputContainer observations =
     (if length observations < 2
      then inputContainerFailure InputContainerUnknown InputContainerTooFewParts None
      else case containerForExtension (ioExtension (hd observations)) of
        None \<Rightarrow>
          inputContainerFailure InputContainerIncompatible InputContainerUnsupportedExtension (Some 0)
      | Some want \<Rightarrow> input_loop want 0 observations None)"

datatype output_container = OutputContainerMP4 | OutputContainerMKV | OutputContainerAVI

datatype output_reason =
    OutputContainerInputUnconfirmed | OutputContainerCrossContainerPolicyUndefined | OutputContainerUnsupportedInput

record output_assessment =
  oaContainer :: "output_container option"
  oaIssue :: "output_reason option"

definition outputContainerFailure :: "output_reason \<Rightarrow> output_assessment" where
  "outputContainerFailure reason = \<lparr>oaContainer = None, oaIssue = Some reason\<rparr>"

definition SelectOutputContainer :: "input_assessment \<Rightarrow> output_assessment" where
  "SelectOutputContainer input =
     (if iaStatus input \<noteq> InputContainerConfirmed \<or> iaIssue input \<noteq> None
      then outputContainerFailure OutputContainerInputUnconfirmed
      else case iaContainer input of
        None \<Rightarrow> outputContainerFailure OutputContainerInputUnconfirmed
      | Some InputContainerMP4 \<Rightarrow> \<lparr>oaContainer = Some OutputContainerMP4, oaIssue = None\<rparr>
      | Some InputContainerMatroska \<Rightarrow> \<lparr>oaContainer = Some OutputContainerMKV, oaIssue = None\<rparr>
      | Some InputContainerAVI \<Rightarrow> \<lparr>oaContainer = Some OutputContainerAVI, oaIssue = None\<rparr>
      | Some InputContainerMPEGTS \<Rightarrow> outputContainerFailure OutputContainerCrossContainerPolicyUndefined
      | Some (OtherInputContainer _) \<Rightarrow> outputContainerFailure OutputContainerUnsupportedInput)"

section \<open>Feasibility of a join\<close>

datatype probe_coverage = ProbeCoverageNone | ProbeCoveragePartial | ProbeCoverageComplete

datatype structure_reason =
    JoinStructureTooFewParts | JoinStructureMissingFileID | JoinStructureDuplicateFileID
  | JoinStructureInvalidSourceSize | JoinStructureSourceSizeOverflow

record join_part =
  jpFileID :: string
  jpExtension :: media_extension
  jpFingerprint :: snapshot
  jpProbe :: "probe_evidence option"

record structure_issue =
  tiReason :: structure_reason
  tiPartPosition :: "int option"

record feasibility =
  jfFileIDs :: "string list"
  jfProbeCoverage :: probe_coverage
  jfSourceBytes :: "int option"
  jfDuration :: join_duration
  jfStreams :: stream_assessment
  jfInputContainer :: input_assessment
  jfOutputContainer :: output_assessment
  jfStructuralIssue :: "structure_issue option"

text \<open>The loop of \<open>assessJoinStructure\<close>: an issue, or the total number of bytes.\<close>

fun structure_loop :: "int \<Rightarrow> join_part list \<Rightarrow> string set \<Rightarrow> int \<Rightarrow> structure_issue + int" where
  "structure_loop position [] seen bytes = Inr bytes"
| "structure_loop position (part # parts) seen bytes =
     (if jpFileID part = [] then Inl \<lparr>tiReason = JoinStructureMissingFileID, tiPartPosition = Some position\<rparr>
      else if jpFileID part \<in> seen
      then Inl \<lparr>tiReason = JoinStructureDuplicateFileID, tiPartPosition = Some position\<rparr>
      else
        let size = snSizeBytes (jpFingerprint part)
        in if size \<le> 0 then Inl \<lparr>tiReason = JoinStructureInvalidSourceSize, tiPartPosition = Some position\<rparr>
           else if size > wrap64 (max_int64 - bytes)
           then Inl \<lparr>tiReason = JoinStructureSourceSizeOverflow, tiPartPosition = Some position\<rparr>
           else structure_loop (position + 1) parts (insert (jpFileID part) seen) (wrap64 (bytes + size)))"

definition assessJoinStructure :: "join_part list \<Rightarrow> structure_issue + int" where
  "assessJoinStructure parts =
     (if length parts < 2 then Inl \<lparr>tiReason = JoinStructureTooFewParts, tiPartPosition = None\<rparr>
      else structure_loop 0 parts {} 0)"

definition probeCoverage :: "nat \<Rightarrow> nat \<Rightarrow> probe_coverage" where
  "probeCoverage parts probed =
     (if probed = 0 then ProbeCoverageNone
      else if probed = parts then ProbeCoverageComplete else ProbeCoveragePartial)"

text \<open>The evidence of a part that was not probed, and what the loop over the parts collects.\<close>

definition no_evidence :: probe_evidence where
  "no_evidence = \<lparr>peFormat = \<lparr>pfNames = [], pfLongName = None, pfStreamCount = None, pfProgramCount = None,
     pfStartTimeMS = None, pfDurationMS = None, pfSizeBytes = None, pfBitRateBPS = None, pfProbeScore = None,
     pfTags = []\<rparr>, peStreams = [], pePrograms = [], peChapters = []\<rparr>"

definition part_probe :: "join_part \<Rightarrow> probe_evidence" where
  "part_probe part = (case jpProbe part of Some probe \<Rightarrow> probe | None \<Rightarrow> no_evidence)"

definition part_observation :: "join_part \<Rightarrow> input_observation" where
  "part_observation part =
     \<lparr>ioExtension = jpExtension part,
      ioFormatNames = (case jpProbe part of Some probe \<Rightarrow> pfNames (peFormat probe) | None \<Rightarrow> [])\<rparr>"

definition AssessJoinFeasibility :: "join_part list \<Rightarrow> feasibility option" where
  "AssessJoinFeasibility parts =
     (let probes = map part_probe parts;
          probed = length (filter (\<lambda>part. jpProbe part \<noteq> None) parts);
          inputContainer = AssessInputContainer (map part_observation parts);
          (sourceBytes, structuralIssue) =
            (case assessJoinStructure parts of Inl issue \<Rightarrow> (None, Some issue) | Inr bytes \<Rightarrow> (Some bytes, None))
      in map_option (\<lambda>streams.
           \<lparr>jfFileIDs = map jpFileID parts, jfProbeCoverage = probeCoverage (length parts) probed,
            jfSourceBytes = sourceBytes, jfDuration = AssessJoinDuration probes, jfStreams = streams,
            jfInputContainer = inputContainer, jfOutputContainer = SelectOutputContainer inputContainer,
            jfStructuralIssue = structuralIssue\<rparr>)
         (AssessStreamCompatibility probes))"

definition feasibility_eligible :: "feasibility \<Rightarrow> bool" where
  "feasibility_eligible assessment \<longleftrightarrow>
     jfStructuralIssue assessment = None \<and> jfProbeCoverage assessment = ProbeCoverageComplete \<and>
     jfSourceBytes assessment \<noteq> None \<and> jnIssue (jfDuration assessment) = None \<and>
     jnExpectedMS (jfDuration assessment) \<noteq> None \<and> jnToleranceMS (jfDuration assessment) \<noteq> None \<and>
     saCompatibility (jfStreams assessment) = StreamsCompatible \<and> saIssue (jfStreams assessment) = None \<and>
     saLayout (jfStreams assessment) \<noteq> None \<and>
     iaStatus (jfInputContainer assessment) = InputContainerConfirmed \<and>
     iaContainer (jfInputContainer assessment) \<noteq> None \<and> iaIssue (jfInputContainer assessment) = None \<and>
     oaContainer (jfOutputContainer assessment) \<noteq> None \<and> oaIssue (jfOutputContainer assessment) = None"

end
