(* ===== verification/Decision_Policy.thy ===== *)
theory Decision_Policy
  imports Repair_Case Join_Feasibility
begin

text \<open>
  The local policy that turns the planner's decision into an authorized action
  (\<open>internal/decisionpolicy\<close>). Each validation gives either an authorization or reasons for the
  rejection; \<open>None\<close> stands for a panic on an index out of range or on a missing field.
\<close>

section \<open>Looking things up\<close>

fun findCapability :: "capability list \<Rightarrow> string \<Rightarrow> capability option" where
  "findCapability [] capabilityID = None"
| "findCapability (capability # rest) capabilityID =
     (if cpCapabilityID capability = capabilityID then Some capability else findCapability rest capabilityID)"

definition indexFiles :: "file_inventory \<Rightarrow> string \<rightharpoonup> inventory_file" where
  "indexFiles inventory = foldl (\<lambda>files file. files(ifID file \<mapsto> file)) Map.empty (invFiles inventory)"

definition indexProbes :: "file_probe list \<Rightarrow> string \<rightharpoonup> probe_outcome" where
  "indexProbes probes = foldl (\<lambda>indexed probe. indexed(fpFileID probe \<mapsto> fpOutcome probe)) Map.empty probes"

definition indexPaths :: "file_path_mapping list \<Rightarrow> string \<rightharpoonup> string" where
  "indexPaths mappings = foldl (\<lambda>paths path. paths(pmFileID path \<mapsto> pmAbsolutePath path)) Map.empty mappings"

fun findFilePath :: "file_path_mapping list \<Rightarrow> string \<Rightarrow> string option" where
  "findFilePath [] fileID = None"
| "findFilePath (mapping # rest) fileID =
     (if pmFileID mapping = fileID then Some (pmAbsolutePath mapping) else findFilePath rest fileID)"

definition assessOne :: "inventory_file \<Rightarrow> media_assessment" where
  "assessOne file = hd (ClassifyMediaFiles \<lparr>invFiles = [file], invPaths = []\<rparr>)"

section \<open>Joining parts\<close>

datatype join_rejection_reason =
    JoinWrongDecisionAction | JoinCaseMismatch | JoinCapabilityNotFound | JoinCapabilityWrongAction
  | JoinTooFewSelectedFiles | JoinDuplicateSelectedFile | JoinFileNotOffered | JoinFileNotInSnapshot
  | JoinFileNotActionable | JoinProbeUnavailable | JoinTechnicalChecksRejected

record join_rejection =
  jrReason :: join_rejection_reason
  jrPartPosition :: "int option"
  jrFileID :: string

record authorized_file =
  afFileID :: string
  afFingerprint :: snapshot

record authorized_join =
  ajCaseID :: string
  ajCapabilityID :: string
  ajOrderedParts :: "authorized_file list"
  ajSourceBytes :: int
  ajExpectedDurationMS :: int
  ajDurationToleranceMS :: int
  ajOutputContainer :: output_container
  ajExpectedStreamLayout :: stream_layout

record join_validation =
  jvAuthorized :: "authorized_join option"
  jvRejections :: "join_rejection list"
  jvFeasibility :: "feasibility option"

definition join_accepted :: "join_validation \<Rightarrow> bool" where
  "join_accepted validation \<longleftrightarrow> jvAuthorized validation \<noteq> None \<and> jvRejections validation = []"

definition rejected :: "join_rejection list \<Rightarrow> join_rejection_reason \<Rightarrow> int option \<Rightarrow> string \<Rightarrow> join_rejection list" where
  "rejected rejections reason position fileID =
     rejections @ [\<lparr>jrReason = reason, jrPartPosition = position, jrFileID = fileID\<rparr>]"

definition selected_part ::
  "string list \<Rightarrow> (string \<rightharpoonup> inventory_file) \<Rightarrow> (string \<rightharpoonup> probe_outcome) \<Rightarrow> string \<Rightarrow> join_rejection_reason + join_part" where
  "selected_part offered files probes fileID =
     (if fileID \<notin> set offered then Inl JoinFileNotOffered
      else case files fileID of
        None \<Rightarrow> Inl JoinFileNotInSnapshot
      | Some file \<Rightarrow>
          (let assessment = assessOne file
           in if \<not> ProbeCandidate assessment \<or> \<not> SupportsJoinPartsPath (ifPathComponents file)
              then Inl JoinFileNotActionable
              else case probes fileID of
                None \<Rightarrow> Inl JoinProbeUnavailable
              | Some probe \<Rightarrow>
                  if poStatus probe \<noteq> MediaProbeSucceeded \<or> poEvidence probe = None then Inl JoinProbeUnavailable
                  else Inr \<lparr>jpFileID = fileID, jpExtension = maExtension assessment,
                            jpFingerprint = ifFingerprint file, jpProbe = poEvidence probe\<rparr>))"

fun select_loop ::
  "(string \<Rightarrow> join_rejection_reason + join_part) \<Rightarrow> int \<Rightarrow> string list \<Rightarrow> string set \<Rightarrow>
   join_rejection list \<Rightarrow> join_part list \<Rightarrow> join_rejection list \<times> join_part list" where
  "select_loop select position [] seen rejections parts = (rejections, parts)"
| "select_loop select position (fileID # rest) seen rejections parts =
     (if fileID \<in> seen
      then select_loop select (position + 1) rest seen
             (rejected rejections JoinDuplicateSelectedFile (Some position) fileID) parts
      else case select fileID of
        Inl reason \<Rightarrow> select_loop select (position + 1) rest (insert fileID seen)
             (rejected rejections reason (Some position) fileID) parts
      | Inr part \<Rightarrow> select_loop select (position + 1) rest (insert fileID seen) rejections (parts @ [part]))"

definition authorize_join :: "string \<Rightarrow> string \<Rightarrow> join_part list \<Rightarrow> feasibility \<Rightarrow> authorized_join" where
  "authorize_join caseID capabilityID parts f =
     \<lparr>ajCaseID = caseID, ajCapabilityID = capabilityID,
      ajOrderedParts = map (\<lambda>part. \<lparr>afFileID = jpFileID part, afFingerprint = jpFingerprint part\<rparr>) parts,
      ajSourceBytes = the (jfSourceBytes f), ajExpectedDurationMS = the (jnExpectedMS (jfDuration f)),
      ajDurationToleranceMS = the (jnToleranceMS (jfDuration f)),
      ajOutputContainer = the (oaContainer (jfOutputContainer f)),
      ajExpectedStreamLayout = Clone (the (saLayout (jfStreams f)))\<rparr>"

text \<open>The checks of the decision that note a rejection and go on.\<close>

definition join_case_check :: "'v assembly \<Rightarrow> join_decision \<Rightarrow> join_rejection list" where
  "join_case_check assembly join =
     (if ddCaseID join \<noteq> rcCaseID (asRequest assembly) \<or>
         lsCaseID (asLocalSnapshot assembly) \<noteq> rcCaseID (asRequest assembly)
      then rejected [] JoinCaseMismatch None [] else [])"

definition join_checks :: "'v assembly \<Rightarrow> join_decision \<Rightarrow> join_rejection list" where
  "join_checks assembly join =
     (if length (ddOrderedFileIDS join) < 2
      then rejected (join_case_check assembly join) JoinTooFewSelectedFiles None []
      else join_case_check assembly join)"

definition ValidateJoin :: "'v assembly \<Rightarrow> repair_decision \<Rightarrow> join_validation option" where
  "ValidateJoin assembly decision =
     (let reject = (\<lambda>rejections reason. Some \<lparr>jvAuthorized = None,
            jvRejections = rejected rejections reason None [], jvFeasibility = None\<rparr>);
          request = asRequest assembly; snap = asLocalSnapshot assembly
      in case rdJoinParts decision of
           None \<Rightarrow> reject [] JoinWrongDecisionAction
         | Some join \<Rightarrow>
             if rdKind decision \<noteq> ActionJoinParts \<or> ddAction join \<noteq> ActionJoinParts
             then reject [] JoinWrongDecisionAction
             else case findCapability (rcCapabilities request) (ddCapabilityID join) of
               None \<Rightarrow> reject (join_case_check assembly join) JoinCapabilityNotFound
             | Some capability \<Rightarrow>
                 if cpAction capability \<noteq> CapabilityActionJoinParts
                 then reject (join_case_check assembly join) JoinCapabilityWrongAction
                 else let select = selected_part (cpCandidateFileIDS capability)
                            (indexFiles (obInventory (lsObservation snap))) (indexProbes (obProbes (lsObservation snap)));
                          (rejections, parts) =
                            select_loop select 0 (ddOrderedFileIDS join) {} (join_checks assembly join) []
                 in if rejections \<noteq> []
                    then Some \<lparr>jvAuthorized = None, jvRejections = rejections, jvFeasibility = None\<rparr>
                    else case AssessJoinFeasibility parts of
                      None \<Rightarrow> None
                    | Some f \<Rightarrow>
                        Some (if \<not> feasibility_eligible f
                              then \<lparr>jvAuthorized = None, jvRejections = rejected [] JoinTechnicalChecksRejected None [],
                                    jvFeasibility = Some f\<rparr>
                              else \<lparr>jvAuthorized = Some (authorize_join (rcCaseID request) (cpCapabilityID capability) parts f),
                                    jvRejections = [], jvFeasibility = Some f\<rparr>))"

section \<open>Runtimes\<close>

definition minimumRuntimeToleranceMS :: int where
  "minimumRuntimeToleranceMS = 5 * 60 * 1000"

record runtime_policy =
  rpMaximumDifferenceMS :: int

definition default_policy :: runtime_policy where
  "default_policy = \<lparr>rpMaximumDifferenceMS = 0\<rparr>"

record runtime_assessment =
  raFileDurationMS :: int
  raMovieRuntimeMS :: "int option"
  raDifferenceMS :: "int option"
  raDefaultToleranceMS :: "int option"
  raToleranceMS :: "int option"

definition assessManualImportRuntime :: "int \<Rightarrow> int option \<Rightarrow> runtime_policy \<Rightarrow> runtime_assessment" where
  "assessManualImportRuntime fileDurationMS movieRuntimeMinutes policy =
     (case movieRuntimeMinutes of
        None \<Rightarrow> \<lparr>raFileDurationMS = fileDurationMS, raMovieRuntimeMS = None, raDifferenceMS = None,
                 raDefaultToleranceMS = None, raToleranceMS = None\<rparr>
      | Some minutes \<Rightarrow>
          (let movieDurationMS = wrap64 (wrap64 (minutes * 60) * 1000);
               differenceMS = (if fileDurationMS > movieDurationMS then wrap64 (fileDurationMS - movieDurationMS)
                               else wrap64 (movieDurationMS - fileDurationMS));
               defaultToleranceMS = max (quot64 movieDurationMS 10) minimumRuntimeToleranceMS;
               toleranceMS = (if rpMaximumDifferenceMS policy > defaultToleranceMS
                              then rpMaximumDifferenceMS policy else defaultToleranceMS)
           in \<lparr>raFileDurationMS = fileDurationMS, raMovieRuntimeMS = Some movieDurationMS,
               raDifferenceMS = Some differenceMS, raDefaultToleranceMS = Some defaultToleranceMS,
               raToleranceMS = Some toleranceMS\<rparr>))"

definition runtimeTolerance :: "runtime_assessment option \<Rightarrow> int" where
  "runtimeTolerance assessment =
     (case assessment of
        None \<Rightarrow> 0
      | Some a \<Rightarrow> (case raToleranceMS a of None \<Rightarrow> 0 | Some tolerance \<Rightarrow> tolerance))"

definition movieRuntime :: "radarr_movie option \<Rightarrow> int option" where
  "movieRuntime movie = (case movie of None \<Rightarrow> None | Some m \<Rightarrow> mvRuntimeMinutes m)"

section \<open>Importing one file\<close>

datatype manual_rejection_reason =
    ManualImportWrongDecisionAction | ManualImportCaseMismatch | ManualImportCapabilityNotFound
  | ManualImportCapabilityWrongAction | ManualImportFileMismatch | ManualImportBindingNotFound
  | ManualImportBindingIncomplete | ManualImportFileNotInSnapshot | ManualImportFileNotActionable
  | ManualImportFingerprintChanged | ManualImportPathChanged | ManualImportDownloadMismatch
  | ManualImportMovieMismatch | ManualImportProbeUnavailable | ManualImportVideoMissing
  | ManualImportDurationUnavailable | ManualImportRuntimeMismatch

record authorized_import =
  aiCaseID :: string
  aiCapabilityID :: string
  aiFileID :: string
  aiExpectedFingerprint :: snapshot
  aiImportMode :: import_mode
  aiFile :: command_file
  aiProbeDurationMS :: int
  aiRuntimeToleranceMS :: int

record manual_validation =
  mnAuthorized :: "authorized_import option"
  mnRejections :: "manual_rejection_reason list"
  mnRuntime :: "runtime_assessment option"

definition manual_accepted :: "manual_validation \<Rightarrow> bool" where
  "manual_accepted validation \<longleftrightarrow> mnAuthorized validation \<noteq> None \<and> mnRejections validation = []"

definition rejectManualImport :: "manual_rejection_reason list \<Rightarrow> manual_rejection_reason \<Rightarrow> manual_validation" where
  "rejectManualImport rejections reason =
     \<lparr>mnAuthorized = None, mnRejections = rejections @ [reason], mnRuntime = None\<rparr>"

definition add_rejection :: "manual_rejection_reason \<Rightarrow> bool \<Rightarrow> manual_rejection_reason list \<Rightarrow> manual_rejection_reason list" where
  "add_rejection reason applies rejections = (if applies then rejections @ [reason] else rejections)"

definition hasVideo :: "probe_stream list \<Rightarrow> bool" where
  "hasVideo streams \<longleftrightarrow> list_ex (\<lambda>stream. psKind stream = Some ProbeStreamVideo) streams"

definition cloneManualImportCommand :: "command_file \<Rightarrow> command_file" where
  "cloneManualImportCommand file =
     (let quality = cfQuality file;
          quality = (case qmRevision quality of None \<Rightarrow> quality | Some revision \<Rightarrow> quality\<lparr>qmRevision := Some revision\<rparr>)
      in file\<lparr>cfLanguages := cfLanguages file, cfQuality := quality\<rparr>)"

text \<open>The tests that reject a bound import without ending its validation, in the order of the code.\<close>

definition binding_issues ::
  "import_binding \<Rightarrow> inventory_file \<Rightarrow> case_observation \<Rightarrow> manual_rejection_reason list \<Rightarrow> manual_rejection_reason list" where
  "binding_issues binding file observation rejections =
     (let fileID = bdFileID binding; command = bdFile binding;
          queue = crRadarr (obCorrelation observation)
      in add_rejection ManualImportMovieMismatch
           (case (obMovie observation, qrMovieID queue) of
              (Some movie, Some movieID) \<Rightarrow> cfMovieID command \<noteq> mvID movie \<or> cfMovieID command \<noteq> movieID
            | _ \<Rightarrow> True)
         (add_rejection ManualImportDownloadMismatch (cfDownloadID command \<noteq> qrDownloadID queue)
         (add_rejection ManualImportPathChanged
            (findFilePath (invPaths (obInventory observation)) fileID \<noteq> Some (cfPath command))
         (add_rejection ManualImportFingerprintChanged (bdExpectedFingerprint binding \<noteq> ifFingerprint file)
         (add_rejection ManualImportFileNotActionable (\<not> ProbeCandidate (assessOne file)) rejections)))))"

definition ValidateManualImportWithPolicy ::
  "'v assembly \<Rightarrow> repair_decision \<Rightarrow> runtime_policy \<Rightarrow> manual_validation" where
  "ValidateManualImportWithPolicy assembly decision policy =
     (let request = asRequest assembly; snap = asLocalSnapshot assembly; observation = lsObservation snap
      in case rdManualImportFile decision of
        None \<Rightarrow> rejectManualImport [] ManualImportWrongDecisionAction
      | Some manualImport \<Rightarrow>
          if rdKind decision \<noteq> ActionManualImportFile \<or> ddAction manualImport \<noteq> ActionManualImportFile
          then rejectManualImport [] ManualImportWrongDecisionAction
          else let mismatch = add_rejection ManualImportCaseMismatch
                     (ddCaseID manualImport \<noteq> rcCaseID request \<or> lsCaseID snap \<noteq> rcCaseID request) []
          in case findCapability (rcCapabilities request) (ddCapabilityID manualImport) of
            None \<Rightarrow> rejectManualImport mismatch ManualImportCapabilityNotFound
          | Some capability \<Rightarrow>
              if cpAction capability \<noteq> CapabilityActionManualImportFile
              then rejectManualImport mismatch ManualImportCapabilityWrongAction
              else if cpFileID capability \<noteq> Some (ddFileID manualImport)
              then rejectManualImport mismatch ManualImportFileMismatch
              else case Mapping.lookup (lsManualImportBindings snap) (ddCapabilityID manualImport) of
                None \<Rightarrow> rejectManualImport mismatch ManualImportBindingNotFound
              | Some binding \<Rightarrow>
                  if bdFileID binding \<noteq> ddFileID manualImport
                  then rejectManualImport mismatch ManualImportFileMismatch
                  else let bound = add_rejection ManualImportBindingIncomplete (\<not> binding_complete binding) mismatch
                  in case indexFiles (obInventory observation) (ddFileID manualImport) of
                    None \<Rightarrow> rejectManualImport bound ManualImportFileNotInSnapshot
                  | Some file \<Rightarrow>
                      (let issues = binding_issues binding file observation bound
                       in case indexProbes (obProbes observation) (ddFileID manualImport) of
                            None \<Rightarrow> rejectManualImport issues ManualImportProbeUnavailable
                          | Some probe \<Rightarrow>
                              (case (poStatus probe, poEvidence probe) of
                                 (MediaProbeSucceeded, Some evidence) \<Rightarrow>
                                   (let video = add_rejection ManualImportVideoMissing (\<not> hasVideo (peStreams evidence)) issues;
                                        duration = AssessProbeDuration evidence
                                    in case daEffectiveMS duration of
                                         None \<Rightarrow> rejectManualImport video ManualImportDurationUnavailable
                                       | Some effective \<Rightarrow>
                                           if daConflict duration
                                           then rejectManualImport video ManualImportDurationUnavailable
                                           else let runtime = assessManualImportRuntime effective
                                                      (movieRuntime (obMovie observation)) policy;
                                                    rejections = add_rejection ManualImportRuntimeMismatch
                                                      (raDifferenceMS runtime \<noteq> None \<and>
                                                       the (raDifferenceMS runtime) > the (raToleranceMS runtime)) video
                                           in \<lparr>mnAuthorized =
                                                 (if rejections \<noteq> [] then None
                                                  else Some \<lparr>aiCaseID = rcCaseID request,
                                                    aiCapabilityID = cpCapabilityID capability,
                                                    aiFileID = bdFileID binding,
                                                    aiExpectedFingerprint = bdExpectedFingerprint binding,
                                                    aiImportMode = bdImportMode binding,
                                                    aiFile = cloneManualImportCommand (bdFile binding),
                                                    aiProbeDurationMS = effective,
                                                    aiRuntimeToleranceMS = runtimeTolerance (Some runtime)\<rparr>),
                                               mnRejections = rejections, mnRuntime = Some runtime\<rparr>)
                               | _ \<Rightarrow> rejectManualImport issues ManualImportProbeUnavailable)))"

definition ValidateManualImport :: "'v assembly \<Rightarrow> repair_decision \<Rightarrow> manual_validation" where
  "ValidateManualImport assembly decision = ValidateManualImportWithPolicy assembly decision default_policy"

section \<open>Remuxing a disc\<close>

datatype remux_rejection =
    RemuxWrongDecision | RemuxCaseMismatch | RemuxCapabilityMissing | RemuxPlaylistMismatch
  | RemuxFileUnavailable | RemuxRuntimeMissing | RemuxRuntimeMismatch

record authorized_remux =
  arCaseID :: string
  arCapabilityID :: string
  arPlaylist :: authorized_file
  arClips :: "authorized_file list"
  arSourceBytes :: int
  arExpectedDurationMS :: int
  arExpectedChapters :: int
  arExpectedTracks :: "disc_track list"
  arRuntimeToleranceMS :: int

record 'a disc_validation =
  dvAuthorized :: "'a option"
  dvRejections :: "remux_rejection list"
  dvRuntime :: "runtime_assessment option"

definition disc_accepted :: "'a disc_validation \<Rightarrow> bool" where
  "disc_accepted validation \<longleftrightarrow> dvAuthorized validation \<noteq> None \<and> dvRejections validation = []"

definition rejectRemux :: "remux_rejection \<Rightarrow> 'a disc_validation" where
  "rejectRemux reason = \<lparr>dvAuthorized = None, dvRejections = [reason], dvRuntime = None\<rparr>"

definition availableRemuxFile ::
  "(string \<rightharpoonup> inventory_file) \<Rightarrow> (string \<rightharpoonup> string) \<Rightarrow> string \<Rightarrow> authorized_file option" where
  "availableRemuxFile files paths fileID =
     (case (files fileID, paths fileID) of
        (Some file, Some path) \<Rightarrow>
          if \<not> IsAbs path \<or> Clean path \<noteq> path \<or> snSizeBytes (ifFingerprint file) \<le> 0 then None
          else (case ifDownloadFile file of
                  Some downloaded \<Rightarrow>
                    if \<not> rfSelected downloaded \<or>
                       rfLengthBytes downloaded \<noteq> snSizeBytes (ifFingerprint file) \<or>
                       rfBytesCompleted downloaded \<noteq> snSizeBytes (ifFingerprint file)
                    then None
                    else Some \<lparr>afFileID = fileID, afFingerprint = ifFingerprint file\<rparr>
                | None \<Rightarrow> Some \<lparr>afFileID = fileID, afFingerprint = ifFingerprint file\<rparr>)
      | _ \<Rightarrow> None)"

definition remuxTrackMatches :: "disc_track \<Rightarrow> offered_track \<Rightarrow> bool" where
  "remuxTrackMatches identified offered \<longleftrightarrow>
     (if tkKind identified \<noteq> otKind offered \<or> tkCodec identified \<noteq> otCodec offered then False
      else case otLanguage offered of
        None \<Rightarrow> tkLanguage identified = []
      | Some lang \<Rightarrow> tkLanguage identified = lang)"

text \<open>The value a Go map gives for a path, which is empty when there is none.\<close>

definition path_at :: "(string \<rightharpoonup> string) \<Rightarrow> string \<Rightarrow> string" where
  "path_at paths fileID = (case paths fileID of Some path \<Rightarrow> path | None \<Rightarrow> [])"

text \<open>The loops that look for the one candidate of a capability; a second one ends them with \<open>None\<close>.\<close>

fun single_candidate :: "('c \<Rightarrow> bool) \<Rightarrow> 'c list \<Rightarrow> 'c option \<Rightarrow> 'c option option" where
  "single_candidate matches [] found = Some found"
| "single_candidate matches (candidate # rest) found =
     (if matches candidate
      then if found \<noteq> None then None else single_candidate matches rest (Some candidate)
      else single_candidate matches rest found)"

fun remux_clips ::
  "(string \<rightharpoonup> inventory_file) \<Rightarrow> (string \<rightharpoonup> string) \<Rightarrow> string \<Rightarrow> string list \<Rightarrow> nat \<Rightarrow> string list \<Rightarrow>
   authorized_file list \<Rightarrow> int \<Rightarrow> (authorized_file list \<times> int) option option" where
  "remux_clips files paths streamDirectory clipPaths position [] clips bytes = Some (Some (clips, bytes))"
| "remux_clips files paths streamDirectory clipPaths position (clipID # rest) clips bytes =
     (let path = path_at paths clipID
      in case availableRemuxFile files paths clipID of
           None \<Rightarrow> Some None
         | Some clip \<Rightarrow>
             if length clipPaths \<le> position then None
             else if path \<noteq> clipPaths ! position \<or> Dir path \<noteq> streamDirectory \<or> \<not> NumberedClip (Base path) \<or>
                     snSizeBytes (afFingerprint clip) > wrap64 (max_int64 - bytes)
             then Some None
             else remux_clips files paths streamDirectory clipPaths (Suc position) rest
                    (clips @ [clip]) (wrap64 (bytes + snSizeBytes (afFingerprint clip))))"

definition known_runtime :: "radarr_movie option \<Rightarrow> bool" where
  "known_runtime movie = (case movieRuntime movie of None \<Rightarrow> False | Some minutes \<Rightarrow> minutes > 0)"

definition ValidateRemuxWithPolicy ::
  "'v assembly \<Rightarrow> repair_decision \<Rightarrow> runtime_policy \<Rightarrow> authorized_remux disc_validation option" where
  "ValidateRemuxWithPolicy assembly decision policy =
     (let request = asRequest assembly; snap = asLocalSnapshot assembly; observation = lsObservation snap
      in case rdRemuxBluray decision of
        None \<Rightarrow> Some (rejectRemux RemuxWrongDecision)
      | Some remux \<Rightarrow>
          if rdKind decision \<noteq> ActionRemuxBluray \<or> ddAction remux \<noteq> ActionRemuxBluray
          then Some (rejectRemux RemuxWrongDecision)
          else if ddCaseID remux \<noteq> rcCaseID request \<or> lsCaseID snap \<noteq> rcCaseID request
          then Some (rejectRemux RemuxCaseMismatch)
          else case findCapability (rcCapabilities request) (ddCapabilityID remux) of
            None \<Rightarrow> Some (rejectRemux RemuxCapabilityMissing)
          | Some capability \<Rightarrow>
              if cpAction capability \<noteq> CapabilityActionRemuxBluray \<or> cpPlaylistFileID capability = None \<or>
                 cpDurationMS capability = None \<or> cpChapterCount capability = None \<or>
                 cpClipFileIDS capability = [] \<or> cpTracks capability = []
              then Some (rejectRemux RemuxCapabilityMissing)
              else case single_candidate (\<lambda>candidate. Some (bcPlaylistFileID candidate) = cpPlaylistFileID capability)
                          (obBluRayPlaylists observation) None of
                Some (Some playlist) \<Rightarrow>
                  (let details = bcDetails playlist;
                       files = indexFiles (obInventory observation);
                       paths = indexPaths (invPaths (obInventory observation));
                       playlistPath = path_at paths (bcPlaylistFileID playlist);
                       runtime = assessManualImportRuntime (plDurationMS details) (movieRuntime (obMovie observation)) policy
                   in if Some (plDurationMS details) \<noteq> cpDurationMS capability \<or>
                         Some (plChapters details) \<noteq> cpChapterCount capability \<or>
                         \<not> list_all2 remuxTrackMatches (plTracks details) (cpTracks capability) \<or>
                         bcClipFileIDs playlist \<noteq> cpClipFileIDS capability
                      then Some (rejectRemux RemuxPlaylistMismatch)
                      else if \<not> known_runtime (obMovie observation) then Some (rejectRemux RemuxRuntimeMissing)
                      else if raDifferenceMS runtime = None \<or> the (raDifferenceMS runtime) > the (raToleranceMS runtime)
                      then Some \<lparr>dvAuthorized = None, dvRejections = [RemuxRuntimeMismatch], dvRuntime = Some runtime\<rparr>
                      else case availableRemuxFile files paths (bcPlaylistFileID playlist) of
                        None \<Rightarrow> Some (rejectRemux RemuxFileUnavailable)
                      | Some playlistFile \<Rightarrow>
                          if \<not> NumberedPlaylist (Base playlistPath) then Some (rejectRemux RemuxFileUnavailable)
                          else if Base (Dir playlistPath) \<noteq> ''PLAYLIST'' \<or> Base (Dir (Dir playlistPath)) \<noteq> ''BDMV''
                          then Some (rejectRemux RemuxPlaylistMismatch)
                          else map_option (\<lambda>clips.
                                 case clips of
                                   None \<Rightarrow> rejectRemux RemuxFileUnavailable
                                 | Some (authorizedClips, bytes) \<Rightarrow>
                                     \<lparr>dvAuthorized = Some
                                        \<lparr>arCaseID = rcCaseID request, arCapabilityID = cpCapabilityID capability,
                                         arPlaylist = playlistFile, arClips = authorizedClips, arSourceBytes = bytes,
                                         arExpectedDurationMS = plDurationMS details, arExpectedChapters = plChapters details,
                                         arExpectedTracks = plTracks details,
                                         arRuntimeToleranceMS = the (raToleranceMS runtime)\<rparr>,
                                      dvRejections = [], dvRuntime = Some runtime\<rparr>)
                               (remux_clips files paths (Join [Dir (Dir playlistPath), ''STREAM'']) (plClipPaths details) 0
                                  (bcClipFileIDs playlist) [] 0))
              | _ \<Rightarrow> Some (rejectRemux RemuxPlaylistMismatch))"

definition ValidateRemux :: "'v assembly \<Rightarrow> repair_decision \<Rightarrow> authorized_remux disc_validation option" where
  "ValidateRemux assembly decision = ValidateRemuxWithPolicy assembly decision default_policy"

record authorized_dvd =
  adCaseID :: string
  adCapabilityID :: string
  adNavigation :: authorized_file
  adSources :: "authorized_file list"
  adTitleNumber :: int
  adExpectedDurationMS :: int
  adExpectedChapters :: int
  adExpectedTracks :: "disc_track list"
  adSourceBytes :: int
  adRuntimeToleranceMS :: int

definition rejectDVD :: "remux_rejection \<Rightarrow> authorized_dvd disc_validation" where
  "rejectDVD reason = \<lparr>dvAuthorized = None, dvRejections = [reason], dvRuntime = None\<rparr>"

definition dvd_track_matches :: "disc_track \<Rightarrow> offered_track \<Rightarrow> bool" where
  "dvd_track_matches track offered \<longleftrightarrow>
     \<not> (tkKind track \<noteq> otKind offered \<or> tkCodec track \<noteq> otCodec offered \<or>
        (tkLanguage track = [] \<and> otLanguage offered \<noteq> None) \<or>
        (tkLanguage track \<noteq> [] \<and> (otLanguage offered = None \<or> tkLanguage track \<noteq> the (otLanguage offered))))"

fun dvd_sources ::
  "(string \<rightharpoonup> inventory_file) \<Rightarrow> (string \<rightharpoonup> string) \<Rightarrow> string \<Rightarrow> string list \<Rightarrow>
   authorized_file list \<Rightarrow> int \<Rightarrow> (authorized_file list \<times> int) option" where
  "dvd_sources files paths directory [] sources bytes = Some (sources, bytes)"
| "dvd_sources files paths directory (fileID # rest) sources bytes =
     (case availableRemuxFile files paths fileID of
        None \<Rightarrow> None
      | Some source \<Rightarrow>
          if Dir (path_at paths fileID) \<noteq> directory \<or>
             snSizeBytes (afFingerprint source) > wrap64 (max_int64 - bytes)
          then None
          else dvd_sources files paths directory rest (sources @ [source])
                 (wrap64 (bytes + snSizeBytes (afFingerprint source))))"

definition ValidateDVDWithPolicy ::
  "'v assembly \<Rightarrow> repair_decision \<Rightarrow> runtime_policy \<Rightarrow> authorized_dvd disc_validation" where
  "ValidateDVDWithPolicy assembly decision policy =
     (let request = asRequest assembly; snap = asLocalSnapshot assembly; observation = lsObservation snap
      in case rdRemuxDVD decision of
        None \<Rightarrow> rejectDVD RemuxWrongDecision
      | Some remux \<Rightarrow>
          if rdKind decision \<noteq> ActionRemuxDVD \<or> ddAction remux \<noteq> ActionRemuxDVD
          then rejectDVD RemuxWrongDecision
          else if ddCaseID remux \<noteq> rcCaseID request \<or> lsCaseID snap \<noteq> rcCaseID request
          then rejectDVD RemuxCaseMismatch
          else case findCapability (rcCapabilities request) (ddCapabilityID remux) of
            None \<Rightarrow> rejectDVD RemuxCapabilityMissing
          | Some capability \<Rightarrow>
              if cpAction capability \<noteq> CapabilityActionRemuxDVD \<or> cpNavigationFileID capability = None \<or>
                 cpTitleNumber capability = None \<or> cpTitleSet capability = None \<or> cpTitleInSet capability = None \<or>
                 cpAngleCount capability = None \<or> cpDurationMS capability = None \<or> cpChapterCount capability = None \<or>
                 cpSourceFileIDS capability = [] \<or> cpTracks capability = []
              then rejectDVD RemuxCapabilityMissing
              else case single_candidate (\<lambda>candidate.
                            Some (tcNavigationFileID candidate) = cpNavigationFileID capability \<and>
                            Some (dtNumber (tcDetails candidate)) = cpTitleNumber capability)
                          (obDVDTitles observation) None of
                Some (Some title) \<Rightarrow>
                  (let details = tcDetails title;
                       files = indexFiles (obInventory observation);
                       paths = indexPaths (invPaths (obInventory observation));
                       navigationPath = path_at paths (tcNavigationFileID title);
                       runtime = assessManualImportRuntime (dtDurationMS details) (movieRuntime (obMovie observation)) policy
                   in if Some (dtDurationMS details) \<noteq> cpDurationMS capability \<or>
                         Some (dtChapters details) \<noteq> cpChapterCount capability \<or>
                         Some (dtTitleSet details) \<noteq> cpTitleSet capability \<or>
                         Some (dtTitleInSet details) \<noteq> cpTitleInSet capability \<or>
                         Some (dtAngles details) \<noteq> cpAngleCount capability \<or> dtAngles details \<noteq> 1 \<or>
                         length (dtTracks details) \<noteq> length (cpTracks capability) \<or>
                         tcSourceFileIDs title \<noteq> cpSourceFileIDS capability
                      then rejectDVD RemuxPlaylistMismatch
                      else if \<not> list_all2 dvd_track_matches (dtTracks details) (cpTracks capability)
                      then rejectDVD RemuxPlaylistMismatch
                      else if \<not> known_runtime (obMovie observation) then rejectDVD RemuxRuntimeMissing
                      else if raDifferenceMS runtime = None \<or> the (raDifferenceMS runtime) > the (raToleranceMS runtime)
                      then \<lparr>dvAuthorized = None, dvRejections = [RemuxRuntimeMismatch], dvRuntime = Some runtime\<rparr>
                      else case availableRemuxFile files paths (tcNavigationFileID title) of
                        None \<Rightarrow> rejectDVD RemuxFileUnavailable
                      | Some navigation \<Rightarrow>
                          if Base navigationPath \<noteq> ''VIDEO_TS.IFO'' then rejectDVD RemuxPlaylistMismatch
                          else case dvd_sources files paths (Dir navigationPath) (tcSourceFileIDs title) [] 0 of
                            None \<Rightarrow> rejectDVD RemuxFileUnavailable
                          | Some (sources, bytes) \<Rightarrow>
                              if \<not> list_ex (\<lambda>source. afFileID source = afFileID navigation) sources
                              then rejectDVD RemuxFileUnavailable
                              else \<lparr>dvAuthorized = Some
                                      \<lparr>adCaseID = rcCaseID request, adCapabilityID = cpCapabilityID capability,
                                       adNavigation = navigation, adSources = sources, adTitleNumber = dtNumber details,
                                       adExpectedDurationMS = dtDurationMS details, adExpectedChapters = dtChapters details,
                                       adExpectedTracks = dtTracks details, adSourceBytes = bytes,
                                       adRuntimeToleranceMS = the (raToleranceMS runtime)\<rparr>,
                                    dvRejections = [], dvRuntime = Some runtime\<rparr>)
              | _ \<Rightarrow> rejectDVD RemuxPlaylistMismatch)"

definition ValidateDVD :: "'v assembly \<Rightarrow> repair_decision \<Rightarrow> authorized_dvd disc_validation" where
  "ValidateDVD assembly decision = ValidateDVDWithPolicy assembly decision default_policy"

end
