(* ===== verification/Join_Identity.thy ===== *)
theory Join_Identity
  imports Decision_Policy
begin

text \<open>
  The identity of the execution of an authorized join (\<open>internal/casestore\<close>): the digest of its JSON
  text under a domain. The JSON encoder and the digest are parameters.
\<close>

definition legacyJoinExecutionDomain :: string where
  "legacyJoinExecutionDomain = ''radarr-repair-join-execution-v1'' @ [CHR 0x00]"

definition joinExecutionDomain :: string where
  "joinExecutionDomain = ''radarr-repair-join-execution-v2'' @ [CHR 0x00]"

definition joinExecutionID ::
  "(string \<Rightarrow> string) \<Rightarrow> (authorized_join \<Rightarrow> go_error + string) \<Rightarrow> string \<Rightarrow> authorized_join \<Rightarrow> go_error + string" where
  "joinExecutionID sha256Hex marshal domain authorized =
     (case marshal authorized of
        Inl failure \<Rightarrow> Inl (ErrWrap ''encode join execution identity: '' failure)
      | Inr data \<Rightarrow> Inr (''execution:'' @ sha256Hex (domain @ data)))"

definition JoinExecutionID ::
  "(string \<Rightarrow> string) \<Rightarrow> (authorized_join \<Rightarrow> go_error + string) \<Rightarrow> authorized_join \<Rightarrow> go_error + string" where
  "JoinExecutionID sha256Hex marshal = joinExecutionID sha256Hex marshal joinExecutionDomain"

definition legacyJoinExecutionID ::
  "(string \<Rightarrow> string) \<Rightarrow> (authorized_join \<Rightarrow> go_error + string) \<Rightarrow> authorized_join \<Rightarrow> go_error + string" where
  "legacyJoinExecutionID sha256Hex marshal = joinExecutionID sha256Hex marshal legacyJoinExecutionDomain"

end
