(* ===== verification/Execution_Check.thy ===== *)
theory Execution_Check
  imports Join_Identity
begin

text \<open>
  The check before a decision is executed (\<open>internal/executioncheck\<close>): the stored case and a freshly
  inspected one must both authorize the same action, in the same state, and the action must not
  replace a movie file that Radarr would not replace. Reading the clock, the stability store, the
  case and the join executions is a parameter; \<open>None\<close> stands for a panic of the local policy.
\<close>

section \<open>Authorizations\<close>

primrec join_reason_text :: "join_rejection_reason \<Rightarrow> string" where
  "join_reason_text JoinWrongDecisionAction = ''wrong_decision_action''"
| "join_reason_text JoinCaseMismatch = ''case_mismatch''"
| "join_reason_text JoinCapabilityNotFound = ''capability_not_found''"
| "join_reason_text JoinCapabilityWrongAction = ''capability_wrong_action''"
| "join_reason_text JoinTooFewSelectedFiles = ''too_few_selected_files''"
| "join_reason_text JoinDuplicateSelectedFile = ''duplicate_selected_file''"
| "join_reason_text JoinFileNotOffered = ''file_not_offered''"
| "join_reason_text JoinFileNotInSnapshot = ''file_not_in_snapshot''"
| "join_reason_text JoinFileNotActionable = ''file_not_actionable''"
| "join_reason_text JoinProbeUnavailable = ''probe_unavailable''"
| "join_reason_text JoinTechnicalChecksRejected = ''technical_checks_rejected''"

primrec manual_reason_text :: "manual_rejection_reason \<Rightarrow> string" where
  "manual_reason_text ManualImportWrongDecisionAction = ''wrong_decision_action''"
| "manual_reason_text ManualImportCaseMismatch = ''case_mismatch''"
| "manual_reason_text ManualImportCapabilityNotFound = ''capability_not_found''"
| "manual_reason_text ManualImportCapabilityWrongAction = ''capability_wrong_action''"
| "manual_reason_text ManualImportFileMismatch = ''file_mismatch''"
| "manual_reason_text ManualImportBindingNotFound = ''binding_not_found''"
| "manual_reason_text ManualImportBindingIncomplete = ''binding_incomplete''"
| "manual_reason_text ManualImportFileNotInSnapshot = ''file_not_in_snapshot''"
| "manual_reason_text ManualImportFileNotActionable = ''file_not_actionable''"
| "manual_reason_text ManualImportFingerprintChanged = ''fingerprint_changed''"
| "manual_reason_text ManualImportPathChanged = ''path_changed''"
| "manual_reason_text ManualImportDownloadMismatch = ''download_mismatch''"
| "manual_reason_text ManualImportMovieMismatch = ''movie_mismatch''"
| "manual_reason_text ManualImportProbeUnavailable = ''probe_unavailable''"
| "manual_reason_text ManualImportVideoMissing = ''video_missing''"
| "manual_reason_text ManualImportDurationUnavailable = ''duration_unavailable''"
| "manual_reason_text ManualImportRuntimeMismatch = ''runtime_mismatch''"

primrec remux_reason_text :: "remux_rejection \<Rightarrow> string" where
  "remux_reason_text RemuxWrongDecision = ''wrong_decision''"
| "remux_reason_text RemuxCaseMismatch = ''case_mismatch''"
| "remux_reason_text RemuxCapabilityMissing = ''capability_missing''"
| "remux_reason_text RemuxPlaylistMismatch = ''playlist_mismatch''"
| "remux_reason_text RemuxFileUnavailable = ''file_unavailable''"
| "remux_reason_text RemuxRuntimeMissing = ''runtime_missing''"
| "remux_reason_text RemuxRuntimeMismatch = ''runtime_mismatch''"

record authorization =
  auJoin :: "authorized_join option"
  auManualImport :: "authorized_import option"
  auRemux :: "authorized_remux option"
  auDVD :: "authorized_dvd option"

definition no_authorization :: authorization where
  "no_authorization = \<lparr>auJoin = None, auManualImport = None, auRemux = None, auDVD = None\<rparr>"

text \<open>The authorization, the first reason against it, the runtimes that were compared, and whether it is granted.\<close>

type_synonym verdict = "authorization \<times> string \<times> runtime_assessment option \<times> bool"

definition verdict_of ::
  "bool \<Rightarrow> authorization \<Rightarrow> string list \<Rightarrow> runtime_assessment option \<Rightarrow> verdict" where
  "verdict_of accepted authorization reasons runtime =
     (if accepted then (authorization, [], runtime, True)
      else case reasons of
        reason # _ \<Rightarrow> (no_authorization, reason, runtime, False)
      | [] \<Rightarrow> (no_authorization, [], None, False))"

definition Authorize :: "'v assembly \<Rightarrow> repair_decision \<Rightarrow> runtime_policy \<Rightarrow> verdict option" where
  "Authorize assembly decision policy =
     (if rdKind decision = ActionJoinParts
      then map_option (\<lambda>validation. verdict_of (join_accepted validation)
             (no_authorization\<lparr>auJoin := jvAuthorized validation\<rparr>)
             (map (join_reason_text \<circ> jrReason) (jvRejections validation)) None)
           (ValidateJoin assembly decision)
      else if rdKind decision = ActionManualImportFile
      then (let validation = ValidateManualImportWithPolicy assembly decision policy
            in Some (verdict_of (manual_accepted validation)
                 (no_authorization\<lparr>auManualImport := mnAuthorized validation\<rparr>)
                 (map manual_reason_text (mnRejections validation)) (mnRuntime validation)))
      else if rdKind decision = ActionRemuxBluray
      then map_option (\<lambda>validation. verdict_of (disc_accepted validation)
             (no_authorization\<lparr>auRemux := dvAuthorized validation\<rparr>)
             (map remux_reason_text (dvRejections validation)) (dvRuntime validation))
           (ValidateRemuxWithPolicy assembly decision policy)
      else if rdKind decision = ActionRemuxDVD
      then (let validation = ValidateDVDWithPolicy assembly decision policy
            in Some (verdict_of (disc_accepted validation)
                 (no_authorization\<lparr>auDVD := dvAuthorized validation\<rparr>)
                 (map remux_reason_text (dvRejections validation)) (dvRuntime validation)))
      else Some (no_authorization, [], None, False))"

section \<open>Replacing a movie file\<close>

datatype check_reason =
    DecisionRejected | StabilizationPending | CaseUnavailable | CaseChanged | AuthorizationChanged
  | SupersededReplacement | UnprovedReplacement | JoinExecutionPresent

fun matched_import :: "string \<Rightarrow> manual_import list \<Rightarrow> manual_import option \<Rightarrow> manual_import option option" where
  "matched_import path [] matched = Some matched"
| "matched_import path (candidate # rest) matched =
     (if miPath candidate \<noteq> path then matched_import path rest matched
      else if matched \<noteq> None then None
      else matched_import path rest (Some candidate))"

definition replacementForPath :: "'v assembly \<Rightarrow> string \<Rightarrow> replacement_safety" where
  "replacementForPath assembly path =
     (let observation = lsObservation (asLocalSnapshot assembly)
      in case matched_import path (obManualImports observation) None of
           Some (Some matched) \<Rightarrow> ClassifyReplacement (obMovie observation) matched
         | _ \<Rightarrow> ReplacementUnproved)"

fun inventory_path_loop :: "string \<Rightarrow> file_path_mapping list \<Rightarrow> string option \<Rightarrow> string option" where
  "inventory_path_loop fileID [] found = found"
| "inventory_path_loop fileID (candidate # rest) found =
     (if pmFileID candidate \<noteq> fileID then inventory_path_loop fileID rest found
      else if found \<noteq> None then None
      else inventory_path_loop fileID rest (Some (pmAbsolutePath candidate)))"

definition inventoryPath :: "'v assembly \<Rightarrow> string \<Rightarrow> string option" where
  "inventoryPath assembly fileID =
     inventory_path_loop fileID (invPaths (obInventory (lsObservation (asLocalSnapshot assembly)))) None"

definition rejectionForReplacement :: "replacement_safety \<Rightarrow> check_reason option" where
  "rejectionForReplacement safety =
     (case safety of
        ReplacementAllowed \<Rightarrow> None
      | ReplacementSuperseded \<Rightarrow> Some SupersededReplacement
      | _ \<Rightarrow> Some UnprovedReplacement)"

fun replacement_loop :: "'v assembly \<Rightarrow> authorized_file list \<Rightarrow> bool \<Rightarrow> check_reason option" where
  "replacement_loop assembly [] unproved = (if unproved then Some UnprovedReplacement else None)"
| "replacement_loop assembly (part # rest) unproved =
     (case inventoryPath assembly (afFileID part) of
        None \<Rightarrow> replacement_loop assembly rest True
      | Some path \<Rightarrow>
          (let safety = replacementForPath assembly path
           in if safety = ReplacementSuperseded then Some SupersededReplacement
              else replacement_loop assembly rest (unproved \<or> safety \<noteq> ReplacementAllowed)))"

definition ReplacementRejection :: "'v assembly \<Rightarrow> authorization \<Rightarrow> check_reason option" where
  "ReplacementRejection assembly authorization =
     (case obMovie (lsObservation (asLocalSnapshot assembly)) of
        None \<Rightarrow> None
      | Some movie \<Rightarrow>
          if \<not> mvHasFile movie then None
          else case auManualImport authorization of
            Some manualImport \<Rightarrow> rejectionForReplacement (replacementForPath assembly (cfPath (aiFile manualImport)))
          | None \<Rightarrow>
              (case auJoin authorization of
                 None \<Rightarrow> Some UnprovedReplacement
               | Some join \<Rightarrow> replacement_loop assembly (ajOrderedParts join) False))"

section \<open>The check\<close>

record stabilization =
  stStableSince :: gotime
  stCheckedAt :: gotime
  stRequiredAge :: int
  stActualAge :: int

record check_rejection =
  ckReason :: check_reason
  ckDecisionReason :: string
  ckStabilization :: "stabilization option"
  ckRuntime :: "runtime_assessment option"

record check_result =
  crAuthorization :: authorization
  crRejections :: "check_rejection list"

definition result_accepted :: "check_result \<Rightarrow> bool" where
  "result_accepted result \<longleftrightarrow>
     (let authorization = crAuthorization result;
          selected = [auJoin authorization \<noteq> None, auManualImport authorization \<noteq> None,
                      auRemux authorization \<noteq> None, auDVD authorization \<noteq> None]
      in crRejections result = [] \<and> length (filter id selected) = 1)"

definition check_rejected :: "check_reason \<Rightarrow> check_result" where
  "check_rejected reason = \<lparr>crAuthorization = no_authorization,
     crRejections = [\<lparr>ckReason = reason, ckDecisionReason = [], ckStabilization = None, ckRuntime = None\<rparr>]\<rparr>"

definition rejectedDecision :: "check_reason \<Rightarrow> string \<Rightarrow> runtime_assessment option \<Rightarrow> check_result" where
  "rejectedDecision reason decisionReason runtime = \<lparr>crAuthorization = no_authorization,
     crRejections = [\<lparr>ckReason = reason, ckDecisionReason = decisionReason, ckStabilization = None, ckRuntime = runtime\<rparr>]\<rparr>"

datatype inspect_error = CandidateUnavailable | InspectionFailed go_error

text \<open>The answer of the worker to the question for a join execution: a failure, or a state.\<close>

record inspect_join =
  ijFailure :: "string option"
  ijSuccess :: "string option"

definition InspectJoinAbsent :: string where
  "InspectJoinAbsent = ''absent''"

text \<open>A stability time comes with whether its location is UTC.\<close>

record 'v dependencies =
  dpCases :: "(int \<Rightarrow> inspect_error + 'v assembly) option"
  dpClock :: "gotime option"
  dpJoinExecutions :: "(string \<Rightarrow> go_error + inspect_join) option"
  dpStability :: "(string \<Rightarrow> go_error + gotime \<times> bool) option"
  dpStabilization :: int

record 'v checker =
  chCases :: "int \<Rightarrow> inspect_error + 'v assembly"
  chNow :: gotime
  chJoinExecutions :: "string \<Rightarrow> go_error + inspect_join"
  chStability :: "string \<Rightarrow> go_error + gotime \<times> bool"
  chStabilization :: int

definition new_checker :: "'v dependencies \<Rightarrow> go_error + 'v checker" where
  "new_checker dependencies =
     (case dpCases dependencies of
        None \<Rightarrow> Inl (ErrorText ''fresh case reader is required'')
      | Some cases \<Rightarrow>
      (case dpClock dependencies of
        None \<Rightarrow> Inl (ErrorText ''execution check clock is required'')
      | Some now \<Rightarrow>
      (case dpJoinExecutions dependencies of
        None \<Rightarrow> Inl (ErrorText ''join execution state reader is required'')
      | Some joins \<Rightarrow>
      (case dpStability dependencies of
        None \<Rightarrow> Inl (ErrorText ''case stability reader is required'')
      | Some stability \<Rightarrow>
          if dpStabilization dependencies \<le> 0 then Inl (ErrorText ''stabilization interval must be positive'')
          else Inr \<lparr>chCases = cases, chNow = now, chJoinExecutions = joins, chStability = stability,
                    chStabilization = dpStabilization dependencies\<rparr>))))"

definition stability_check :: "'v checker \<Rightarrow> 'v assembly \<Rightarrow> go_error + check_result option" where
  "stability_check checker stored =
     (if qrTrackedDownloadState (crRadarr (obCorrelation (lsObservation (asLocalSnapshot stored)))) \<noteq> ''importPending''
      then Inr None
      else case chStability checker (rcCaseID (asRequest stored)) of
        Inl failure \<Rightarrow> Inl (ErrWrap ''read repair case stability: '' failure)
      | Inr (stableSince, utc) \<Rightarrow>
          if stableSince = zero_time \<or> \<not> utc then Inl (ErrorText ''repair case stability time is invalid'')
          else if chNow checker < stableSince \<or> time_sub (chNow checker) stableSince < chStabilization checker
          then Inr (Some \<lparr>crAuthorization = no_authorization, crRejections =
                 [\<lparr>ckReason = StabilizationPending, ckDecisionReason = [],
                   ckStabilization = Some \<lparr>stStableSince = stableSince, stCheckedAt = chNow checker,
                     stRequiredAge = chStabilization checker, stActualAge = time_sub (chNow checker) stableSince\<rparr>,
                   ckRuntime = None\<rparr>]\<rparr>)
          else Inr None)"

definition join_absent_check ::
  "'v checker \<Rightarrow> (authorized_join \<Rightarrow> go_error + string) \<Rightarrow> authorization \<Rightarrow> go_error + check_result" where
  "join_absent_check checker executionIDOf authorization =
     (let accepted = Inr \<lparr>crAuthorization = authorization, crRejections = []\<rparr>
      in case auJoin authorization of
        None \<Rightarrow> accepted
      | Some join \<Rightarrow>
          (case executionIDOf join of
             Inl failure \<Rightarrow> Inl (ErrWrap ''derive join execution ID: '' failure)
           | Inr executionID \<Rightarrow>
               (case chJoinExecutions checker executionID of
                  Inl failure \<Rightarrow> Inl (ErrWrap ''inspect join execution: '' failure)
                | Inr response \<Rightarrow>
                    (case ijFailure response of
                       Some reason \<Rightarrow> Inl (ErrorText (''inspect join execution: worker failed with reason '' @ quote reason))
                     | None \<Rightarrow>
                         (case ijSuccess response of
                            None \<Rightarrow> Inl (ErrorText ''inspect join execution: worker returned no result'')
                          | Some state \<Rightarrow>
                              if state \<noteq> InspectJoinAbsent then Inr (check_rejected JoinExecutionPresent)
                              else accepted)))))"

definition fresh_check ::
  "'v checker \<Rightarrow> (authorized_join \<Rightarrow> go_error + string) \<Rightarrow> 'v assembly \<Rightarrow> 'v assembly \<Rightarrow> authorization \<Rightarrow> verdict \<Rightarrow>
   go_error + check_result" where
  "fresh_check checker executionIDOf stored fresh storedAuthorization verdict =
     (case verdict of
        (freshAuthorization, decisionReason, runtime, ok) \<Rightarrow>
          if \<not> ok then Inr (rejectedDecision AuthorizationChanged decisionReason runtime)
          else case ReplacementRejection fresh freshAuthorization of
            Some reason \<Rightarrow> Inr (check_rejected reason)
          | None \<Rightarrow>
              if freshAuthorization \<noteq> storedAuthorization then Inr (check_rejected AuthorizationChanged)
              else if \<not> SameCaseState stored fresh then Inr (check_rejected CaseChanged)
              else join_absent_check checker executionIDOf freshAuthorization)"

definition CheckWithPolicy ::
  "(string \<Rightarrow> string) \<Rightarrow> (authorized_join \<Rightarrow> go_error + string) \<Rightarrow> 'v checker option \<Rightarrow> go_error option \<Rightarrow>
   'v assembly \<Rightarrow> repair_decision \<Rightarrow> runtime_policy \<Rightarrow> (go_error + check_result) option" where
  "CheckWithPolicy sha256Hex marshal configured ctxErr stored decision policy =
     (case configured of
        None \<Rightarrow> Some (Inl (ErrorText ''execution checker is not configured''))
      | Some checker \<Rightarrow>
      (case ctxErr of
        Some failure \<Rightarrow> Some (Inl failure)
      | None \<Rightarrow>
      (case Authorize stored decision policy of
        None \<Rightarrow> None
      | Some (storedAuthorization, decisionReason, runtime, ok) \<Rightarrow>
          if \<not> ok then Some (Inr (rejectedDecision DecisionRejected decisionReason runtime))
          else if chNow checker = zero_time then Some (Inl (ErrorText ''clock returned a zero time''))
          else case stability_check checker stored of
            Inl failure \<Rightarrow> Some (Inl failure)
          | Inr (Some pending) \<Rightarrow> Some (Inr pending)
          | Inr None \<Rightarrow>
              (let queueID = qrID (crRadarr (obCorrelation (lsObservation (asLocalSnapshot stored))))
               in case chCases checker queueID of
                    Inl CandidateUnavailable \<Rightarrow> Some (Inr (check_rejected CaseUnavailable))
                  | Inl (InspectionFailed failure) \<Rightarrow>
                      Some (Inl (ErrWrap (''reinspect Radarr queue record '' @ itoa queueID @ '': '') failure))
                  | Inr fresh \<Rightarrow>
                      if rcCaseID (asRequest fresh) \<noteq> rcCaseID (asRequest stored)
                      then Some (Inr (check_rejected CaseChanged))
                      else map_option (fresh_check checker (JoinExecutionID sha256Hex marshal) stored fresh storedAuthorization)
                             (Authorize fresh decision policy)))))"

definition Check ::
  "(string \<Rightarrow> string) \<Rightarrow> (authorized_join \<Rightarrow> go_error + string) \<Rightarrow> 'v checker option \<Rightarrow> go_error option \<Rightarrow>
   'v assembly \<Rightarrow> repair_decision \<Rightarrow> (go_error + check_result) option" where
  "Check sha256Hex marshal configured ctxErr stored decision =
     CheckWithPolicy sha256Hex marshal configured ctxErr stored decision default_policy"

end
