(* ===== verification/Stream_Properties.thy ===== *)
theory Stream_Properties
  imports Stream_Compatibility
begin

text \<open>
  What the stream comparison decides: the parts of a join are compatible exactly when their streams
  have one layout, the assessment never reads a missing field, and a joined file matches the layout
  exactly when its streams have the promised fields.
\<close>

section \<open>Two streams\<close>

lemma clean_agrees: "clean_comparison (compareStreams r s) \<longleftrightarrow> stream_agrees r s"
proof
  assume clean: "clean_comparison (compareStreams r s)"
  then obtain kind codec base where fields: "psKind r = Some kind" "psCodecName r = Some codec" "psTimeBase r = Some base"
    by (auto simp: compareStreams_clean_fields)
  consider "kind = ProbeStreamVideo" | "kind = ProbeStreamAudio" | "kind \<noteq> ProbeStreamVideo" "kind \<noteq> ProbeStreamAudio"
    by blast
  then have "entry_of r \<noteq> None \<and> entry_of s \<noteq> None"
    using clean fields
    by cases (auto simp: compareStreams_clean_fields entry_of_def Let_def)
  then obtain e e' where e: "entry_of r = Some e" "entry_of s = Some e'"
    by auto
  then have "same_entry e e'"
    using clean by (auto simp: compareStreams_clean_fields entry_of_Some same_entry_def split: if_splits)
  with e show "stream_agrees r s"
    by (auto simp: stream_agrees_def)
next
  assume "stream_agrees r s"
  then show "clean_comparison (compareStreams r s)"
    by (auto simp: compareStreams_clean_fields stream_agrees_def entry_of_Some same_entry_def split: if_splits)
qed

lemma agrees_sym: "stream_agrees r s \<Longrightarrow> stream_agrees s r"
  by (auto simp: stream_agrees_def same_entry_def)

section \<open>The loops\<close>

lemma compare_loop_clean:
  assumes "length rs = length ss"
  shows "compare_loop rp pp sp rs ss unknown = Inr None \<longleftrightarrow> unknown = None \<and> list_all2 stream_agrees rs ss"
  using assms
proof (induction rs ss arbitrary: sp unknown rule: list_induct2)
  case (Cons r rs s ss)
  have "clean_comparison (compareStreams r s) \<longleftrightarrow> stream_agrees r s"
    by (rule clean_agrees)
  then show ?case
    using Cons.IH by (auto simp: Let_def clean_comparison_def)
qed simp

lemma parts_loop_clean:
  assumes "\<forall>part \<in> set parts. part \<noteq> []"
  shows "parts_loop rp reference position parts unknown = Inr None \<longleftrightarrow>
    unknown = None \<and>
    (\<forall>i < length parts. position + int i \<noteq> rp \<longrightarrow> list_all2 stream_agrees reference (parts ! i))"
  using assms
proof (induction parts arbitrary: position unknown)
  case (Cons part parts)
  have all: "(\<forall>i < length (part # parts). position + int i \<noteq> rp \<longrightarrow> Q ((part # parts) ! i)) \<longleftrightarrow>
      (position \<noteq> rp \<longrightarrow> Q part) \<and> (\<forall>i < length parts. position + 1 + int i \<noteq> rp \<longrightarrow> Q (parts ! i))" for Q
    by (simp add: All_less_Suc2 add.assoc)
  have part: "part \<noteq> []" and rest: "\<forall>part \<in> set parts. part \<noteq> []"
    using Cons.prems by simp_all
  note IH = Cons.IH [OF rest]
  show ?case
  proof (cases "position = rp")
    case True
    then show ?thesis
      using part IH [of "position + 1" unknown] unfolding all by simp
  next
    case other: False
    show ?thesis
    proof (cases "length part = length reference")
      case True
      show ?thesis
        using part other True IH [of "position + 1"] compare_loop_clean [OF True [symmetric], of rp position 0 unknown]
        unfolding all
        by (cases "compare_loop rp position 0 reference part unknown") auto
    next
      case False
      then show ?thesis
        using part other unfolding all by (auto dest: list_all2_lengthD)
    qed
  qed
qed simp

lemma presence_loop_video: "fst (presence_loop streams unknown) \<longleftrightarrow> (\<exists>s \<in> set streams. psKind s = Some ProbeStreamVideo)"
  by (induction streams unknown rule: presence_loop.induct) (auto split: option.splits)

definition has_video_stream :: "probe_stream list \<Rightarrow> bool" where
  "has_video_stream streams \<longleftrightarrow> (\<exists>s \<in> set streams. psKind s = Some ProbeStreamVideo)"

lemma videoPresence_video: "fst (videoPresence (orderedStreams streams)) \<longleftrightarrow> has_video_stream streams"
  by (simp add: videoPresence_def presence_loop_video orderedStreams_def has_video_stream_def)

definition part_streams :: "probe_evidence \<Rightarrow> probe_stream list" where
  "part_streams probe = orderedStreams (peStreams probe)"

lemma part_streams_simps [simp]:
  "set (part_streams p) = set (peStreams p)" "length (part_streams p) = length (peStreams p)"
  by (simp_all add: part_streams_def orderedStreams_def)

lemma part_streams_ne: "has_video_stream (peStreams p) \<Longrightarrow> part_streams p \<noteq> []"
  using part_streams_simps(1) [of p] by (auto simp: has_video_stream_def simp del: part_streams_simps)

lemma order_loop_clean:
  "order_loop position probes acc unknown reference = Inr (streams, None, ref) \<longleftrightarrow>
     unknown = None \<and> (\<forall>p \<in> set probes. has_video_stream (peStreams p)) \<and>
     streams = acc @ map part_streams probes \<and>
     ref = (if reference = None \<and> probes \<noteq> [] then Some position else reference)"
proof (induction probes arbitrary: position acc unknown reference)
  case Nil
  then show ?case
    by auto
next
  case (Cons p probes)
  show ?case
  proof (cases "peStreams p = []")
    case True
    then show ?thesis
      using Cons.IH by (auto simp: has_video_stream_def)
  next
    case False
    obtain v u where vu: "videoPresence (orderedStreams (peStreams p)) = (v, u)"
      by fastforce
    then have "v \<longleftrightarrow> has_video_stream (peStreams p)"
      using videoPresence_video [of "peStreams p"] by simp
    with False vu show ?thesis
      using Cons.IH by (auto simp: Let_def part_streams_def)
  qed
qed

section \<open>The assessment\<close>

lemma agrees_layout:
  assumes "list_all2 stream_agrees rs ss"
  shows "\<exists>layout layout'. layoutFromStreams rs = Some layout \<and> layoutFromStreams ss = Some layout'
    \<and> list_all2 same_entry layout layout'"
  using assms
proof (induction rule: list_all2_induct)
  case (Cons r rs s ss)
  then show ?case
    by (auto simp: stream_agrees_def)
qed simp

lemma layout_agrees:
  assumes "layoutFromStreams rs = Some layout" "layoutFromStreams ss = Some layout'" "list_all2 same_entry layout layout'"
  shows "list_all2 stream_agrees rs ss"
  using assms
proof (induction rs arbitrary: ss layout layout')
  case Nil
  then show ?case
    by (cases ss) (auto split: option.splits)
next
  case (Cons r rs)
  then show ?case
    by (cases ss) (auto simp: stream_agrees_def list_all2_Cons1 split: option.splits)
qed

text \<open>The layout the parts share: every part has a video stream and the entries of the first part.\<close>

definition common_layout :: "probe_evidence list \<Rightarrow> stream_layout \<Rightarrow> bool" where
  "common_layout probes layout \<longleftrightarrow>
     2 \<le> length probes \<and> (\<forall>p \<in> set probes. has_video_stream (peStreams p)) \<and>
     layoutFromStreams (part_streams (hd probes)) = Some layout \<and>
     (\<forall>p \<in> set probes. \<exists>layout'. layoutFromStreams (part_streams p) = Some layout' \<and> list_all2 same_entry layout layout')"

lemma all_nth_tl:
  assumes "2 \<le> length xs"
  shows "(\<forall>i < length (map f xs). 0 + int i \<noteq> 0 \<longrightarrow> P (map f xs ! i)) \<longleftrightarrow> (\<forall>x \<in> set (tl xs). P (f x))"
proof -
  obtain y ys where "xs = y # ys"
    using assms by (cases xs) auto
  then show ?thesis
    by (auto simp: nth_Cons all_set_conv_all_nth split: nat.splits)
qed

lemma assess_clean:
  assumes "2 \<le> length probes"
  shows "(\<exists>streams. order_loop 0 probes [] None None = Inr (streams, None, Some 0) \<and>
      parts_loop 0 (streams ! 0) 0 streams None = Inr None) \<longleftrightarrow>
    (\<forall>p \<in> set probes. has_video_stream (peStreams p)) \<and>
    (\<forall>p \<in> set (tl probes). list_all2 stream_agrees (part_streams (hd probes)) (part_streams p))"
proof -
  have ne: "probes \<noteq> []" "map part_streams probes ! 0 = part_streams (hd probes)"
    using assms by (cases probes; simp)+
  show ?thesis
  proof (cases "\<forall>p \<in> set probes. has_video_stream (peStreams p)")
    case True
    then have "\<forall>part \<in> set (map part_streams probes). part \<noteq> []"
      by (auto dest: part_streams_ne)
    from parts_loop_clean [OF this, of 0 "part_streams (hd probes)" 0 None] all_nth_tl [OF assms]
    have "parts_loop 0 (part_streams (hd probes)) 0 (map part_streams probes) None = Inr None \<longleftrightarrow>
        (\<forall>p \<in> set (tl probes). list_all2 stream_agrees (part_streams (hd probes)) (part_streams p))"
      by simp
    with True ne show ?thesis
      by (simp add: order_loop_clean)
  next
    case False
    then show ?thesis
      by (auto simp: order_loop_clean)
  qed
qed

text \<open>An unknown that was noted is never forgotten.\<close>

lemma compare_loop_unknown: "compare_loop rp pp sp rs ss (Some issue) \<noteq> Inr None"
proof (induction rs arbitrary: sp ss)
  case (Cons r rs)
  then show ?case
    by (cases ss) (simp_all add: Let_def)
qed simp

lemma parts_loop_unknown: "parts_loop rp rs p parts (Some issue) \<noteq> Inr None"
proof (induction parts arbitrary: p issue)
  case (Cons part parts)
  then show ?case
    using compare_loop_unknown [of rp p 0 rs part issue]
    by (auto split: sum.splits option.splits)
qed simp

text \<open>The loops return early only with an incompatibility.\<close>

lemma order_loop_early: "order_loop p probes acc u ref = Inl a \<Longrightarrow> saCompatibility a = StreamsIncompatible \<and> saLayout a = None"
  by (induction probes arbitrary: p acc u ref)
    (auto simp: Let_def streamAssessment_def split: if_splits prod.splits)

lemma compare_loop_early: "compare_loop rp pp sp rs ss u = Inl a \<Longrightarrow> saCompatibility a = StreamsIncompatible \<and> saLayout a = None"
proof (induction rs arbitrary: sp ss u)
  case (Cons r rs)
  then show ?case
    by (cases ss) (auto simp: Let_def streamAssessment_def split: if_splits)
qed simp

lemma parts_loop_early: "parts_loop rp rs p parts u = Inl a \<Longrightarrow> saCompatibility a = StreamsIncompatible \<and> saLayout a = None"
  by (induction parts arbitrary: p u)
    (auto simp: streamAssessment_def split: if_splits sum.splits dest: compare_loop_early)

lemmas early_results = order_loop_early parts_loop_early

lemma assess_compatible:
  assumes "2 \<le> length probes"
  shows "AssessStreamCompatibility probes =
      Some \<lparr>saCompatibility = StreamsCompatible, saIssue = None, saLayout = Some layout\<rparr>
    \<longleftrightarrow> common_layout probes layout" (is "?compatible \<longleftrightarrow> _")
    and "AssessStreamCompatibility probes \<noteq> None"
proof -
  let ?agree = "(\<forall>p \<in> set probes. has_video_stream (peStreams p)) \<and>
    (\<forall>p \<in> set (tl probes). list_all2 stream_agrees (part_streams (hd probes)) (part_streams p))"
  obtain y z ys where probes: "probes = y # z # ys"
    using assms by (cases probes; cases "tl probes") auto
  have layout: "\<exists>l. layoutFromStreams (part_streams (hd probes)) = Some l" if ?agree
    using that probes agrees_layout [of "part_streams y" "part_streams z"] by auto
  have common: "common_layout probes layout \<longleftrightarrow> ?agree \<and> layoutFromStreams (part_streams (hd probes)) = Some layout"
  proof
    assume "common_layout probes layout"
    then show "?agree \<and> layoutFromStreams (part_streams (hd probes)) = Some layout"
      unfolding common_layout_def probes by (auto intro: layout_agrees)
  next
    assume a: "?agree \<and> layoutFromStreams (part_streams (hd probes)) = Some layout"
    have "\<exists>l. layoutFromStreams (part_streams p) = Some l \<and> list_all2 same_entry layout l" if "p \<in> set (tl probes)" for p
      using a that agrees_layout [of "part_streams (hd probes)" "part_streams p"] by auto
    with a assms show "common_layout probes layout"
      unfolding common_layout_def probes by (auto simp: list_all2_same)
  qed
  show "?compatible \<longleftrightarrow> common_layout probes layout" "AssessStreamCompatibility probes \<noteq> None"
  proof -
    consider (early) a where "order_loop 0 probes [] None None = Inl a"
      | (unknown) streams issue ref where "order_loop 0 probes [] None None = Inr (streams, Some issue, ref)"
      | (clean) streams ref where "order_loop 0 probes [] None None = Inr (streams, None, ref)"
      by (cases "order_loop 0 probes [] None None") (auto, metis option.exhaust surj_pair)
    then have "(?compatible \<longleftrightarrow> common_layout probes layout) \<and> AssessStreamCompatibility probes \<noteq> None"
    proof cases
      case early
      then show ?thesis
        using assms assess_clean [OF assms] unfolding common
        by (auto simp: AssessStreamCompatibility_def order_loop_clean dest: early_results)
    next
      case (unknown streams issue ref)
      then show ?thesis
        using assms assess_clean [OF assms] unfolding common
        by (auto simp: AssessStreamCompatibility_def order_loop_clean Let_def parts_loop_unknown
            split: option.splits sum.splits dest: early_results)
    next
      case (clean streams ref)
      have ref: "ref = Some 0"
        using clean [unfolded order_loop_clean] probes by simp
      have streams: "streams ! 0 = part_streams (hd probes)"
        using clean [unfolded order_loop_clean] probes by simp
      have "parts_loop 0 (streams ! 0) 0 streams None = Inr None \<longleftrightarrow> ?agree"
        using assess_clean [OF assms] clean ref by auto
      then show ?thesis
        using assms clean layout unfolding common
        by (auto simp: AssessStreamCompatibility_def ref streams Let_def
            split: sum.splits option.splits dest: early_results)
    qed
    then show "?compatible \<longleftrightarrow> common_layout probes layout" "AssessStreamCompatibility probes \<noteq> None"
      by auto
  qed
qed

section \<open>A joined file\<close>

text \<open>
  A stream of the joined file fits an entry of the layout: the fields are the promised ones, the
  time base is known, and the average rate is the promised one or within the tolerance.
\<close>

definition fits_entry :: "layout_entry \<Rightarrow> probe_stream \<Rightarrow> bool" where
  "fits_entry entry s \<longleftrightarrow>
     psKind s = Some (leKind entry) \<and> psCodecName s = Some (leCodecName entry) \<and>
     psProfile s = leProfile entry \<and> psTimeBase s \<noteq> None \<and>
     (leKind entry = ProbeStreamVideo \<longrightarrow> (\<exists>v rate. leVideo entry = Some v \<and>
        psWidth s = Some (vlWidth v) \<and> psHeight s = Some (vlHeight v) \<and>
        psPixelFormat s = Some (vlPixelFormat v) \<and> psAverageRate s = Some rate \<and>
        (rate = vlAverageRate v \<or>
         rationalWithinRelativeTolerance (vlAverageRate v) rate muxedAverageRateRelativeTolerance))) \<and>
     (leKind entry = ProbeStreamAudio \<longrightarrow> (\<exists>a. leAudio entry = Some a \<and>
        psSampleFormat s = Some (alSampleFormat a) \<and> psSampleRateHz s = Some (alSampleRateHz a) \<and>
        psChannels s = Some (alChannels a) \<and> psChannelLayout s = Some (alChannelLayout a)))"

lemma muxed_clean:
  "(case streamFromLayout entry of
      None \<Rightarrow> False | Some reference \<Rightarrow> clean_comparison (compareMuxedStream reference s)) \<longleftrightarrow> fits_entry entry s"
proof -
  consider "leKind entry = ProbeStreamVideo" | "leKind entry = ProbeStreamAudio"
    | "leKind entry \<noteq> ProbeStreamVideo" "leKind entry \<noteq> ProbeStreamAudio"
    by blast
  then show ?thesis
  proof cases
    case 1
    then show ?thesis
      by (cases "leVideo entry"; cases "psAverageRate s")
        (auto simp: streamFromLayout_def Let_def compareMuxedStream_def compareStreams_clean_fields fits_entry_def
          empty_stream_def)
  next
    case 2
    then show ?thesis
      by (cases "leAudio entry")
        (auto simp: streamFromLayout_def Let_def compareMuxedStream_def compareStreams_clean_fields fits_entry_def
          empty_stream_def)
  next
    case 3
    then show ?thesis
      by (auto simp: streamFromLayout_def Let_def compareMuxedStream_def compareStreams_clean_fields fits_entry_def
          empty_stream_def)
  qed
qed

lemma muxed_loop_fits:
  assumes "length layout = length streams"
  shows "muxed_loop previous layout streams \<longleftrightarrow>
    list_all2 fits_entry layout streams \<and>
    (case previous of None \<Rightarrow> True | Some i \<Rightarrow> streams = [] \<or> psIndex (hd streams) \<noteq> i) \<and>
    successively (\<noteq>) (map psIndex streams)"
  using assms
proof (induction layout streams arbitrary: previous rule: list_induct2)
  case (Cons entry layout s streams)
  have fits: "(case streamFromLayout entry of
      None \<Rightarrow> False | Some reference \<Rightarrow> clean_comparison (compareMuxedStream reference s)) \<longleftrightarrow> fits_entry entry s"
    by (rule muxed_clean)
  show ?case
    using fits Cons.IH [of "Some (psIndex s)"]
    by (cases streams) (auto simp: Let_def clean_comparison_def split: option.splits)
qed (simp split: option.split)

lemma sorted_successive_distinct:
  assumes "sorted (xs :: int list)"
  shows "successively (\<noteq>) xs \<longleftrightarrow> distinct xs"
  using assms by (induction xs rule: induct_list012) auto

lemma MatchesMuxedOutput_fits:
  "MatchesMuxedOutput layout streams \<longleftrightarrow>
     distinct (map psIndex streams) \<and> list_all2 fits_entry layout (orderedStreams streams)"
proof (cases "length streams = length layout")
  case True
  have "sorted (map psIndex (orderedStreams streams))"
    by (simp add: orderedStreams_def)
  then have "successively (\<noteq>) (map psIndex (orderedStreams streams)) \<longleftrightarrow> distinct (map psIndex (orderedStreams streams))"
    by (rule sorted_successive_distinct)
  also have "distinct (map psIndex (orderedStreams streams)) \<longleftrightarrow> distinct (map psIndex streams)"
    by (metis (no_types, lifting) card_distinct distinct_card length_map list.set_map orderedStreams_def
        length_sort set_sort)
  finally show ?thesis
    using True muxed_loop_fits [of layout "orderedStreams streams" None]
    by (auto simp: MatchesMuxedOutput_def orderedStreams_def)
next
  case False
  then show ?thesis
    by (auto simp: MatchesMuxedOutput_def orderedStreams_def dest: list_all2_lengthD)
qed

text \<open>A part of the join, taken as the joined file, fits the common layout.\<close>

lemma entry_fits: "entry_of s = Some e' \<Longrightarrow> same_entry e e' \<Longrightarrow> fits_entry e s"
  by (auto simp: entry_of_Some same_entry_def fits_entry_def split: if_splits)

lemma layout_fits:
  assumes "layoutFromStreams ss = Some layout'" "list_all2 same_entry layout layout'"
  shows "list_all2 fits_entry layout ss"
  using assms
proof (induction ss arbitrary: layout layout')
  case (Cons s ss)
  then show ?case
    by (auto simp: list_all2_Cons2 entry_fits split: option.splits)
qed simp

lemma assess_layout:
  assumes "AssessStreamCompatibility probes = Some a"
  shows "saLayout a = Some layout \<longleftrightarrow> a = \<lparr>saCompatibility = StreamsCompatible, saIssue = None, saLayout = Some layout\<rparr>"
    and "saCompatibility a = StreamsCompatible \<longleftrightarrow> saLayout a \<noteq> None"
  using assms
  by (auto simp: AssessStreamCompatibility_def streamAssessment_def Let_def dest: early_results
      split: if_splits sum.splits prod.splits option.splits)

lemma stream_total: "AssessStreamCompatibility probes \<noteq> None"
proof (cases "2 \<le> length probes")
  case True
  then show ?thesis
    by (rule assess_compatible(2))
qed (simp add: AssessStreamCompatibility_def)

section \<open>Properties\<close>

text \<open>
  C22: the assessment of the streams of the parts of a join never reads a missing field, and it
  finds the parts compatible exactly when there are at least two, each has a video stream, and the
  streams of all of them, by index, are described by the layout of the first one, time bases apart;
  the layout it returns is that one.
\<close>

theorem stream_assessment_decides:
  "\<exists>a. AssessStreamCompatibility probes = Some a
     \<and> (saCompatibility a = StreamsCompatible \<longleftrightarrow> (\<exists>layout. common_layout probes layout))
     \<and> (\<forall>layout. saLayout a = Some layout \<longleftrightarrow> common_layout probes layout)"
proof (cases "2 \<le> length probes")
  case True
  obtain a where a: "AssessStreamCompatibility probes = Some a"
    using stream_total by auto
  have "saLayout a = Some layout \<longleftrightarrow> common_layout probes layout" for layout
    using assess_layout(1) [OF a, of layout] assess_compatible(1) [OF True, of layout] a by simp
  then show ?thesis
    using a assess_layout(2) [OF a] by auto
next
  case False
  then show ?thesis
    by (simp add: AssessStreamCompatibility_def streamAssessment_def common_layout_def)
qed

text \<open>
  C27: a joined file matches the layout exactly when its stream indexes are distinct and, in the
  order of the indexes, every stream fits the entry it was promised.
\<close>

theorem muxed_output_decides:
  "MatchesMuxedOutput layout streams \<longleftrightarrow>
     distinct (map psIndex streams) \<and> list_all2 fits_entry layout (orderedStreams streams)"
  by (rule MatchesMuxedOutput_fits)

text \<open>
  C28: a layout that the assessment of the parts returns accepts the streams of each of the parts
  whose stream indexes are distinct.
\<close>

theorem layout_accepts_parts:
  assumes "AssessStreamCompatibility probes = Some a" "saLayout a = Some layout" "p \<in> set probes"
    and "distinct (map psIndex (peStreams p))"
  shows "MatchesMuxedOutput layout (peStreams p)"
proof -
  have "2 \<le> length probes"
    using assms(1,2) by (auto simp: AssessStreamCompatibility_def streamAssessment_def split: if_splits)
  then have "common_layout probes layout"
    using assess_compatible(1) assess_layout(1) [OF assms(1)] assms(1,2) by metis
  then obtain layout' where "layoutFromStreams (part_streams p) = Some layout'" "list_all2 same_entry layout layout'"
    using assms(3) by (auto simp: common_layout_def)
  then have "list_all2 fits_entry layout (orderedStreams (peStreams p))"
    by (auto dest: layout_fits simp: part_streams_def)
  with assms(4) show ?thesis
    by (simp add: MatchesMuxedOutput_fits)
qed

definition sample_video :: "int \<Rightarrow> probe_stream" where
  "sample_video i = empty_stream\<lparr>psIndex := i, psKind := Some ProbeStreamVideo, psCodecName := Some ''h264'',
     psWidth := Some 1920, psHeight := Some 1080, psPixelFormat := Some ''yuv420p'',
     psAverageRate := Some \<lparr>Numerator = 24000, Denominator = 1001\<rparr>,
     psTimeBase := Some \<lparr>Numerator = 1, Denominator = 1000\<rparr>, psDurationMS := Some 3000000\<rparr>"

definition sample_probe :: "int \<Rightarrow> probe_evidence" where
  "sample_probe i = \<lparr>peFormat = \<lparr>pfNames = [''matroska''], pfLongName = None, pfStreamCount = None,
       pfProgramCount = None, pfStartTimeMS = None, pfDurationMS = Some 3000000, pfSizeBytes = None,
       pfBitRateBPS = None, pfProbeScore = None, pfTags = []\<rparr>,
     peStreams = [sample_video i], pePrograms = [], peChapters = []\<rparr>"

definition sample_layout :: stream_layout where
  "sample_layout = [\<lparr>leKind = ProbeStreamVideo, leCodecName = ''h264'', leProfile = None,
     leTimeBase = \<lparr>Numerator = 1, Denominator = 1000\<rparr>,
     leVideo = Some \<lparr>vlWidth = 1920, vlHeight = 1080, vlPixelFormat = ''yuv420p'',
       vlAverageRate = \<lparr>Numerator = 24000, Denominator = 1001\<rparr>\<rparr>, leAudio = None\<rparr>]"

lemma sample_assessed:
  "AssessStreamCompatibility [sample_probe 0, sample_probe 1] =
     Some \<lparr>saCompatibility = StreamsCompatible, saIssue = None, saLayout = Some sample_layout\<rparr>"
  by (simp add: AssessStreamCompatibility_def sample_probe_def sample_video_def empty_stream_def sample_layout_def
      orderedStreams_def videoPresence_def compareStreams_def compareRequiredField_def compareOptionalField_def
      entry_of_def Let_def)

theorem layout_accepts_parts_witness:
  "MatchesMuxedOutput sample_layout [sample_video 1]"
  using layout_accepts_parts [OF sample_assessed, of sample_layout "sample_probe 1"]
  by (simp add: sample_probe_def)

end
