(* ===== verification/Feasibility_Properties.thy ===== *)
theory Feasibility_Properties
  imports Join_Feasibility Stream_Properties
begin

text \<open>
  What the assessment of a join shows: the sums of sizes and durations are exact and fit 64 bits,
  the duration of a file is decided by its probes, and an eligible join is one in every respect.
\<close>

section \<open>64-bit sums\<close>

lemma room_left:
  assumes "0 \<le> bytes" "bytes \<le> max_int64"
  shows "wrap64 (max_int64 - bytes) = max_int64 - bytes"
  using assms by (intro wrap64_id) (simp add: in_int64_def min_int64_def max_int64_def)

lemma sum_fits:
  assumes "0 \<le> bytes" "0 \<le> extra" "bytes + extra \<le> max_int64"
  shows "wrap64 (bytes + extra) = bytes + extra"
  using assms by (intro wrap64_id) (simp add: in_int64_def min_int64_def max_int64_def)

lemma difference_fits:
  assumes "0 < a" "0 < b" "in_int64 a" "in_int64 b"
  shows "wrap64 (a - b) = a - b"
  using assms by (intro wrap64_id) (simp add: in_int64_def min_int64_def max_int64_def)

section \<open>Structure\<close>

definition part_size :: "join_part \<Rightarrow> int" where
  "part_size part = snSizeBytes (jpFingerprint part)"

lemma structure_loop_total:
  assumes "0 \<le> bytes" "bytes \<le> max_int64"
  shows "structure_loop position parts seen bytes = Inr n \<longleftrightarrow>
    (\<forall>p \<in> set parts. jpFileID p \<noteq> [] \<and> jpFileID p \<notin> seen \<and> 0 < part_size p) \<and>
    distinct (map jpFileID parts) \<and> n = bytes + sum_list (map part_size parts) \<and> n \<le> max_int64"
  using assms
proof (induction parts arbitrary: position seen bytes)
  case (Cons p parts)
  have size: "snSizeBytes (jpFingerprint p) = part_size p"
    by (simp add: part_size_def)
  have nonneg: "0 \<le> sum_list (map part_size parts)" if "\<forall>p \<in> set parts. 0 < part_size p"
    using that by (intro sum_list_nonneg) (auto intro: less_imp_le)
  show ?case
  proof (cases "jpFileID p = [] \<or> jpFileID p \<in> seen \<or> part_size p \<le> 0")
    case True
    then show ?thesis
      by (auto simp: size Let_def)
  next
    case ok: False
    show ?thesis
    proof (cases "part_size p > max_int64 - bytes")
      case True
      then show ?thesis
        using ok Cons.prems nonneg by (fastforce simp: size Let_def room_left)
    next
      case False
      then have "structure_loop position (p # parts) seen bytes =
          structure_loop (position + 1) parts (insert (jpFileID p) seen) (bytes + part_size p)"
        using ok Cons.prems by (auto simp: size Let_def room_left sum_fits)
      moreover have "0 \<le> bytes + part_size p" "bytes + part_size p \<le> max_int64"
        using False ok Cons.prems by auto
      ultimately show ?thesis
        using Cons.IH [of "bytes + part_size p" "position + 1" "insert (jpFileID p) seen"] ok
        by (auto simp: image_iff)
    qed
  qed
qed auto

section \<open>Durations\<close>

definition av_durations :: "probe_stream list \<Rightarrow> int set" where
  "av_durations streams =
     {d. \<exists>s \<in> set streams. (psKind s = Some ProbeStreamVideo \<or> psKind s = Some ProbeStreamAudio)
        \<and> psDurationMS s = Some d \<and> 0 < d}"

lemma av_durations_simps [simp]:
  "av_durations [] = {}"
  "av_durations (s # ss) =
     (if psKind s = Some ProbeStreamVideo \<or> psKind s = Some ProbeStreamAudio
      then (case usableDuration (psDurationMS s) of Some d \<Rightarrow> insert d (av_durations ss) | None \<Rightarrow> av_durations ss)
      else av_durations ss)"
  by (auto simp: av_durations_def usableDuration_def split: option.splits)

lemma finite_av_durations [simp]: "finite (av_durations streams)"
  by (induction streams) (auto split: option.split)

lemma Max_insert_le:
  assumes "finite A" "(x :: int) \<le> y"
  shows "Max (insert y (insert x A)) = Max (insert y A)" "Max (insert x (insert y A)) = Max (insert y A)"
proof -
  show "Max (insert y (insert x A)) = Max (insert y A)"
    using assms by (cases "A = {}") auto
  then show "Max (insert x (insert y A)) = Max (insert y A)"
    by (simp only: insert_commute)
qed

lemma longest_loop_Max:
  "longest_loop streams longest =
     (let D = av_durations streams \<union> set_option longest in if D = {} then None else Some (Max D))"
proof (induction streams arbitrary: longest)
  case Nil
  then show ?case
    by (cases longest) (simp_all add: Let_def)
next
  case (Cons s streams)
  show ?case
    using Cons.IH [of longest]
      Cons.IH [of "Some d" for d]
    by (cases longest) (auto simp: Let_def Max_insert_le simp del: Max_insert split: option.splits)
qed

definition longest_av :: "probe_stream list \<Rightarrow> int option" where
  "longest_av streams = (if av_durations streams = {} then None else Some (Max (av_durations streams)))"

lemma longestAV_eq: "longestAVStreamDuration streams = longest_av streams"
  by (simp add: longestAVStreamDuration_def longest_loop_Max longest_av_def Let_def)

text \<open>
  The duration of a file: the longer one of the format's and of the longest stream's duration, if
  they agree within a second.
\<close>

definition format_duration :: "probe_evidence \<Rightarrow> int option" where
  "format_duration ev = usableDuration (pfDurationMS (peFormat ev))"

definition known_duration :: "probe_evidence \<Rightarrow> int option" where
  "known_duration ev =
     (case (format_duration ev, longest_av (peStreams ev)) of
        (None, d) \<Rightarrow> d
      | (d, None) \<Rightarrow> d
      | (Some x, Some y) \<Rightarrow> if \<bar>x - y\<bar> \<le> 1000 then Some (max x y) else None)"

definition durations_conflict :: "probe_evidence \<Rightarrow> bool" where
  "durations_conflict ev =
     (case (format_duration ev, longest_av (peStreams ev)) of
        (Some x, Some y) \<Rightarrow> 1000 < \<bar>x - y\<bar>
      | _ \<Rightarrow> False)"

definition duration_slack :: "probe_evidence \<Rightarrow> int" where
  "duration_slack ev =
     (case (format_duration ev, longest_av (peStreams ev)) of
        (Some x, Some y) \<Rightarrow> \<bar>x - y\<bar>
      | _ \<Rightarrow> 1000)"

definition durations_fit :: "probe_evidence \<Rightarrow> bool" where
  "durations_fit ev \<longleftrightarrow>
     (\<forall>d. pfDurationMS (peFormat ev) = Some d \<longrightarrow> in_int64 d) \<and>
     (\<forall>s \<in> set (peStreams ev). \<forall>d. psDurationMS s = Some d \<longrightarrow> in_int64 d)"

lemma usable_positive: "usableDuration d = Some x \<longleftrightarrow> d = Some x \<and> 0 < x"
  by (auto simp: usableDuration_def split: option.splits)

lemma format_duration_range:
  assumes "durations_fit ev" "format_duration ev = Some x"
  shows "0 < x" "in_int64 x"
  using assms by (auto simp: durations_fit_def format_duration_def usable_positive)

lemma longest_av_range:
  assumes "durations_fit ev" "longest_av (peStreams ev) = Some y"
  shows "0 < y" "in_int64 y"
proof -
  have ne: "av_durations (peStreams ev) \<noteq> {}" and y: "y = Max (av_durations (peStreams ev))"
    using assms(2) by (auto simp: longest_av_def split: if_splits)
  have "y \<in> av_durations (peStreams ev)"
    unfolding y by (rule Max_in) (simp_all add: ne)
  then show "0 < y" "in_int64 y"
    using assms(1) by (auto simp: av_durations_def durations_fit_def)
qed

lemma probe_duration:
  assumes "durations_fit ev"
  shows "daFormatMS (AssessProbeDuration ev) = format_duration ev"
    and "daLongestStreamMS (AssessProbeDuration ev) = longest_av (peStreams ev)"
    and "daEffectiveMS (AssessProbeDuration ev) = known_duration ev"
    and "daConflict (AssessProbeDuration ev) = durations_conflict ev"
proof -
  have fits: "wrap64 (x - y) = x - y" "wrap64 (y - x) = y - x"
    if "format_duration ev = Some x" "longest_av (peStreams ev) = Some y" for x y
    using that assms format_duration_range longest_av_range by (simp_all add: difference_fits)
  let ?a = "AssessProbeDuration ev"
  have "daFormatMS ?a = format_duration ev \<and> daLongestStreamMS ?a = longest_av (peStreams ev) \<and>
      daEffectiveMS ?a = known_duration ev \<and> daConflict ?a = durations_conflict ev"
  proof (cases "format_duration ev")
    case None
    then show ?thesis
      by (cases "longest_av (peStreams ev)")
        (simp_all add: AssessProbeDuration_def Let_def longestAV_eq known_duration_def durations_conflict_def
          format_duration_def)
  next
    case f: (Some x)
    show ?thesis
    proof (cases "longest_av (peStreams ev)")
      case None
      with f show ?thesis
        by (simp add: AssessProbeDuration_def Let_def longestAV_eq known_duration_def durations_conflict_def
            format_duration_def)
    next
      case (Some y)
      with f fits [OF f Some] show ?thesis
        by (simp add: AssessProbeDuration_def Let_def longestAV_eq known_duration_def durations_conflict_def
            format_duration_def [symmetric] durationAgreementToleranceMS_def)
    qed
  qed
  then show "daFormatMS ?a = format_duration ev" "daLongestStreamMS ?a = longest_av (peStreams ev)"
    "daEffectiveMS ?a = known_duration ev" "daConflict ?a = durations_conflict ev"
    by simp_all
qed

lemma conflict_unknown: "durations_conflict ev \<Longrightarrow> known_duration ev = None"
  by (auto simp: durations_conflict_def known_duration_def split: option.splits if_splits)

lemma known_positive:
  assumes "durations_fit ev" "known_duration ev = Some d"
  shows "0 < d"
  using assms format_duration_range longest_av_range
  by (auto simp: known_duration_def max_def split: option.splits if_splits)

lemma slack_bounds: "durations_fit ev \<Longrightarrow> 0 \<le> duration_slack ev"
  by (auto simp: duration_slack_def split: option.splits)

lemma slack_of_assessment:
  assumes "durations_fit ev"
  shows "(case (daFormatMS (AssessProbeDuration ev), daLongestStreamMS (AssessProbeDuration ev)) of
      (Some f, Some s) \<Rightarrow> absoluteDifference f s | _ \<Rightarrow> durationAgreementToleranceMS) = duration_slack ev"
  using assms format_duration_range longest_av_range
  by (auto simp: probe_duration duration_slack_def absoluteDifference_def durationAgreementToleranceMS_def
      difference_fits split: option.splits)

lemma duration_loop_sums:
  assumes "\<forall>ev \<in> set evs. durations_fit ev"
    and "0 \<le> expected" "expected \<le> max_int64" "0 \<le> tolerance" "tolerance \<le> max_int64"
  shows "duration_loop position (map AssessProbeDuration evs) expected tolerance = Inr (e, t) \<longleftrightarrow>
    (\<forall>ev \<in> set evs. known_duration ev \<noteq> None) \<and>
    e = expected + sum_list (map (\<lambda>ev. the (known_duration ev)) evs) \<and> e \<le> max_int64 \<and>
    t = tolerance + sum_list (map duration_slack evs) \<and> t \<le> max_int64"
  using assms
proof (induction evs arbitrary: position expected tolerance)
  case (Cons ev evs)
  have fit: "durations_fit ev" and fits: "\<forall>ev \<in> set evs. durations_fit ev"
    using Cons.prems by simp_all
  let ?rest = "map AssessProbeDuration evs"
  have known_sum: "0 \<le> sum_list (map (\<lambda>ev. the (known_duration ev)) evs)" if "\<forall>ev \<in> set evs. known_duration ev \<noteq> None"
    using that fits known_positive by (intro sum_list_nonneg) (fastforce intro: less_imp_le)
  have slack_sum: "0 \<le> sum_list (map duration_slack evs)"
    using fits by (intro sum_list_nonneg) (auto simp: slack_bounds)
  have slack: "0 \<le> duration_slack ev"
    using fit by (rule slack_bounds)
  show ?case
  proof (cases "known_duration ev")
    case None
    then show ?thesis
      using fit by (simp add: probe_duration)
  next
    case (Some d)
    have d: "0 < d"
      using fit Some by (rule known_positive)
    have no_conflict: "\<not> durations_conflict ev"
      using Some conflict_unknown by auto
    have unfolded: "duration_loop position (map AssessProbeDuration (ev # evs)) expected tolerance =
      (if d > max_int64 - expected \<or> duration_slack ev > max_int64 - tolerance
       then Inl \<lparr>jdReason = JoinDurationOverflow, jdPartPosition = Some position\<rparr>
       else duration_loop (position + 1) ?rest (expected + d) (tolerance + duration_slack ev))"
      using Cons.prems fit no_conflict Some d slack
      by (simp add: probe_duration(3,4) slack_of_assessment [simplified] room_left sum_fits Let_def)
    show ?thesis
    proof (cases "d > max_int64 - expected \<or> duration_slack ev > max_int64 - tolerance")
      case True
      then show ?thesis
        unfolding unfolded using Some known_sum slack_sum by auto
    next
      case False
      then show ?thesis
        unfolding unfolded using Cons.IH [OF fits, of "expected + d" "tolerance + duration_slack ev" "position + 1"]
          Cons.prems Some d slack by auto
    qed
  qed
qed auto

section \<open>Containers\<close>

lemma input_loop_confirmed:
  "input_loop want position observations missing =
     \<lparr>iaStatus = InputContainerConfirmed, iaContainer = Some c, iaIssue = None\<rparr> \<longleftrightarrow>
   c = want \<and> missing = None \<and>
   (\<forall>ob \<in> set observations. containerForExtension (ioExtension ob) = Some want
      \<and> container_text want \<in> set (ioFormatNames ob))"
proof (induction observations arbitrary: position missing)
  case Nil
  then show ?case
    by (auto simp: inputContainerFailure_def split: option.split)
next
  case (Cons ob observations)
  then show ?case
    by (auto simp: inputContainerFailure_def containsFormatName_def list_ex_iff split: option.splits)
qed

lemma input_confirmed:
  assumes "iaStatus (AssessInputContainer observations) = InputContainerConfirmed"
  obtains want where "AssessInputContainer observations =
      \<lparr>iaStatus = InputContainerConfirmed, iaContainer = Some want, iaIssue = None\<rparr>"
    "\<forall>ob \<in> set observations. containerForExtension (ioExtension ob) = Some want
      \<and> container_text want \<in> set (ioFormatNames ob)"
proof -
  have loop: "iaStatus (input_loop want p obs missing) = InputContainerConfirmed \<Longrightarrow>
      input_loop want p obs missing = \<lparr>iaStatus = InputContainerConfirmed, iaContainer = Some want, iaIssue = None\<rparr>"
    for want p obs missing
    by (induction obs arbitrary: p missing)
      (auto simp: inputContainerFailure_def split: option.splits if_splits)
  obtain want where want: "AssessInputContainer observations = input_loop want 0 observations None"
    using assms by (auto simp: AssessInputContainer_def inputContainerFailure_def split: if_splits option.splits)
  with assms loop have confirmed: "AssessInputContainer observations =
      \<lparr>iaStatus = InputContainerConfirmed, iaContainer = Some want, iaIssue = None\<rparr>"
    by simp
  with want input_loop_confirmed [of want 0 observations None want] that show thesis
    by metis
qed

text \<open>The container a join of files with the extension is written to.\<close>

definition joined_container :: "media_extension \<Rightarrow> output_container option" where
  "joined_container extension =
     (case extension of
        MediaExtensionMP4 \<Rightarrow> Some OutputContainerMP4
      | MediaExtensionMKV \<Rightarrow> Some OutputContainerMKV
      | MediaExtensionAVI \<Rightarrow> Some OutputContainerAVI
      | _ \<Rightarrow> None)"

lemma output_container_extension:
  assumes "containerForExtension extension = Some want"
    and "oaContainer (SelectOutputContainer \<lparr>iaStatus = InputContainerConfirmed, iaContainer = Some want, iaIssue = None\<rparr>) = Some out"
  shows "joined_container extension = Some out"
  using assms
  by (cases extension)
    (auto simp: containerForExtension_def SelectOutputContainer_def outputContainerFailure_def joined_container_def)

section \<open>Eligible joins\<close>

lemma coverage_complete:
  assumes "parts \<noteq> []"
  shows "probeCoverage (length parts) (length (filter (\<lambda>p. jpProbe p \<noteq> None) parts)) = ProbeCoverageComplete \<longleftrightarrow>
    (\<forall>p \<in> set parts. jpProbe p \<noteq> None)"
proof -
  have "length (filter (\<lambda>p. jpProbe p \<noteq> None) parts) = length parts \<longleftrightarrow> (\<forall>p \<in> set parts. jpProbe p \<noteq> None)"
  proof
    assume len: "length (filter (\<lambda>p. jpProbe p \<noteq> None) parts) = length parts"
    show "\<forall>p \<in> set parts. jpProbe p \<noteq> None"
    proof (rule ccontr)
      assume "\<not> (\<forall>p \<in> set parts. jpProbe p \<noteq> None)"
      then have "length (filter (\<lambda>p. jpProbe p \<noteq> None) parts) < length parts"
        by (auto intro: length_filter_less)
      with len show False
        by simp
    qed
  qed (simp add: filter_True)
  then show ?thesis
    using assms by (auto simp: probeCoverage_def)
qed

lemma structure_decides:
  "assessJoinStructure parts = Inr n \<longleftrightarrow>
     2 \<le> length parts \<and> (\<forall>p \<in> set parts. jpFileID p \<noteq> [] \<and> 0 < part_size p) \<and>
     distinct (map jpFileID parts) \<and> n = sum_list (map part_size parts) \<and> n \<le> max_int64"
  using structure_loop_total [of 0 0 parts "{}" n] by (auto simp: assessJoinStructure_def max_int64_def)

lemma duration_decides:
  assumes "\<forall>ev \<in> set evs. durations_fit ev"
  shows "jnIssue (AssessJoinDuration evs) = None \<longleftrightarrow>
      2 \<le> length evs \<and> (\<forall>ev \<in> set evs. known_duration ev \<noteq> None) \<and>
      sum_list (map (\<lambda>ev. the (known_duration ev)) evs) \<le> max_int64 \<and>
      1000 + sum_list (map duration_slack evs) \<le> max_int64"
    and "jnIssue (AssessJoinDuration evs) = None \<Longrightarrow>
      jnExpectedMS (AssessJoinDuration evs) = Some (sum_list (map (\<lambda>ev. the (known_duration ev)) evs)) \<and>
      jnToleranceMS (AssessJoinDuration evs) = Some (1000 + sum_list (map duration_slack evs))"
proof -
  have loop: "duration_loop 0 (map AssessProbeDuration evs) 0 joinMuxToleranceMS = Inr (e, t) \<longleftrightarrow>
    (\<forall>ev \<in> set evs. known_duration ev \<noteq> None) \<and>
    e = sum_list (map (\<lambda>ev. the (known_duration ev)) evs) \<and> e \<le> max_int64 \<and>
    t = 1000 + sum_list (map duration_slack evs) \<and> t \<le> max_int64" for e t
    using duration_loop_sums [OF assms, of 0 1000 0 e t] by (simp add: joinMuxToleranceMS_def max_int64_def)
  let ?e = "sum_list (map (\<lambda>ev. the (known_duration ev)) evs)" and ?t = "1000 + sum_list (map duration_slack evs)"
  let ?loop = "duration_loop 0 (map AssessProbeDuration evs) 0 joinMuxToleranceMS"
  let ?fits = "(\<forall>ev \<in> set evs. known_duration ev \<noteq> None) \<and> ?e \<le> max_int64 \<and> ?t \<le> max_int64"
  have "(jnIssue (AssessJoinDuration evs) = None \<longleftrightarrow> 2 \<le> length evs \<and> ?fits) \<and>
    (jnIssue (AssessJoinDuration evs) = None \<longrightarrow>
      jnExpectedMS (AssessJoinDuration evs) = Some ?e \<and> jnToleranceMS (AssessJoinDuration evs) = Some ?t)"
  proof (cases "length evs < 2")
    case True
    then show ?thesis
      by (simp add: AssessJoinDuration_def Let_def)
  next
    case long: False
    show ?thesis
    proof (cases ?loop)
      case (Inl issue)
      then have "\<not> ?fits"
        using loop [of ?e ?t] by auto
      with Inl long show ?thesis
        by (simp add: AssessJoinDuration_def Let_def)
    next
      case (Inr r)
      then obtain a b where ab: "?loop = Inr (a, b)"
        by (cases r) auto
      with loop [of a b] have "?fits" "a = ?e" "b = ?t"
        by auto
      with ab long show ?thesis
        by (simp add: AssessJoinDuration_def Let_def)
    qed
  qed
  then show "jnIssue (AssessJoinDuration evs) = None \<longleftrightarrow>
      2 \<le> length evs \<and> (\<forall>ev \<in> set evs. known_duration ev \<noteq> None) \<and> ?e \<le> max_int64 \<and> ?t \<le> max_int64"
    "jnIssue (AssessJoinDuration evs) = None \<Longrightarrow>
      jnExpectedMS (AssessJoinDuration evs) = Some ?e \<and> jnToleranceMS (AssessJoinDuration evs) = Some ?t"
    by blast+
qed

lemma input_decides:
  assumes "2 \<le> length obs"
  shows "AssessInputContainer obs = \<lparr>iaStatus = InputContainerConfirmed, iaContainer = Some want, iaIssue = None\<rparr> \<longleftrightarrow>
    (\<forall>ob \<in> set obs. containerForExtension (ioExtension ob) = Some want \<and> container_text want \<in> set (ioFormatNames ob))"
proof -
  obtain y z ys where obs: "obs = y # z # ys"
    using assms by (cases obs; cases "tl obs") auto
  show ?thesis
  proof (cases "containerForExtension (ioExtension y)")
    case None
    then show ?thesis
      using assms obs by (auto simp: AssessInputContainer_def inputContainerFailure_def)
  next
    case (Some first)
    then have "AssessInputContainer obs = input_loop first 0 obs None"
      using obs by (simp add: AssessInputContainer_def del: input_loop.simps)
    with Some show ?thesis
      using input_loop_confirmed [of first 0 obs None want] obs by (auto simp del: input_loop.simps)
  qed
qed

lemma part_observation_names:
  assumes "jpProbe p \<noteq> None"
  shows "ioExtension (part_observation p) = jpExtension p"
    and "ioFormatNames (part_observation p) = pfNames (peFormat (part_probe p))"
  using assms by (auto simp: part_observation_def part_probe_def)

text \<open>
  The containers of an eligible join, as a condition on the parts.
\<close>

definition same_container :: "join_part list \<Rightarrow> output_container \<Rightarrow> bool" where
  "same_container parts out \<longleftrightarrow>
     (\<exists>want. \<forall>p \<in> set parts. containerForExtension (jpExtension p) = Some want \<and>
        container_text want \<in> set (pfNames (peFormat (part_probe p))) \<and> joined_container (jpExtension p) = Some out)"

lemma select_confirmed:
  assumes "containerForExtension extension = Some want"
  shows "SelectOutputContainer \<lparr>iaStatus = InputContainerConfirmed, iaContainer = Some want, iaIssue = None\<rparr> =
    (case joined_container extension of
       Some out \<Rightarrow> \<lparr>oaContainer = Some out, oaIssue = None\<rparr>
     | None \<Rightarrow> outputContainerFailure OutputContainerCrossContainerPolicyUndefined)"
  using assms by (cases extension) (auto simp: containerForExtension_def SelectOutputContainer_def joined_container_def)

lemma containers_decide:
  assumes "2 \<le> length parts" "\<forall>p \<in> set parts. jpProbe p \<noteq> None"
  defines "a \<equiv> AssessInputContainer (map part_observation parts)"
  shows "iaStatus a = InputContainerConfirmed \<and> iaContainer a \<noteq> None \<and> iaIssue a = None \<and>
      oaContainer (SelectOutputContainer a) = Some out \<and> oaIssue (SelectOutputContainer a) = None \<longleftrightarrow>
    same_container parts out"
proof -
  have len: "2 \<le> length (map part_observation parts)"
    using assms(1) by simp
  obtain first where first: "first \<in> set parts"
    using assms(1) by (cases parts) auto
  have decide: "a = \<lparr>iaStatus = InputContainerConfirmed, iaContainer = Some want, iaIssue = None\<rparr> \<longleftrightarrow>
    (\<forall>p \<in> set parts. containerForExtension (jpExtension p) = Some want \<and>
        container_text want \<in> set (pfNames (peFormat (part_probe p))))" for want
    using input_decides [OF len, of want] assms(2) by (simp add: a_def part_observation_names)
  show ?thesis
  proof
    assume eligible: "iaStatus a = InputContainerConfirmed \<and> iaContainer a \<noteq> None \<and> iaIssue a = None \<and>
      oaContainer (SelectOutputContainer a) = Some out \<and> oaIssue (SelectOutputContainer a) = None"
    then obtain want where want: "a = \<lparr>iaStatus = InputContainerConfirmed, iaContainer = Some want, iaIssue = None\<rparr>"
      using input_confirmed [of "map part_observation parts"] unfolding a_def by blast
    then have "\<forall>p \<in> set parts. containerForExtension (jpExtension p) = Some want \<and>
        container_text want \<in> set (pfNames (peFormat (part_probe p)))"
      using decide by blast
    moreover from this have "\<forall>p \<in> set parts. joined_container (jpExtension p) = Some out"
      using eligible want output_container_extension by metis
    ultimately show "same_container parts out"
      unfolding same_container_def by blast
  next
    assume "same_container parts out"
    then obtain want where want: "\<forall>p \<in> set parts. containerForExtension (jpExtension p) = Some want \<and>
        container_text want \<in> set (pfNames (peFormat (part_probe p))) \<and> joined_container (jpExtension p) = Some out"
      unfolding same_container_def by blast
    then have "a = \<lparr>iaStatus = InputContainerConfirmed, iaContainer = Some want, iaIssue = None\<rparr>"
      using decide by blast
    then show "iaStatus a = InputContainerConfirmed \<and> iaContainer a \<noteq> None \<and> iaIssue a = None \<and>
      oaContainer (SelectOutputContainer a) = Some out \<and> oaIssue (SelectOutputContainer a) = None"
      using want first select_confirmed [of "jpExtension first" want] by simp
  qed
qed

text \<open>What an eligible join satisfies together with the totals, the layout and the container it is given.\<close>

definition sound_join :: "join_part list \<Rightarrow> feasibility \<Rightarrow> bool" where
  "sound_join parts f \<longleftrightarrow>
     2 \<le> length parts \<and> distinct (map jpFileID parts) \<and>
     (\<forall>p \<in> set parts. jpFileID p \<noteq> [] \<and> 0 < part_size p \<and> jpProbe p \<noteq> None \<and> known_duration (part_probe p) \<noteq> None) \<and>
     jfSourceBytes f = Some (sum_list (map part_size parts)) \<and> sum_list (map part_size parts) \<le> max_int64 \<and>
     jnExpectedMS (jfDuration f) = Some (sum_list (map (\<lambda>p. the (known_duration (part_probe p))) parts)) \<and>
     sum_list (map (\<lambda>p. the (known_duration (part_probe p))) parts) \<le> max_int64 \<and>
     jnToleranceMS (jfDuration f) = Some (1000 + sum_list (map (\<lambda>p. duration_slack (part_probe p)) parts)) \<and>
     1000 + sum_list (map (\<lambda>p. duration_slack (part_probe p)) parts) \<le> max_int64 \<and>
     (\<exists>layout. saLayout (jfStreams f) = Some layout \<and> common_layout (map part_probe parts) layout) \<and>
     (\<exists>out. oaContainer (jfOutputContainer f) = Some out \<and> same_container parts out)"

lemma AssessJoinFeasibility_Some: "AssessJoinFeasibility parts \<noteq> None"
  using stream_total [of "map part_probe parts"] by (auto simp: AssessJoinFeasibility_def Let_def split: sum.splits)

lemma feasibility_fields:
  assumes "AssessJoinFeasibility parts = Some f"
  shows "jfStructuralIssue f = None \<longleftrightarrow> (\<exists>n. assessJoinStructure parts = Inr n)"
    and "jfSourceBytes f = Some n \<longleftrightarrow> assessJoinStructure parts = Inr n"
    and "jfProbeCoverage f = probeCoverage (length parts) (length (filter (\<lambda>p. jpProbe p \<noteq> None) parts))"
    and "jfDuration f = AssessJoinDuration (map part_probe parts)"
    and "AssessStreamCompatibility (map part_probe parts) = Some (jfStreams f)"
    and "jfInputContainer f = AssessInputContainer (map part_observation parts)"
    and "jfOutputContainer f = SelectOutputContainer (AssessInputContainer (map part_observation parts))"
  using assms by (auto simp: AssessJoinFeasibility_def Let_def split: sum.splits)

lemma eligible_sound:
  assumes fits: "\<forall>p \<in> set parts. durations_fit (part_probe p)" and f: "AssessJoinFeasibility parts = Some f"
  shows "feasibility_eligible f \<longleftrightarrow> sound_join parts f"
proof (cases "2 \<le> length parts \<and> (\<forall>p \<in> set parts. jpProbe p \<noteq> None)")
  case True
  then have ne: "parts \<noteq> []"
    by auto
  note fields = feasibility_fields [OF f]
  have range: "\<forall>ev \<in> set (map part_probe parts). durations_fit ev"
    using fits by simp
  note durations = duration_decides [OF range]
  have streams: "saCompatibility (jfStreams f) = StreamsCompatible \<and> saIssue (jfStreams f) = None \<and> saLayout (jfStreams f) \<noteq> None
      \<longleftrightarrow> (\<exists>layout. saLayout (jfStreams f) = Some layout \<and> common_layout (map part_probe parts) layout)"
    using assess_layout [OF fields(5)] assess_compatible(1) [of "map part_probe parts"] fields(5) True
    by (metis length_map option.distinct(1) option.exhaust stream_assessment.select_convs(2))
  have containers: "iaStatus (jfInputContainer f) = InputContainerConfirmed \<and> iaContainer (jfInputContainer f) \<noteq> None
      \<and> iaIssue (jfInputContainer f) = None \<and> oaContainer (jfOutputContainer f) = Some out \<and> oaIssue (jfOutputContainer f) = None
      \<longleftrightarrow> same_container parts out" for out
    using containers_decide [of parts out] True unfolding fields by blast
  have shape: "jfStructuralIssue f = None \<and> jfSourceBytes f \<noteq> None \<longleftrightarrow>
      (\<forall>p \<in> set parts. jpFileID p \<noteq> [] \<and> 0 < part_size p) \<and> distinct (map jpFileID parts) \<and>
      jfSourceBytes f = Some (sum_list (map part_size parts)) \<and> sum_list (map part_size parts) \<le> max_int64"
    using fields(1,2) structure_decides [of parts] True by (auto simp del: not_None_eq)
  have duration: "jnIssue (jfDuration f) = None \<and> jnExpectedMS (jfDuration f) \<noteq> None \<and> jnToleranceMS (jfDuration f) \<noteq> None \<longleftrightarrow>
      (\<forall>p \<in> set parts. known_duration (part_probe p) \<noteq> None) \<and>
      jnExpectedMS (jfDuration f) = Some (sum_list (map (\<lambda>p. the (known_duration (part_probe p))) parts)) \<and>
      sum_list (map (\<lambda>p. the (known_duration (part_probe p))) parts) \<le> max_int64 \<and>
      jnToleranceMS (jfDuration f) = Some (1000 + sum_list (map (\<lambda>p. duration_slack (part_probe p)) parts)) \<and>
      1000 + sum_list (map (\<lambda>p. duration_slack (part_probe p)) parts) \<le> max_int64"
    using durations True unfolding fields by (auto simp: comp_def)
  have coverage: "jfProbeCoverage f = ProbeCoverageComplete"
    using coverage_complete [OF ne] True unfolding fields by blast
  show ?thesis
    using shape duration streams containers coverage True
    unfolding feasibility_eligible_def sound_join_def by blast
next
  case False
  then show ?thesis
    using coverage_complete [of parts] feasibility_fields [OF f] structure_decides [of parts]
    by (cases "parts = []") (auto simp: feasibility_eligible_def sound_join_def)
qed

text \<open>
  The same as a condition on the parts alone. \<open>join_format\<close>: the name a probe gives to the container
  of files with the extension, and the container their join is written to.
\<close>

definition join_format :: "media_extension \<Rightarrow> (string \<times> output_container) option" where
  "join_format extension =
     (case extension of
        MediaExtensionMP4 \<Rightarrow> Some (''mp4'', OutputContainerMP4)
      | MediaExtensionMKV \<Rightarrow> Some (''matroska'', OutputContainerMKV)
      | MediaExtensionAVI \<Rightarrow> Some (''avi'', OutputContainerAVI)
      | _ \<Rightarrow> None)"

lemma join_format_container:
  "containerForExtension extension = Some want \<and> joined_container extension = Some out \<and>
     container_text want \<in> names \<Longrightarrow>
   join_format extension = Some (container_text want, out) \<and> container_text want \<in> names"
  by (cases extension) (auto simp: containerForExtension_def joined_container_def join_format_def)

lemma join_format_same:
  assumes "join_format extension = Some (name, out)" "join_format extension' = Some (name, out)"
  shows "extension' = extension"
  using assms by (cases extension; cases extension') (auto simp: join_format_def)

lemma join_format_known:
  assumes "join_format extension = Some (name, out)"
  shows "\<exists>want. containerForExtension extension = Some want \<and> container_text want = name \<and>
    joined_container extension = Some out"
  using assms by (cases extension) (auto simp: containerForExtension_def joined_container_def join_format_def)

lemma same_container_format:
  assumes "parts \<noteq> []"
  shows "same_container parts out \<longleftrightarrow> (\<exists>name. \<forall>p \<in> set parts.
    join_format (jpExtension p) = Some (name, out) \<and> name \<in> set (pfNames (peFormat (part_probe p))))"
    (is "_ \<longleftrightarrow> (\<exists>name. ?all name)")
proof
  assume "same_container parts out"
  then obtain want where "\<forall>p \<in> set parts. containerForExtension (jpExtension p) = Some want \<and>
        container_text want \<in> set (pfNames (peFormat (part_probe p))) \<and> joined_container (jpExtension p) = Some out"
    unfolding same_container_def by blast
  then have "?all (container_text want)"
    using join_format_container by blast
  then show "\<exists>name. ?all name" ..
next
  assume "\<exists>name. ?all name"
  then obtain name where all: "?all name" ..
  obtain first where first: "first \<in> set parts"
    using assms by (cases parts) auto
  then obtain want where want: "containerForExtension (jpExtension first) = Some want" "container_text want = name"
    "joined_container (jpExtension first) = Some out"
    using all join_format_known by blast
  have "jpExtension p = jpExtension first" if "p \<in> set parts" for p
    using all that first join_format_same by blast
  then show "same_container parts out"
    unfolding same_container_def using want all by (intro exI [of _ want]) simp
qed

definition joinable :: "join_part list \<Rightarrow> bool" where
  "joinable parts \<longleftrightarrow>
     2 \<le> length parts \<and> distinct (map jpFileID parts) \<and>
     (\<forall>p \<in> set parts. jpFileID p \<noteq> [] \<and> 0 < part_size p \<and> jpProbe p \<noteq> None \<and> known_duration (part_probe p) \<noteq> None) \<and>
     sum_list (map part_size parts) \<le> max_int64 \<and>
     sum_list (map (\<lambda>p. the (known_duration (part_probe p))) parts) \<le> max_int64 \<and>
     1000 + sum_list (map (\<lambda>p. duration_slack (part_probe p)) parts) \<le> max_int64 \<and>
     (\<exists>layout. common_layout (map part_probe parts) layout) \<and>
     (\<exists>name out. \<forall>p \<in> set parts.
        join_format (jpExtension p) = Some (name, out) \<and> name \<in> set (pfNames (peFormat (part_probe p))))"

lemma sound_joinable:
  assumes "sound_join parts f"
  shows "joinable parts"
proof -
  have "parts \<noteq> []"
    using assms by (auto simp: sound_join_def)
  from assms have "\<exists>name out. \<forall>p \<in> set parts.
      join_format (jpExtension p) = Some (name, out) \<and> name \<in> set (pfNames (peFormat (part_probe p)))"
    unfolding sound_join_def same_container_format [OF \<open>parts \<noteq> []\<close>] by blast
  with assms show ?thesis
    unfolding sound_join_def joinable_def by blast
qed

lemma joinable_sound:
  assumes fits: "\<forall>p \<in> set parts. durations_fit (part_probe p)" and f: "AssessJoinFeasibility parts = Some f"
    and ok: "joinable parts"
  shows "sound_join parts f"
proof -
  note fields = feasibility_fields [OF f]
  have len: "2 \<le> length parts" "2 \<le> length (map part_probe parts)" and ne: "parts \<noteq> []"
    and probed: "\<forall>p \<in> set parts. jpProbe p \<noteq> None"
    using ok by (auto simp: joinable_def)
  have range: "\<forall>ev \<in> set (map part_probe parts). durations_fit ev"
    using fits by simp
  have bytes: "jfSourceBytes f = Some (sum_list (map part_size parts))"
    using fields(2) structure_decides ok by (simp add: joinable_def)
  have "jnIssue (AssessJoinDuration (map part_probe parts)) = None"
    using duration_decides(1) [OF range] ok by (simp add: joinable_def comp_def)
  from duration_decides(2) [OF range this]
  have totals: "jnExpectedMS (jfDuration f) = Some (sum_list (map (\<lambda>p. the (known_duration (part_probe p))) parts))"
    "jnToleranceMS (jfDuration f) = Some (1000 + sum_list (map (\<lambda>p. duration_slack (part_probe p)) parts))"
    unfolding fields(4) by (simp_all add: comp_def)
  obtain layout where layout: "common_layout (map part_probe parts) layout"
    using ok by (auto simp: joinable_def)
  then have streams: "saLayout (jfStreams f) = Some layout"
    using assess_compatible(1) [OF len(2), of layout] fields(5) by simp
  obtain out where out: "same_container parts out"
    using ok unfolding joinable_def same_container_format [OF ne] by blast
  then have container: "oaContainer (jfOutputContainer f) = Some out"
    using containers_decide [OF len(1) probed, of out] unfolding fields(7) by blast
  show ?thesis
    unfolding sound_join_def using ok bytes totals layout streams out container
    by (simp add: joinable_def)
qed

section \<open>Properties\<close>

text \<open>
  C23: assessing a join never fails, and a join is eligible exactly when its parts are joinable,
  a condition on the parts alone: at least two different, non-empty, probed files whose durations are
  known; sizes, durations and tolerances whose sums fit 64 bits; one stream layout in all
  parts; and one container that a join can be written to, named by the extension of every part and
  confirmed by its probe. The sizes, durations, layout and container the assessment gives are then
  the sums, the layout and the container of the parts.
\<close>

theorem eligible_join_decides:
  assumes "\<forall>p \<in> set parts. durations_fit (part_probe p)"
  shows "\<exists>f. AssessJoinFeasibility parts = Some f \<and> (feasibility_eligible f \<longleftrightarrow> joinable parts) \<and>
    (joinable parts \<longrightarrow> sound_join parts f)"
proof -
  obtain f where f: "AssessJoinFeasibility parts = Some f"
    using AssessJoinFeasibility_Some [of parts] by auto
  then show ?thesis
    using eligible_sound [OF assms f] joinable_sound [OF assms f] sound_joinable [of parts f] by blast
qed

definition sample_part :: "string \<Rightarrow> int \<Rightarrow> join_part" where
  "sample_part fileID index = \<lparr>jpFileID = fileID, jpExtension = MediaExtensionMKV,
     jpFingerprint = \<lparr>snDevice = 1, snInode = index, snSizeBytes = 700, snMTimeNS = 0\<rparr>,
     jpProbe = Some (sample_probe index)\<rparr>"

definition sample_parts :: "join_part list" where
  "sample_parts = [sample_part ''a'' 0, sample_part ''b'' 1]"

lemma sample_parts_fit: "\<forall>p \<in> set sample_parts. durations_fit (part_probe p)"
  by (simp add: sample_parts_def sample_part_def part_probe_def durations_fit_def sample_probe_def sample_video_def
      in_int64_def min_int64_def max_int64_def)

lemma sample_structure: "assessJoinStructure sample_parts = Inr 1400"
  by (simp add: assessJoinStructure_def sample_parts_def sample_part_def wrap64_def max_int64_def Let_def)

lemma sample_duration: "AssessProbeDuration (sample_probe i) =
    \<lparr>daFormatMS = Some 3000000, daLongestStreamMS = Some 3000000, daEffectiveMS = Some 3000000,
     daSource = DurationSourceConsistentFormatAndStream, daConflict = False\<rparr>"
  by (simp add: AssessProbeDuration_def longestAVStreamDuration_def usableDuration_def sample_probe_def
      sample_video_def empty_stream_def wrap64_def durationAgreementToleranceMS_def Let_def)

lemma sample_probes: "map part_probe sample_parts = [sample_probe 0, sample_probe 1]"
  by (simp add: sample_parts_def sample_part_def part_probe_def)

lemma sample_durations:
  "jnIssue (AssessJoinDuration (map part_probe sample_parts)) = None"
  "jnExpectedMS (AssessJoinDuration (map part_probe sample_parts)) = Some 6000000"
  "jnToleranceMS (AssessJoinDuration (map part_probe sample_parts)) = Some 1000"
  by (simp_all add: sample_probes AssessJoinDuration_def sample_duration joinMuxToleranceMS_def wrap64_def
      max_int64_def absoluteDifference_def Let_def)

lemma sample_container: "AssessInputContainer (map part_observation sample_parts) =
    \<lparr>iaStatus = InputContainerConfirmed, iaContainer = Some InputContainerMatroska, iaIssue = None\<rparr>"
  by (simp add: AssessInputContainer_def sample_parts_def sample_part_def part_observation_def
      containerForExtension_def containsFormatName_def sample_probe_def)

lemma sample_eligible: "\<exists>f. AssessJoinFeasibility sample_parts = Some f \<and> feasibility_eligible f"
proof -
  obtain f where f: "AssessJoinFeasibility sample_parts = Some f"
    using AssessJoinFeasibility_Some by auto
  note fields = feasibility_fields [OF f]
  have "jfStructuralIssue f = None" "jfSourceBytes f = Some 1400"
    using fields(1,2) sample_structure by auto
  moreover have "jfProbeCoverage f = ProbeCoverageComplete"
    using fields(3) by (simp add: probeCoverage_def sample_parts_def sample_part_def)
  moreover have "jfStreams f = \<lparr>saCompatibility = StreamsCompatible, saIssue = None, saLayout = Some sample_layout\<rparr>"
    using fields(5) sample_assessed by (simp add: sample_probes)
  ultimately have "feasibility_eligible f"
    by (simp add: feasibility_eligible_def fields(4,6,7) sample_durations sample_container SelectOutputContainer_def)
  with f show ?thesis
    by blast
qed

theorem eligible_join_decides_witness:
  "\<exists>f. AssessJoinFeasibility sample_parts = Some f \<and> joinable sample_parts \<and> sound_join sample_parts f"
  using eligible_join_decides [OF sample_parts_fit] sample_eligible by auto

text \<open>
  C29: the duration of a probed file is the longer one of the container's duration and of the
  longest duration of a video or audio stream, durations that are not positive aside; if both are
  known and more than a second apart they conflict, and there is no duration.
\<close>

theorem probe_duration_decides:
  assumes "durations_fit ev"
  shows "daEffectiveMS (AssessProbeDuration ev) = known_duration ev \<and>
    daConflict (AssessProbeDuration ev) = durations_conflict ev"
  using probe_duration [OF assms] by simp

theorem probe_duration_decides_witness:
  "daEffectiveMS (AssessProbeDuration (sample_probe 0)) = Some 3000000"
proof -
  have "durations_fit (sample_probe 0)"
    using sample_parts_fit by (simp add: sample_parts_def sample_part_def part_probe_def)
  from probe_duration_decides [OF this] show ?thesis
    by (simp add: known_duration_def format_duration_def longest_av_def usableDuration_def sample_probe_def
        sample_video_def)
qed

end
