(* ===== verification/Policy_Properties.thy ===== *)
theory Policy_Properties
  imports Decision_Policy Feasibility_Properties
begin

text \<open>
  What the local policy authorizes: joins, imports of one file, and remuxes of discs.
\<close>

section \<open>Indexes\<close>

lemma foldl_update_from:
  assumes "foldl (\<lambda>m x. m(index x \<mapsto> content x)) m0 xs k = Some y"
  shows "m0 k = Some y \<or> (\<exists>x \<in> set xs. index x = k \<and> content x = y)"
  using assms
proof (induction xs arbitrary: m0)
  case (Cons x xs)
  have "(m0(index x \<mapsto> content x)) k = Some y \<or> (\<exists>x \<in> set xs. index x = k \<and> content x = y)"
    using Cons.prems by (intro Cons.IH) simp
  then show ?case
    by (auto split: if_splits)
qed simp

lemma foldl_update_Some:
  assumes "foldl (\<lambda>m x. m(index x \<mapsto> content x)) Map.empty xs k = Some y"
  shows "\<exists>x \<in> set xs. index x = k \<and> content x = y"
  using foldl_update_from [OF assms] by simp

lemma indexFiles_Some:
  assumes "indexFiles inventory fileID = Some file"
  shows "file \<in> set (invFiles inventory) \<and> ifID file = fileID"
  using foldl_update_Some [OF assms [unfolded indexFiles_def]] by auto

lemma indexProbes_Some: "indexProbes probes fileID = Some outcome \<Longrightarrow>
    \<exists>probe \<in> set probes. fpFileID probe = fileID \<and> fpOutcome probe = outcome"
  unfolding indexProbes_def by (rule foldl_update_Some)

lemma indexPaths_Some: "indexPaths mappings fileID = Some path \<Longrightarrow>
    \<exists>mapping \<in> set mappings. pmFileID mapping = fileID \<and> pmAbsolutePath mapping = path"
  unfolding indexPaths_def by (rule foldl_update_Some)

lemma findCapability_Some: "findCapability capabilities capabilityID = Some capability \<Longrightarrow>
    capability \<in> set capabilities \<and> cpCapabilityID capability = capabilityID"
  by (induction capabilities) (auto split: if_splits)

lemma findFilePath_Some: "findFilePath mappings fileID = Some path \<Longrightarrow>
    \<exists>mapping \<in> set mappings. pmFileID mapping = fileID \<and> pmAbsolutePath mapping = path"
  by (induction mappings) (auto split: if_splits)

lemma assessOne_eq: "assessOne file = classifyMediaFile file"
  by (simp add: assessOne_def ClassifyMediaFiles_def)

section \<open>Joins\<close>

text \<open>The part that a selected file stands for, when the snapshot supports it.\<close>

definition supported_part :: "capability \<Rightarrow> case_observation \<Rightarrow> string \<Rightarrow> join_part \<Rightarrow> bool" where
  "supported_part capability observation fileID part \<longleftrightarrow>
     fileID \<in> set (cpCandidateFileIDS capability) \<and>
     (\<exists>file outcome evidence.
        indexFiles (obInventory observation) fileID = Some file \<and>
        ProbeCandidate (classifyMediaFile file) \<and> SupportsJoinPartsPath (ifPathComponents file) \<and>
        indexProbes (obProbes observation) fileID = Some outcome \<and>
        poStatus outcome = MediaProbeSucceeded \<and> poEvidence outcome = Some evidence \<and>
        part = \<lparr>jpFileID = fileID, jpExtension = maExtension (classifyMediaFile file),
                jpFingerprint = ifFingerprint file, jpProbe = Some evidence\<rparr>)"

lemma selected_part_Inr:
  "selected_part (cpCandidateFileIDS capability) (indexFiles (obInventory observation))
     (indexProbes (obProbes observation)) fileID = Inr part \<longleftrightarrow> supported_part capability observation fileID part"
  by (auto simp: selected_part_def supported_part_def assessOne_eq Let_def split: option.splits)

lemma rejected_nonempty [simp]: "rejected rejections reason position fileID \<noteq> []"
  by (simp add: rejected_def)

lemma select_loop_rejects:
  "rejections \<noteq> [] \<Longrightarrow> fst (select_loop select position fileIDs seen rejections parts) \<noteq> []"
  by (induction select position fileIDs seen rejections parts rule: select_loop.induct) (auto split: sum.splits)

lemma select_loop_accepts:
  "select_loop select position fileIDs seen [] parts = ([], result) \<longleftrightarrow>
     distinct fileIDs \<and> set fileIDs \<inter> seen = {} \<and>
     (\<exists>chosen. result = parts @ chosen \<and> list_all2 (\<lambda>fileID part. select fileID = Inr part) fileIDs chosen)"
proof (induction fileIDs arbitrary: position seen parts)
  case (Cons fileID rest)
  have reject: "select_loop select q rest s (rejected [] reason p i) parts \<noteq> ([], result)" for q s reason p i
    using select_loop_rejects [of "rejected [] reason p i" select q rest s parts] by auto
  show ?case
  proof (cases "select fileID")
    case (Inl reason)
    then show ?thesis
      using reject by (auto simp: list_all2_Cons1)
  next
    case (Inr part)
    then show ?thesis
      using reject Cons.IH [of "position + 1" "insert fileID seen" "parts @ [part]"]
      by (auto simp: list_all2_Cons1)
  qed
qed auto

definition join_allowed :: "'v assembly \<Rightarrow> repair_decision \<Rightarrow> authorized_join \<Rightarrow> bool" where
  "join_allowed assembly decision a \<longleftrightarrow>
     (\<exists>join capability parts f.
        rdKind decision = ActionJoinParts \<and> rdJoinParts decision = Some join \<and> ddAction join = ActionJoinParts \<and>
        ddCaseID join = rcCaseID (asRequest assembly) \<and> lsCaseID (asLocalSnapshot assembly) = rcCaseID (asRequest assembly) \<and>
        findCapability (rcCapabilities (asRequest assembly)) (ddCapabilityID join) = Some capability \<and>
        cpAction capability = CapabilityActionJoinParts \<and> distinct (ddOrderedFileIDS join) \<and>
        list_all2 (supported_part capability (lsObservation (asLocalSnapshot assembly))) (ddOrderedFileIDS join) parts \<and>
        AssessJoinFeasibility parts = Some f \<and> sound_join parts f \<and>
        a = authorize_join (ddCaseID join) (ddCapabilityID join) parts f)"

lemma supported_parts_fit:
  assumes "list_all2 (supported_part capability observation) fileIDs parts"
    and "\<forall>probe \<in> set (obProbes observation). \<forall>evidence. poEvidence (fpOutcome probe) = Some evidence \<longrightarrow> durations_fit evidence"
  shows "\<forall>p \<in> set parts. durations_fit (part_probe p)"
proof
  fix p assume "p \<in> set parts"
  then obtain fileID where "supported_part capability observation fileID p"
    using assms(1) by (auto simp: list_all2_conv_all_nth in_set_conv_nth)
  then show "durations_fit (part_probe p)"
    using assms(2) by (auto simp: supported_part_def part_probe_def dest!: indexProbes_Some)
qed

lemma join_checks_Nil: "join_checks assembly join = [] \<longleftrightarrow>
    ddCaseID join = rcCaseID (asRequest assembly) \<and> lsCaseID (asLocalSnapshot assembly) = rcCaseID (asRequest assembly) \<and>
    2 \<le> length (ddOrderedFileIDS join)"
  by (auto simp: join_checks_def join_case_check_def)

lemma ValidateJoin_capability:
  assumes "rdKind decision = ActionJoinParts" "rdJoinParts decision = Some join" "ddAction join = ActionJoinParts"
    and "findCapability (rcCapabilities (asRequest assembly)) (ddCapabilityID join) = Some capability"
    and "cpAction capability = CapabilityActionJoinParts"
    and "select_loop (selected_part (cpCandidateFileIDS capability)
        (indexFiles (obInventory (lsObservation (asLocalSnapshot assembly))))
        (indexProbes (obProbes (lsObservation (asLocalSnapshot assembly)))))
      0 (ddOrderedFileIDS join) {} (join_checks assembly join) [] = (rejections, parts)"
  shows "ValidateJoin assembly decision =
    (if rejections \<noteq> [] then Some \<lparr>jvAuthorized = None, jvRejections = rejections, jvFeasibility = None\<rparr>
     else map_option (\<lambda>f. if feasibility_eligible f
       then \<lparr>jvAuthorized = Some (authorize_join (rcCaseID (asRequest assembly)) (ddCapabilityID join) parts f),
             jvRejections = [], jvFeasibility = Some f\<rparr>
       else \<lparr>jvAuthorized = None, jvRejections = rejected [] JoinTechnicalChecksRejected None [], jvFeasibility = Some f\<rparr>)
       (AssessJoinFeasibility parts))"
  using findCapability_Some [OF assms(4)] by (simp add: ValidateJoin_def assms Let_def split: option.splits)

lemma ValidateJoin_refused:
  assumes "\<nexists>join capability. rdKind decision = ActionJoinParts \<and> rdJoinParts decision = Some join \<and>
    ddAction join = ActionJoinParts \<and>
    findCapability (rcCapabilities (asRequest assembly)) (ddCapabilityID join) = Some capability \<and>
    cpAction capability = CapabilityActionJoinParts"
  shows "\<exists>v. ValidateJoin assembly decision = Some v \<and> jvAuthorized v = None"
  using assms by (auto simp: ValidateJoin_def Let_def split: option.splits)

lemma join_selection:
  "select_loop (selected_part (cpCandidateFileIDS capability) (indexFiles (obInventory observation)) (indexProbes (obProbes observation)))
     0 (ddOrderedFileIDS join) {} (join_checks assembly join) [] = ([], parts) \<longleftrightarrow>
   join_checks assembly join = [] \<and> distinct (ddOrderedFileIDS join) \<and>
   list_all2 (supported_part capability observation) (ddOrderedFileIDS join) parts"
  (is "select_loop ?select 0 ?ids {} ?checks [] = _ \<longleftrightarrow> _")
proof (cases "?checks = []")
  case True
  then show ?thesis
    by (simp add: select_loop_accepts selected_part_Inr)
next
  case False
  then show ?thesis
    using select_loop_rejects [of ?checks ?select 0 ?ids "{}" "[]"] by auto
qed

lemma join_allowed_selected:
  assumes "rdKind decision = ActionJoinParts" "rdJoinParts decision = Some join" "ddAction join = ActionJoinParts"
    and "findCapability (rcCapabilities (asRequest assembly)) (ddCapabilityID join) = Some capability"
    and "cpAction capability = CapabilityActionJoinParts"
  shows "join_allowed assembly decision a \<longleftrightarrow>
    (\<exists>parts f. join_checks assembly join = [] \<and> distinct (ddOrderedFileIDS join) \<and>
       list_all2 (supported_part capability (lsObservation (asLocalSnapshot assembly))) (ddOrderedFileIDS join) parts \<and>
       AssessJoinFeasibility parts = Some f \<and> sound_join parts f \<and>
       a = authorize_join (rcCaseID (asRequest assembly)) (ddCapabilityID join) parts f)" (is "_ \<longleftrightarrow> ?selected")
proof
  assume "join_allowed assembly decision a"
  then obtain parts f where allowed: "ddCaseID join = rcCaseID (asRequest assembly)"
    "lsCaseID (asLocalSnapshot assembly) = rcCaseID (asRequest assembly)" "distinct (ddOrderedFileIDS join)"
    "list_all2 (supported_part capability (lsObservation (asLocalSnapshot assembly))) (ddOrderedFileIDS join) parts"
    "AssessJoinFeasibility parts = Some f" "sound_join parts f"
    "a = authorize_join (ddCaseID join) (ddCapabilityID join) parts f"
    using assms unfolding join_allowed_def by auto
  then have "join_checks assembly join = []"
    using list_all2_lengthD [OF allowed(4)] by (simp add: join_checks_Nil sound_join_def)
  with allowed show ?selected
    by metis
next
  assume ?selected
  then show "join_allowed assembly decision a"
    using assms unfolding join_allowed_def join_checks_Nil by metis
qed

lemma ValidateJoin_decides:
  assumes fit: "\<forall>probe \<in> set (obProbes (lsObservation (asLocalSnapshot assembly))).
      \<forall>evidence. poEvidence (fpOutcome probe) = Some evidence \<longrightarrow> durations_fit evidence"
  shows "\<exists>v. ValidateJoin assembly decision = Some v \<and> (jvAuthorized v = Some a \<longleftrightarrow> join_allowed assembly decision a)"
proof (cases "\<exists>join capability. rdKind decision = ActionJoinParts \<and> rdJoinParts decision = Some join \<and>
    ddAction join = ActionJoinParts \<and>
    findCapability (rcCapabilities (asRequest assembly)) (ddCapabilityID join) = Some capability \<and>
    cpAction capability = CapabilityActionJoinParts")
  case False
  then show ?thesis
    using ValidateJoin_refused [of decision assembly] unfolding join_allowed_def by fastforce
next
  case True
  then obtain join capability where pre: "rdKind decision = ActionJoinParts" "rdJoinParts decision = Some join"
    "ddAction join = ActionJoinParts"
    "findCapability (rcCapabilities (asRequest assembly)) (ddCapabilityID join) = Some capability"
    "cpAction capability = CapabilityActionJoinParts"
    by blast
  let ?observation = "lsObservation (asLocalSnapshot assembly)"
  obtain rejections parts where
    loop: "select_loop (selected_part (cpCandidateFileIDS capability) (indexFiles (obInventory ?observation))
        (indexProbes (obProbes ?observation))) 0 (ddOrderedFileIDS join) {} (join_checks assembly join) [] = (rejections, parts)"
    by fastforce
  note eq = ValidateJoin_capability [OF pre loop] and selection = join_selection [of capability ?observation join assembly]
  obtain f where f: "AssessJoinFeasibility parts = Some f"
    using AssessJoinFeasibility_Some by blast
  show ?thesis
  proof (cases "rejections = []")
    case True
    then have unique: "join_checks assembly join = [] \<and> distinct (ddOrderedFileIDS join) \<and>
        list_all2 (supported_part capability ?observation) (ddOrderedFileIDS join) parts' \<longleftrightarrow> parts' = parts" for parts'
      using loop selection [of parts'] by auto
    have "feasibility_eligible f \<longleftrightarrow> sound_join parts f"
      using unique by (intro eligible_sound [OF supported_parts_fit [OF _ fit] f]) auto
    then have "join_allowed assembly decision a \<longleftrightarrow> feasibility_eligible f \<and>
        a = authorize_join (rcCaseID (asRequest assembly)) (ddCapabilityID join) parts f"
      using join_allowed_selected [OF pre, of a] unique f by (metis option.inject)
    then show ?thesis
      using eq True f by auto
  next
    case False
    then have "\<not> join_allowed assembly decision a"
      using join_allowed_selected [OF pre, of a] loop by (metis fst_conv selection)
    then show ?thesis
      using eq False by simp
  qed
qed

section \<open>Runtimes\<close>

definition runtime_fits :: "int \<Rightarrow> bool" where
  "runtime_fits minutes \<longleftrightarrow> 0 \<le> minutes \<and> minutes * 60000 \<le> max_int64"

text \<open>A tenth of the runtime, but at least five minutes and at least what the policy allows.\<close>

definition runtime_allowance :: "runtime_policy \<Rightarrow> int \<Rightarrow> int" where
  "runtime_allowance policy minutes = max (rpMaximumDifferenceMS policy) (max (minutes * 6000) 300000)"

lemma runtime_assessed:
  assumes "runtime_fits minutes" "0 \<le> duration" "duration \<le> max_int64"
  shows "raDifferenceMS (assessManualImportRuntime duration (Some minutes) policy) = Some \<bar>duration - minutes * 60000\<bar>"
    and "raToleranceMS (assessManualImportRuntime duration (Some minutes) policy) = Some (runtime_allowance policy minutes)"
proof -
  have movie: "wrap64 (wrap64 (minutes * 60) * 1000) = minutes * 60000"
    using assms(1) by (simp add: runtime_fits_def wrap64_id in_int64_def min_int64_def max_int64_def)
  have difference: "wrap64 (duration - minutes * 60000) = duration - minutes * 60000"
    "wrap64 (minutes * 60000 - duration) = minutes * 60000 - duration"
    using assms by (auto simp: runtime_fits_def intro!: wrap64_id simp: in_int64_def min_int64_def max_int64_def)
  have tenth: "quot64 (minutes * 60000) 10 = minutes * 6000"
    using assms(1) by (simp add: runtime_fits_def quot64_nonneg)
  show "raDifferenceMS (assessManualImportRuntime duration (Some minutes) policy) = Some \<bar>duration - minutes * 60000\<bar>"
    by (simp add: assessManualImportRuntime_def Let_def movie difference)
  show "raToleranceMS (assessManualImportRuntime duration (Some minutes) policy) = Some (runtime_allowance policy minutes)"
    by (simp add: assessManualImportRuntime_def Let_def movie tenth runtime_allowance_def minimumRuntimeToleranceMS_def max_def)
qed

lemma runtime_unknown:
  "raDifferenceMS (assessManualImportRuntime duration None policy) = None"
  "raToleranceMS (assessManualImportRuntime duration None policy) = None"
  by (simp_all add: assessManualImportRuntime_def)

definition movie_fits :: "radarr_movie option \<Rightarrow> bool" where
  "movie_fits movie = (case movieRuntime movie of None \<Rightarrow> True | Some minutes \<Rightarrow> runtime_fits minutes)"

text \<open>A known runtime of the movie is close to the duration.\<close>

definition runtime_agrees :: "runtime_policy \<Rightarrow> radarr_movie option \<Rightarrow> int \<Rightarrow> bool" where
  "runtime_agrees policy movie duration =
     (case movieRuntime movie of
        None \<Rightarrow> True
      | Some minutes \<Rightarrow> \<bar>duration - minutes * 60000\<bar> \<le> runtime_allowance policy minutes)"

definition allowed_difference :: "runtime_policy \<Rightarrow> radarr_movie option \<Rightarrow> int" where
  "allowed_difference policy movie =
     (case movieRuntime movie of None \<Rightarrow> 0 | Some minutes \<Rightarrow> runtime_allowance policy minutes)"

lemma runtime_check:
  fixes policy :: runtime_policy
  assumes "movie_fits movie" "0 \<le> duration" "duration \<le> max_int64"
  defines "runtime \<equiv> assessManualImportRuntime duration (movieRuntime movie) policy"
  shows "raDifferenceMS runtime \<noteq> None \<and> the (raDifferenceMS runtime) > the (raToleranceMS runtime) \<longleftrightarrow>
      \<not> runtime_agrees policy movie duration"
    and "runtimeTolerance (Some runtime) = allowed_difference policy movie"
    and "known_runtime movie \<Longrightarrow> raDifferenceMS runtime \<noteq> None \<and> the (raToleranceMS runtime) = allowed_difference policy movie"
  using assms
  by (auto simp: movie_fits_def runtime_agrees_def allowed_difference_def runtimeTolerance_def known_runtime_def
      runtime_assessed runtime_unknown split: option.splits)

section \<open>Imports of one file\<close>

definition bound_as_observed :: "import_binding \<Rightarrow> inventory_file \<Rightarrow> case_observation \<Rightarrow> bool" where
  "bound_as_observed binding file observation \<longleftrightarrow>
     ProbeCandidate (classifyMediaFile file) \<and> bdExpectedFingerprint binding = ifFingerprint file \<and>
     findFilePath (invPaths (obInventory observation)) (bdFileID binding) = Some (cfPath (bdFile binding)) \<and>
     cfDownloadID (bdFile binding) = qrDownloadID (crRadarr (obCorrelation observation)) \<and>
     map_option mvID (obMovie observation) = Some (cfMovieID (bdFile binding)) \<and>
     qrMovieID (crRadarr (obCorrelation observation)) = Some (cfMovieID (bdFile binding))"

lemma add_rejection_Nil [simp]: "add_rejection reason applies rejections = [] \<longleftrightarrow> \<not> applies \<and> rejections = []"
  by (auto simp: add_rejection_def)

lemma binding_issues_Nil:
  "binding_issues binding file observation rejections = [] \<longleftrightarrow> rejections = [] \<and> bound_as_observed binding file observation"
  by (auto simp: binding_issues_def bound_as_observed_def assessOne_eq Let_def split: option.splits)

lemma clone_command [simp]: "cloneManualImportCommand cf = cf"
  by (cases cf; cases "cfQuality cf") (simp add: cloneManualImportCommand_def Let_def split: option.splits)

text \<open>
  The offer, the binding, the file and the probe that a decision to import refers to, and the
  conditions on them.
\<close>

definition import_subject ::
  "'v assembly \<Rightarrow> repair_decision \<Rightarrow> manual_decision \<Rightarrow> capability \<Rightarrow> import_binding \<Rightarrow> inventory_file \<Rightarrow>
   probe_outcome \<Rightarrow> probe_evidence \<Rightarrow> int \<Rightarrow> bool" where
  "import_subject assembly decision choice capability binding file outcome evidence duration \<longleftrightarrow>
     rdManualImportFile decision = Some choice \<and> rdKind decision = ActionManualImportFile \<and>
     ddAction choice = ActionManualImportFile \<and>
     findCapability (rcCapabilities (asRequest assembly)) (ddCapabilityID choice) = Some capability \<and>
     cpAction capability = CapabilityActionManualImportFile \<and> cpFileID capability = Some (ddFileID choice) \<and>
     Mapping.lookup (lsManualImportBindings (asLocalSnapshot assembly)) (ddCapabilityID choice) = Some binding \<and>
     bdFileID binding = ddFileID choice \<and>
     indexFiles (obInventory (lsObservation (asLocalSnapshot assembly))) (ddFileID choice) = Some file \<and>
     indexProbes (obProbes (lsObservation (asLocalSnapshot assembly))) (ddFileID choice) = Some outcome \<and>
     poStatus outcome = MediaProbeSucceeded \<and> poEvidence outcome = Some evidence \<and>
     known_duration evidence = Some duration"

definition import_permitted ::
  "'v assembly \<Rightarrow> runtime_policy \<Rightarrow> manual_decision \<Rightarrow> import_binding \<Rightarrow> inventory_file \<Rightarrow> probe_evidence \<Rightarrow> int \<Rightarrow>
   authorized_import \<Rightarrow> bool" where
  "import_permitted assembly policy choice binding file evidence duration a \<longleftrightarrow>
     ddCaseID choice = rcCaseID (asRequest assembly) \<and> lsCaseID (asLocalSnapshot assembly) = rcCaseID (asRequest assembly) \<and>
     binding_complete binding \<and> bound_as_observed binding file (lsObservation (asLocalSnapshot assembly)) \<and>
     hasVideo (peStreams evidence) \<and> runtime_agrees policy (obMovie (lsObservation (asLocalSnapshot assembly))) duration \<and>
     a = \<lparr>aiCaseID = ddCaseID choice, aiCapabilityID = ddCapabilityID choice, aiFileID = ddFileID choice,
          aiExpectedFingerprint = ifFingerprint file, aiImportMode = bdImportMode binding, aiFile = bdFile binding,
          aiProbeDurationMS = duration,
          aiRuntimeToleranceMS = allowed_difference policy (obMovie (lsObservation (asLocalSnapshot assembly)))\<rparr>"

definition import_allowed ::
  "'v assembly \<Rightarrow> repair_decision \<Rightarrow> runtime_policy \<Rightarrow> authorized_import \<Rightarrow> bool" where
  "import_allowed assembly decision policy a \<longleftrightarrow>
     (\<exists>choice capability binding file outcome evidence duration.
        import_subject assembly decision choice capability binding file outcome evidence duration \<and>
        import_permitted assembly policy choice binding file evidence duration a)"

lemma rejectManualImport_unauthorized [simp]: "mnAuthorized (rejectManualImport rejections reason) = None"
  by (simp add: rejectManualImport_def)

lemma known_range:
  assumes "durations_fit ev" "known_duration ev = Some d"
  shows "0 \<le> d" "d \<le> max_int64"
proof -
  show "0 \<le> d"
    using known_positive [OF assms] by simp
  show "d \<le> max_int64"
    using assms(2) format_duration_range [OF assms(1)] longest_av_range [OF assms(1)]
    by (auto simp: known_duration_def in_int64_def split: option.splits if_splits)
qed

lemma ValidateManualImport_measured:
  assumes "import_subject assembly decision choice capability binding entry outcome evidence duration"
    and fit: "durations_fit evidence" "movie_fits (obMovie (lsObservation (asLocalSnapshot assembly)))"
  shows "mnAuthorized (ValidateManualImportWithPolicy assembly decision policy) = Some a \<longleftrightarrow>
    import_permitted assembly policy choice binding entry evidence duration a"
proof -
  note subject = assms(1) [unfolded import_subject_def]
  have known: "known_duration evidence = Some duration"
    and offer: "findCapability (rcCapabilities (asRequest assembly)) (ddCapabilityID choice) = Some capability"
    using subject by auto
  have duration: "daEffectiveMS (AssessProbeDuration evidence) = Some duration" "\<not> daConflict (AssessProbeDuration evidence)"
    using known probe_duration [OF fit(1)] conflict_unknown [of evidence] by auto
  note checks = runtime_check [OF fit(2) known_range [OF fit(1) known], where policy = policy]
  have "cpCapabilityID capability = ddCapabilityID choice"
    using findCapability_Some [OF offer] by simp
  then show ?thesis
    unfolding ValidateManualImportWithPolicy_def Let_def import_permitted_def
    by (auto simp: subject duration checks binding_issues_Nil bound_as_observed_def simp del: not_None_eq)
qed

text \<open>Without any one of the things that an import is measured by, nothing is authorized.\<close>

lemma ValidateManualImport_subject:
  assumes "mnAuthorized (ValidateManualImportWithPolicy assembly decision policy) = Some a"
    and fits: "\<forall>probe \<in> set (obProbes (lsObservation (asLocalSnapshot assembly))).
      \<forall>evidence. poEvidence (fpOutcome probe) = Some evidence \<longrightarrow> durations_fit evidence"
  shows "\<exists>choice capability binding entry outcome evidence duration.
    import_subject assembly decision choice capability binding entry outcome evidence duration"
proof -
  note authorized = assms(1) [unfolded ValidateManualImportWithPolicy_def Let_def]
  obtain choice where 1: "rdManualImportFile decision = Some choice"
    using authorized by (cases "rdManualImportFile decision") auto
  then have 2: "rdKind decision = ActionManualImportFile \<and> ddAction choice = ActionManualImportFile"
    using authorized by (auto split: if_splits)
  obtain capability where 3: "findCapability (rcCapabilities (asRequest assembly)) (ddCapabilityID choice) = Some capability"
    using authorized by (cases "findCapability (rcCapabilities (asRequest assembly)) (ddCapabilityID choice)") (auto simp: 1 2)
  then have 4: "cpAction capability = CapabilityActionManualImportFile \<and> cpFileID capability = Some (ddFileID choice)"
    using authorized by (auto simp: 1 2 split: if_splits)
  obtain binding where 5: "Mapping.lookup (lsManualImportBindings (asLocalSnapshot assembly)) (ddCapabilityID choice) = Some binding"
    using authorized by (cases "Mapping.lookup (lsManualImportBindings (asLocalSnapshot assembly)) (ddCapabilityID choice)")
      (auto simp: 1 2 3 4)
  then have 6: "bdFileID binding = ddFileID choice"
    using authorized by (auto simp: 1 2 3 4 split: if_splits)
  obtain entry where 7: "indexFiles (obInventory (lsObservation (asLocalSnapshot assembly))) (ddFileID choice) = Some entry"
    using authorized by (cases "indexFiles (obInventory (lsObservation (asLocalSnapshot assembly))) (ddFileID choice)")
      (auto simp: 1 2 3 4 5 6)
  obtain outcome where 8: "indexProbes (obProbes (lsObservation (asLocalSnapshot assembly))) (ddFileID choice) = Some outcome"
    using authorized by (cases "indexProbes (obProbes (lsObservation (asLocalSnapshot assembly))) (ddFileID choice)")
      (auto simp: 1 2 3 4 5 6 7)
  have status: "poStatus outcome = MediaProbeSucceeded"
    using authorized by (cases "poStatus outcome") (auto simp: 1 2 3 4 5 6 7 8)
  obtain evidence where 9: "poEvidence outcome = Some evidence"
    using authorized by (cases "poEvidence outcome") (auto simp: 1 2 3 4 5 6 7 8 status)
  have "durations_fit evidence"
    using indexProbes_Some [OF 8] 9 fits by auto
  then have "known_duration evidence \<noteq> None"
    using authorized probe_duration(3) [of evidence]
    by (cases "known_duration evidence") (auto simp: 1 2 3 4 5 6 7 8 9 status)
  then show ?thesis
    using 1 2 3 4 5 6 7 8 9 status unfolding import_subject_def by blast
qed

lemma subject_fits:
  assumes "import_subject assembly decision choice capability binding entry outcome evidence duration"
    and "\<forall>probe \<in> set (obProbes (lsObservation (asLocalSnapshot assembly))).
      \<forall>evidence. poEvidence (fpOutcome probe) = Some evidence \<longrightarrow> durations_fit evidence"
  shows "durations_fit evidence"
  using assms by (auto simp: import_subject_def dest!: indexProbes_Some)

lemma ValidateManualImport_decides:
  assumes fits: "\<forall>probe \<in> set (obProbes (lsObservation (asLocalSnapshot assembly))).
      \<forall>evidence. poEvidence (fpOutcome probe) = Some evidence \<longrightarrow> durations_fit evidence"
    and movie: "movie_fits (obMovie (lsObservation (asLocalSnapshot assembly)))"
  shows "mnAuthorized (ValidateManualImportWithPolicy assembly decision policy) = Some a \<longleftrightarrow>
    import_allowed assembly decision policy a"
  using ValidateManualImport_subject [OF _ fits] ValidateManualImport_measured [OF _ subject_fits [OF _ fits] movie]
  unfolding import_allowed_def by metis

end
