(* ===== verification/Disc_Properties.thy ===== *)
theory Disc_Properties
  imports Disc_Titles
begin

text \<open>
  What the titles of a disc that are offered are made of: files of the inventory that are complete
  and stand where the disc format puts them.
\<close>

section \<open>Indexes\<close>

definition mapped :: "file_inventory \<Rightarrow> string \<Rightarrow> string \<Rightarrow> bool" where
  "mapped inventory fileID path \<longleftrightarrow>
     (\<exists>m \<in> set (invPaths inventory). pmFileID m = fileID \<and> pmAbsolutePath m = path)"

lemma path_index_mapped:
  assumes "path_index ms acc = Inr paths" "paths i = Some p"
  shows "acc i = Some p \<or> (\<exists>m \<in> set ms. pmFileID m = i \<and> pmAbsolutePath m = p)"
  using assms by (induction ms arbitrary: acc) (fastforce split: if_splits)+

lemma file_index_entry:
  assumes "file_index paths fs acc = Inr files" "files p = Some f"
  shows "acc p = Some f \<or> (f \<in> set fs \<and> paths (ifID f) = Some p \<and> cleanAbsolute p)"
  using assms by (induction fs arbitrary: acc) (fastforce split: if_splits option.splits)+

lemma inventoryIndex_entry:
  assumes "inventoryIndex inventory = Inr (files, paths)"
  shows "files p = Some f \<Longrightarrow> f \<in> set (invFiles inventory) \<and> mapped inventory (ifID f) p \<and> cleanAbsolute p"
    and "paths i = Some p \<Longrightarrow> mapped inventory i p"
proof -
  have paths: "path_index (invPaths inventory) Map.empty = Inr paths"
    and files: "file_index paths (invFiles inventory) Map.empty = Inr files"
    using assms by (auto simp: inventoryIndex_def and_then_Inr_iff split: if_splits)
  show mapped: "paths i = Some p \<Longrightarrow> mapped inventory i p" for i
    using path_index_mapped [OF paths] by (auto simp: mapped_def)
  show "files p = Some f \<Longrightarrow> f \<in> set (invFiles inventory) \<and> mapped inventory (ifID f) p \<and> cleanAbsolute p"
    using file_index_entry [OF files] mapped by fastforce
qed

lemma file_index_covers:
  assumes "file_index paths fs acc = Inr files" "f \<in> set fs"
  shows "\<exists>p. paths (ifID f) = Some p"
  using assms by (induction fs arbitrary: acc) (auto split: if_splits option.splits)

section \<open>Playlists\<close>

text \<open>A clip of a playlist: a complete file of the inventory in the directory of the streams.\<close>

definition clip_ok :: "file_inventory \<Rightarrow> string \<Rightarrow> string \<Rightarrow> string \<Rightarrow> bool" where
  "clip_ok inventory streamDir path fileID \<longleftrightarrow>
     cleanAbsolute path \<and> Dir path = streamDir \<and> NumberedClip (Base path) \<and> mapped inventory fileID path \<and>
     (\<exists>f \<in> set (invFiles inventory). ifID f = fileID \<and> available f)"

lemma clips_loop_ok:
  assumes "inventoryIndex inventory = Inr (files, paths)" "clips_loop streamDir ps files acc = Some ids"
  shows "\<exists>new. ids = acc @ new \<and> list_all2 (clip_ok inventory streamDir) ps new"
  using assms(2)
proof (induction ps arbitrary: acc)
  case (Cons p ps)
  then obtain f where f: "files p = Some f" "available f" "cleanAbsolute p" "Dir p = streamDir" "NumberedClip (Base p)"
    and rest: "clips_loop streamDir ps files (acc @ [ifID f]) = Some ids"
    by (auto split: if_splits option.splits)
  obtain new where new: "ids = (acc @ [ifID f]) @ new" "list_all2 (clip_ok inventory streamDir) ps new"
    using Cons.IH [OF rest] by blast
  have "clip_ok inventory streamDir p (ifID f)"
    using f inventoryIndex_entry(1) [OF assms(1) f(1)] by (auto simp: clip_ok_def)
  with new show ?case
    by (intro exI [of _ "ifID f # new"]) simp
qed simp

lemma inventoryClips_ok:
  assumes "inventoryIndex inventory = Inr (files, paths)" "inventoryClips path ps files = Some ids"
  shows "list_all2 (clip_ok inventory (Join [Dir (Dir path), ''STREAM''])) ps ids" "ids \<noteq> []"
proof -
  have "clips_loop (Join [Dir (Dir path), ''STREAM'']) ps files [] = Some ids" and ne: "ids \<noteq> []"
    using assms(2) by (auto simp: inventoryClips_def split: option.splits if_splits)
  with clips_loop_ok [OF assms(1)] show "list_all2 (clip_ok inventory (Join [Dir (Dir path), ''STREAM''])) ps ids"
    by fastforce
  show "ids \<noteq> []"
    by (rule ne)
qed

text \<open>What a playlist that is offered is: a complete numbered playlist with complete clips beside it.\<close>

definition offered_playlist :: "file_inventory \<Rightarrow> playlist_candidate \<Rightarrow> bool" where
  "offered_playlist inventory candidate \<longleftrightarrow>
     minimumFeatureMS \<le> plDurationMS (bcDetails candidate) \<and> bcClipFileIDs candidate \<noteq> [] \<and>
     (\<exists>file \<in> set (invFiles inventory). \<exists>path. ifID file = bcPlaylistFileID candidate \<and> is_playlist_file file \<and>
        available file \<and> mapped inventory (ifID file) path \<and>
        list_all2 (clip_ok inventory (Join [Dir (Dir path), ''STREAM'']))
          (plClipPaths (bcDetails candidate)) (bcClipFileIDs candidate))"

lemma playlist_loop_offered:
  assumes "inventoryIndex inventory = Inr (files, paths)"
    and "playlist_loop sha ctxErr identify files paths rest acc = Inr candidates"
    and "\<forall>f \<in> set rest. f \<in> set (invFiles inventory) \<and> is_playlist_file f"
    and "\<forall>c \<in> set acc. offered_playlist inventory c"
  shows "\<forall>c \<in> set candidates. offered_playlist inventory c"
  using assms(2-)
proof (induction rest arbitrary: acc)
  case (Cons f rest)
  let ?path = "case paths (ifID f) of Some p \<Rightarrow> p | None \<Rightarrow> []"
  have f: "f \<in> set (invFiles inventory)" "is_playlist_file f"
    and rest: "\<forall>f \<in> set rest. f \<in> set (invFiles inventory) \<and> is_playlist_file f"
    using Cons.prems(2) by simp_all
  have indexed: "file_index paths (invFiles inventory) Map.empty = Inr files"
    using assms(1) by (auto simp: inventoryIndex_def and_then_Inr_iff split: if_splits)
  have mapped: "mapped inventory (ifID f) ?path"
    using file_index_covers [OF indexed f(1)] inventoryIndex_entry(2) [OF assms(1)] by auto
  show ?case
  proof (cases "available f")
    case False
    then show ?thesis
      using Cons rest by (auto split: option.splits)
  next
    case True
    then obtain details where d: "identify ?path (StrictFingerprint sha (ifFingerprint f)) = Inr details"
      using Cons.prems(1) by (auto simp: Let_def and_then_Inr_iff split: option.splits)
    show ?thesis
    proof (cases "plDurationMS details < minimumFeatureMS \<or> inventoryClips ?path (plClipPaths details) files = None")
      case skip: True
      then have "playlist_loop sha ctxErr identify files paths rest acc = Inr candidates"
        using Cons.prems(1) True d by (auto simp: Let_def split: option.splits if_splits)
      then show ?thesis
        using Cons.IH rest Cons.prems(3) by blast
    next
      case offer: False
      then obtain ids where ids: "inventoryClips ?path (plClipPaths details) files = Some ids"
        by blast
      let ?c = "\<lparr>bcPlaylistFileID = ifID f, bcClipFileIDs = ids, bcDetails = details\<rparr>"
      have "list_all2 (clip_ok inventory (Join [Dir (Dir ?path), ''STREAM''])) (plClipPaths details) ids" "ids \<noteq> []"
        using inventoryClips_ok [OF assms(1) ids] by blast+
      then have "offered_playlist inventory ?c"
        using f mapped offer True unfolding offered_playlist_def by (auto simp del: option.case_eq_if)
      moreover have "playlist_loop sha ctxErr identify files paths rest (acc @ [?c]) = Inr candidates"
        using Cons.prems(1) True d offer ids by (auto simp: Let_def split: option.splits if_splits)
      ultimately show ?thesis
        using Cons.prems(3) by (intro Cons.IH [of "acc @ [?c]", OF _ rest]) (auto simp only: set_append list.set ball_Un ball_simps)
    qed
  qed
qed simp

lemma ListFeaturePlaylists_offered:
  assumes "ListFeaturePlaylists sha ctxErr inventory identifier = Inr candidates"
  shows "\<forall>c \<in> set candidates. offered_playlist inventory c"
proof -
  obtain identify files paths where "identifier = Some identify"
    and index: "inventoryIndex inventory = Inr (files, paths)"
    and loop: "playlist_loop sha ctxErr identify files paths (playlistFiles (invFiles inventory)) [] = Inr candidates"
    using assms by (auto simp: ListFeaturePlaylists_def and_then_Inr_iff Let_def split: option.splits if_splits)
  show ?thesis
    using index loop by (rule playlist_loop_offered) (auto simp: playlistFiles_def)
qed

section \<open>What mkvmerge identifies\<close>

lemma track_loop_tracks:
  assumes "track_loop ts acc v = Inr (tracks, hasVideo)"
    and "\<forall>t \<in> set acc. tkCodec t \<noteq> []" "v \<longleftrightarrow> (\<exists>t \<in> set acc. tkKind t = ''video'')"
  shows "(\<forall>t \<in> set tracks. tkCodec t \<noteq> []) \<and> (hasVideo \<longleftrightarrow> (\<exists>t \<in> set tracks. tkKind t = ''video''))"
  using assms
proof (induction ts arbitrary: acc v)
  case (Cons t ts)
  show ?case
  proof (cases "tkKind t \<noteq> ''video'' \<and> tkKind t \<noteq> ''audio'' \<and> tkKind t \<noteq> ''subtitles''")
    case True
    then show ?thesis
      using Cons.IH [of acc v] Cons.prems by simp
  next
    case False
    then have "tkCodec t \<noteq> []" "track_loop ts (acc @ [t]) (v \<or> tkKind t = ''video'') = Inr (tracks, hasVideo)"
      using Cons.prems(1) by (auto split: if_splits)
    then show ?thesis
      using Cons.IH [of "acc @ [t]" "v \<or> tkKind t = ''video''"] Cons.prems(2,3) by auto
  qed
qed simp

lemma decodePlaylist_bounds:
  assumes "decodePlaylist unmarshalled = Inr pl"
  shows "0 \<le> plDurationMS pl \<and> plDurationMS pl \<le> 7 * 24 * 60 * 60 * 1000 \<and>
    0 \<le> plChapters pl \<and> plChapters pl \<le> 4096 \<and> plClipPaths pl \<noteq> [] \<and> length (plClipPaths pl) \<le> 1024 \<and>
    (\<forall>t \<in> set (plTracks pl). tkCodec t \<noteq> []) \<and> (\<exists>t \<in> set (plTracks pl). tkKind t = ''video'')"
proof -
  obtain i where u: "unmarshalled = Inr i"
    using assms by (cases unmarshalled) (auto simp: decodePlaylist_def)
  then obtain tracks where i: "0 < mkDurationNS i" "mkDurationNS i \<le> 7 * 24 * 60 * 60 * 1000000000"
      "0 \<le> mkChapters i" "mkChapters i \<le> 4096" "mkClipPaths i \<noteq> []" "length (mkClipPaths i) \<le> 1024"
    and tracks: "track_loop (mkTracks i) [] False = Inr (tracks, True)"
    and pl: "pl = \<lparr>plDurationMS = quot64 (mkDurationNS i) 1000000, plChapters = mkChapters i,
      plClipPaths = mkClipPaths i, plTracks = tracks\<rparr>"
    using assms by (auto simp: decodePlaylist_def u and_then_Inr_iff split: if_splits)
  have "quot64 (mkDurationNS i) 1000000 = mkDurationNS i div 1000000"
    using i(1) by (simp add: quot64_nonneg)
  moreover have "mkDurationNS i div 1000000 \<le> 7 * 24 * 60 * 60 * 1000"
    using i(2) zdiv_mono1 [of "mkDurationNS i" "7 * 24 * 60 * 60 * 1000000000" 1000000] by simp
  moreover have "0 \<le> mkDurationNS i div 1000000"
    using i(1) by (simp add: pos_imp_zdiv_nonneg_iff)
  ultimately show ?thesis
    using i track_loop_tracks [OF tracks] by (simp add: pl)
qed

section \<open>Titles of a DVD\<close>

lemma titles_loop_total:
  assumes "\<forall>f \<in> set files. ifPathComponents f \<noteq> []"
  shows "titles_loop n files titles acc \<noteq> None"
  using assms
  by (induction titles arbitrary: acc) (auto simp: hasTitleFiles_def list_ex_iff Let_def split: option.splits bool.splits)

lemma discFiles_files:
  assumes "discFiles inventory paths directory = Some files"
  shows "set files = {f \<in> set inventory. Dir (path_of paths f) = directory}"
    and "\<forall>f \<in> set files. ValidFileName (Base (path_of paths f)) \<and> available f"
    and "3 \<le> length files" "length files \<le> maximumFiles"
  using assms by (auto simp: discFiles_def Let_def list_ex_iff split: if_splits)

lemma disc_loop_total:
  assumes "\<forall>f \<in> set inventory. ifPathComponents f \<noteq> []"
  shows "disc_loop sha ctxErr identify inventory paths rest acc \<noteq> None"
proof (induction rest arbitrary: acc)
  case (Cons n rest)
  show ?case
  proof (cases "discFiles inventory paths (Dir (path_of paths n))")
    case None
    then show ?thesis
      using Cons.IH by (auto simp: Let_def split: option.splits)
  next
    case (Some files)
    have "\<forall>f \<in> set files. ifPathComponents f \<noteq> []"
      using assms discFiles_files(1) [OF Some] by auto
    then have "titles_loop (ifID n) files titles acc \<noteq> None" for titles acc
      by (rule titles_loop_total)
    with Some Cons.IH show ?thesis
      by (simp add: Let_def del: not_None_eq split: option.split sum.split)
  qed
qed simp

text \<open>
  What a title that is offered is: a feature with one angle, video and audio, whose sources are all
  files of the inventory beside a complete navigation file, each complete and named as on a DVD.
\<close>

definition offered_title :: "inventory_file list \<Rightarrow> (string \<rightharpoonup> string) \<Rightarrow> title_candidate \<Rightarrow> bool" where
  "offered_title inventory paths candidate \<longleftrightarrow>
     minimumFeatureMS \<le> dtDurationMS (tcDetails candidate) \<and> dtAngles (tcDetails candidate) = 1 \<and>
     hasMovieTracks (dtTracks (tcDetails candidate)) \<and>
     (\<exists>n \<in> set inventory. \<exists>files. ifID n = tcNavigationFileID candidate \<and> available n \<and>
        Base (path_of paths n) = ''VIDEO_TS.IFO'' \<and>
        set files = {f \<in> set inventory. Dir (path_of paths f) = Dir (path_of paths n)} \<and>
        (\<forall>f \<in> set files. ValidFileName (Base (path_of paths f)) \<and> available f) \<and>
        hasTitleFiles files (dtTitleSet (tcDetails candidate)) = Some True \<and>
        tcSourceFileIDs candidate = map ifID files)"

lemma titles_loop_offered:
  assumes "titles_loop (ifID n) files titles acc = Some candidates"
    and "n \<in> set inventory" "available n" "Base (path_of paths n) = ''VIDEO_TS.IFO''"
    and "discFiles inventory paths (Dir (path_of paths n)) = Some files"
    and "\<forall>c \<in> set acc. offered_title inventory paths c"
  shows "\<forall>c \<in> set candidates. offered_title inventory paths c"
  using assms(1,6)
proof (induction titles arbitrary: acc)
  case (Cons t titles)
  let ?c = "\<lparr>tcNavigationFileID = ifID n, tcSourceFileIDs = map ifID files, tcDetails = t\<rparr>"
  show ?case
  proof (cases "dtDurationMS t < minimumFeatureMS \<or> dtAngles t \<noteq> 1 \<or>
      hasTitleFiles files (dtTitleSet t) = Some False \<or> \<not> hasMovieTracks (dtTracks t)")
    case True
    then have "titles_loop (ifID n) files titles acc = Some candidates"
      using Cons.prems(1) by (auto split: option.splits bool.splits if_splits)
    then show ?thesis
      using Cons.IH Cons.prems(2) by blast
  next
    case False
    then have files: "hasTitleFiles files (dtTitleSet t) = Some True"
      using Cons.prems(1) by (auto split: option.splits bool.splits)
    have "offered_title inventory paths ?c"
      using assms(2-4) False files discFiles_files(1,2) [OF assms(5)] unfolding offered_title_def
      by (auto intro!: bexI [of _ n] exI [of _ files])
    moreover have "titles_loop (ifID n) files titles (acc @ [?c]) = Some candidates"
      using Cons.prems(1) False files by auto
    ultimately show ?thesis
      using Cons.prems(2) by (intro Cons.IH [of "acc @ [?c]"]) (auto simp only: set_append list.set ball_Un ball_simps)
  qed
qed simp

lemma disc_loop_offered:
  assumes "disc_loop sha ctxErr identify inventory paths rest acc = Some (Inr candidates)"
    and "set rest \<subseteq> set inventory" "\<forall>c \<in> set acc. offered_title inventory paths c"
  shows "\<forall>c \<in> set candidates. offered_title inventory paths c"
  using assms
proof (induction rest arbitrary: acc)
  case (Cons n rest)
  have rest: "set rest \<subseteq> set inventory" and n: "n \<in> set inventory"
    using Cons.prems(2) by auto
  show ?case
  proof (cases "available n \<and> discFiles inventory paths (Dir (path_of paths n)) \<noteq> None")
    case False
    then have "disc_loop sha ctxErr identify inventory paths rest acc = Some (Inr candidates)"
      using Cons.prems(1) by (auto simp: Let_def split: option.splits if_splits)
    then show ?thesis
      using Cons.IH rest Cons.prems(3) by blast
  next
    case True
    then obtain files where files: "discFiles inventory paths (Dir (path_of paths n)) = Some files"
      by auto
    then obtain titles next_candidates where base: "Base (path_of paths n) = ''VIDEO_TS.IFO''"
      and loop: "titles_loop (ifID n) files titles acc = Some next_candidates"
      and rest_loop: "disc_loop sha ctxErr identify inventory paths rest next_candidates = Some (Inr candidates)"
      using Cons.prems(1) True by (auto simp: Let_def split: option.splits if_splits sum.splits)
    have "\<forall>c \<in> set next_candidates. offered_title inventory paths c"
      using loop n True base files Cons.prems(3) by (intro titles_loop_offered [OF loop]) auto
    then show ?thesis
      using Cons.IH rest rest_loop by blast
  qed
qed simp

section \<open>Properties\<close>

text \<open>
  C25: every Blu-ray playlist offered to the planner lasts at least twenty minutes and is a complete
  numbered playlist file of the inventory, and its clips, in order, are complete numbered stream
  files of the inventory in the \<open>STREAM\<close> directory of the same disc.
\<close>

theorem offered_playlists_complete:
  assumes "ListFeaturePlaylists sha ctxErr inventory identifier = Inr candidates" "c \<in> set candidates"
  shows "offered_playlist inventory c"
  using ListFeaturePlaylists_offered [OF assms(1)] assms(2) by blast

definition sample_disc_file :: "string \<Rightarrow> string list \<Rightarrow> inventory_file" where
  "sample_disc_file i components = \<lparr>ifID = i, ifPathComponents = components,
     ifFingerprint = \<lparr>snDevice = 1, snInode = 2, snSizeBytes = 10, snMTimeNS = 3\<rparr>, ifDownloadFile = None\<rparr>"

definition sample_disc :: file_inventory where
  "sample_disc =
     \<lparr>invFiles = [sample_disc_file ''p'' [''BDMV'', ''PLAYLIST'', ''00001.mpls''],
                  sample_disc_file ''c'' [''BDMV'', ''STREAM'', ''00001.m2ts'']],
      invPaths = [\<lparr>pmFileID = ''p'', pmAbsolutePath = ''/d/BDMV/PLAYLIST/00001.mpls''\<rparr>,
                  \<lparr>pmFileID = ''c'', pmAbsolutePath = ''/d/BDMV/STREAM/00001.m2ts''\<rparr>]\<rparr>"

definition sample_playlist :: playlist where
  "sample_playlist = \<lparr>plDurationMS = 6000000, plChapters = 12, plClipPaths = [''/d/BDMV/STREAM/00001.m2ts''],
     plTracks = [\<lparr>tkKind = ''video'', tkCodec = ''AVC'', tkLanguage = []\<rparr>]\<rparr>"

definition sample_candidate :: playlist_candidate where
  "sample_candidate = \<lparr>bcPlaylistFileID = ''p'', bcClipFileIDs = [''c''], bcDetails = sample_playlist\<rparr>"

lemma sample_disc_listed:
  "ListFeaturePlaylists id (\<lambda>_. None) sample_disc (Some (\<lambda>_ _. Inr sample_playlist)) = Inr [sample_candidate]"
  by (simp add: ListFeaturePlaylists_def inventoryIndex_def sample_disc_def sample_disc_file_def cleanAbsolute_def
      IsAbs_def has_prefix_def Clean_def playlistFiles_def is_playlist_file_def NumberedPlaylist_def
      numberedFile_def has_suffix_def is_digit_def available_def sample_playlist_def minimumFeatureMS_def
      inventoryClips_def Join_def Dir_def NumberedClip_def Base_def maximumPlaylists_def sample_candidate_def Let_def)

theorem offered_playlists_complete_witness: "offered_playlist sample_disc sample_candidate"
  using offered_playlists_complete [OF sample_disc_listed] by simp

text \<open>
  C30: a playlist identification that is accepted lasts at most seven days, has at most 4096
  chapters, between 1 and 1024 clips, and tracks that all have a codec and include a video track.
\<close>

theorem identified_playlist_bounds:
  assumes "decodePlaylist unmarshalled = Inr pl"
  shows "0 \<le> plDurationMS pl \<and> plDurationMS pl \<le> 7 * 24 * 60 * 60 * 1000 \<and>
    0 \<le> plChapters pl \<and> plChapters pl \<le> 4096 \<and> plClipPaths pl \<noteq> [] \<and> length (plClipPaths pl) \<le> 1024 \<and>
    (\<forall>t \<in> set (plTracks pl). tkCodec t \<noteq> []) \<and> (\<exists>t \<in> set (plTracks pl). tkKind t = ''video'')"
  using assms by (rule decodePlaylist_bounds)

theorem identified_playlist_bounds_witness:
  "plDurationMS sample_playlist \<le> 7 * 24 * 60 * 60 * 1000"
proof -
  have "decodePlaylist (Inr \<lparr>mkRecognized = True, mkSupported = True, mkPlaylist = True,
      mkDurationNS = 6000000000000, mkChapters = 12, mkClipPaths = [''/d/BDMV/STREAM/00001.m2ts''],
      mkErrors = [], mkWarnings = [],
      mkTracks = [\<lparr>tkKind = ''video'', tkCodec = ''AVC'', tkLanguage = []\<rparr>]\<rparr>) = Inr sample_playlist"
    by (simp add: decodePlaylist_def sample_playlist_def quot64_def)
  from identified_playlist_bounds [OF this] show ?thesis
    by blast
qed

text \<open>
  C26: listing the titles of a DVD never reads past the components of a path when every file has
  one, and every title it offers is a feature of one angle with video and audio whose sources are
  all the files of the inventory beside its navigation file, each complete and named as on a DVD.
\<close>

theorem offered_titles_complete:
  assumes "\<forall>f \<in> set (invFiles inventory). ifPathComponents f \<noteq> []"
  shows "\<exists>result. ListFeatureTitles sha ctxErr inventory tool = Some result \<and>
    (case result of
       Inl _ \<Rightarrow> True
     | Inr candidates \<Rightarrow> \<exists>paths. dvd_path_index (invPaths inventory) Map.empty = Inr paths \<and>
         list_all (offered_title (invFiles inventory) paths) candidates)"
proof (cases tool)
  case None
  then show ?thesis
    by (simp add: ListFeatureTitles_def)
next
  case (Some identify)
  show ?thesis
  proof (cases "dvd_path_index (invPaths inventory) Map.empty")
    case (Inl err)
    with Some show ?thesis
      by (simp add: ListFeatureTitles_def)
  next
    case (Inr paths)
    let ?loop = "disc_loop sha ctxErr identify (invFiles inventory) paths
      (sort_key (path_of paths) (filter is_navigation (invFiles inventory))) []"
    have "?loop \<noteq> None"
      using assms by (rule disc_loop_total)
    then obtain r where r: "?loop = Some r"
      by auto
    have "list_all (offered_title (invFiles inventory) paths) candidates" if "r = Inr candidates" for candidates
      using disc_loop_offered [of sha ctxErr identify "invFiles inventory" paths
          "sort_key (path_of paths) (filter is_navigation (invFiles inventory))" "[]" candidates] r that
      by (auto simp: list_all_iff)
    with Some Inr r show ?thesis
      by (auto simp: ListFeatureTitles_def Let_def split: sum.split)
  qed
qed

definition sample_dvd :: file_inventory where
  "sample_dvd =
     \<lparr>invFiles = [sample_disc_file ''n'' [''VIDEO_TS'', ''VIDEO_TS.IFO''],
                  sample_disc_file ''i'' [''VIDEO_TS'', ''VTS_01_0.IFO''],
                  sample_disc_file ''v'' [''VIDEO_TS'', ''VTS_01_1.VOB'']],
      invPaths = [\<lparr>pmFileID = ''n'', pmAbsolutePath = ''/d/VIDEO_TS.IFO''\<rparr>,
                  \<lparr>pmFileID = ''i'', pmAbsolutePath = ''/d/VTS_01_0.IFO''\<rparr>,
                  \<lparr>pmFileID = ''v'', pmAbsolutePath = ''/d/VTS_01_1.VOB''\<rparr>]\<rparr>"

definition sample_title :: dvd_title where
  "sample_title = \<lparr>dtNumber = 1, dtDurationMS = 6000000, dtChapters = 9, dtAngles = 1, dtTitleSet = 1, dtTitleInSet = 1,
     dtTracks = [\<lparr>tkKind = ''video'', tkCodec = ''mpeg2video'', tkLanguage = []\<rparr>,
                 \<lparr>tkKind = ''audio'', tkCodec = ''ac3'', tkLanguage = ''en''\<rparr>]\<rparr>"

definition sample_title_candidate :: title_candidate where
  "sample_title_candidate = \<lparr>tcNavigationFileID = ''n'', tcSourceFileIDs = [''n'', ''i'', ''v''], tcDetails = sample_title\<rparr>"

lemma two_digits_one: "two_digits 1 = ''01''"
  by code_simp

lemma sample_dvd_listed:
  "ListFeatureTitles id (\<lambda>_. None) sample_dvd (Some (\<lambda>_ _. Inr [sample_title])) = Some (Inr [sample_title_candidate])"
  by (simp add: ListFeatureTitles_def sample_dvd_def sample_disc_file_def IsAbs_def has_prefix_def Clean_def
      is_navigation_def maximumDiscs_def path_of_def available_def Base_def Dir_def discFiles_def ValidFileName_def
      is_digit_def maximumFiles_def less_eq_char_def less_char_def sample_title_def minimumFeatureMS_def
      hasTitleFiles_def two_digits_one hasMovieTracks_def sample_title_candidate_def Let_def)

theorem offered_titles_complete_witness:
  "\<exists>paths. offered_title (invFiles sample_dvd) paths sample_title_candidate"
proof -
  have "\<forall>f \<in> set (invFiles sample_dvd). ifPathComponents f \<noteq> []"
    by (simp add: sample_dvd_def sample_disc_file_def)
  from offered_titles_complete [OF this, of id "\<lambda>_. None" "Some (\<lambda>_ _. Inr [sample_title])"]
  show ?thesis
    by (auto simp: sample_dvd_listed)
qed

end
