(* ===== verification/Disc_Policy.thy ===== *)
theory Disc_Policy
  imports Policy_Properties Disc_Properties
begin

text \<open>
  What the local policy authorizes of discs: the remux of a Blu-ray playlist and of a DVD title.
\<close>

section \<open>Authorized files\<close>

text \<open>A complete file of the inventory at a clean absolute path.\<close>

definition complete_source :: "file_inventory \<Rightarrow> authorized_file \<Rightarrow> bool" where
  "complete_source inventory a \<longleftrightarrow>
     (\<exists>file \<in> set (invFiles inventory). ifID file = afFileID a \<and> ifFingerprint file = afFingerprint a \<and>
        0 < snSizeBytes (afFingerprint a) \<and>
        (case ifDownloadFile file of
           None \<Rightarrow> True
         | Some downloaded \<Rightarrow> rfSelected downloaded \<and> rfLengthBytes downloaded = snSizeBytes (afFingerprint a) \<and>
             rfBytesCompleted downloaded = snSizeBytes (afFingerprint a))) \<and>
     (\<exists>mapping \<in> set (invPaths inventory). pmFileID mapping = afFileID a \<and>
        pmAbsolutePath mapping = path_at (indexPaths (invPaths inventory)) (afFileID a)) \<and>
     cleanAbsolute (path_at (indexPaths (invPaths inventory)) (afFileID a))"

lemma availableRemuxFile_complete:
  assumes "availableRemuxFile (indexFiles inventory) (indexPaths (invPaths inventory)) fileID = Some a"
  shows "complete_source inventory a" "afFileID a = fileID"
proof -
  obtain f p where found: "indexFiles inventory fileID = Some f" "indexPaths (invPaths inventory) fileID = Some p"
    using assms by (auto simp: availableRemuxFile_def split: option.splits)
  note member = indexFiles_Some [OF found(1)] indexPaths_Some [OF found(2)]
  have "\<not> IsAbs []"
    by (simp add: IsAbs_def has_prefix_def)
  then show "complete_source inventory a" "afFileID a = fileID"
    using assms found member
    by (auto simp: availableRemuxFile_def complete_source_def path_at_def cleanAbsolute_def split: option.splits if_splits)
qed

definition source_size :: "authorized_file \<Rightarrow> int" where
  "source_size a = snSizeBytes (afFingerprint a)"

lemma complete_source_size: "complete_source inventory a \<Longrightarrow> 0 < source_size a"
  by (auto simp: complete_source_def source_size_def)

lemma add_source:
  assumes "0 \<le> bytes" "bytes \<le> max_int64" "0 < amount" "\<not> amount > wrap64 (max_int64 - bytes)"
  shows "wrap64 (bytes + amount) = bytes + amount" "bytes + amount \<le> max_int64" "0 \<le> bytes + amount"
proof -
  have "wrap64 (max_int64 - bytes) = max_int64 - bytes"
    using assms(1,2) by (intro wrap64_id) (simp add: in_int64_def min_int64_def max_int64_def)
  then show "bytes + amount \<le> max_int64" "0 \<le> bytes + amount"
    using assms by auto
  then show "wrap64 (bytes + amount) = bytes + amount"
    by (intro wrap64_id) (simp add: in_int64_def min_int64_def)
qed

section \<open>Blu-ray playlists\<close>

text \<open>A clip at the path the playlist names, in the directory of the streams.\<close>

definition authorized_clip :: "file_inventory \<Rightarrow> string \<Rightarrow> string \<Rightarrow> authorized_file \<Rightarrow> bool" where
  "authorized_clip inventory streamDirectory path a \<longleftrightarrow>
     complete_source inventory a \<and> path_at (indexPaths (invPaths inventory)) (afFileID a) = path \<and>
     Dir path = streamDirectory \<and> NumberedClip (Base path)"

lemma remux_clips_authorized:
  assumes "remux_clips (indexFiles inventory) (indexPaths (invPaths inventory)) streamDirectory clipPaths position ids clips bytes =
      Some (Some (result, total_bytes))"
    and "0 \<le> bytes" "bytes \<le> max_int64"
  shows "\<exists>new. result = clips @ new \<and> map afFileID new = ids \<and> position + length ids \<le> max position (length clipPaths) \<and>
    list_all2 (authorized_clip inventory streamDirectory) (take (length ids) (drop position clipPaths)) new \<and>
    total_bytes = bytes + sum_list (map source_size new) \<and> total_bytes \<le> max_int64"
  using assms
proof (induction ids arbitrary: position clips bytes)
  case (Cons i ids)
  let ?paths = "indexPaths (invPaths inventory)"
  obtain a where a: "availableRemuxFile (indexFiles inventory) ?paths i = Some a"
    using Cons.prems(1) by (auto simp: Let_def split: option.splits)
  then have guards: "position < length clipPaths" "path_at ?paths i = clipPaths ! position" "Dir (path_at ?paths i) = streamDirectory"
    "NumberedClip (Base (path_at ?paths i))" "\<not> source_size a > wrap64 (max_int64 - bytes)"
    and rest: "remux_clips (indexFiles inventory) ?paths streamDirectory clipPaths (Suc position) ids (clips @ [a])
      (wrap64 (bytes + source_size a)) = Some (Some (result, total_bytes))"
    using Cons.prems(1) by (auto simp: Let_def source_size_def split: if_splits)
  note complete = availableRemuxFile_complete [OF a]
  note add = add_source [OF Cons.prems(2,3) complete_source_size [OF complete(1)] guards(5)]
  obtain new where new: "result = (clips @ [a]) @ new" "map afFileID new = ids"
    "Suc position + length ids \<le> max (Suc position) (length clipPaths)"
    "list_all2 (authorized_clip inventory streamDirectory) (take (length ids) (drop (Suc position) clipPaths)) new"
    "total_bytes = bytes + source_size a + sum_list (map source_size new)" "total_bytes \<le> max_int64"
    using Cons.IH [of "Suc position" "clips @ [a]" "bytes + source_size a"] rest add by auto
  have "authorized_clip inventory streamDirectory (clipPaths ! position) a"
    using complete guards by (simp add: authorized_clip_def)
  moreover have "drop position clipPaths = clipPaths ! position # drop (Suc position) clipPaths"
    using guards(1) by (simp add: Cons_nth_drop_Suc)
  ultimately show ?case
    using new complete(2) guards(1) by (intro exI [of _ "a # new"]) auto
qed simp

lemma remux_clips_total:
  "position + length ids \<le> length clipPaths \<Longrightarrow>
     remux_clips files paths streamDirectory clipPaths position ids clips bytes \<noteq> None"
  by (induction ids arbitrary: position clips bytes) (auto simp: Let_def split: option.splits)

lemma single_candidate_None: "single_candidate matches cs (Some c) = Some r \<Longrightarrow> r = Some c \<and> filter matches cs = []"
  by (induction cs) (auto split: if_splits)

lemma single_candidate_Some:
  "single_candidate matches cs None = Some (Some c) \<Longrightarrow> filter matches cs = [c]"
  by (induction cs) (auto split: if_splits dest: single_candidate_None)

lemma single_candidate_mem: "single_candidate matches cs None = Some (Some c) \<Longrightarrow> c \<in> set cs"
  using single_candidate_Some [of matches cs c] by (metis filter_is_subset list.set_intros(1) subsetD)

text \<open>The playlist that a decision refers to: the only candidate of that file, as it was offered.\<close>

definition remux_subject ::
  "'v assembly \<Rightarrow> repair_decision \<Rightarrow> disc_decision \<Rightarrow> capability \<Rightarrow> playlist_candidate \<Rightarrow> bool" where
  "remux_subject assembly decision choice capability candidate \<longleftrightarrow>
     rdKind decision = ActionRemuxBluray \<and> rdRemuxBluray decision = Some choice \<and> ddAction choice = ActionRemuxBluray \<and>
     ddCaseID choice = rcCaseID (asRequest assembly) \<and> lsCaseID (asLocalSnapshot assembly) = rcCaseID (asRequest assembly) \<and>
     findCapability (rcCapabilities (asRequest assembly)) (ddCapabilityID choice) = Some capability \<and>
     cpAction capability = CapabilityActionRemuxBluray \<and> cpTracks capability \<noteq> [] \<and> cpClipFileIDS capability \<noteq> [] \<and>
     cpPlaylistFileID capability = Some (bcPlaylistFileID candidate) \<and>
     filter (\<lambda>c. bcPlaylistFileID c = bcPlaylistFileID candidate) (obBluRayPlaylists (lsObservation (asLocalSnapshot assembly))) = [candidate] \<and>
     cpDurationMS capability = Some (plDurationMS (bcDetails candidate)) \<and>
     cpChapterCount capability = Some (plChapters (bcDetails candidate)) \<and>
     list_all2 remuxTrackMatches (plTracks (bcDetails candidate)) (cpTracks capability) \<and>
     cpClipFileIDS capability = bcClipFileIDs candidate"

text \<open>
  An authorization to remux it: the complete playlist file of a disc, its clips in order, complete
  and in the stream directory of the same disc, their total size, and a duration that agrees with
  the runtime of the movie.
\<close>

definition remux_permitted ::
  "'v assembly \<Rightarrow> runtime_policy \<Rightarrow> disc_decision \<Rightarrow> playlist_candidate \<Rightarrow> authorized_remux \<Rightarrow> bool" where
  "remux_permitted assembly policy choice candidate a \<longleftrightarrow>
     (let observation = lsObservation (asLocalSnapshot assembly); inventory = obInventory observation;
          details = bcDetails candidate;
          path = path_at (indexPaths (invPaths inventory)) (bcPlaylistFileID candidate)
      in arCaseID a = ddCaseID choice \<and> arCapabilityID a = ddCapabilityID choice \<and>
         afFileID (arPlaylist a) = bcPlaylistFileID candidate \<and> complete_source inventory (arPlaylist a) \<and>
         NumberedPlaylist (Base path) \<and> Base (Dir path) = ''PLAYLIST'' \<and> Base (Dir (Dir path)) = ''BDMV'' \<and>
         map afFileID (arClips a) = bcClipFileIDs candidate \<and>
         list_all2 (authorized_clip inventory (Join [Dir (Dir path), ''STREAM'']))
           (take (length (arClips a)) (plClipPaths details)) (arClips a) \<and>
         arSourceBytes a = sum_list (map source_size (arClips a)) \<and> arSourceBytes a \<le> max_int64 \<and>
         arExpectedDurationMS a = plDurationMS details \<and> arExpectedChapters a = plChapters details \<and>
         arExpectedTracks a = plTracks details \<and>
         known_runtime (obMovie observation) \<and> runtime_agrees policy (obMovie observation) (plDurationMS details) \<and>
         arRuntimeToleranceMS a = allowed_difference policy (obMovie observation))"

lemma rejectRemux_unauthorized [simp]: "dvAuthorized (rejectRemux reason) = None"
  by (simp add: rejectRemux_def)

lemma ValidateRemux_subject:
  assumes "ValidateRemuxWithPolicy assembly decision policy = Some v" "dvAuthorized v = Some a"
  shows "\<exists>choice capability candidate. remux_subject assembly decision choice capability candidate"
proof -
  note authorized = assms(1) [unfolded ValidateRemuxWithPolicy_def Let_def]
  let ?observation = "lsObservation (asLocalSnapshot assembly)"
  obtain choice where 1: "rdRemuxBluray decision = Some choice"
    using authorized assms(2) by (cases "rdRemuxBluray decision") auto
  have 2: "rdKind decision = ActionRemuxBluray \<and> ddAction choice = ActionRemuxBluray \<and>
      ddCaseID choice = rcCaseID (asRequest assembly) \<and> lsCaseID (asLocalSnapshot assembly) = rcCaseID (asRequest assembly)"
    using authorized assms(2) by (auto simp: 1 split: if_splits)
  obtain capability where 3: "findCapability (rcCapabilities (asRequest assembly)) (ddCapabilityID choice) = Some capability"
    using authorized assms(2)
    by (cases "findCapability (rcCapabilities (asRequest assembly)) (ddCapabilityID choice)") (auto simp: 1 2)
  have 4: "cpAction capability = CapabilityActionRemuxBluray \<and> cpPlaylistFileID capability \<noteq> None \<and>
      cpDurationMS capability \<noteq> None \<and> cpChapterCount capability \<noteq> None \<and> cpClipFileIDS capability \<noteq> [] \<and> cpTracks capability \<noteq> []"
    using authorized assms(2) by (auto simp: 1 2 3 simp del: not_None_eq split: if_splits)
  let ?single = "single_candidate (\<lambda>c. Some (bcPlaylistFileID c) = cpPlaylistFileID capability) (obBluRayPlaylists ?observation) None"
  obtain candidate where 5: "?single = Some (Some candidate)"
    using authorized assms(2) by (auto simp: 1 2 3 4 simp del: not_None_eq split: option.splits)
  have only: "filter (\<lambda>c. Some (bcPlaylistFileID c) = cpPlaylistFileID capability) (obBluRayPlaylists ?observation) = [candidate]"
    by (rule single_candidate_Some [OF 5])
  have "candidate \<in> set (filter (\<lambda>c. Some (bcPlaylistFileID c) = cpPlaylistFileID capability) (obBluRayPlaylists ?observation))"
    unfolding only by simp
  then have id: "cpPlaylistFileID capability = Some (bcPlaylistFileID candidate)"
    by simp
  have 6: "Some (plDurationMS (bcDetails candidate)) = cpDurationMS capability \<and>
      Some (plChapters (bcDetails candidate)) = cpChapterCount capability \<and>
      list_all2 remuxTrackMatches (plTracks (bcDetails candidate)) (cpTracks capability) \<and>
      bcClipFileIDs candidate = cpClipFileIDS capability"
    using authorized assms(2) by (auto simp: 1 2 3 4 5 simp del: not_None_eq split: if_splits)
  have "remux_subject assembly decision choice capability candidate"
    using 1 2 3 4 6 only by (simp add: remux_subject_def id)
  then show ?thesis
    by blast
qed

lemma single_candidate_filter:
  "filter matches cs = [c] \<Longrightarrow> single_candidate matches cs None = Some (Some c)"
proof (induction cs)
  case (Cons x cs)
  have "filter matches cs = [] \<Longrightarrow> single_candidate matches cs found = Some found" for found
    by (induction cs) (auto split: if_splits)
  then show ?case
    using Cons by (auto split: if_splits)
qed simp

lemma ValidateRemux_eq:
  fixes policy :: runtime_policy
  assumes subject: "remux_subject assembly decision choice capability candidate"
    and fit: "movie_fits (obMovie (lsObservation (asLocalSnapshot assembly)))"
      "0 \<le> plDurationMS (bcDetails candidate)" "plDurationMS (bcDetails candidate) \<le> max_int64"
  defines "observation \<equiv> lsObservation (asLocalSnapshot assembly)"
  defines "files \<equiv> indexFiles (obInventory observation)" and "paths \<equiv> indexPaths (invPaths (obInventory observation))"
  defines "path \<equiv> path_at paths (bcPlaylistFileID candidate)"
    and "runtime \<equiv> assessManualImportRuntime (plDurationMS (bcDetails candidate)) (movieRuntime (obMovie observation)) policy"
  shows "ValidateRemuxWithPolicy assembly decision policy =
    (if \<not> known_runtime (obMovie observation) then Some (rejectRemux RemuxRuntimeMissing)
     else if \<not> runtime_agrees policy (obMovie observation) (plDurationMS (bcDetails candidate))
     then Some \<lparr>dvAuthorized = None, dvRejections = [RemuxRuntimeMismatch], dvRuntime = Some runtime\<rparr>
     else case availableRemuxFile files paths (bcPlaylistFileID candidate) of
       None \<Rightarrow> Some (rejectRemux RemuxFileUnavailable)
     | Some playlistFile \<Rightarrow>
         if \<not> NumberedPlaylist (Base path) then Some (rejectRemux RemuxFileUnavailable)
         else if Base (Dir path) \<noteq> ''PLAYLIST'' \<or> Base (Dir (Dir path)) \<noteq> ''BDMV'' then Some (rejectRemux RemuxPlaylistMismatch)
         else map_option (\<lambda>clips. case clips of
                  None \<Rightarrow> rejectRemux RemuxFileUnavailable
                | Some (authorizedClips, bytes) \<Rightarrow>
                    \<lparr>dvAuthorized = Some
                       \<lparr>arCaseID = ddCaseID choice, arCapabilityID = ddCapabilityID choice,
                        arPlaylist = playlistFile, arClips = authorizedClips, arSourceBytes = bytes,
                        arExpectedDurationMS = plDurationMS (bcDetails candidate),
                        arExpectedChapters = plChapters (bcDetails candidate), arExpectedTracks = plTracks (bcDetails candidate),
                        arRuntimeToleranceMS = allowed_difference policy (obMovie observation)\<rparr>,
                     dvRejections = [], dvRuntime = Some runtime\<rparr>)
              (remux_clips files paths (Join [Dir (Dir path), ''STREAM'']) (plClipPaths (bcDetails candidate)) 0
                 (bcClipFileIDs candidate) [] 0))"
proof -
  note facts = subject [unfolded remux_subject_def]
  note checks = runtime_check [OF fit, where policy = policy]
  have single: "single_candidate (\<lambda>c. bcPlaylistFileID c = bcPlaylistFileID candidate)
      (obBluRayPlaylists observation) None = Some (Some candidate)"
    using facts unfolding observation_def by (intro single_candidate_filter) simp
  have offer: "cpCapabilityID capability = ddCapabilityID choice"
    using facts findCapability_Some by blast
  have clips: "bcClipFileIDs candidate \<noteq> []"
    using facts by metis
  show ?thesis
  proof (cases "known_runtime (obMovie observation)")
    case True
    then obtain d where "raDifferenceMS runtime = Some d" "the (raToleranceMS runtime) = allowed_difference policy (obMovie observation)"
      "allowed_difference policy (obMovie observation) < d \<longleftrightarrow>
        \<not> runtime_agrees policy (obMovie observation) (plDurationMS (bcDetails candidate))"
      using checks(1,3) unfolding runtime_def observation_def by auto
    then show ?thesis
      unfolding ValidateRemuxWithPolicy_def Let_def
      by (simp add: facts single offer clips True flip: observation_def files_def paths_def path_def runtime_def
          cong: option.case_cong if_cong)
  next
    case False
    then show ?thesis
      unfolding ValidateRemuxWithPolicy_def Let_def
      by (simp add: facts single offer clips flip: observation_def files_def paths_def path_def runtime_def
          cong: option.case_cong if_cong)
  qed
qed

lemma ValidateRemux_permitted:
  assumes subject: "remux_subject assembly decision choice capability candidate"
    and authorized: "ValidateRemuxWithPolicy assembly decision policy = Some v" "dvAuthorized v = Some a"
    and fit: "movie_fits (obMovie (lsObservation (asLocalSnapshot assembly)))"
      "0 \<le> plDurationMS (bcDetails candidate)" "plDurationMS (bcDetails candidate) \<le> max_int64"
  shows "remux_permitted assembly policy choice candidate a"
proof -
  let ?observation = "lsObservation (asLocalSnapshot assembly)"
  let ?inventory = "obInventory ?observation"
  let ?paths = "indexPaths (invPaths ?inventory)"
  let ?path = "path_at ?paths (bcPlaylistFileID candidate)"
  note eq = ValidateRemux_eq [OF subject fit, of policy]
  obtain clips bytes where a: "availableRemuxFile (indexFiles ?inventory) ?paths (bcPlaylistFileID candidate) = Some (arPlaylist a)"
    and runtime: "known_runtime (obMovie ?observation)" "runtime_agrees policy (obMovie ?observation) (plDurationMS (bcDetails candidate))"
    and place: "NumberedPlaylist (Base ?path)" "Base (Dir ?path) = ''PLAYLIST''" "Base (Dir (Dir ?path)) = ''BDMV''"
    and loop: "remux_clips (indexFiles ?inventory) ?paths (Join [Dir (Dir ?path), ''STREAM'']) (plClipPaths (bcDetails candidate)) 0
      (bcClipFileIDs candidate) [] 0 = Some (Some (clips, bytes))"
    and fields: "arCaseID a = ddCaseID choice" "arCapabilityID a = ddCapabilityID choice" "arClips a = clips" "arSourceBytes a = bytes"
      "arExpectedDurationMS a = plDurationMS (bcDetails candidate)" "arExpectedChapters a = plChapters (bcDetails candidate)"
      "arExpectedTracks a = plTracks (bcDetails candidate)"
      "arRuntimeToleranceMS a = allowed_difference policy (obMovie ?observation)"
    using authorized unfolding eq by (auto split: if_splits option.splits)
  have clips: "map afFileID clips = bcClipFileIDs candidate"
    "list_all2 (authorized_clip ?inventory (Join [Dir (Dir ?path), ''STREAM''])) (take (length clips) (plClipPaths (bcDetails candidate))) clips"
    "bytes = sum_list (map source_size clips)" "bytes \<le> max_int64"
    using remux_clips_authorized [OF loop] by (auto simp: max_int64_def dest!: arg_cong [where f = length])
  show ?thesis
    using availableRemuxFile_complete [OF a] runtime place fields clips by (simp add: remux_permitted_def Let_def)
qed

text \<open>A playlist that has as many paths as clips is never read past its end.\<close>

lemma ValidateRemux_total:
  assumes "\<forall>c \<in> set (obBluRayPlaylists (lsObservation (asLocalSnapshot assembly))).
      length (bcClipFileIDs c) \<le> length (plClipPaths (bcDetails c))"
  shows "ValidateRemuxWithPolicy assembly decision policy \<noteq> None"
proof -
  have never: "\<exists>y. remux_clips files paths streamDirectory (plClipPaths (bcDetails c)) 0 ids [] 0 = Some y"
    if "single_candidate matches (obBluRayPlaylists (lsObservation (asLocalSnapshot assembly))) None = Some (Some c)"
      "bcClipFileIDs c = ids"
    for matches files paths streamDirectory c ids
    using assms single_candidate_mem [OF that(1)] that(2)
      remux_clips_total [of 0 ids "plClipPaths (bcDetails c)" files paths streamDirectory "[]" 0] by auto
  show ?thesis
    unfolding ValidateRemuxWithPolicy_def Let_def
    by (auto split: option.splits if_splits intro: never)
qed

section \<open>DVD titles\<close>

definition dvd_subject ::
  "'v assembly \<Rightarrow> repair_decision \<Rightarrow> disc_decision \<Rightarrow> capability \<Rightarrow> title_candidate \<Rightarrow> bool" where
  "dvd_subject assembly decision choice capability candidate \<longleftrightarrow>
     rdKind decision = ActionRemuxDVD \<and> rdRemuxDVD decision = Some choice \<and> ddAction choice = ActionRemuxDVD \<and>
     ddCaseID choice = rcCaseID (asRequest assembly) \<and> lsCaseID (asLocalSnapshot assembly) = rcCaseID (asRequest assembly) \<and>
     findCapability (rcCapabilities (asRequest assembly)) (ddCapabilityID choice) = Some capability \<and>
     cpAction capability = CapabilityActionRemuxDVD \<and> cpTracks capability \<noteq> [] \<and> cpSourceFileIDS capability \<noteq> [] \<and>
     cpNavigationFileID capability = Some (tcNavigationFileID candidate) \<and>
     cpTitleNumber capability = Some (dtNumber (tcDetails candidate)) \<and>
     filter (\<lambda>c. tcNavigationFileID c = tcNavigationFileID candidate \<and> dtNumber (tcDetails c) = dtNumber (tcDetails candidate))
       (obDVDTitles (lsObservation (asLocalSnapshot assembly))) = [candidate] \<and>
     cpDurationMS capability = Some (dtDurationMS (tcDetails candidate)) \<and>
     cpChapterCount capability = Some (dtChapters (tcDetails candidate)) \<and>
     cpTitleSet capability = Some (dtTitleSet (tcDetails candidate)) \<and>
     cpTitleInSet capability = Some (dtTitleInSet (tcDetails candidate)) \<and>
     cpAngleCount capability = Some 1 \<and> dtAngles (tcDetails candidate) = 1 \<and>
     list_all2 dvd_track_matches (dtTracks (tcDetails candidate)) (cpTracks capability) \<and>
     cpSourceFileIDS capability = tcSourceFileIDs candidate"

definition dvd_permitted ::
  "'v assembly \<Rightarrow> runtime_policy \<Rightarrow> disc_decision \<Rightarrow> title_candidate \<Rightarrow> authorized_dvd \<Rightarrow> bool" where
  "dvd_permitted assembly policy choice candidate a \<longleftrightarrow>
     (let observation = lsObservation (asLocalSnapshot assembly); inventory = obInventory observation;
          details = tcDetails candidate; paths = indexPaths (invPaths inventory);
          path = path_at paths (tcNavigationFileID candidate)
      in adCaseID a = ddCaseID choice \<and> adCapabilityID a = ddCapabilityID choice \<and>
         afFileID (adNavigation a) = tcNavigationFileID candidate \<and> complete_source inventory (adNavigation a) \<and>
         Base path = ''VIDEO_TS.IFO'' \<and> tcNavigationFileID candidate \<in> set (tcSourceFileIDs candidate) \<and>
         map afFileID (adSources a) = tcSourceFileIDs candidate \<and>
         (\<forall>source \<in> set (adSources a). complete_source inventory source \<and> Dir (path_at paths (afFileID source)) = Dir path) \<and>
         adSourceBytes a = sum_list (map source_size (adSources a)) \<and> adSourceBytes a \<le> max_int64 \<and>
         adTitleNumber a = dtNumber details \<and> adExpectedDurationMS a = dtDurationMS details \<and>
         adExpectedChapters a = dtChapters details \<and> adExpectedTracks a = dtTracks details \<and>
         known_runtime (obMovie observation) \<and> runtime_agrees policy (obMovie observation) (dtDurationMS details) \<and>
         adRuntimeToleranceMS a = allowed_difference policy (obMovie observation))"

lemma dvd_sources_authorized:
  assumes "dvd_sources (indexFiles inventory) (indexPaths (invPaths inventory)) directory ids sources bytes =
      Some (result, total_bytes)"
    and "0 \<le> bytes" "bytes \<le> max_int64"
  shows "\<exists>new. result = sources @ new \<and> map afFileID new = ids \<and>
    (\<forall>a \<in> set new. complete_source inventory a \<and> Dir (path_at (indexPaths (invPaths inventory)) (afFileID a)) = directory) \<and>
    total_bytes = bytes + sum_list (map source_size new) \<and> total_bytes \<le> max_int64"
  using assms
proof (induction ids arbitrary: sources bytes)
  case (Cons i ids)
  let ?paths = "indexPaths (invPaths inventory)"
  obtain a where a: "availableRemuxFile (indexFiles inventory) ?paths i = Some a"
    using Cons.prems(1) by (auto split: option.splits)
  then have guards: "Dir (path_at ?paths i) = directory" "\<not> source_size a > wrap64 (max_int64 - bytes)"
    and rest: "dvd_sources (indexFiles inventory) ?paths directory ids (sources @ [a])
      (wrap64 (bytes + source_size a)) = Some (result, total_bytes)"
    using Cons.prems(1) by (auto simp: source_size_def split: if_splits)
  note complete = availableRemuxFile_complete [OF a]
  note add = add_source [OF Cons.prems(2,3) complete_source_size [OF complete(1)] guards(2)]
  obtain new where "result = (sources @ [a]) @ new" "map afFileID new = ids"
    "\<forall>a \<in> set new. complete_source inventory a \<and> Dir (path_at ?paths (afFileID a)) = directory"
    "total_bytes = bytes + source_size a + sum_list (map source_size new)" "total_bytes \<le> max_int64"
    using Cons.IH [of "sources @ [a]" "bytes + source_size a"] rest add by auto
  then show ?case
    using complete guards by (intro exI [of _ "a # new"]) simp
qed simp

lemma rejectDVD_unauthorized [simp]: "dvAuthorized (rejectDVD reason) = None"
  by (simp add: rejectDVD_def)

lemma ValidateDVD_subject:
  assumes "dvAuthorized (ValidateDVDWithPolicy assembly decision policy) = Some a"
  shows "\<exists>choice capability candidate. dvd_subject assembly decision choice capability candidate"
proof -
  note authorized = assms(1) [unfolded ValidateDVDWithPolicy_def Let_def]
  let ?observation = "lsObservation (asLocalSnapshot assembly)"
  obtain choice where 1: "rdRemuxDVD decision = Some choice"
    using authorized by (cases "rdRemuxDVD decision") auto
  have 2: "rdKind decision = ActionRemuxDVD \<and> ddAction choice = ActionRemuxDVD \<and>
      ddCaseID choice = rcCaseID (asRequest assembly) \<and> lsCaseID (asLocalSnapshot assembly) = rcCaseID (asRequest assembly)"
    using authorized by (auto simp: 1 split: if_splits)
  obtain capability where 3: "findCapability (rcCapabilities (asRequest assembly)) (ddCapabilityID choice) = Some capability"
    using authorized by (cases "findCapability (rcCapabilities (asRequest assembly)) (ddCapabilityID choice)") (auto simp: 1 2)
  have 4: "cpAction capability = CapabilityActionRemuxDVD \<and> cpNavigationFileID capability \<noteq> None \<and>
      cpTitleNumber capability \<noteq> None \<and> cpTitleSet capability \<noteq> None \<and> cpTitleInSet capability \<noteq> None \<and>
      cpAngleCount capability \<noteq> None \<and> cpDurationMS capability \<noteq> None \<and> cpChapterCount capability \<noteq> None \<and>
      cpSourceFileIDS capability \<noteq> [] \<and> cpTracks capability \<noteq> []"
    using authorized by (auto simp: 1 2 3 simp del: not_None_eq split: if_splits)
  let ?matches = "\<lambda>c. Some (tcNavigationFileID c) = cpNavigationFileID capability \<and> Some (dtNumber (tcDetails c)) = cpTitleNumber capability"
  obtain candidate where 5: "single_candidate ?matches (obDVDTitles ?observation) None = Some (Some candidate)"
    using authorized by (auto simp: 1 2 3 4 simp del: not_None_eq split: option.splits)
  have only: "filter ?matches (obDVDTitles ?observation) = [candidate]"
    by (rule single_candidate_Some [OF 5])
  have "candidate \<in> set (filter ?matches (obDVDTitles ?observation))"
    unfolding only by simp
  then have id: "cpNavigationFileID capability = Some (tcNavigationFileID candidate)"
    "cpTitleNumber capability = Some (dtNumber (tcDetails candidate))"
    by simp_all
  have 6: "Some (dtDurationMS (tcDetails candidate)) = cpDurationMS capability \<and>
      Some (dtChapters (tcDetails candidate)) = cpChapterCount capability \<and>
      Some (dtTitleSet (tcDetails candidate)) = cpTitleSet capability \<and>
      Some (dtTitleInSet (tcDetails candidate)) = cpTitleInSet capability \<and>
      Some (dtAngles (tcDetails candidate)) = cpAngleCount capability \<and> dtAngles (tcDetails candidate) = 1 \<and>
      tcSourceFileIDs candidate = cpSourceFileIDS capability"
    using authorized by (auto simp: 1 2 3 4 5 simp del: not_None_eq split: if_splits)
  have 7: "list_all2 dvd_track_matches (dtTracks (tcDetails candidate)) (cpTracks capability)"
    using authorized by (auto simp: 1 2 3 4 5 6 simp del: not_None_eq split: if_splits)
  have "dvd_subject assembly decision choice capability candidate"
    using 1 2 3 4 6 7 only unfolding dvd_subject_def id option.inject by auto
  then show ?thesis
    by blast
qed

lemma ValidateDVD_eq:
  fixes policy :: runtime_policy
  assumes subject: "dvd_subject assembly decision choice capability candidate"
    and fit: "movie_fits (obMovie (lsObservation (asLocalSnapshot assembly)))"
      "0 \<le> dtDurationMS (tcDetails candidate)" "dtDurationMS (tcDetails candidate) \<le> max_int64"
  defines "observation \<equiv> lsObservation (asLocalSnapshot assembly)"
  defines "files \<equiv> indexFiles (obInventory observation)" and "paths \<equiv> indexPaths (invPaths (obInventory observation))"
  defines "path \<equiv> path_at paths (tcNavigationFileID candidate)"
    and "runtime \<equiv> assessManualImportRuntime (dtDurationMS (tcDetails candidate)) (movieRuntime (obMovie observation)) policy"
  shows "ValidateDVDWithPolicy assembly decision policy =
    (if \<not> known_runtime (obMovie observation) then rejectDVD RemuxRuntimeMissing
     else if \<not> runtime_agrees policy (obMovie observation) (dtDurationMS (tcDetails candidate))
     then \<lparr>dvAuthorized = None, dvRejections = [RemuxRuntimeMismatch], dvRuntime = Some runtime\<rparr>
     else case availableRemuxFile files paths (tcNavigationFileID candidate) of
       None \<Rightarrow> rejectDVD RemuxFileUnavailable
     | Some navigation \<Rightarrow>
         if Base path \<noteq> ''VIDEO_TS.IFO'' then rejectDVD RemuxPlaylistMismatch
         else case dvd_sources files paths (Dir path) (tcSourceFileIDs candidate) [] 0 of
           None \<Rightarrow> rejectDVD RemuxFileUnavailable
         | Some (sources, bytes) \<Rightarrow>
             if \<not> list_ex (\<lambda>source. afFileID source = afFileID navigation) sources then rejectDVD RemuxFileUnavailable
             else \<lparr>dvAuthorized = Some
                     \<lparr>adCaseID = ddCaseID choice, adCapabilityID = ddCapabilityID choice,
                      adNavigation = navigation, adSources = sources, adTitleNumber = dtNumber (tcDetails candidate),
                      adExpectedDurationMS = dtDurationMS (tcDetails candidate),
                      adExpectedChapters = dtChapters (tcDetails candidate), adExpectedTracks = dtTracks (tcDetails candidate),
                      adSourceBytes = bytes, adRuntimeToleranceMS = allowed_difference policy (obMovie observation)\<rparr>,
                   dvRejections = [], dvRuntime = Some runtime\<rparr>)"
proof -
  note facts = subject [unfolded dvd_subject_def]
  note checks = runtime_check [OF fit, where policy = policy]
  have single: "single_candidate (\<lambda>c. tcNavigationFileID c = tcNavigationFileID candidate \<and>
      dtNumber (tcDetails c) = dtNumber (tcDetails candidate)) (obDVDTitles observation) None = Some (Some candidate)"
    using facts unfolding observation_def by (intro single_candidate_filter) simp
  have offer: "cpCapabilityID capability = ddCapabilityID choice"
    using facts findCapability_Some by blast
  have sources: "tcSourceFileIDs candidate \<noteq> []" "length (dtTracks (tcDetails candidate)) = length (cpTracks capability)"
    using facts by (metis, blast dest: list_all2_lengthD)
  show ?thesis
  proof (cases "known_runtime (obMovie observation)")
    case True
    then obtain d where "raDifferenceMS runtime = Some d" "the (raToleranceMS runtime) = allowed_difference policy (obMovie observation)"
      "allowed_difference policy (obMovie observation) < d \<longleftrightarrow>
        \<not> runtime_agrees policy (obMovie observation) (dtDurationMS (tcDetails candidate))"
      using checks(1,3) unfolding runtime_def observation_def by auto
    then show ?thesis
      unfolding ValidateDVDWithPolicy_def Let_def
      by (simp add: facts single offer sources True flip: observation_def files_def paths_def path_def runtime_def
          cong: option.case_cong if_cong)
  next
    case False
    then show ?thesis
      unfolding ValidateDVDWithPolicy_def Let_def
      by (simp add: facts single offer sources flip: observation_def files_def paths_def path_def runtime_def
          cong: option.case_cong if_cong)
  qed
qed

lemma ValidateDVD_permitted:
  assumes subject: "dvd_subject assembly decision choice capability candidate"
    and authorized: "dvAuthorized (ValidateDVDWithPolicy assembly decision policy) = Some a"
    and fit: "movie_fits (obMovie (lsObservation (asLocalSnapshot assembly)))"
      "0 \<le> dtDurationMS (tcDetails candidate)" "dtDurationMS (tcDetails candidate) \<le> max_int64"
  shows "dvd_permitted assembly policy choice candidate a"
proof -
  let ?observation = "lsObservation (asLocalSnapshot assembly)"
  let ?inventory = "obInventory ?observation"
  let ?paths = "indexPaths (invPaths ?inventory)"
  let ?path = "path_at ?paths (tcNavigationFileID candidate)"
  note eq = ValidateDVD_eq [OF subject fit, of policy]
  obtain sources bytes where a: "availableRemuxFile (indexFiles ?inventory) ?paths (tcNavigationFileID candidate) = Some (adNavigation a)"
    and runtime: "known_runtime (obMovie ?observation)" "runtime_agrees policy (obMovie ?observation) (dtDurationMS (tcDetails candidate))"
    and place: "Base ?path = ''VIDEO_TS.IFO''" "list_ex (\<lambda>source. afFileID source = afFileID (adNavigation a)) sources"
    and loop: "dvd_sources (indexFiles ?inventory) ?paths (Dir ?path) (tcSourceFileIDs candidate) [] 0 = Some (sources, bytes)"
    and fields: "adCaseID a = ddCaseID choice" "adCapabilityID a = ddCapabilityID choice" "adSources a = sources" "adSourceBytes a = bytes"
      "adTitleNumber a = dtNumber (tcDetails candidate)" "adExpectedDurationMS a = dtDurationMS (tcDetails candidate)"
      "adExpectedChapters a = dtChapters (tcDetails candidate)" "adExpectedTracks a = dtTracks (tcDetails candidate)"
      "adRuntimeToleranceMS a = allowed_difference policy (obMovie ?observation)"
    using authorized unfolding eq by (auto split: if_splits option.splits)
  have sources: "map afFileID sources = tcSourceFileIDs candidate"
    "\<forall>source \<in> set sources. complete_source ?inventory source \<and> Dir (path_at ?paths (afFileID source)) = Dir ?path"
    "bytes = sum_list (map source_size sources)" "bytes \<le> max_int64"
    using dvd_sources_authorized [OF loop] by (auto simp: max_int64_def)
  moreover obtain source where "source \<in> set sources" "afFileID source = afFileID (adNavigation a)"
    using place(2) by (auto simp: list_ex_iff)
  then have "afFileID (adNavigation a) \<in> set (tcSourceFileIDs candidate)"
    unfolding sources(1) [symmetric] by (metis image_eqI set_map)
  ultimately show ?thesis
    using availableRemuxFile_complete [OF a] runtime place(1) fields by (simp add: dvd_permitted_def Let_def)
qed

end
