(* ===== verification/Policy_Theorems.thy ===== *)
theory Policy_Theorems
  imports Disc_Policy
begin

text \<open>
  The properties of the local policy, with a case of each kind that it accepts.
\<close>

section \<open>Sample cases\<close>

definition sample_queue :: queue_record where
  "sample_queue = \<lparr>qrID = 5, qrMovieID = Some 7, qrTitle = ''Movie'', qrSizeBytes = 1400, qrSizeRemainingBytes = 0,
     qrTimeRemaining = [], qrEstimatedCompletionTime = None, qrStatus = ''completed'', qrTrackedDownloadStatus = ''warning'',
     qrTrackedDownloadState = ''importPending'', qrStatusMessages = [], qrErrorMessage = [], qrDownloadID = ''D1'',
     qrProtocol = ''torrent'', qrDownloadClient = ''client'', qrIndexer = [], qrOutputPath = ''/d'',
     qrDownloadClientHasPostCategory = False\<rparr>"

definition sample_download :: download where
  "sample_download = \<lparr>dlClient = ''client'', dlSourceType = ''torrent'', dlID = ''D1'', dlIDComparison = DownloadIDExact,
     dlName = ''Movie'', dlStable = True, dlComplete = True, dlOutputPath = ''/d'', dlLabels = [], dlCreatedAt = None,
     dlAddedAt = None, dlCompletedAt = None, dlTotalSizeBytes = 1400, dlContentOwnership = DownloadContentManifest, dlFiles = []\<rparr>"

definition sample_movie :: "int \<Rightarrow> radarr_movie" where
  "sample_movie minutes = \<lparr>mvID = 7, mvTMDBID = 1, mvHasFile = False, mvIMDbID = None, mvTitle = ''Movie'',
     mvOriginalTitle = None, mvAlternateTitles = [], mvYear = 2000, mvRuntimeMinutes = Some minutes\<rparr>"

definition sample_observation ::
  "int \<Rightarrow> file_inventory \<Rightarrow> file_probe list \<Rightarrow> playlist_candidate list \<Rightarrow> title_candidate list \<Rightarrow> case_observation" where
  "sample_observation minutes inventory probes playlists titles =
     \<lparr>obObservedAt = 0,
      obCorrelation = \<lparr>crRadarr = sample_queue, crDownload = sample_download, crDownloadRoot = ''/d'', crRejectionReasons = []\<rparr>,
      obMovie = Some (sample_movie minutes), obHistory = [], obManualImports = [], obInventory = inventory,
      obProbes = probes, obBluRayPlaylists = playlists, obDVDTitles = titles\<rparr>"

definition no_capability :: capability where
  "no_capability = \<lparr>cpAction = [], cpCapabilityID = ''cap'', cpCandidateFileIDS = [], cpFileID = None, cpPlaylistFileID = None,
     cpNavigationFileID = None, cpClipFileIDS = [], cpSourceFileIDS = [], cpDurationMS = None, cpChapterCount = None,
     cpTitleNumber = None, cpTitleSet = None, cpTitleInSet = None, cpAngleCount = None, cpTracks = []\<rparr>"

definition sample_assembly :: "capability \<Rightarrow> case_observation \<Rightarrow> (string, import_binding) mapping \<Rightarrow> unit assembly" where
  "sample_assembly capability observation bindings =
     \<lparr>asRequest = \<lparr>rcCaseID = ''case'', rcObservedAt = 0, rcCapabilities = [capability], rcEvidence = ()\<rparr>,
      asEncodedRequest = [],
      asLocalSnapshot = \<lparr>lsCaseID = ''case'', lsObservation = observation, lsManualImportBindings = bindings\<rparr>\<rparr>"

definition no_decision :: repair_decision where
  "no_decision = \<lparr>rdKind = [], rdNoRepair = None, rdJoinParts = None, rdManualImportFile = None, rdRemuxBluray = None, rdRemuxDVD = None\<rparr>"

text \<open>Two parts of a movie.\<close>

definition sample_media_file :: "string \<Rightarrow> int \<Rightarrow> inventory_file" where
  "sample_media_file fileID index = \<lparr>ifID = fileID, ifPathComponents = [fileID @ ''.mkv''],
     ifFingerprint = \<lparr>snDevice = 1, snInode = index, snSizeBytes = 700, snMTimeNS = 0\<rparr>,
     ifDownloadFile = Some \<lparr>rfIndex = index, rfHasIndex = True, rfLengthBytes = 700, rfBytesCompleted = 700, rfSelected = True\<rparr>\<rparr>"

definition sample_media :: file_inventory where
  "sample_media = \<lparr>invFiles = [sample_media_file ''a'' 0, sample_media_file ''b'' 1],
     invPaths = [\<lparr>pmFileID = ''a'', pmAbsolutePath = ''/d/a.mkv''\<rparr>, \<lparr>pmFileID = ''b'', pmAbsolutePath = ''/d/b.mkv''\<rparr>]\<rparr>"

definition sample_outcomes :: "file_probe list" where
  "sample_outcomes = [\<lparr>fpFileID = ''a'', fpOutcome = SuccessfulMediaProbe (sample_probe 0)\<rparr>,
     \<lparr>fpFileID = ''b'', fpOutcome = SuccessfulMediaProbe (sample_probe 1)\<rparr>]"

definition sample_join_case :: "unit assembly" where
  "sample_join_case = sample_assembly
     (no_capability\<lparr>cpAction := CapabilityActionJoinParts, cpCandidateFileIDS := [''a'', ''b'']\<rparr>)
     (sample_observation 100 sample_media sample_outcomes [] []) Mapping.empty"

definition sample_join_decision :: repair_decision where
  "sample_join_decision = no_decision\<lparr>rdKind := ActionJoinParts,
     rdJoinParts := Some \<lparr>ddAction = ActionJoinParts, ddCaseID = ''case'', ddCapabilityID = ''cap'', ddOrderedFileIDS = [''a'', ''b'']\<rparr>\<rparr>"

lemmas sample_case_defs = sample_queue_def sample_movie_def sample_observation_def no_capability_def sample_assembly_def
  no_decision_def sample_media_file_def sample_media_def sample_outcomes_def SuccessfulMediaProbe_def

lemma sample_probe_fits: "durations_fit (sample_probe i)"
  by (simp add: durations_fit_def sample_probe_def sample_video_def in_int64_def min_int64_def max_int64_def)

lemma sample_extension: "supportedMediaExtension [''a.mkv''] = Some MediaExtensionMKV"
  "supportedMediaExtension [''b.mkv''] = Some MediaExtensionMKV"
  by code_simp+

lemma sample_assessed_files:
  "assessOne (sample_media_file ''a'' 0) = \<lparr>maFile = sample_media_file ''a'' 0, maExtension = MediaExtensionMKV,
     maDisposition = MediaFileProbeCandidate, maExclusionReason = NotExcluded\<rparr>"
  "assessOne (sample_media_file ''b'' 1) = \<lparr>maFile = sample_media_file ''b'' 1, maExtension = MediaExtensionMKV,
     maDisposition = MediaFileProbeCandidate, maExclusionReason = NotExcluded\<rparr>"
  by (simp_all add: assessOne_eq classifyMediaFile_def sample_media_file_def sample_extension)

lemma sample_media_fields:
  "ifID (sample_media_file i n) = i" "ifPathComponents (sample_media_file i n) = [i @ ''.mkv'']"
  "ifFingerprint (sample_media_file i n) = \<lparr>snDevice = 1, snInode = n, snSizeBytes = 700, snMTimeNS = 0\<rparr>"
  by (simp_all add: sample_media_file_def)

lemma sample_indexes:
  "indexFiles sample_media = [''a'' \<mapsto> sample_media_file ''a'' 0, ''b'' \<mapsto> sample_media_file ''b'' 1]"
  "indexProbes sample_outcomes = [''a'' \<mapsto> SuccessfulMediaProbe (sample_probe 0), ''b'' \<mapsto> SuccessfulMediaProbe (sample_probe 1)]"
  by (simp_all add: indexFiles_def sample_media_def indexProbes_def sample_outcomes_def sample_media_file_def)

lemma sample_selection:
  "selected_part [''a'', ''b''] (indexFiles sample_media) (indexProbes sample_outcomes) ''a'' = Inr (sample_part ''a'' 0)"
  "selected_part [''a'', ''b''] (indexFiles sample_media) (indexProbes sample_outcomes) ''b'' = Inr (sample_part ''b'' 1)"
  by (simp_all add: selected_part_def sample_indexes sample_assessed_files ProbeCandidate_def SupportsJoinPartsPath_def
      isRawDiscPath_def SuccessfulMediaProbe_def sample_part_def sample_media_fields Let_def)

section \<open>Properties\<close>

text \<open>
  C31: validating a decision to join parts never panics, and it authorizes a join exactly when the
  decision answers this case with a join that was offered, its files are different, all offered,
  media files of the snapshot that may be joined, successfully probed, and together an eligible
  join; the authorization lists the files in the order of the decision, with the fingerprints of
  the snapshot, and the totals of that join.
\<close>

theorem join_policy_decides:
  assumes "\<forall>probe \<in> set (obProbes (lsObservation (asLocalSnapshot assembly))).
      \<forall>evidence. poEvidence (fpOutcome probe) = Some evidence \<longrightarrow> durations_fit evidence"
  shows "\<exists>v. ValidateJoin assembly decision = Some v \<and>
    (\<forall>a. jvAuthorized v = Some a \<longleftrightarrow> join_allowed assembly decision a)"
  using ValidateJoin_decides [OF assms] by (metis option.inject)

theorem join_policy_decides_witness:
  "\<exists>a. join_allowed sample_join_case sample_join_decision a \<and> map afFileID (ajOrderedParts a) = [''a'', ''b'']"
proof -
  obtain f where f: "AssessJoinFeasibility sample_parts = Some f" "feasibility_eligible f"
    using sample_eligible by blast
  have "ValidateJoin sample_join_case sample_join_decision =
      Some \<lparr>jvAuthorized = Some (authorize_join ''case'' ''cap'' sample_parts f), jvRejections = [], jvFeasibility = Some f\<rparr>"
    using f by (simp add: ValidateJoin_def sample_join_case_def sample_join_decision_def sample_assembly_def no_decision_def
        no_capability_def sample_observation_def action_defs join_checks_def join_case_check_def sample_selection sample_parts_def)
  moreover have "\<forall>probe \<in> set (obProbes (lsObservation (asLocalSnapshot sample_join_case))).
      \<forall>evidence. poEvidence (fpOutcome probe) = Some evidence \<longrightarrow> durations_fit evidence"
    by (simp add: sample_join_case_def sample_assembly_def sample_observation_def sample_outcomes_def
        SuccessfulMediaProbe_def sample_probe_fits)
  ultimately have "join_allowed sample_join_case sample_join_decision (authorize_join ''case'' ''cap'' sample_parts f)"
    using join_policy_decides [of sample_join_case sample_join_decision] by auto
  then show ?thesis
    by (intro exI conjI) (auto simp: authorize_join_def sample_parts_def sample_part_def)
qed

definition sample_binding :: import_binding where
  "sample_binding = \<lparr>bdFileID = ''a'',
     bdExpectedFingerprint = \<lparr>snDevice = 1, snInode = 0, snSizeBytes = 700, snMTimeNS = 0\<rparr>, bdImportMode = RadarrImportModeCopy,
     bdFile = \<lparr>cfPath = ''/d/a.mkv'', cfFolderName = [],
       cfQuality = \<lparr>qmQuality = \<lparr>qlID = 1, qlName = ''q'', qlSource = [], qlResolution = 1080, qlModifier = []\<rparr>, qmRevision = None\<rparr>,
       cfLanguages = [], cfReleaseGroup = [], cfIndexerFlags = 0, cfDownloadID = ''D1'', cfMovieID = 7\<rparr>\<rparr>"

definition sample_import_case :: "unit assembly" where
  "sample_import_case = sample_assembly
     (no_capability\<lparr>cpAction := CapabilityActionManualImportFile, cpFileID := Some ''a''\<rparr>)
     (sample_observation 50 sample_media sample_outcomes [] []) (Mapping.update ''cap'' sample_binding Mapping.empty)"

definition sample_import_decision :: repair_decision where
  "sample_import_decision = no_decision\<lparr>rdKind := ActionManualImportFile,
     rdManualImportFile := Some \<lparr>ddAction = ActionManualImportFile, ddCaseID = ''case'', ddCapabilityID = ''cap'', ddFileID = ''a''\<rparr>\<rparr>"

lemma sample_binding_complete: "binding_complete sample_binding"
  by code_simp

lemma sample_binding_observed:
  "bound_as_observed sample_binding (sample_media_file ''a'' 0) (sample_observation 50 sample_media sample_outcomes [] [])"
  using sample_assessed_files(1)
  by (simp add: bound_as_observed_def assessOne_eq ProbeCandidate_def sample_binding_def sample_media_fields sample_observation_def
      sample_media_def sample_queue_def sample_movie_def)

text \<open>
  C32: validating a decision to import one file authorizes the import exactly when the decision
  answers this case with a file that was offered, the stored binding of that offer is complete and
  still as the snapshot shows it (file, fingerprint, path, download and movie), the file was probed
  successfully and has video, and its duration differs from a known runtime of the movie by no more
  than a tenth of it, five minutes or what the policy allows, whichever is most.
\<close>

theorem import_policy_decides:
  assumes "\<forall>probe \<in> set (obProbes (lsObservation (asLocalSnapshot assembly))).
      \<forall>evidence. poEvidence (fpOutcome probe) = Some evidence \<longrightarrow> durations_fit evidence"
    and "movie_fits (obMovie (lsObservation (asLocalSnapshot assembly)))"
  shows "mnAuthorized (ValidateManualImportWithPolicy assembly decision policy) = Some a \<longleftrightarrow>
    import_allowed assembly decision policy a"
  by (rule ValidateManualImport_decides [OF assms])

theorem import_policy_decides_witness:
  "\<exists>a. mnAuthorized (ValidateManualImportWithPolicy sample_import_case sample_import_decision default_policy) = Some a \<and>
     aiFileID a = ''a'' \<and> aiRuntimeToleranceMS a = 300000"
proof -
  have fits: "\<forall>probe \<in> set (obProbes (lsObservation (asLocalSnapshot sample_import_case))).
      \<forall>evidence. poEvidence (fpOutcome probe) = Some evidence \<longrightarrow> durations_fit evidence"
    by (simp add: sample_import_case_def sample_assembly_def sample_observation_def sample_outcomes_def
        SuccessfulMediaProbe_def sample_probe_fits)
  have movie: "movie_fits (obMovie (lsObservation (asLocalSnapshot sample_import_case)))"
    by (simp add: movie_fits_def movieRuntime_def sample_import_case_def sample_assembly_def sample_observation_def
        sample_movie_def runtime_fits_def max_int64_def)
  have known: "known_duration (sample_probe 0) = Some 3000000"
    using probe_duration(3) [OF sample_probe_fits] sample_duration by simp
  let ?choice = "\<lparr>ddAction = ActionManualImportFile, ddCaseID = ''case'', ddCapabilityID = ''cap'', ddFileID = ''a''\<rparr>"
  have "import_subject sample_import_case sample_import_decision ?choice
      (no_capability\<lparr>cpAction := CapabilityActionManualImportFile, cpFileID := Some ''a''\<rparr>)
      sample_binding (sample_media_file ''a'' 0) (SuccessfulMediaProbe (sample_probe 0)) (sample_probe 0) 3000000"
    by (simp add: import_subject_def sample_import_case_def sample_import_decision_def sample_assembly_def no_decision_def
        no_capability_def sample_observation_def sample_indexes sample_binding_def SuccessfulMediaProbe_def known)
  moreover have "\<exists>a. import_permitted sample_import_case default_policy ?choice sample_binding (sample_media_file ''a'' 0)
      (sample_probe 0) 3000000 a \<and> aiFileID a = ''a'' \<and> aiRuntimeToleranceMS a = 300000"
    using sample_binding_complete sample_binding_observed
    by (simp add: import_permitted_def sample_import_case_def sample_assembly_def hasVideo_def sample_probe_def sample_video_def
        runtime_agrees_def allowed_difference_def movieRuntime_def sample_observation_def sample_movie_def
        runtime_allowance_def default_policy_def)
  ultimately obtain a where "import_allowed sample_import_case sample_import_decision default_policy a"
    "aiFileID a = ''a''" "aiRuntimeToleranceMS a = 300000"
    unfolding import_allowed_def by blast
  then show ?thesis
    using import_policy_decides [OF fits movie] by blast
qed

lemma offered_playlist_lengths:
  "offered_playlist inventory c \<Longrightarrow> length (bcClipFileIDs c) = length (plClipPaths (bcDetails c))"
  by (auto simp: offered_playlist_def dest!: list_all2_lengthD)

text \<open>
  C34: when the playlists of a case are those that were listed from its inventory, validating a
  decision to remux one never panics, and an authorized remux is of the only candidate with the
  playlist file that was offered, exactly as it was offered: the playlist of a disc and, in order,
  its clips, all complete files of the inventory at the paths the playlist names, with their total
  size, which fits in 64 bits, and a duration that agrees with the known runtime of the movie.
\<close>

theorem remux_policy_sound:
  assumes "ListFeaturePlaylists sha ctxErr (obInventory (lsObservation (asLocalSnapshot assembly))) tool =
      Inr (obBluRayPlaylists (lsObservation (asLocalSnapshot assembly)))"
    and "movie_fits (obMovie (lsObservation (asLocalSnapshot assembly)))"
    and "\<forall>c \<in> set (obBluRayPlaylists (lsObservation (asLocalSnapshot assembly))). plDurationMS (bcDetails c) \<le> max_int64"
  shows "\<exists>v. ValidateRemuxWithPolicy assembly decision policy = Some v \<and>
    (\<forall>a. dvAuthorized v = Some a \<longrightarrow>
       (\<exists>choice capability candidate. remux_subject assembly decision choice capability candidate \<and>
          remux_permitted assembly policy choice candidate a))"
proof -
  let ?playlists = "obBluRayPlaylists (lsObservation (asLocalSnapshot assembly))"
  have listed: "\<forall>c \<in> set ?playlists. offered_playlist (obInventory (lsObservation (asLocalSnapshot assembly))) c"
    by (rule ListFeaturePlaylists_offered [OF assms(1)])
  then have "\<forall>c \<in> set ?playlists. length (bcClipFileIDs c) \<le> length (plClipPaths (bcDetails c))"
    using offered_playlist_lengths by fastforce
  then obtain v where v: "ValidateRemuxWithPolicy assembly decision policy = Some v"
    using ValidateRemux_total by blast
  have "\<exists>choice capability candidate. remux_subject assembly decision choice capability candidate \<and>
      remux_permitted assembly policy choice candidate a" if a: "dvAuthorized v = Some a" for a
  proof -
    obtain choice capability candidate where subject: "remux_subject assembly decision choice capability candidate"
      using ValidateRemux_subject [OF v a] by blast
    then have "candidate \<in> set ?playlists"
      unfolding remux_subject_def by (metis filter_is_subset list.set_intros(1) subsetD)
    with listed assms(3) have "0 \<le> plDurationMS (bcDetails candidate)" "plDurationMS (bcDetails candidate) \<le> max_int64"
      by (auto simp: offered_playlist_def minimumFeatureMS_def)
    with ValidateRemux_permitted [OF subject v a assms(2)] subject show ?thesis
      by blast
  qed
  with v show ?thesis
    by blast
qed

definition sample_disc_choice :: "string \<Rightarrow> disc_decision" where
  "sample_disc_choice action = \<lparr>ddAction = action, ddCaseID = ''case'', ddCapabilityID = ''cap''\<rparr>"

definition sample_remux_case :: "unit assembly" where
  "sample_remux_case = sample_assembly
     (no_capability\<lparr>cpAction := CapabilityActionRemuxBluray, cpPlaylistFileID := Some ''p'', cpClipFileIDS := [''c''],
        cpDurationMS := Some 6000000, cpChapterCount := Some 12,
        cpTracks := [\<lparr>otKind = ''video'', otCodec = ''AVC'', otLanguage = None\<rparr>]\<rparr>)
     (sample_observation 100 sample_disc [] [sample_candidate] []) Mapping.empty"

definition sample_remux_decision :: repair_decision where
  "sample_remux_decision = no_decision\<lparr>rdKind := ActionRemuxBluray, rdRemuxBluray := Some (sample_disc_choice ActionRemuxBluray)\<rparr>"

lemmas path_defs = IsAbs_def has_prefix_def Clean_def Base_def Dir_def Join_def has_suffix_def

lemma sample_remux_accepted: "\<exists>v a. ValidateRemuxWithPolicy sample_remux_case sample_remux_decision default_policy = Some v \<and>
    dvAuthorized v = Some a \<and> arSourceBytes a = 10 \<and> map afFileID (arClips a) = [''c'']"
  by (simp add: ValidateRemuxWithPolicy_def sample_remux_case_def sample_remux_decision_def sample_assembly_def no_decision_def
      no_capability_def sample_observation_def sample_disc_choice_def action_defs sample_candidate_def sample_playlist_def
      remuxTrackMatches_def known_runtime_def movieRuntime_def sample_movie_def assessManualImportRuntime_def wrap64_def quot64_def
      minimumRuntimeToleranceMS_def default_policy_def indexFiles_def indexPaths_def sample_disc_def sample_disc_file_def
      availableRemuxFile_def path_at_def path_defs NumberedPlaylist_def NumberedClip_def numberedFile_def is_digit_def max_int64_def Let_def)

theorem remux_policy_sound_witness:
  "\<exists>a. remux_permitted sample_remux_case default_policy (sample_disc_choice ActionRemuxBluray) sample_candidate a \<and> arSourceBytes a = 10"
proof -
  have observed: "lsObservation (asLocalSnapshot sample_remux_case) = sample_observation 100 sample_disc [] [sample_candidate] []"
    by (simp add: sample_remux_case_def sample_assembly_def)
  obtain v a where v: "ValidateRemuxWithPolicy sample_remux_case sample_remux_decision default_policy = Some v"
    "dvAuthorized v = Some a" "arSourceBytes a = 10"
    using sample_remux_accepted by blast
  have "\<exists>v. ValidateRemuxWithPolicy sample_remux_case sample_remux_decision default_policy = Some v \<and>
    (\<forall>a. dvAuthorized v = Some a \<longrightarrow>
       (\<exists>choice capability candidate. remux_subject sample_remux_case sample_remux_decision choice capability candidate \<and>
          remux_permitted sample_remux_case default_policy choice candidate a))"
    by (rule remux_policy_sound [of id "\<lambda>_. None" _ "Some (\<lambda>_ _. Inr sample_playlist)"])
      (use sample_disc_listed in \<open>simp_all add: observed sample_observation_def movie_fits_def movieRuntime_def sample_movie_def
        runtime_fits_def sample_candidate_def sample_playlist_def max_int64_def\<close>)
  then obtain choice capability candidate where c: "remux_subject sample_remux_case sample_remux_decision choice capability candidate"
    "remux_permitted sample_remux_case default_policy choice candidate a"
    using v by auto
  then have "candidate = sample_candidate" "choice = sample_disc_choice ActionRemuxBluray"
    by (auto simp: remux_subject_def observed sample_observation_def sample_remux_decision_def no_decision_def split: if_splits)
  with c(2) v(3) show ?thesis
    by blast
qed

text \<open>
  C35: an authorized remux of a DVD title is of the only candidate with that navigation file and
  title number, exactly as it was offered, with one angle: its sources are complete files of the
  inventory, all in the directory of the navigation file, which is one of them; their total size
  fits in 64 bits, and the duration agrees with the known runtime of the movie.
\<close>

theorem dvd_policy_sound:
  assumes "dvAuthorized (ValidateDVDWithPolicy assembly decision policy) = Some a"
    and "movie_fits (obMovie (lsObservation (asLocalSnapshot assembly)))"
    and "\<forall>c \<in> set (obDVDTitles (lsObservation (asLocalSnapshot assembly))).
      0 \<le> dtDurationMS (tcDetails c) \<and> dtDurationMS (tcDetails c) \<le> max_int64"
  shows "\<exists>choice capability candidate. dvd_subject assembly decision choice capability candidate \<and>
    dvd_permitted assembly policy choice candidate a"
proof -
  obtain choice capability candidate where subject: "dvd_subject assembly decision choice capability candidate"
    using ValidateDVD_subject [OF assms(1)] by blast
  then have "candidate \<in> set (obDVDTitles (lsObservation (asLocalSnapshot assembly)))"
    unfolding dvd_subject_def by (metis (no_types, lifting) filter_is_subset list.set_intros(1) subsetD)
  then show ?thesis
    using ValidateDVD_permitted [OF subject assms(1,2)] assms(3) subject by blast
qed

definition sample_dvd_case :: "unit assembly" where
  "sample_dvd_case = sample_assembly
     (no_capability\<lparr>cpAction := CapabilityActionRemuxDVD, cpNavigationFileID := Some ''n'', cpSourceFileIDS := [''n'', ''i'', ''v''],
        cpDurationMS := Some 6000000, cpChapterCount := Some 9, cpTitleNumber := Some 1, cpTitleSet := Some 1,
        cpTitleInSet := Some 1, cpAngleCount := Some 1,
        cpTracks := [\<lparr>otKind = ''video'', otCodec = ''mpeg2video'', otLanguage = None\<rparr>,
          \<lparr>otKind = ''audio'', otCodec = ''ac3'', otLanguage = Some ''en''\<rparr>]\<rparr>)
     (sample_observation 100 sample_dvd [] [] [sample_title_candidate]) Mapping.empty"

definition sample_dvd_decision :: repair_decision where
  "sample_dvd_decision = no_decision\<lparr>rdKind := ActionRemuxDVD, rdRemuxDVD := Some (sample_disc_choice ActionRemuxDVD)\<rparr>"

lemma sample_dvd_accepted: "\<exists>a. dvAuthorized (ValidateDVDWithPolicy sample_dvd_case sample_dvd_decision default_policy) = Some a \<and>
    adSourceBytes a = 30"
  by (simp add: ValidateDVDWithPolicy_def sample_dvd_case_def sample_dvd_decision_def sample_assembly_def no_decision_def
      no_capability_def sample_observation_def sample_disc_choice_def action_defs sample_title_candidate_def sample_title_def
      dvd_track_matches_def known_runtime_def movieRuntime_def sample_movie_def assessManualImportRuntime_def wrap64_def quot64_def
      minimumRuntimeToleranceMS_def default_policy_def indexFiles_def indexPaths_def sample_dvd_def sample_disc_file_def
      availableRemuxFile_def path_at_def path_defs max_int64_def Let_def)

theorem dvd_policy_sound_witness:
  "\<exists>a choice candidate. dvd_permitted sample_dvd_case default_policy choice candidate a \<and> adSourceBytes a = 30"
proof -
  obtain a where a: "dvAuthorized (ValidateDVDWithPolicy sample_dvd_case sample_dvd_decision default_policy) = Some a" "adSourceBytes a = 30"
    using sample_dvd_accepted by blast
  have observed: "lsObservation (asLocalSnapshot sample_dvd_case) = sample_observation 100 sample_dvd [] [] [sample_title_candidate]"
    by (simp add: sample_dvd_case_def sample_assembly_def)
  have "\<exists>choice capability candidate. dvd_subject sample_dvd_case sample_dvd_decision choice capability candidate \<and>
      dvd_permitted sample_dvd_case default_policy choice candidate a"
    by (rule dvd_policy_sound [OF a(1)])
      (simp_all add: observed sample_observation_def movie_fits_def movieRuntime_def sample_movie_def runtime_fits_def
        sample_title_candidate_def sample_title_def max_int64_def)
  with a(2) show ?thesis
    by blast
qed

end
