(* ===== verification/Execution_Properties.thy ===== *)
theory Execution_Properties
  imports Execution_Check Policy_Theorems
begin

text \<open>
  When the check before an execution accepts: exactly one action, authorized by the stored and by
  the fresh case alike, and safe to carry out now.
\<close>

section \<open>Replacements\<close>

lemma matched_import_seen:
  "matched_import path cs (Some i) = Some (Some j) \<longleftrightarrow> j = i \<and> filter (\<lambda>c. miPath c = path) cs = []"
  by (induction cs) auto

lemma matched_import_unique:
  "matched_import path cs None = Some (Some i) \<longleftrightarrow> filter (\<lambda>c. miPath c = path) cs = [i]"
  by (induction cs) (auto simp: matched_import_seen)

definition replacement_proved :: "'v assembly \<Rightarrow> string \<Rightarrow> bool" where
  "replacement_proved assembly path \<longleftrightarrow>
     (\<exists>i. filter (\<lambda>c. miPath c = path) (obManualImports (lsObservation (asLocalSnapshot assembly))) = [i] \<and>
        ClassifyReplacement (obMovie (lsObservation (asLocalSnapshot assembly))) i = ReplacementAllowed)"

lemma replacementForPath_allowed:
  "replacementForPath assembly path = ReplacementAllowed \<longleftrightarrow> replacement_proved assembly path"
  by (auto simp: replacementForPath_def replacement_proved_def matched_import_unique [symmetric] Let_def split: option.splits)

lemma inventory_path_seen:
  "inventory_path_loop fileID ms (Some p) = Some q \<longleftrightarrow> q = p \<and> filter (\<lambda>m. pmFileID m = fileID) ms = []"
  by (induction ms) auto

lemma inventory_path_unique:
  "inventory_path_loop fileID ms None = Some p \<longleftrightarrow>
     (\<exists>m. filter (\<lambda>m. pmFileID m = fileID) ms = [m] \<and> pmAbsolutePath m = p)"
  by (induction ms) (auto simp: inventory_path_seen)

definition part_proved :: "'v assembly \<Rightarrow> authorized_file \<Rightarrow> bool" where
  "part_proved assembly part \<longleftrightarrow>
     (\<exists>m. filter (\<lambda>m. pmFileID m = afFileID part) (invPaths (obInventory (lsObservation (asLocalSnapshot assembly)))) = [m] \<and>
        replacement_proved assembly (pmAbsolutePath m))"

lemma replacement_loop_accepts:
  "replacement_loop assembly parts unproved = None \<longleftrightarrow> \<not> unproved \<and> (\<forall>p \<in> set parts. part_proved assembly p)"
proof (induction parts arbitrary: unproved)
  case (Cons p parts)
  have "part_proved assembly p \<longleftrightarrow>
      (\<exists>path. inventoryPath assembly (afFileID p) = Some path \<and> replacementForPath assembly path = ReplacementAllowed)"
    by (auto simp: part_proved_def inventoryPath_def inventory_path_unique replacementForPath_allowed)
  then show ?case
    using Cons by (auto simp: Let_def split: option.splits)
qed simp

text \<open>A movie file is only replaced by one file, or by a join of files, that Radarr accepts as a replacement.\<close>

definition replacement_safe :: "'v assembly \<Rightarrow> authorization \<Rightarrow> bool" where
  "replacement_safe assembly a \<longleftrightarrow>
     (case obMovie (lsObservation (asLocalSnapshot assembly)) of
        None \<Rightarrow> True
      | Some movie \<Rightarrow>
          \<not> mvHasFile movie \<or>
          (\<exists>i. auManualImport a = Some i \<and> replacement_proved assembly (cfPath (aiFile i))) \<or>
          (auManualImport a = None \<and> (\<exists>j. auJoin a = Some j \<and> (\<forall>p \<in> set (ajOrderedParts j). part_proved assembly p))))"

lemma ReplacementRejection_safe: "ReplacementRejection assembly a = None \<longleftrightarrow> replacement_safe assembly a"
  by (auto simp: ReplacementRejection_def replacement_safe_def rejectionForReplacement_def replacement_loop_accepts
      replacementForPath_allowed [symmetric] split: option.splits replacement_safety.splits)

section \<open>Authorizations\<close>

text \<open>The policy's authorization of the action of a decision.\<close>

definition authorized_by :: "'v assembly \<Rightarrow> repair_decision \<Rightarrow> runtime_policy \<Rightarrow> authorization \<Rightarrow> bool" where
  "authorized_by assembly decision policy a \<longleftrightarrow>
     (\<exists>v j. rdKind decision = ActionJoinParts \<and> ValidateJoin assembly decision = Some v \<and> join_accepted v \<and>
        jvAuthorized v = Some j \<and> a = no_authorization\<lparr>auJoin := Some j\<rparr>) \<or>
     (\<exists>i. rdKind decision = ActionManualImportFile \<and> manual_accepted (ValidateManualImportWithPolicy assembly decision policy) \<and>
        mnAuthorized (ValidateManualImportWithPolicy assembly decision policy) = Some i \<and>
        a = no_authorization\<lparr>auManualImport := Some i\<rparr>) \<or>
     (\<exists>v r. rdKind decision = ActionRemuxBluray \<and> ValidateRemuxWithPolicy assembly decision policy = Some v \<and> disc_accepted v \<and>
        dvAuthorized v = Some r \<and> a = no_authorization\<lparr>auRemux := Some r\<rparr>) \<or>
     (\<exists>d. rdKind decision = ActionRemuxDVD \<and> disc_accepted (ValidateDVDWithPolicy assembly decision policy) \<and>
        dvAuthorized (ValidateDVDWithPolicy assembly decision policy) = Some d \<and> a = no_authorization\<lparr>auDVD := Some d\<rparr>)"

lemma verdict_granted: "verdict_of accepted a reasons runtime = (b, reason, r, True) \<longleftrightarrow>
    accepted \<and> b = a \<and> reason = [] \<and> r = runtime"
  by (auto simp: verdict_of_def split: list.splits)

lemma Authorize_granted:
  "(\<exists>reason runtime. Authorize assembly decision policy = Some (a, reason, runtime, True)) \<longleftrightarrow>
     authorized_by assembly decision policy a"
  by (auto simp: Authorize_def authorized_by_def verdict_granted action_defs Let_def join_accepted_def manual_accepted_def
      disc_accepted_def split: if_splits)

lemma authorized_one: "authorized_by assembly decision policy a \<Longrightarrow>
    result_accepted \<lparr>crAuthorization = a, crRejections = []\<rparr>"
  by (auto simp: authorized_by_def result_accepted_def no_authorization_def Let_def)

section \<open>The check\<close>

definition stabilized :: "'v checker \<Rightarrow> 'v assembly \<Rightarrow> bool" where
  "stabilized checker stored \<longleftrightarrow>
     qrTrackedDownloadState (crRadarr (obCorrelation (lsObservation (asLocalSnapshot stored)))) \<noteq> ''importPending'' \<or>
     (\<exists>since. chStability checker (rcCaseID (asRequest stored)) = Inr (since, True) \<and> since \<noteq> zero_time \<and>
        since + chStabilization checker \<le> chNow checker)"

definition join_unstarted ::
  "(string \<Rightarrow> string) \<Rightarrow> (authorized_join \<Rightarrow> go_error + string) \<Rightarrow> 'v checker \<Rightarrow> authorization \<Rightarrow> bool" where
  "join_unstarted sha256Hex marshal checker a \<longleftrightarrow>
     (case auJoin a of
        None \<Rightarrow> True
      | Some join \<Rightarrow> \<exists>executionID response. JoinExecutionID sha256Hex marshal join = Inr executionID \<and>
          chJoinExecutions checker executionID = Inr response \<and>
          ijFailure response = None \<and> ijSuccess response = Some InspectJoinAbsent)"

definition execution_allowed ::
  "(string \<Rightarrow> string) \<Rightarrow> (authorized_join \<Rightarrow> go_error + string) \<Rightarrow> 'v checker \<Rightarrow> 'v assembly \<Rightarrow> repair_decision \<Rightarrow>
   runtime_policy \<Rightarrow> authorization \<Rightarrow> bool" where
  "execution_allowed sha256Hex marshal checker stored decision policy a \<longleftrightarrow>
     authorized_by stored decision policy a \<and> chNow checker \<noteq> zero_time \<and> stabilized checker stored \<and>
     (\<exists>fresh. chCases checker (qrID (crRadarr (obCorrelation (lsObservation (asLocalSnapshot stored))))) = Inr fresh \<and>
        rcCaseID (asRequest fresh) = rcCaseID (asRequest stored) \<and> authorized_by fresh decision policy a \<and>
        replacement_safe fresh a \<and> SameCaseState stored fresh) \<and>
     join_unstarted sha256Hex marshal checker a"

lemma rejections_unaccepted [simp]:
  "\<not> result_accepted (check_rejected reason)" "\<not> result_accepted (rejectedDecision reason text runtime)"
  by (simp_all add: result_accepted_def check_rejected_def rejectedDecision_def Let_def)

lemma stability_check_passes:
  assumes "0 < chStabilization checker" "chStabilization checker \<le> max_int64"
  shows "stability_check checker stored = Inr None \<longleftrightarrow> stabilized checker stored"
proof -
  have "time_sub now since < chStabilization checker \<longleftrightarrow> now < since + chStabilization checker" for now since
    using time_sub_ge_iff [of "chStabilization checker" now since] assms by (auto simp: min_int64_def)
  then show ?thesis
    using assms by (auto simp: stability_check_def stabilized_def split: sum.splits if_splits)
qed

lemma stability_check_pending: "stability_check checker stored = Inr (Some r) \<Longrightarrow> \<not> result_accepted r"
  by (auto simp: stability_check_def result_accepted_def Let_def split: sum.splits if_splits)

lemma join_absent_check_accepts:
  assumes "authorized_by assembly decision policy a"
  shows "(\<exists>r. join_absent_check checker (JoinExecutionID sha256Hex marshal) a = Inr r \<and> result_accepted r \<and> crAuthorization r = b) \<longleftrightarrow>
    b = a \<and> join_unstarted sha256Hex marshal checker a"
  using authorized_one [OF assms]
  by (auto simp: join_absent_check_def join_unstarted_def Let_def split: option.splits sum.splits if_splits)

lemma fresh_check_accepts:
  assumes "Authorize fresh decision policy = Some verdict" "authorized_by stored decision policy a"
  shows "(\<exists>r. fresh_check checker (JoinExecutionID sha256Hex marshal) stored fresh a verdict = Inr r \<and>
      result_accepted r \<and> crAuthorization r = b) \<longleftrightarrow>
    b = a \<and> authorized_by fresh decision policy a \<and> replacement_safe fresh a \<and> SameCaseState stored fresh \<and>
    join_unstarted sha256Hex marshal checker a"
proof -
  obtain c reason runtime ok where verdict: "verdict = (c, reason, runtime, ok)"
    by (cases verdict)
  have granted: "authorized_by fresh decision policy x \<longleftrightarrow> ok \<and> c = x" for x
    using assms(1) unfolding Authorize_granted [symmetric] verdict by auto
  show ?thesis
    using join_absent_check_accepts [OF assms(2), of checker sha256Hex marshal b]
    by (auto simp: fresh_check_def verdict granted ReplacementRejection_safe [symmetric] split: option.splits if_splits)
qed

lemma CheckWithPolicy_decides:
  assumes "0 < chStabilization checker" "chStabilization checker \<le> max_int64"
  shows "(\<exists>r. CheckWithPolicy sha256Hex marshal (Some checker) None stored decision policy = Some (Inr r) \<and>
      result_accepted r \<and> crAuthorization r = a) \<longleftrightarrow>
    execution_allowed sha256Hex marshal checker stored decision policy a"
    (is "?checked \<longleftrightarrow> ?allowed")
proof (cases "\<exists>c reason runtime. Authorize stored decision policy = Some (c, reason, runtime, True)")
  case False
  then have "\<not> authorized_by stored decision policy a"
    unfolding Authorize_granted [symmetric] by blast
  moreover have "\<not> ?checked"
    using False by (auto simp: CheckWithPolicy_def split: option.splits if_splits)
  ultimately show ?thesis
    by (simp add: execution_allowed_def)
next
  case True
  then obtain c reason runtime where c: "Authorize stored decision policy = Some (c, reason, runtime, True)"
    by blast
  have stored: "authorized_by stored decision policy x \<longleftrightarrow> c = x" for x
    using c unfolding Authorize_granted [symmetric] by auto
  let ?queueID = "qrID (crRadarr (obCorrelation (lsObservation (asLocalSnapshot stored))))"
  show ?thesis
  proof (cases "chNow checker \<noteq> zero_time \<and> stabilized checker stored \<and>
      (\<exists>fresh. chCases checker ?queueID = Inr fresh \<and> rcCaseID (asRequest fresh) = rcCaseID (asRequest stored))")
    case False
    then have "\<not> ?checked"
      using stability_check_passes [OF assms, of stored] stability_check_pending [of checker stored]
      by (auto simp: CheckWithPolicy_def c Let_def split: sum.splits option.splits inspect_error.splits if_splits)
    moreover have "\<not> ?allowed"
      using False by (auto simp: execution_allowed_def)
    ultimately show ?thesis
      by simp
  next
    case True
    then obtain fresh where fresh: "chCases checker ?queueID = Inr fresh" "rcCaseID (asRequest fresh) = rcCaseID (asRequest stored)"
      and now: "chNow checker \<noteq> zero_time" "stability_check checker stored = Inr None" "stabilized checker stored"
      using stability_check_passes [OF assms, of stored] by blast
    then have eq: "CheckWithPolicy sha256Hex marshal (Some checker) None stored decision policy =
        map_option (fresh_check checker (JoinExecutionID sha256Hex marshal) stored fresh c) (Authorize fresh decision policy)"
      by (simp add: CheckWithPolicy_def c Let_def)
    show ?thesis
    proof (cases "Authorize fresh decision policy")
      case None
      then have "\<not> authorized_by fresh decision policy x" for x
        unfolding Authorize_granted [symmetric] by simp
      then show ?thesis
        using eq None fresh by (simp add: execution_allowed_def)
    next
      case (Some verdict)
      have "authorized_by stored decision policy c"
        by (simp add: stored)
      from fresh_check_accepts [OF Some this, of checker sha256Hex marshal a]
      show ?thesis
        using eq Some fresh now stored unfolding execution_allowed_def by auto
    qed
  qed
qed

section \<open>Properties\<close>

text \<open>
  C33: the check accepts an action exactly when the policy authorizes it on the stored case and,
  equally, on a freshly inspected case of the same identity and state; when the download has been
  stable for the required time, if its import is pending; when the action replaces no movie file,
  or only one that Radarr accepts the chosen file, or every part of the join, as a replacement for;
  and when no execution of the join exists yet. An accepted result authorizes exactly one action.
\<close>

theorem execution_check_decides:
  assumes "0 < chStabilization checker" "chStabilization checker \<le> max_int64"
  shows "(\<exists>r. CheckWithPolicy sha256Hex marshal (Some checker) None stored decision policy = Some (Inr r) \<and>
      result_accepted r \<and> crAuthorization r = a) \<longleftrightarrow>
    execution_allowed sha256Hex marshal checker stored decision policy a"
  by (rule CheckWithPolicy_decides [OF assms])

definition sample_checker :: "unit checker" where
  "sample_checker = \<lparr>chCases = (\<lambda>_. Inr (sample_join_case\<lparr>asRequest := (asRequest sample_join_case)\<lparr>rcObservedAt := 9\<rparr>\<rparr>)),
     chNow = 1000, chJoinExecutions = (\<lambda>_. Inr \<lparr>ijFailure = None, ijSuccess = Some InspectJoinAbsent\<rparr>),
     chStability = (\<lambda>_. Inr (100, True)), chStabilization = 500\<rparr>"

lemma sample_case_authorized:
  assumes "AssessJoinFeasibility sample_parts = Some f" "feasibility_eligible f"
  shows "authorized_by (sample_join_case\<lparr>asRequest := (asRequest sample_join_case)\<lparr>rcObservedAt := t\<rparr>\<rparr>) sample_join_decision policy
    (no_authorization\<lparr>auJoin := Some (authorize_join ''case'' ''cap'' sample_parts f)\<rparr>)"
  using assms
  by (simp add: authorized_by_def ValidateJoin_def sample_join_case_def sample_join_decision_def sample_assembly_def no_decision_def
      no_capability_def sample_observation_def action_defs join_checks_def join_case_check_def sample_selection sample_parts_def
      join_accepted_def)

theorem execution_check_decides_witness:
  "\<exists>r. CheckWithPolicy id (\<lambda>_. Inr []) (Some sample_checker) None sample_join_case sample_join_decision default_policy = Some (Inr r) \<and>
     result_accepted r"
proof -
  obtain f where f: "AssessJoinFeasibility sample_parts = Some f" "feasibility_eligible f"
    using sample_eligible by blast
  let ?a = "no_authorization\<lparr>auJoin := Some (authorize_join ''case'' ''cap'' sample_parts f)\<rparr>"
  have same: "sample_join_case\<lparr>asRequest := (asRequest sample_join_case)\<lparr>rcObservedAt := 0\<rparr>\<rparr> = sample_join_case"
    by (simp add: sample_join_case_def sample_assembly_def)
  have "authorized_by sample_join_case sample_join_decision default_policy ?a"
    using sample_case_authorized [OF f, of 0 default_policy] by (simp only: same)
  moreover have "stabilized sample_checker sample_join_case"
    by (simp add: stabilized_def sample_checker_def zero_time_def)
  moreover have "replacement_safe (sample_join_case\<lparr>asRequest := (asRequest sample_join_case)\<lparr>rcObservedAt := 9\<rparr>\<rparr>) ?a"
    by (simp add: replacement_safe_def sample_join_case_def sample_assembly_def sample_observation_def sample_movie_def)
  moreover have "SameCaseState sample_join_case (sample_join_case\<lparr>asRequest := (asRequest sample_join_case)\<lparr>rcObservedAt := 9\<rparr>\<rparr>)"
    by (simp add: SameCaseState_def Let_def)
  moreover have "join_unstarted id (\<lambda>_. Inr []) sample_checker ?a"
    by (simp add: join_unstarted_def JoinExecutionID_def joinExecutionID_def sample_checker_def)
  ultimately have "execution_allowed id (\<lambda>_. Inr []) sample_checker sample_join_case sample_join_decision default_policy ?a"
    using sample_case_authorized [OF f, of 9 default_policy]
    by (simp add: execution_allowed_def sample_checker_def zero_time_def)
  moreover have "0 < chStabilization sample_checker" "chStabilization sample_checker \<le> max_int64"
    by (simp_all add: sample_checker_def max_int64_def)
  ultimately show ?thesis
    using execution_check_decides [of sample_checker] by blast
qed

end
