(* ===== verification/Queue_Finalizer.thy ===== *)
theory Queue_Finalizer
  imports Join_Lifecycle Jobs_Behaviour Media_Evidence
begin

text \<open>
  Removal of queue records: the finalizer with its durable records of removals
  (\<open>internal/queuefinalize/finalizer.go\<close>) and the removal of the record of one job
  (\<open>internal/repair/removal.go\<close>). Both are programs of calls to the media service, the store and the
  clock, so that other processes and crashes may come between any two calls. A call of the store
  holds its lock and takes what the host refuses, as in \<open>Join_Store\<close>: in the directory, \<open>Regular\<close> is
  a file that can be read, \<open>Irregular\<close> a directory and \<open>Symlink\<close> a link to nothing.
\<close>

section \<open>Queue records\<close>

record queue_entry =
  qeQueueID :: int
  qeDownloadID :: string
  qeSubjectID :: int
  qeStatus :: string
  qeTrackedDownloadStatus :: string

definition Eligible :: "queue_entry \<Rightarrow> bool" where
  "Eligible entry \<longleftrightarrow>
     qeQueueID entry > 0 \<and> TrimSpace (qeDownloadID entry) \<noteq> [] \<and>
     TrimSpace (qeDownloadID entry) = qeDownloadID entry \<and>
     qeSubjectID entry > 0 \<and> qeStatus entry = ''completed'' \<and>
     qeTrackedDownloadStatus entry = ''warning''"

datatype finalization_state = RemovalPrepared | RemovalCompleted | RemovalOther string

record finalization =
  frVersion :: string
  frService :: string
  frEntry :: queue_entry
  frState :: finalization_state
  frPreparedAt :: gotime
  frUpdatedAt :: gotime

record finalize_report =
  rpFinalized :: int
  rpReconciled :: int

datatype finalize_outcome = OutcomeFinalized | OutcomeAlreadyAbsent | OutcomeIdentityChanged

section \<open>The store\<close>

definition recordVersion :: string where
  "recordVersion = ''servarr-queue-finalization/v1''"

definition finalizationsDirectoryName :: string where
  "finalizationsDirectoryName = ''queue-finalizations''"

definition finalizationsLockName :: string where
  "finalizationsLockName = ''.lock''"

record finalization_store =
  fsService :: string
  fsDirectory :: string
  fsLockPath :: string

text \<open>The JSON codec: what is encoded, one decoded value with what follows it, and what follows.\<close>

record 'b finalization_codec =
  fcMarshal :: "finalization \<Rightarrow> go_error + 'b"
  fcDecode :: "'b \<Rightarrow> go_error + finalization \<times> 'b"
  fcTrailing :: "'b \<Rightarrow> trailing"

definition newStore :: "directory_host \<Rightarrow> string \<Rightarrow> string \<Rightarrow> go_error + finalization_store" where
  "newStore d directory_root service =
     (if directory_root = [] \<or> \<not> IsAbs directory_root \<or> Clean directory_root \<noteq> directory_root \<or> Dir directory_root = directory_root
      then Inl (ErrorText ''queue finalization state directory must be an absolute clean path'')
      else
        let dir = Join [directory_root, finalizationsDirectoryName]
        in and_then (wrap_error ''prepare queue finalization state: '' (EnsureDirectory d dir)) (\<lambda>_.
           Inr \<lparr>fsService = service, fsDirectory = dir, fsLockPath = Join [dir, finalizationsLockName]\<rparr>))"

text \<open>The name, in the directory of the store, of the file of a queue record.\<close>

definition finalization_name :: "int \<Rightarrow> string" where
  "finalization_name queueID = ''queue-'' @ itoa queueID @ ''.json''"

definition validate_finalization :: "string \<Rightarrow> finalization \<Rightarrow> go_error + unit" where
  "validate_finalization service value =
     (if frVersion value \<noteq> recordVersion \<or> frService value \<noteq> service \<or> \<not> Eligible (frEntry value) \<or>
         frPreparedAt value = zero_time \<or> frUpdatedAt value = zero_time \<or>
         frUpdatedAt value < frPreparedAt value \<or>
         frState value \<noteq> RemovalPrepared \<and> frState value \<noteq> RemovalCompleted
      then Inl (ErrorText ''queue finalization state is invalid'')
      else Inr ())"

definition withLock ::
  "'b host \<Rightarrow> 'b directory \<Rightarrow> ((go_error + 'c) \<times> 'b directory) \<Rightarrow> (go_error + 'c) \<times> 'b directory" where
  "withLock h dir action =
     or_keep (wrap_error ''open queue finalization lock: '' (check_fault (hLockOpen h))) dir (\<lambda>_.
     or_keep (wrap_error ''set queue finalization lock permissions: '' (check_fault (hLockChmod h))) dir (\<lambda>_.
     or_keep (wrap_error ''lock queue finalization state: '' (check_fault (hFlock h))) dir (\<lambda>_.
     action)))"

definition decode_finalization :: "'b finalization_codec \<Rightarrow> string \<Rightarrow> 'b \<Rightarrow> go_error + finalization" where
  "decode_finalization c service data =
     and_then (wrap_error ''decode queue finalization state: '' (fcDecode c data)) (\<lambda>(value, rest).
     and_then (ensure (fcTrailing c rest = EndOfInput)
       (ErrorText ''decode queue finalization state: trailing data'')) (\<lambda>_.
     and_then (validate_finalization service value) (\<lambda>_.
     Inr value)))"

definition readPath ::
  "'b finalization_codec \<Rightarrow> string \<Rightarrow> 'b host \<Rightarrow> string \<Rightarrow> 'b directory \<Rightarrow> go_error + finalization option" where
  "readPath c service h name dir =
     (case map_of dir name of
        None \<Rightarrow> Inr None
      | Some Symlink \<Rightarrow> Inr None
      | Some Irregular \<Rightarrow> Inl (ErrWrap ''read queue finalization state: '' (ErrorText ''is a directory''))
      | Some (Regular data) \<Rightarrow>
          and_then (wrap_error ''read queue finalization state: '' (check_fault (hRead h name))) (\<lambda>_.
          map_sum id Some (decode_finalization c service data)))"

definition write_finalization ::
  "'b finalization_codec \<Rightarrow> string \<Rightarrow> 'b host \<Rightarrow> finalization \<Rightarrow> 'b directory \<Rightarrow> (go_error + unit) \<times> 'b directory" where
  "write_finalization c service h value dir =
     or_keep (validate_finalization service value) dir (\<lambda>_.
     or_keep (wrap_error ''encode queue finalization state: '' (fcMarshal c value)) dir (\<lambda>data.
     let (r, dir') = Replace h (finalization_name (qeQueueID (frEntry value))) data dir
     in (wrap_error ''write queue finalization state: '' r, dir')))"

definition prepare_removal ::
  "'b finalization_codec \<Rightarrow> string \<Rightarrow> 'b host \<Rightarrow> queue_entry \<Rightarrow> gotime \<Rightarrow> 'b directory \<Rightarrow> (go_error + unit) \<times> 'b directory" where
  "prepare_removal c service h entry now dir =
     or_keep (ensure (now \<noteq> zero_time) (ErrorText ''queue finalization time is invalid'')) dir (\<lambda>_.
     withLock h dir
       (or_keep (readPath c service h (finalization_name (qeQueueID entry)) dir) dir (\<lambda>found.
        (case found of
           Some previous \<Rightarrow>
             (ensure (frEntry previous = entry) (ErrorText ''queue finalization record changed identity''), dir)
         | None \<Rightarrow>
             write_finalization c service h
               \<lparr>frVersion = recordVersion, frService = service, frEntry = entry, frState = RemovalPrepared,
                frPreparedAt = now, frUpdatedAt = now\<rparr> dir))))"

definition complete_removal ::
  "'b finalization_codec \<Rightarrow> string \<Rightarrow> 'b host \<Rightarrow> queue_entry \<Rightarrow> gotime \<Rightarrow> 'b directory \<Rightarrow> (go_error + unit) \<times> 'b directory" where
  "complete_removal c service h entry now dir =
     or_keep (ensure (now \<noteq> zero_time) (ErrorText ''queue finalization time is invalid'')) dir (\<lambda>_.
     withLock h dir
       (or_keep (readPath c service h (finalization_name (qeQueueID entry)) dir) dir (\<lambda>found.
        (case found of
           None \<Rightarrow> (Inl (ErrorText ''prepared queue finalization is unavailable''), dir)
         | Some previous \<Rightarrow>
             if frEntry previous \<noteq> entry
             then (Inl (ErrorText ''prepared queue finalization is unavailable''), dir)
             else if frState previous = RemovalCompleted then (Inr (), dir)
             else write_finalization c service h
                    (previous\<lparr>frState := RemovalCompleted, frUpdatedAt := now\<rparr>) dir))))"

fun list_loop ::
  "'b finalization_codec \<Rightarrow> string \<Rightarrow> 'b host \<Rightarrow> 'b directory \<Rightarrow> string list \<Rightarrow> finalization list
     \<Rightarrow> go_error + finalization list" where
  "list_loop c service h dir [] records = Inr records"
| "list_loop c service h dir (name # names) records =
     (if map_of dir name = Some Irregular \<or> Ext name \<noteq> ''.json'' then list_loop c service h dir names records
      else and_then (readPath c service h name dir) (\<lambda>found.
        list_loop c service h dir names
          (records @ (case found of Some value \<Rightarrow> [value] | None \<Rightarrow> []))))"

definition list_removals ::
  "'b finalization_codec \<Rightarrow> string \<Rightarrow> 'b host \<Rightarrow> 'b directory \<Rightarrow> (go_error + finalization list) \<times> 'b directory" where
  "list_removals c service h dir =
     withLock h dir
       (and_then (check_fault (hReadDir h)) (\<lambda>_.
        map_sum id (sort_key (\<lambda>value. qeQueueID (frEntry value)))
          (list_loop c service h dir (sort (map fst dir)) [])), dir)"

section \<open>Programs\<close>

text \<open>
  A program of calls: reading the queue of the media service, removing one of its records, reading
  the clock and the three operations of the store, each with the rest of the program as a function
  of the answer.
\<close>

datatype 'r removal_prog =
    Finished 'r
  | ReadQueueC "go_error + queue_entry list \<Rightarrow> 'r removal_prog"
  | RemoveC int "go_error + unit \<Rightarrow> 'r removal_prog"
  | NowC "gotime \<Rightarrow> 'r removal_prog"
  | ListC "go_error + finalization list \<Rightarrow> 'r removal_prog"
  | PrepareC queue_entry gotime "go_error + unit \<Rightarrow> 'r removal_prog"
  | CompleteC queue_entry gotime "go_error + unit \<Rightarrow> 'r removal_prog"

primrec bind_prog :: "'r removal_prog \<Rightarrow> ('r \<Rightarrow> 's removal_prog) \<Rightarrow> 's removal_prog" where
  "bind_prog (Finished r) f = f r"
| "bind_prog (ReadQueueC k) f = ReadQueueC (\<lambda>x. bind_prog (k x) f)"
| "bind_prog (RemoveC i k) f = RemoveC i (\<lambda>x. bind_prog (k x) f)"
| "bind_prog (NowC k) f = NowC (\<lambda>x. bind_prog (k x) f)"
| "bind_prog (ListC k) f = ListC (\<lambda>x. bind_prog (k x) f)"
| "bind_prog (PrepareC e t k) f = PrepareC e t (\<lambda>x. bind_prog (k x) f)"
| "bind_prog (CompleteC e t k) f = CompleteC e t (\<lambda>x. bind_prog (k x) f)"

section \<open>The finalizer\<close>

record finalizer =
  fzService :: string
  fzStore :: "finalization_store option"

text \<open>The functions and the clock a finalizer is given, \<open>None\<close> when they are nil.\<close>

record ('q, 'r, 'c) finalizer_dependencies =
  fdService :: string
  fdStateDirectory :: string
  fdReadQueue :: "'q option"
  fdRemove :: "'r option"
  fdClock :: "'c option"

definition new_finalizer :: "directory_host \<Rightarrow> ('q, 'r, 'c) finalizer_dependencies \<Rightarrow> go_error + finalizer" where
  "new_finalizer d dependencies =
     (if TrimSpace (fdService dependencies) = [] \<or> fdReadQueue dependencies = None \<or>
         fdRemove dependencies = None \<or> fdClock dependencies = None
      then Inl (ErrorText ''queue finalizer dependencies are incomplete'')
      else and_then (newStore d (fdStateDirectory dependencies) (fdService dependencies)) (\<lambda>store.
        Inr \<lparr>fzService = fdService dependencies, fzStore = Some store\<rparr>))"

type_synonym outcomes = "int \<rightharpoonup> finalize_outcome"

type_synonym run_result = "finalize_report \<times> outcomes \<times> go_error option"

definition no_report :: finalize_report where
  "no_report = \<lparr>rpFinalized = 0, rpReconciled = 0\<rparr>"

fun index_queue ::
  "string \<Rightarrow> queue_entry list \<Rightarrow> (int \<rightharpoonup> queue_entry) \<Rightarrow> go_error + (int \<rightharpoonup> queue_entry)" where
  "index_queue service [] byID = Inr byID"
| "index_queue service (entry # current) byID =
     (if qeQueueID entry \<le> 0 then Inl (ErrorText (service @ '' queue contains an invalid record''))
      else if byID (qeQueueID entry) \<noteq> None
      then Inl (ErrorText (service @ '' queue contains duplicate record ID '' @ itoa (qeQueueID entry)))
      else index_queue service current (byID(qeQueueID entry \<mapsto> entry)))"

fun reconcile_removals ::
  "(int \<rightharpoonup> queue_entry) \<Rightarrow> finalization list \<Rightarrow> finalize_report
     \<Rightarrow> (finalize_report \<Rightarrow> run_result removal_prog) \<Rightarrow> run_result removal_prog" where
  "reconcile_removals byID [] report k = k report"
| "reconcile_removals byID (value # records) report k =
     (if frState value \<noteq> RemovalPrepared \<or> byID (qeQueueID (frEntry value)) \<noteq> None
      then reconcile_removals byID records report k
      else NowC (\<lambda>now. CompleteC (frEntry value) now (\<lambda>r.
        case r of
          Inl e \<Rightarrow> Finished (report, Map.empty, Some e)
        | Inr _ \<Rightarrow> reconcile_removals byID records (report\<lparr>rpReconciled := rpReconciled report + 1\<rparr>) k)))"

fun finalize_loop ::
  "string \<Rightarrow> (int \<rightharpoonup> queue_entry) \<Rightarrow> int \<Rightarrow> queue_entry list \<Rightarrow> finalize_report \<Rightarrow> outcomes
     \<Rightarrow> run_result removal_prog" where
  "finalize_loop service byID limit [] report outcomes = Finished (report, outcomes, None)"
| "finalize_loop service byID limit (candidate # ordered) report outcomes =
     (if rpFinalized report \<ge> limit then Finished (report, outcomes, None)
      else case byID (qeQueueID candidate) of
        None \<Rightarrow>
          finalize_loop service byID limit ordered report
            (outcomes(qeQueueID candidate \<mapsto> OutcomeAlreadyAbsent))
      | Some observed \<Rightarrow>
          if observed \<noteq> candidate \<or> \<not> Eligible observed
          then finalize_loop service byID limit ordered report
                 (outcomes(qeQueueID candidate \<mapsto> OutcomeIdentityChanged))
          else NowC (\<lambda>now. PrepareC candidate now (\<lambda>r.
            case r of
              Inl e \<Rightarrow> Finished (report, outcomes, Some e)
            | Inr _ \<Rightarrow> RemoveC (qeQueueID candidate) (\<lambda>r.
            case r of
              Inl e \<Rightarrow> Finished (report, outcomes, Some (ErrWrap
                (''finalize '' @ service @ '' queue record '' @ itoa (qeQueueID candidate) @ '': '') e))
            | Inr _ \<Rightarrow> NowC (\<lambda>now. CompleteC candidate now (\<lambda>r.
            case r of
              Inl e \<Rightarrow> Finished (report, outcomes, Some e)
            | Inr _ \<Rightarrow>
                finalize_loop service byID limit ordered (report\<lparr>rpFinalized := rpFinalized report + 1\<rparr>)
                  (outcomes(qeQueueID candidate \<mapsto> OutcomeFinalized))))))))"

definition configured :: "finalizer option \<Rightarrow> bool" where
  "configured fz \<longleftrightarrow> (case fz of None \<Rightarrow> False | Some fz \<Rightarrow> fzStore fz \<noteq> None)"

definition not_configured :: go_error where
  "not_configured = ErrorText ''queue finalizer is not configured''"

definition ineligible :: go_error where
  "ineligible = ErrorText ''queue finalization candidate is ineligible''"

definition run_finalizer ::
  "finalizer option \<Rightarrow> queue_entry list \<Rightarrow> int \<Rightarrow> run_result removal_prog" where
  "run_finalizer fz candidates limit =
     (if \<not> configured fz \<or> limit \<le> 0 then Finished (no_report, Map.empty, Some not_configured)
      else if \<not> list_all Eligible candidates then Finished (no_report, Map.empty, Some ineligible)
      else let service = fzService (the fz) in
        ReadQueueC (\<lambda>r. case r of
          Inl e \<Rightarrow> Finished (no_report, Map.empty, Some (ErrWrap
            (''refresh '' @ service @ '' queue before finalization: '') e))
        | Inr current \<Rightarrow>
            (case index_queue service current Map.empty of
               Inl e \<Rightarrow> Finished (no_report, Map.empty, Some e)
             | Inr byID \<Rightarrow> ListC (\<lambda>r. case r of
                 Inl e \<Rightarrow> Finished (no_report, Map.empty, Some e)
               | Inr records \<Rightarrow> reconcile_removals byID records no_report (\<lambda>report.
                   finalize_loop service byID limit (sort_key qeQueueID candidates) report Map.empty)))))"

definition Run_finalizer :: "finalizer option \<Rightarrow> queue_entry list \<Rightarrow> int \<Rightarrow> (finalize_report \<times> go_error option) removal_prog" where
  "Run_finalizer fz candidates limit =
     (if \<not> configured fz \<or> limit \<le> 0 then Finished (no_report, Some not_configured)
      else if \<not> list_all Eligible candidates then Finished (no_report, Some ineligible)
      else bind_prog (run_finalizer fz candidates limit) (\<lambda>(report, _, err). Finished (report, err)))"

definition Finalize :: "finalizer option \<Rightarrow> queue_entry \<Rightarrow> (go_error + finalize_outcome) removal_prog" where
  "Finalize fz candidate =
     (if \<not> configured fz then Finished (Inl not_configured)
      else if \<not> Eligible candidate then Finished (Inl ineligible)
      else bind_prog (run_finalizer fz [candidate] 1) (\<lambda>(_, outcomes, err). Finished (
        case err of
          Some e \<Rightarrow> Inl e
        | None \<Rightarrow>
            (case outcomes (qeQueueID candidate) of
               None \<Rightarrow> Inl (ErrorText ''queue finalization produced no outcome'')
             | Some outcome \<Rightarrow> Inr outcome))))"

section \<open>Removal of the record of a job\<close>

definition RemoveTracking :: "job \<Rightarrow> (go_error + unit) removal_prog" where
  "RemoveTracking job =
     ReadQueueC (\<lambda>r. case r of
       Inl e \<Rightarrow> Finished (Inl e)
     | Inr entries \<Rightarrow>
         (case MatchQueue (QueueKey job)
                 (map (\<lambda>entry. \<lparr>kQueueID = qeQueueID entry, kDownloadID = qeDownloadID entry\<rparr>) entries) of
            Inl e \<Rightarrow> Finished (Inl e)
          | Inr index \<Rightarrow>
              if index < 0 then Finished (Inr ())
              else let selected = entries ! nat index in
                if \<not> Eligible selected
                then Finished (Inl (ErrorText
                       ''queue identity or completion status changed; removal not performed''))
                else RemoveC (qeQueueID selected) (\<lambda>r. case r of
                  Inl e \<Rightarrow> Finished (Inl e)
                | Inr _ \<Rightarrow> ReadQueueC (\<lambda>r. case r of
                    Inl e \<Rightarrow> Finished (Inl e)
                  | Inr remaining \<Rightarrow> Finished (
                      if list_ex (\<lambda>entry. qeDownloadID entry = jDownloadID job) remaining
                      then Inl (ErrorText ''queue removal accepted but the item is still present'')
                      else Inr ())))))"

end
