(* ===== verification/Finalizer_Properties.thy ===== *)
theory Finalizer_Properties
  imports Queue_Finalizer
begin

text \<open>
  Removals of queue records between other processes and crashes: which record a removal is about,
  and that the finalizer gets through its candidates.
\<close>

section \<open>Names of files\<close>

fun number_of :: "string \<Rightarrow> nat" where
  "number_of s = foldl (\<lambda>a ch. 10 * a + (of_char ch - 48)) 0 s"

lemma number_of_digits: "number_of (digits n) = n"
proof (induction n rule: digits.induct)
  case (1 n)
  show ?case
  proof (cases "n < 10")
    case False
    then have "number_of (digits (n div 10)) = n div 10"
      using 1 by simp
    then show ?thesis
      using False by (subst digits.simps) (simp add: of_char_of)
  qed (subst digits.simps, simp add: of_char_of)
qed

lemma digits_chars: "ch \<in> set (digits n) \<Longrightarrow> of_char ch \<ge> (48 :: nat) \<and> of_char ch < (58 :: nat)"
proof (induction n rule: digits.induct)
  case (1 n)
  have small: "of_char (char_of (48 + m) :: char) = 48 + m" if "m < 10" for m :: nat
    using that by (simp add: of_char_of)
  show ?case
  proof (cases "n < 10")
    case True
    then show ?thesis
      using 1(2) small [of n] by (subst (asm) digits.simps) simp
  next
    case False
    then show ?thesis
      using 1 small [of "n mod 10"] by (subst (asm) digits.simps) auto
  qed
qed

lemma itoa_inj:
  assumes "0 < i" "0 < j" "itoa i = itoa j"
  shows "i = j"
proof -
  have "number_of (digits (nat i)) = number_of (digits (nat j))"
    using assms by (simp add: itoa_def)
  then have "nat i = nat j"
    unfolding number_of_digits .
  then show ?thesis
    using assms by simp
qed

lemma finalization_name_inj: "0 < i \<Longrightarrow> 0 < j \<Longrightarrow> finalization_name i = finalization_name j \<longleftrightarrow> i = j"
  by (auto simp: finalization_name_def intro: itoa_inj)

lemma finalization_name_Ext: "0 < i \<Longrightarrow> Ext (finalization_name i) = ''.json''"
proof -
  assume i: "0 < i"
  have "CHR ''/'' \<notin> set (digits (nat i))" "CHR ''.'' \<notin> set (digits (nat i))"
    using digits_chars [of "CHR ''/''" "nat i"] digits_chars [of "CHR ''.''" "nat i"] by auto
  then have "CHR ''/'' \<notin> set (finalization_name i)" and no_dot: "CHR ''.'' \<notin> set (''queue-'' @ itoa i)"
    using i by (simp_all add: finalization_name_def itoa_def)
  then have "split_on CHR ''/'' (finalization_name i) = [finalization_name i]"
    by (simp add: split_on_clean)
  moreover have "split_on CHR ''.'' (finalization_name i) = [''queue-'' @ itoa i, ''json'']"
    using split_on_append [OF no_dot, of "''json''"]
    by (simp add: finalization_name_def split_on_clean)
  ultimately show ?thesis
    by (simp add: Ext_def finalization_name_def)
qed

lemma finalization_name_kept: "\<not> isTemporaryExecutionName (finalization_name i)"
proof -
  have "drop (length (finalization_name i) - 4) (finalization_name i) = ''json''"
    by (simp add: finalization_name_def)
  then show ?thesis
    by (simp add: isTemporaryExecutionName_def has_suffix_def finalization_name_def)
qed

section \<open>Records of removals\<close>

definition ascii :: "string \<Rightarrow> bool" where
  "ascii s \<longleftrightarrow> list_all (\<lambda>ch. of_char ch < (128 :: nat)) s"

definition ascii_finalization :: "finalization \<Rightarrow> bool" where
  "ascii_finalization v \<longleftrightarrow> ascii (frService v) \<and> ascii (qeDownloadID (frEntry v))"

text \<open>The times JSON can hold: those before the year 10000.\<close>

definition json_time :: "gotime \<Rightarrow> bool" where
  "json_time t \<longleftrightarrow> 0 \<le> t \<and> t < 3652059 * 24 * hour"

text \<open>
  What \<open>encoding/json\<close> documents of records with ASCII texts: a time JSON can hold is encoded, and
  what was encoded decodes to the record with nothing after it.
\<close>

definition codec_law :: "'b finalization_codec \<Rightarrow> string \<Rightarrow> bool" where
  "codec_law c service \<longleftrightarrow>
     (\<forall>v. ascii_finalization v \<and> validate_finalization service v = Inr () \<longrightarrow>
        (json_time (frPreparedAt v) \<and> json_time (frUpdatedAt v) \<longrightarrow> (\<exists>data. fcMarshal c v = Inr data)) \<and>
        (\<forall>data. fcMarshal c v = Inr data \<longrightarrow>
           (\<exists>rest. fcDecode c data = Inr (v, rest) \<and> fcTrailing c rest = EndOfInput)))"

definition removal_at ::
  "'b finalization_codec \<Rightarrow> string \<Rightarrow> 'b directory \<Rightarrow> int \<Rightarrow> finalization option" where
  "removal_at c service dir i =
     (case map_of dir (finalization_name i) of
        Some (Regular data) \<Rightarrow>
          (case decode_finalization c service data of Inr v \<Rightarrow> Some v | Inl _ \<Rightarrow> None)
      | _ \<Rightarrow> None)"

definition recorded :: "'b finalization_codec \<Rightarrow> string \<Rightarrow> 'b directory \<Rightarrow> queue_entry \<Rightarrow> bool" where
  "recorded c service dir entry \<longleftrightarrow>
     (\<exists>v. removal_at c service dir (qeQueueID entry) = Some v \<and> frEntry v = entry)"

lemma decode_finalization_Inr:
  "decode_finalization c service data = Inr v \<longleftrightarrow>
     (\<exists>rest. fcDecode c data = Inr (v, rest) \<and> fcTrailing c rest = EndOfInput) \<and>
     validate_finalization service v = Inr ()"
  by (auto simp: decode_finalization_def and_then_Inr_iff split: prod.splits)

lemma encoded_finalization:
  assumes "codec_law c service" "ascii_finalization v" "validate_finalization service v = Inr ()"
    and "fcMarshal c v = Inr data"
  shows "decode_finalization c service data = Inr v"
  using assms unfolding codec_law_def decode_finalization_Inr by blast

lemma map_sum_Some: "map_sum id Some r = Inr (Some v) \<longleftrightarrow> r = Inr v"
  by (cases r) simp_all

lemma readPath_Some:
  assumes "readPath c service h (finalization_name i) dir = Inr (Some v)"
  shows "removal_at c service dir i = Some v"
  using assms
  by (auto simp: readPath_def removal_at_def and_then_Inr_iff map_sum_Some split: option.splits dirent.splits)

lemma readPath_recorded:
  assumes "removal_at c service dir i = Some v" "readPath c service h (finalization_name i) dir = Inr found"
  shows "found = Some v"
  using assms
  by (auto simp: readPath_def removal_at_def and_then_Inr_iff split: option.splits dirent.splits sum.splits)

text \<open>What a replacement leaves: files with other names, and the new file or the old one.\<close>

lemma Replace_others:
  assumes "host_ok h" "\<not> isTemporaryExecutionName n" "n \<noteq> name"
  shows "map_of (snd (Replace h name data dir)) n = map_of dir n"
  using assms
  by (auto simp: Replace_def keep_temporary_def host_ok_def update_conv' split: replace_fault.splits option.splits)

lemma Replace_target:
  assumes "host_ok h" "\<not> isTemporaryExecutionName name"
  shows "map_of (snd (Replace h name data dir)) name = map_of dir name \<and> fst (Replace h name data dir) \<noteq> Inr () \<or>
    map_of (snd (Replace h name data dir)) name = Some (Regular data)"
  using assms
  by (auto simp: Replace_def keep_temporary_def host_ok_def update_conv' split: replace_fault.splits option.splits)

lemma write_others:
  assumes "host_ok h" "finalization_name i \<noteq> finalization_name (qeQueueID (frEntry v))"
  shows "removal_at c service (snd (write_finalization c service h v dir)) i = removal_at c service dir i"
  using Replace_others [OF assms(1) finalization_name_kept assms(2)]
  by (cases "validate_finalization service v"; cases "fcMarshal c v")
     (simp_all add: write_finalization_def removal_at_def case_prod_unfold Let_def)

lemma write_target:
  assumes "codec_law c service" "host_ok h" "ascii_finalization v"
    and "write_finalization c service h v dir = (r, dir')"
    and name: "finalization_name i = finalization_name (qeQueueID (frEntry v))"
  shows "removal_at c service dir' i = Some v \<or> r \<noteq> Inr () \<and> removal_at c service dir' i = removal_at c service dir i"
proof (cases "validate_finalization service v")
  case (Inr u)
  show ?thesis
  proof (cases "fcMarshal c v")
    case (Inr data)
    let ?n = "finalization_name (qeQueueID (frEntry v))"
    have valid: "validate_finalization service v = Inr ()"
      using \<open>validate_finalization service v = Inr u\<close> by simp
    have "decode_finalization c service data = Inr v"
      using encoded_finalization [OF assms(1,3) valid Inr] .
    moreover have "dir' = snd (Replace h ?n data dir)" "r = wrap_error ''write queue finalization state: '' (fst (Replace h ?n data dir))"
      using assms(4) Inr valid by (auto simp: write_finalization_def case_prod_unfold Let_def)
    ultimately show ?thesis
      using Replace_target [OF assms(2) finalization_name_kept, of "qeQueueID (frEntry v)" data dir] name
      by (auto simp: removal_at_def)
  qed (use assms(4) \<open>validate_finalization service v = Inr u\<close> in \<open>auto simp: write_finalization_def\<close>)
qed (use assms(4) in \<open>auto simp: write_finalization_def\<close>)

lemma withLock_cases: "(\<exists>e. withLock h dir action = (Inl e, dir)) \<or> withLock h dir action = action"
  by (cases "hLockOpen h"; cases "hLockChmod h"; cases "hFlock h") (simp_all add: withLock_def check_fault_def)

lemma prepare_cases:
  assumes "prepare_removal c service h entry t dir = (r, dir')"
  obtains e where "r = Inl e" "dir' = dir"
  | v where "r = Inr ()" "dir' = dir" "removal_at c service dir (qeQueueID entry) = Some v" "frEntry v = entry"
  | "readPath c service h (finalization_name (qeQueueID entry)) dir = Inr None"
    "write_finalization c service h
       \<lparr>frVersion = recordVersion, frService = service, frEntry = entry, frState = RemovalPrepared,
        frPreparedAt = t, frUpdatedAt = t\<rparr> dir = (r, dir')"
proof -
  let ?read = "readPath c service h (finalization_name (qeQueueID entry)) dir"
  let ?action = "or_keep ?read dir (\<lambda>found. case found of
      Some previous \<Rightarrow> (ensure (frEntry previous = entry) (ErrorText ''queue finalization record changed identity''), dir)
    | None \<Rightarrow> write_finalization c service h \<lparr>frVersion = recordVersion, frService = service, frEntry = entry,
        frState = RemovalPrepared, frPreparedAt = t, frUpdatedAt = t\<rparr> dir)"
  have "(\<exists>e. r = Inl e \<and> dir' = dir) \<or> ?action = (r, dir')"
  proof (cases "t = zero_time")
    case False
    then have "withLock h dir ?action = (r, dir')"
      using assms by (simp add: prepare_removal_def)
    with withLock_cases [of h dir ?action] show ?thesis
      by (metis prod.inject)
  qed (use assms in \<open>auto simp: prepare_removal_def\<close>)
  then consider e where "r = Inl e" "dir' = dir" | "?action = (r, dir')"
    by blast
  then show thesis
  proof cases
    case 2
    consider e where "?read = Inl e" | "?read = Inr None" | v where "?read = Inr (Some v)"
      by (cases ?read) auto
    then show thesis
    proof cases
      case (3 v)
      then show thesis
        using 2 that(1,2) readPath_Some [OF 3] by (cases "frEntry v = entry") auto
    qed (use 2 that in auto)
  qed (use that in auto)
qed

lemma complete_cases:
  assumes "complete_removal c service h entry t dir = (r, dir')"
  obtains e where "r = Inl e" "dir' = dir"
  | v where "r = Inr ()" "dir' = dir" "removal_at c service dir (qeQueueID entry) = Some v" "frEntry v = entry"
      "frState v = RemovalCompleted"
  | v where "removal_at c service dir (qeQueueID entry) = Some v" "frEntry v = entry"
      "frState v \<noteq> RemovalCompleted"
      "write_finalization c service h (v\<lparr>frState := RemovalCompleted, frUpdatedAt := t\<rparr>) dir = (r, dir')"
proof -
  let ?read = "readPath c service h (finalization_name (qeQueueID entry)) dir"
  let ?action = "or_keep ?read dir (\<lambda>found. case found of
      None \<Rightarrow> (Inl (ErrorText ''prepared queue finalization is unavailable''), dir)
    | Some previous \<Rightarrow>
        if frEntry previous \<noteq> entry
        then (Inl (ErrorText ''prepared queue finalization is unavailable''), dir)
        else if frState previous = RemovalCompleted then (Inr (), dir)
        else write_finalization c service h (previous\<lparr>frState := RemovalCompleted, frUpdatedAt := t\<rparr>) dir)"
  have "(\<exists>e. r = Inl e \<and> dir' = dir) \<or> ?action = (r, dir')"
  proof (cases "t = zero_time")
    case False
    then have "withLock h dir ?action = (r, dir')"
      using assms by (simp add: complete_removal_def)
    with withLock_cases [of h dir ?action] show ?thesis
      by (metis prod.inject)
  qed (use assms in \<open>auto simp: complete_removal_def\<close>)
  then consider e where "r = Inl e" "dir' = dir" | "?action = (r, dir')"
    by blast
  then show thesis
  proof cases
    case 2
    consider e where "?read = Inl e" | "?read = Inr None" | v where "?read = Inr (Some v)"
      by (cases ?read) auto
    then show thesis
    proof cases
      case (3 v)
      then show thesis
        using 2 that readPath_Some [OF 3]
        by (cases "frEntry v = entry"; cases "frState v = RemovalCompleted") auto
    qed (use 2 that in auto)
  qed (use that in auto)
qed

lemma prepare_keeps:
  assumes "codec_law c service" "host_ok h" "prepare_removal c service h entry t dir = (r, dir')"
    and "recorded c service dir e"
  shows "recorded c service dir' e"
  using assms(3)
proof (cases rule: prepare_cases)
  case 3
  obtain v where "removal_at c service dir (qeQueueID e) = Some v"
    using assms(4) by (auto simp: recorded_def)
  then have "finalization_name (qeQueueID e) \<noteq> finalization_name (qeQueueID entry)"
    using 3(1) readPath_recorded [of c service dir "qeQueueID e" v h None] by auto
  then have "removal_at c service dir' (qeQueueID e) = removal_at c service dir (qeQueueID e)"
    using write_others [OF assms(2)] 3(2) by (metis finalization.select_convs(3) snd_conv)
  then show ?thesis
    using assms(4) by (simp add: recorded_def)
qed (use assms(4) in simp_all)

lemma prepare_records:
  assumes "codec_law c service" "host_ok h" "prepare_removal c service h entry t dir = (Inr (), dir')"
    and "ascii service" "ascii (qeDownloadID entry)"
  shows "recorded c service dir' entry"
  using assms(3)
proof (cases rule: prepare_cases)
  case 3
  show ?thesis
    using write_target [OF assms(1,2) _ 3(2), of "qeQueueID entry"] assms(4,5)
    by (auto simp: recorded_def ascii_finalization_def)
qed (auto simp: recorded_def)

lemma removal_at_service: "removal_at c service dir i = Some v \<Longrightarrow> frService v = service"
  by (auto simp: removal_at_def decode_finalization_Inr validate_finalization_def
      split: option.splits dirent.splits sum.splits if_splits)

lemma complete_keeps:
  assumes "codec_law c service" "host_ok h" "complete_removal c service h entry t dir = (r, dir')"
    and "recorded c service dir e" "ascii service" "ascii (qeDownloadID e)"
  shows "recorded c service dir' e"
  using assms(3)
proof (cases rule: complete_cases)
  case (3 v)
  let ?w = "v\<lparr>frState := RemovalCompleted, frUpdatedAt := t\<rparr>"
  show ?thesis
  proof (cases "finalization_name (qeQueueID e) = finalization_name (qeQueueID entry)")
    case True
    then have "removal_at c service dir (qeQueueID e) = Some v"
      using 3(1) by (simp add: removal_at_def)
    then have "frEntry v = e"
      using assms(4) by (simp add: recorded_def)
    then have "ascii_finalization ?w"
      using assms(5,6) removal_at_service [OF 3(1)] by (simp add: ascii_finalization_def)
    then show ?thesis
      using write_target [OF assms(1,2) _ 3(4), of "qeQueueID e"] \<open>frEntry v = e\<close> assms(4)
      by (auto simp: recorded_def)
  next
    case False
    then have "removal_at c service dir' (qeQueueID e) = removal_at c service dir (qeQueueID e)"
      using write_others [OF assms(2), of "qeQueueID e" ?w c service dir] 3 by simp
    then show ?thesis
      using assms(4) by (simp add: recorded_def)
  qed
qed (use assms(4) in simp_all)

section \<open>Programs among other processes\<close>

text \<open>
  The queue of the media service, the directory of the store, and the queue as the running program
  has read it last.
\<close>

record 'b removal_world =
  wQueue :: "queue_entry list"
  wFiles :: "'b directory"
  wSeen :: "queue_entry list"

definition without :: "int \<Rightarrow> queue_entry list \<Rightarrow> queue_entry list" where
  "without i queue = filter (\<lambda>entry. qeQueueID entry \<noteq> i) queue"

text \<open>
  One call of the program, with any answer of the host and of the service, or one change by others:
  of the queue, or of the directory through another finalizer. A request may take effect although
  its answer is lost.
\<close>

inductive removal_step ::
  "'b finalization_codec \<Rightarrow> string \<Rightarrow> 'r removal_prog \<times> 'b removal_world \<Rightarrow> 'r removal_prog \<times> 'b removal_world \<Rightarrow> bool"
  for c service where
  reads: "removal_step c service (ReadQueueC k, w) (k (Inr (wQueue w)), w\<lparr>wSeen := wQueue w\<rparr>)"
| read_fails: "removal_step c service (ReadQueueC k, w) (k (Inl e), w)"
| removes: "removal_step c service (RemoveC i k, w) (k (Inr ()), w\<lparr>wQueue := without i (wQueue w)\<rparr>)"
| remove_unanswered: "removal_step c service (RemoveC i k, w) (k (Inl e), w\<lparr>wQueue := without i (wQueue w)\<rparr>)"
| remove_fails: "removal_step c service (RemoveC i k, w) (k (Inl e), w)"
| now: "removal_step c service (NowC k, w) (k t, w)"
| lists: "removal_step c service (ListC k, w) (k (fst (list_removals c service h (wFiles w))), w)"
| prepares: "host_ok h \<Longrightarrow> prepare_removal c service h entry t (wFiles w) = (r, dir) \<Longrightarrow>
    removal_step c service (PrepareC entry t k, w) (k r, w\<lparr>wFiles := dir\<rparr>)"
| completes: "host_ok h \<Longrightarrow> complete_removal c service h entry t (wFiles w) = (r, dir) \<Longrightarrow>
    removal_step c service (CompleteC entry t k, w) (k r, w\<lparr>wFiles := dir\<rparr>)"
| others_change: "removal_step c service (p, w) (p, w\<lparr>wQueue := queue\<rparr>)"
| others_prepare: "host_ok h \<Longrightarrow> prepare_removal c service h entry t (wFiles w) = (r, dir) \<Longrightarrow>
    removal_step c service (p, w) (p, w\<lparr>wFiles := dir\<rparr>)"
| others_complete: "host_ok h \<Longrightarrow> complete_removal c service h entry t (wFiles w) = (r, dir) \<Longrightarrow>
    removal_step c service (p, w) (p, w\<lparr>wFiles := dir\<rparr>)"

text \<open>
  The removals a program may still make, given the queue it has read and the removals it has
  recorded: each is of a record that \<open>ok\<close> allows for the queue as it was read, recorded before if
  \<open>durable\<close> asks for it.
\<close>

primrec removes_only ::
  "(queue_entry list \<Rightarrow> queue_entry \<Rightarrow> bool) \<Rightarrow> bool \<Rightarrow> 'r removal_prog \<Rightarrow> queue_entry list \<Rightarrow> queue_entry set \<Rightarrow> bool" where
  "removes_only ok durable (Finished r) seen P = True"
| "removes_only ok durable (ReadQueueC k) seen P =
     ((\<forall>queue. removes_only ok durable (k (Inr queue)) queue P) \<and> (\<forall>e. removes_only ok durable (k (Inl e)) seen P))"
| "removes_only ok durable (RemoveC i k) seen P =
     ((\<exists>entry. qeQueueID entry = i \<and> ok seen entry \<and> (durable \<longrightarrow> entry \<in> P)) \<and>
      (\<forall>r. removes_only ok durable (k r) seen P))"
| "removes_only ok durable (NowC k) seen P = (\<forall>t. removes_only ok durable (k t) seen P)"
| "removes_only ok durable (ListC k) seen P = (\<forall>r. removes_only ok durable (k r) seen P)"
| "removes_only ok durable (PrepareC entry t k) seen P =
     (ascii (qeDownloadID entry) \<and> removes_only ok durable (k (Inr ())) seen (insert entry P) \<and>
      (\<forall>e. removes_only ok durable (k (Inl e)) seen P))"
| "removes_only ok durable (CompleteC entry t k) seen P = (\<forall>r. removes_only ok durable (k r) seen P)"

definition on_track ::
  "'b finalization_codec \<Rightarrow> string \<Rightarrow> (queue_entry list \<Rightarrow> queue_entry \<Rightarrow> bool) \<Rightarrow> bool
     \<Rightarrow> 'r removal_prog \<times> 'b removal_world \<Rightarrow> bool" where
  "on_track c service ok durable s \<longleftrightarrow>
     (\<exists>P. removes_only ok durable (fst s) (wSeen (snd s)) P \<and>
       (\<forall>entry \<in> P. ascii (qeDownloadID entry) \<and> recorded c service (wFiles (snd s)) entry))"

lemma on_track_step:
  assumes "codec_law c service" "ascii service" "removal_step c service s s'" "on_track c service ok durable s"
  shows "on_track c service ok durable s'"
  using assms(3,4)
proof (cases rule: removal_step.cases)
  case (prepares h entry t w r dir k)
  obtain P where P: "removes_only ok durable (fst s) (wSeen (snd s)) P"
    "\<forall>e \<in> P. ascii (qeDownloadID e) \<and> recorded c service (wFiles (snd s)) e"
    using assms(4) by (auto simp: on_track_def)
  have keeps: "recorded c service dir e" if "e \<in> P" for e
    using prepare_keeps [OF assms(1) prepares(3,4)] P(2) that prepares(1) by simp
  show ?thesis
  proof (cases r)
    case Inl
    then show ?thesis
      using P keeps prepares by (auto simp: on_track_def)
  next
    case Inr
    then have "recorded c service dir entry" "ascii (qeDownloadID entry)"
      using prepare_records [OF assms(1) prepares(3)] prepares P(1) assms(2) by auto
    then show ?thesis
      using P keeps prepares Inr by (auto simp: on_track_def intro!: exI [of _ "insert entry P"])
  qed
next
  case (completes h entry t w r dir k)
  then show ?thesis
    using assms(4) complete_keeps [OF assms(1) completes(3,4) _ assms(2)] by (auto simp: on_track_def)
next
  case (others_prepare h entry t w r dir p)
  then show ?thesis
    using assms(4) prepare_keeps [OF assms(1) others_prepare(3,4)] by (auto simp: on_track_def)
next
  case (others_complete h entry t w r dir p)
  then show ?thesis
    using assms(4) complete_keeps [OF assms(1) others_complete(3,4) _ assms(2)] by (auto simp: on_track_def)
qed (auto simp: on_track_def)

lemma on_track_steps:
  assumes "(removal_step c service)\<^sup>*\<^sup>* s s'" "codec_law c service" "ascii service" "on_track c service ok durable s"
  shows "on_track c service ok durable s'"
  using assms(1,4) by (induction rule: rtranclp_induct) (auto intro: on_track_step [OF assms(2,3)])

section \<open>The removals of the programs\<close>

lemma index_queue_Some:
  assumes "index_queue service queue m = Inr byID" "byID i = Some entry"
  shows "m i = Some entry \<or> entry \<in> set queue \<and> qeQueueID entry = i"
  using assms by (induction service queue m rule: index_queue.induct) (auto split: if_splits)

definition finalizable :: "queue_entry list \<Rightarrow> queue_entry list \<Rightarrow> queue_entry \<Rightarrow> bool" where
  "finalizable candidates seen entry \<longleftrightarrow> entry \<in> set candidates \<and> entry \<in> set seen \<and> Eligible entry"

lemma reconcile_removes_only:
  assumes "\<And>report. removes_only ok durable (k report) seen P"
  shows "removes_only ok durable (reconcile_removals byID records report k) seen P"
  using assms by (induction records arbitrary: report) (auto split: sum.split)

lemma finalize_removes_only:
  assumes "set ordered \<subseteq> set candidates" "list_all (\<lambda>e. ascii (qeDownloadID e)) candidates"
    and "\<And>i entry. byID i = Some entry \<Longrightarrow> entry \<in> set seen \<and> qeQueueID entry = i"
  shows "removes_only (finalizable candidates) True (finalize_loop service byID limit ordered report outcomes) seen P"
  using assms(1)
proof (induction ordered arbitrary: report outcomes P)
  case (Cons candidate ordered)
  have ordered: "set ordered \<subseteq> set candidates"
    using Cons.prems by simp
  have "finalizable candidates seen candidate" "ascii (qeDownloadID candidate)"
    if "byID (qeQueueID candidate) = Some candidate" "Eligible candidate"
    using that Cons.prems assms(2) assms(3) [OF that(1)] by (auto simp: finalizable_def list_all_iff)
  then show ?case
    using Cons.IH [OF ordered] by (auto split: option.split sum.split)
qed simp

lemma run_removes_only:
  assumes "list_all (\<lambda>e. ascii (qeDownloadID e)) candidates"
  shows "removes_only (finalizable candidates) True (run_finalizer fz candidates limit) seen P"
proof -
  have "removes_only (finalizable candidates) True
      (reconcile_removals byID records no_report (\<lambda>report.
         finalize_loop service byID limit (sort_key qeQueueID candidates) report Map.empty)) queue P"
    if "index_queue service queue Map.empty = Inr byID" for service queue byID records
    by (intro reconcile_removes_only finalize_removes_only) (use assms index_queue_Some [OF that] in auto)
  then show ?thesis
    by (auto simp: run_finalizer_def Let_def split: sum.split)
qed

text \<open>
  The record of a job: the one with its queue and download ID or, when the queue ID has changed, the
  only one of its download.
\<close>

definition tracked :: "job \<Rightarrow> queue_entry list \<Rightarrow> queue_entry \<Rightarrow> bool" where
  "tracked job seen entry \<longleftrightarrow>
     entry \<in> set seen \<and> Eligible entry \<and> qeDownloadID entry = jDownloadID job \<and>
     (qeQueueID entry = jQueueID job \<or> (\<forall>other \<in> set seen. qeDownloadID other = jDownloadID job \<longrightarrow> other = entry))"

lemma matched_tracked:
  assumes "MatchQueue (QueueKey job)
      (map (\<lambda>entry. \<lparr>kQueueID = qeQueueID entry, kDownloadID = qeDownloadID entry\<rparr>) entries) = Inr index"
    and "0 \<le> index" "Eligible (entries ! nat index)"
  shows "tracked job entries (entries ! nat index)"
proof -
  let ?keys = "map (\<lambda>entry. \<lparr>kQueueID = qeQueueID entry, kDownloadID = qeDownloadID entry\<rparr>) entries"
  have spec: "match_spec (QueueKey job) ?keys = Inr index"
    using assms(1) by (simp add: MatchQueue_spec)
  show ?thesis
  proof (cases "QueueKey job \<in> set ?keys")
    case True
    then have "index = int (first_index (QueueKey job) ?keys)"
      using spec by (simp add: match_spec_def)
    moreover have "first_index (QueueKey job) ?keys < length ?keys \<and> ?keys ! first_index (QueueKey job) ?keys = QueueKey job"
      using True by (rule first_index_less)
    ultimately have "nat index < length entries" "?keys ! nat index = QueueKey job"
      by simp_all
    then show ?thesis
      using assms(3) by (simp add: tracked_def QueueKey_def)
  next
    case False
    then obtain k where k: "followers (QueueKey job) ?keys = [k]" "index = int k"
      using spec assms(2) by (auto simp: match_spec_def split: list.splits)
    have follow: "l \<in> set (followers (QueueKey job) ?keys) \<longleftrightarrow>
        l < length entries \<and> jDownloadID job \<noteq> [] \<and> qeDownloadID (entries ! l) = jDownloadID job" for l
      by (auto simp: followers_def QueueKey_def)
    then have "k < length entries" "jDownloadID job \<noteq> []" "qeDownloadID (entries ! k) = jDownloadID job"
      using k(1) by (metis list.set_intros(1))+
    moreover have "entries ! l = entries ! k" if "l < length entries" "qeDownloadID (entries ! l) = jDownloadID job" for l
      using follow [of l] that k(1) \<open>jDownloadID job \<noteq> []\<close> by simp
    ultimately have "\<forall>other \<in> set entries. qeDownloadID other = jDownloadID job \<longrightarrow> other = entries ! k"
      by (metis in_set_conv_nth)
    then show ?thesis
      using assms(3) k(2) \<open>k < length entries\<close> \<open>qeDownloadID (entries ! k) = jDownloadID job\<close>
      by (simp add: tracked_def)
  qed
qed

lemma tracking_removes_only: "removes_only (tracked job) False (RemoveTracking job) seen P"
  using matched_tracked [of job]
  by (auto simp: RemoveTracking_def Let_def split: sum.split)

lemma track_start:
  assumes "\<And>seen. removes_only ok durable p seen {}"
  shows "on_track c service ok durable (p, w)"
  using assms by (auto simp: on_track_def)

lemma on_track_remove:
  assumes "on_track c service ok durable (RemoveC i k, w)"
  shows "\<exists>entry. qeQueueID entry = i \<and> ok (wSeen w) entry \<and> (durable \<longrightarrow> recorded c service (wFiles w) entry)"
  using assms by (auto simp: on_track_def)

end
