(* ===== verification/Finalizer_Progress.thy ===== *)
theory Finalizer_Progress
  imports Finalizer_Properties
begin

text \<open>
  What runs of the finalizer achieve when nothing fails: the store over a directory whose files can
  be read, one run on it, and runs at several times.
\<close>

section \<open>A directory whose files can be read\<close>

definition calm :: "'b host \<Rightarrow> bool" where
  "calm h \<longleftrightarrow> hLockOpen h = None \<and> hLockChmod h = None \<and> hFlock h = None \<and> hRead h = (\<lambda>_. None) \<and>
     hReadDir h = None \<and> hReplace h = NoFault"

text \<open>A record that was written at a time up to \<open>t\<close>.\<close>

definition timely :: "gotime \<Rightarrow> finalization \<Rightarrow> bool" where
  "timely t v \<longleftrightarrow> ascii_finalization v \<and> json_time (frPreparedAt v) \<and> frPreparedAt v \<le> t"

definition readable :: "'b finalization_codec \<Rightarrow> string \<Rightarrow> gotime \<Rightarrow> 'b directory \<Rightarrow> bool" where
  "readable c service t dir \<longleftrightarrow>
     distinct (map fst dir) \<and>
     (\<forall>(name, file) \<in> set dir. Ext name = ''.json'' \<longrightarrow>
        (\<exists>data v. file = Regular data \<and> decode_finalization c service data = Inr v \<and>
           name = finalization_name (qeQueueID (frEntry v)) \<and> timely t v))"

lemma withLock_calm [simp]: "calm h \<Longrightarrow> withLock h dir action = action"
  by (simp add: calm_def withLock_def check_fault_def)

lemma decode_eligible: "decode_finalization c service data = Inr v \<Longrightarrow> Eligible (frEntry v)"
  by (auto simp: decode_finalization_Inr validate_finalization_def split: if_splits)

lemma eligible_positive: "Eligible e \<Longrightarrow> 0 < qeQueueID e"
  by (simp add: Eligible_def)

lemma readable_file:
  assumes "readable c service t dir" "0 < i" "map_of dir (finalization_name i) = Some entry"
  obtains data v where "entry = Regular data" "decode_finalization c service data = Inr v"
    "removal_at c service dir i = Some v" "qeQueueID (frEntry v) = i" "timely t v"
proof -
  have "(finalization_name i, entry) \<in> set dir"
    using assms(3) by (rule map_of_SomeD)
  then obtain data v where v: "entry = Regular data" "decode_finalization c service data = Inr v"
    "finalization_name i = finalization_name (qeQueueID (frEntry v))" "timely t v"
    using assms(1) finalization_name_Ext [OF assms(2)] by (fastforce simp: readable_def)
  moreover have "qeQueueID (frEntry v) = i"
    using v(3) finalization_name_inj [OF assms(2) eligible_positive [OF decode_eligible [OF v(2)]]] by simp
  ultimately show thesis
    using that assms(3) by (simp add: removal_at_def)
qed

lemma readable_removal:
  assumes "readable c service t dir" "0 < i" "removal_at c service dir i = Some v"
  shows "qeQueueID (frEntry v) = i" "timely t v" "validate_finalization service v = Inr ()"
proof -
  obtain entry where "map_of dir (finalization_name i) = Some entry"
    using assms(3) by (auto simp: removal_at_def split: option.splits)
  then obtain data where "decode_finalization c service data = Inr v"
    and "qeQueueID (frEntry v) = i" "timely t v"
    using readable_file [OF assms(1,2)] assms(3) by (metis option.inject)
  then show "qeQueueID (frEntry v) = i" "timely t v" "validate_finalization service v = Inr ()"
    by (auto simp: decode_finalization_Inr)
qed

lemma readPath_calm:
  assumes "calm h" "readable c service t dir" "0 < i"
  shows "readPath c service h (finalization_name i) dir = Inr (removal_at c service dir i)"
proof (cases "map_of dir (finalization_name i)")
  case (Some entry)
  then obtain data v where "entry = Regular data" "decode_finalization c service data = Inr v"
    using readable_file [OF assms(2,3)] by metis
  then show ?thesis
    using Some assms(1) by (simp add: readPath_def removal_at_def calm_def check_fault_def)
qed (simp add: readPath_def removal_at_def)

lemma readable_iff:
  "readable c service t dir \<longleftrightarrow>
     distinct (map fst dir) \<and>
     (\<forall>name file. map_of dir name = Some file \<and> Ext name = ''.json'' \<longrightarrow>
        (\<exists>data v. file = Regular data \<and> decode_finalization c service data = Inr v \<and>
           name = finalization_name (qeQueueID (frEntry v)) \<and> timely t v))"
  by (cases "distinct (map fst dir)") (auto simp: readable_def map_of_eq_Some_iff)

lemma readable_update:
  assumes "readable c service t dir" "decode_finalization c service data = Inr v" "timely t v"
  shows "readable c service t (AList.update (finalization_name (qeQueueID (frEntry v))) (Regular data) dir)"
  using assms by (auto simp: readable_iff update_conv' distinct_update)

lemma removal_update:
  assumes "decode_finalization c service data = Inr v" "0 < i"
  shows "removal_at c service (AList.update (finalization_name (qeQueueID (frEntry v))) (Regular data) dir) i =
    (if i = qeQueueID (frEntry v) then Some v else removal_at c service dir i)"
  using assms finalization_name_inj [OF assms(2) eligible_positive [OF decode_eligible [OF assms(1)]]]
  by (simp add: removal_at_def update_conv')

lemma write_calm:
  assumes "codec_law c service" "calm h" "readable c service t dir"
    and v: "validate_finalization service v = Inr ()" "timely t v" "json_time (frUpdatedAt v)"
  obtains dir' where "write_finalization c service h v dir = (Inr (), dir')" "readable c service t dir'"
    "\<And>i. 0 < i \<Longrightarrow> removal_at c service dir' i =
       (if i = qeQueueID (frEntry v) then Some v else removal_at c service dir i)"
proof -
  obtain data where data: "fcMarshal c v = Inr data"
    using assms(1) v unfolding codec_law_def timely_def by blast
  then have decoded: "decode_finalization c service data = Inr v"
    using encoded_finalization [OF assms(1) _ v(1)] v(2) by (simp add: timely_def)
  let ?dir = "AList.update (finalization_name (qeQueueID (frEntry v))) (Regular data) dir"
  have "write_finalization c service h v dir = (Inr (), ?dir)"
    using v(1) data assms(2) by (simp add: write_finalization_def Replace_def calm_def)
  then show thesis
    using that readable_update [OF assms(3) decoded v(2)] removal_update [OF decoded] by blast
qed

section \<open>The operations of the store\<close>

text \<open>What a run does to the records: none is lost, completed ones stay so, prepared ones are old.\<close>

definition later :: "(int \<Rightarrow> finalization option) \<Rightarrow> (int \<Rightarrow> finalization option) \<Rightarrow> bool" where
  "later R R' \<longleftrightarrow>
     (\<forall>i v. 0 < i \<and> R i = Some v \<longrightarrow> (\<exists>v'. R' i = Some v' \<and> frEntry v' = frEntry v \<and>
        (frState v = RemovalCompleted \<longrightarrow> frState v' = RemovalCompleted))) \<and>
     (\<forall>i v'. 0 < i \<and> R' i = Some v' \<and> frState v' = RemovalPrepared \<longrightarrow> R i = Some v')"

lemma later_refl [simp]: "later R R"
  by (simp add: later_def)

lemma later_trans: "later R S \<Longrightarrow> later S T \<Longrightarrow> later R T"
  unfolding later_def by metis

definition settled :: "(int \<Rightarrow> finalization option) \<Rightarrow> queue_entry \<Rightarrow> bool" where
  "settled R entry \<longleftrightarrow>
     (\<exists>v. R (qeQueueID entry) = Some v \<and> frEntry v = entry \<and> frState v = RemovalCompleted)"

lemma later_settled: "later R S \<Longrightarrow> settled R entry \<Longrightarrow> 0 < qeQueueID entry \<Longrightarrow> settled S entry"
  unfolding later_def settled_def by metis

definition known :: "(int \<Rightarrow> finalization option) \<Rightarrow> queue_entry \<Rightarrow> bool" where
  "known R entry \<longleftrightarrow> (\<exists>v. R (qeQueueID entry) = Some v \<and> frEntry v = entry)"

lemma known_settled [simp]: "settled R entry \<Longrightarrow> known R entry"
  by (auto simp: settled_def known_def)

lemma later_known: "later R S \<Longrightarrow> known R entry \<Longrightarrow> 0 < qeQueueID entry \<Longrightarrow> known S entry"
  unfolding later_def known_def by metis

lemma prepare_calm:
  assumes "codec_law c service" "calm h" "readable c service t dir" "0 < t" "json_time t"
    and "Eligible entry" "ascii service" "ascii (qeDownloadID entry)"
    and "removal_at c service dir (qeQueueID entry) = None \<or> known (removal_at c service dir) entry"
  obtains dir' where "prepare_removal c service h entry t dir = (Inr (), dir')" "readable c service t dir'"
    "known (removal_at c service dir') entry"
    "\<And>i. 0 < i \<Longrightarrow> i \<noteq> qeQueueID entry \<Longrightarrow> removal_at c service dir' i = removal_at c service dir i"
proof -
  let ?v = "\<lparr>frVersion = recordVersion, frService = service, frEntry = entry, frState = RemovalPrepared,
      frPreparedAt = t, frUpdatedAt = t\<rparr>"
  have read: "readPath c service h (finalization_name (qeQueueID entry)) dir =
      Inr (removal_at c service dir (qeQueueID entry))"
    using readPath_calm [OF assms(2,3)] eligible_positive [OF assms(6)] .
  show thesis
  proof (cases "removal_at c service dir (qeQueueID entry)")
    case None
    have "validate_finalization service ?v = Inr ()" "timely t ?v" "json_time (frUpdatedAt ?v)"
      using assms(4-8) by (simp_all add: validate_finalization_def timely_def ascii_finalization_def zero_time_def)
    then obtain dir' where dir': "write_finalization c service h ?v dir = (Inr (), dir')" "readable c service t dir'"
      "\<And>i. 0 < i \<Longrightarrow> removal_at c service dir' i = (if i = qeQueueID entry then Some ?v else removal_at c service dir i)"
      using write_calm [OF assms(1-3), of ?v] by (metis finalization.select_convs(3))
    have "prepare_removal c service h entry t dir = (Inr (), dir')"
      using None read dir'(1) assms(2,4) by (simp add: prepare_removal_def zero_time_def)
    then show thesis
      using that dir' eligible_positive [OF assms(6)] by (simp add: known_def)
  next
    case (Some v)
    then have "prepare_removal c service h entry t dir = (Inr (), dir)"
      using read assms(2,4,9) by (simp add: prepare_removal_def zero_time_def known_def)
    then show thesis
      using that assms(3,9) Some by simp
  qed
qed

lemma complete_calm:
  assumes "codec_law c service" "calm h" "readable c service t dir" "0 < t" "json_time t"
    and "Eligible entry" "known (removal_at c service dir) entry"
  obtains dir' where "complete_removal c service h entry t dir = (Inr (), dir')" "readable c service t dir'"
    "settled (removal_at c service dir') entry"
    "\<And>i. 0 < i \<Longrightarrow> i \<noteq> qeQueueID entry \<Longrightarrow> removal_at c service dir' i = removal_at c service dir i"
proof -
  note positive = eligible_positive [OF assms(6)]
  obtain v where v: "removal_at c service dir (qeQueueID entry) = Some v" "frEntry v = entry"
    using assms(7) by (auto simp: known_def)
  have read: "readPath c service h (finalization_name (qeQueueID entry)) dir = Inr (Some v)"
    using readPath_calm [OF assms(2,3) positive] v(1) by simp
  show thesis
  proof (cases "frState v = RemovalCompleted")
    case True
    then have "complete_removal c service h entry t dir = (Inr (), dir)"
      using read v(2) assms(2,4) by (simp add: complete_removal_def zero_time_def)
    then show thesis
      using that assms(3) True v by (simp add: settled_def)
  next
    case False
    let ?v = "v\<lparr>frState := RemovalCompleted, frUpdatedAt := t\<rparr>"
    have "timely t v" "validate_finalization service v = Inr ()"
      using readable_removal [OF assms(3) positive v(1)] by simp_all
    then have "validate_finalization service ?v = Inr ()" "timely t ?v" "json_time (frUpdatedAt ?v)"
      using assms(4,5) by (auto simp: validate_finalization_def timely_def ascii_finalization_def zero_time_def split: if_splits)
    then obtain dir' where dir': "write_finalization c service h ?v dir = (Inr (), dir')" "readable c service t dir'"
      "\<And>i. 0 < i \<Longrightarrow> removal_at c service dir' i = (if i = qeQueueID entry then Some ?v else removal_at c service dir i)"
      using write_calm [OF assms(1-3), of ?v] v(2) by auto
    have "complete_removal c service h entry t dir = (Inr (), dir')"
      using False read dir'(1) v(2) assms(2,4) by (simp add: complete_removal_def zero_time_def)
    then show thesis
      using that dir' positive v(2) by (simp add: settled_def)
  qed
qed

lemma settled_later:
  assumes "R (qeQueueID entry) = None \<or> known R entry" "settled R' entry"
    and "\<And>i. 0 < i \<Longrightarrow> i \<noteq> qeQueueID entry \<Longrightarrow> R' i = R i"
  shows "later R R'"
  unfolding later_def
proof (intro conjI allI impI)
  fix i v
  assume v: "0 < i \<and> R i = Some v"
  show "\<exists>v'. R' i = Some v' \<and> frEntry v' = frEntry v \<and> (frState v = RemovalCompleted \<longrightarrow> frState v' = RemovalCompleted)"
    using assms v by (cases "i = qeQueueID entry") (auto simp: known_def settled_def)
next
  fix i v'
  assume "0 < i \<and> R' i = Some v' \<and> frState v' = RemovalPrepared"
  then show "R i = Some v'"
    using assms(2,3) by (cases "i = qeQueueID entry") (auto simp: settled_def)
qed

lemma list_loop_calm:
  assumes "calm h" "readable c service t dir" "set names \<subseteq> set (map fst dir)"
  shows "\<exists>values. list_loop c service h dir names records = Inr (records @ values) \<and>
    set values = {v. \<exists>i > 0. finalization_name i \<in> set names \<and> removal_at c service dir i = Some v}"
  using assms(3)
proof (induction names arbitrary: records)
  case (Cons name names)
  then obtain x where x: "map_of dir name = Some x"
    by (metis list.set_intros(1) list.set_map map_of_eq_None_iff option.exhaust_sel subsetD)
  have names: "set names \<subseteq> set (map fst dir)"
    using Cons.prems by simp
  show ?case
  proof (cases "Ext name = ''.json''")
    case True
    then obtain data v where v: "x = Regular data" "decode_finalization c service data = Inr v"
      "name = finalization_name (qeQueueID (frEntry v))"
      using assms(2) x unfolding readable_iff by blast
    then have positive: "0 < qeQueueID (frEntry v)" and at: "removal_at c service dir (qeQueueID (frEntry v)) = Some v"
      using x by (simp_all add: decode_eligible eligible_positive removal_at_def)
    have "readPath c service h name dir = Inr (Some v)"
      using readPath_calm [OF assms(1,2) positive] at v(3) by simp
    moreover have "{u. \<exists>i > 0. finalization_name i \<in> set (name # names) \<and> removal_at c service dir i = Some u} =
        insert v {u. \<exists>i > 0. finalization_name i \<in> set names \<and> removal_at c service dir i = Some u}"
      using finalization_name_inj [OF _ positive] positive at v(3) by auto
    ultimately show ?thesis
      using True v(1) x Cons.IH [OF names, of "records @ [v]"] by auto
  next
    case False
    then have "finalization_name i \<noteq> name" if "0 < i" for i
      using finalization_name_Ext [OF that] by auto
    then have "(\<exists>i > 0. finalization_name i \<in> set (name # names) \<and> removal_at c service dir i = Some v) \<longleftrightarrow>
        (\<exists>i > 0. finalization_name i \<in> set names \<and> removal_at c service dir i = Some v)" for v
      by (metis list.set_intros(2) set_ConsD)
    then show ?thesis
      using False Cons.IH [OF names, of records] by simp
  qed
qed simp

lemma list_calm:
  assumes "calm h" "readable c service t dir"
  obtains records where "fst (list_removals c service h dir) = Inr records"
    "\<And>v. v \<in> set records \<longleftrightarrow> (\<exists>i > 0. removal_at c service dir i = Some v)"
proof -
  obtain records where records: "list_loop c service h dir (sort (map fst dir)) [] = Inr records"
    "set records = {v. \<exists>i > 0. finalization_name i \<in> set (map fst dir) \<and> removal_at c service dir i = Some v}"
    using list_loop_calm [OF assms, of "sort (map fst dir)" "[]"] by auto
  have "finalization_name i \<in> set (map fst dir)" if "removal_at c service dir i = Some v" for i v
    using that by (auto simp: removal_at_def split: option.splits dest!: map_of_SomeD intro: image_eqI [rotated])
  then have "v \<in> set (sort_key (\<lambda>value. qeQueueID (frEntry value)) records) \<longleftrightarrow>
      (\<exists>i > 0. removal_at c service dir i = Some v)" for v
    unfolding set_sort records(2) by blast
  moreover have "fst (list_removals c service h dir) =
      Inr (sort_key (\<lambda>value. qeQueueID (frEntry value)) records)"
    using records(1) assms(1) by (simp add: list_removals_def calm_def check_fault_def)
  ultimately show thesis
    using that by blast
qed

section \<open>Runs without failures\<close>

text \<open>A program alone, at a time, with a host and a service that refuse nothing.\<close>

primrec drive ::
  "'b finalization_codec \<Rightarrow> string \<Rightarrow> 'b host \<Rightarrow> gotime \<Rightarrow> 'r removal_prog \<Rightarrow> 'b removal_world \<Rightarrow> 'r \<times> 'b removal_world" where
  "drive c service h t (Finished r) w = (r, w)"
| "drive c service h t (ReadQueueC k) w = drive c service h t (k (Inr (wQueue w))) (w\<lparr>wSeen := wQueue w\<rparr>)"
| "drive c service h t (RemoveC i k) w = drive c service h t (k (Inr ())) (w\<lparr>wQueue := without i (wQueue w)\<rparr>)"
| "drive c service h t (NowC k) w = drive c service h t (k t) w"
| "drive c service h t (ListC k) w = drive c service h t (k (fst (list_removals c service h (wFiles w)))) w"
| "drive c service h t (PrepareC entry now k) w =
     drive c service h t (k (fst (prepare_removal c service h entry now (wFiles w))))
       (w\<lparr>wFiles := snd (prepare_removal c service h entry now (wFiles w))\<rparr>)"
| "drive c service h t (CompleteC entry now k) w =
     drive c service h t (k (fst (complete_removal c service h entry now (wFiles w))))
       (w\<lparr>wFiles := snd (complete_removal c service h entry now (wFiles w))\<rparr>)"

definition good_world :: "'b finalization_codec \<Rightarrow> string \<Rightarrow> gotime \<Rightarrow> 'b removal_world \<Rightarrow> bool" where
  "good_world c service t w \<longleftrightarrow> readable c service t (wFiles w) \<and>
     distinct (map qeQueueID (wQueue w)) \<and> list_all (\<lambda>entry. 0 < qeQueueID entry) (wQueue w)"

abbreviation removals :: "'b finalization_codec \<Rightarrow> string \<Rightarrow> 'b removal_world \<Rightarrow> int \<Rightarrow> finalization option" where
  "removals c service w \<equiv> removal_at c service (wFiles w)"

definition quiet :: "'b finalization_codec \<Rightarrow> string \<Rightarrow> 'b host \<Rightarrow> gotime \<Rightarrow> bool" where
  "quiet c service h t \<longleftrightarrow> codec_law c service \<and> ascii service \<and> calm h \<and> 0 < t \<and> json_time t"

definition reconciled ::
  "'b finalization_codec \<Rightarrow> string \<Rightarrow> gotime \<Rightarrow> (int \<rightharpoonup> queue_entry) \<Rightarrow> finalization list \<Rightarrow> 'b removal_world
     \<Rightarrow> 'b removal_world \<Rightarrow> bool" where
  "reconciled c service t byID records w w' \<longleftrightarrow>
     wQueue w' = wQueue w \<and> readable c service t (wFiles w') \<and> later (removals c service w) (removals c service w') \<and>
     (\<forall>i > 0. removals c service w i = None \<longrightarrow> removals c service w' i = None) \<and>
     (\<forall>v \<in> set records. frState v = RemovalPrepared \<and> byID (qeQueueID (frEntry v)) = None \<longrightarrow>
        settled (removals c service w') (frEntry v))"

lemma reconcile_drive:
  assumes "quiet c service h t" "readable c service t (wFiles w)"
    and "\<And>v. v \<in> set records \<Longrightarrow> known (removals c service w) (frEntry v) \<and> Eligible (frEntry v)"
  shows "\<exists>w' report'. drive c service h t (reconcile_removals byID records report k) w = drive c service h t (k report') w' \<and>
    rpFinalized report' = rpFinalized report \<and> reconciled c service t byID records w w'"
  using assms(2,3)
proof (induction records arbitrary: report w)
  case Nil
  then show ?case
    by (intro exI [of _ w] exI [of _ report]) (simp add: reconciled_def)
next
  case (Cons x records)
  let ?entry = "frEntry x"
  show ?case
  proof (cases "frState x \<noteq> RemovalPrepared \<or> byID (qeQueueID ?entry) \<noteq> None")
    case True
    obtain w' report' where
      "drive c service h t (reconcile_removals byID records report k) w = drive c service h t (k report') w'"
      "rpFinalized report' = rpFinalized report" "reconciled c service t byID records w w'"
      using Cons.IH [of w report] Cons.prems by auto
    then show ?thesis
      using True by (intro exI [of _ w'] exI [of _ report']) (auto simp: reconciled_def)
  next
    case False
    have quiet: "codec_law c service" "calm h" "0 < t" "json_time t"
      using assms(1) by (simp_all add: quiet_def)
    have entry: "known (removals c service w) ?entry" "Eligible ?entry"
      using Cons.prems(2) by auto
    obtain dir where dir: "complete_removal c service h ?entry t (wFiles w) = (Inr (), dir)" "readable c service t dir"
      "settled (removal_at c service dir) ?entry"
      "\<And>i. 0 < i \<Longrightarrow> i \<noteq> qeQueueID ?entry \<Longrightarrow> removal_at c service dir i = removals c service w i"
      using complete_calm [OF quiet(1,2) Cons.prems(1) quiet(3,4) entry(2,1)] by metis
    let ?w = "w\<lparr>wFiles := dir\<rparr>" and ?report = "report\<lparr>rpReconciled := rpReconciled report + 1\<rparr>"
    have later: "later (removals c service w) (removals c service ?w)"
      using settled_later [of "removals c service w" ?entry "removal_at c service dir"] entry(1) dir(3,4) by simp
    have "known (removals c service ?w) (frEntry v) \<and> Eligible (frEntry v)" if "v \<in> set records" for v
      using Cons.prems(2) [of v] that later_known [OF later] eligible_positive by auto
    then obtain w' report' where w':
      "drive c service h t (reconcile_removals byID records ?report k) ?w = drive c service h t (k report') w'"
      "rpFinalized report' = rpFinalized ?report" "reconciled c service t byID records ?w w'"
      using Cons.IH [of ?w ?report] dir(2) by auto
    have "later (removals c service ?w) (removals c service w')"
      using w'(3) by (simp add: reconciled_def)
    then have "settled (removals c service w') ?entry" "later (removals c service w) (removals c service w')"
      using later_settled [of "removals c service ?w"] later_trans [OF later] dir(3) eligible_positive [OF entry(2)]
      by simp_all
    moreover have "removals c service ?w i = None" if "0 < i" "removals c service w i = None" for i
      using that entry(1) dir(4) [of i] by (cases "i = qeQueueID ?entry") (auto simp: known_def)
    ultimately have "reconciled c service t byID (x # records) w w'"
      using w'(3) by (simp add: reconciled_def)
    then show ?thesis
      using w'(1,2) False dir(1) by auto
  qed
qed

definition finalized ::
  "'b finalization_codec \<Rightarrow> string \<Rightarrow> gotime \<Rightarrow> queue_entry list \<Rightarrow> 'b removal_world \<Rightarrow> 'b removal_world \<Rightarrow> bool" where
  "finalized c service t removed w w' \<longleftrightarrow>
     wQueue w' = filter (\<lambda>e. qeQueueID e \<notin> qeQueueID ` set removed) (wQueue w) \<and>
     readable c service t (wFiles w') \<and> later (removals c service w) (removals c service w') \<and>
     (\<forall>i > 0. i \<notin> qeQueueID ` set removed \<and> removals c service w i = None \<longrightarrow> removals c service w' i = None) \<and>
     (\<forall>e \<in> set removed. settled (removals c service w') e)"

text \<open>A candidate that can be finalized: no other removal was recorded for its queue ID.\<close>

definition free_candidate :: "'b finalization_codec \<Rightarrow> string \<Rightarrow> 'b removal_world \<Rightarrow> queue_entry \<Rightarrow> bool" where
  "free_candidate c service w e \<longleftrightarrow> Eligible e \<and> ascii (qeDownloadID e) \<and>
     (removals c service w (qeQueueID e) = None \<or> known (removals c service w) e)"

lemma finalize_one:
  assumes "quiet c service h t" "readable c service t (wFiles w)" "free_candidate c service w e"
  obtains dir dir' where
    "prepare_removal c service h e t (wFiles w) = (Inr (), dir)" "complete_removal c service h e t dir = (Inr (), dir')"
    "finalized c service t [e] w (w\<lparr>wQueue := without (qeQueueID e) (wQueue w), wFiles := dir'\<rparr>)"
    "\<And>i. 0 < i \<Longrightarrow> i \<noteq> qeQueueID e \<Longrightarrow> removal_at c service dir' i = removals c service w i"
proof -
  have quiet: "codec_law c service" "ascii service" "calm h" "0 < t" "json_time t"
    using assms(1) by (simp_all add: quiet_def)
  have e: "Eligible e" "ascii (qeDownloadID e)" "removals c service w (qeQueueID e) = None \<or> known (removals c service w) e"
    using assms(3) by (simp_all add: free_candidate_def)
  obtain dir where dir: "prepare_removal c service h e t (wFiles w) = (Inr (), dir)" "readable c service t dir"
    "known (removal_at c service dir) e"
    "\<And>i. 0 < i \<Longrightarrow> i \<noteq> qeQueueID e \<Longrightarrow> removal_at c service dir i = removals c service w i"
    using prepare_calm [OF quiet(1,3) assms(2) quiet(4,5) e(1) quiet(2) e(2,3)] by metis
  obtain dir' where dir': "complete_removal c service h e t dir = (Inr (), dir')" "readable c service t dir'"
    "settled (removal_at c service dir') e"
    "\<And>i. 0 < i \<Longrightarrow> i \<noteq> qeQueueID e \<Longrightarrow> removal_at c service dir' i = removal_at c service dir i"
    using complete_calm [OF quiet(1,3) dir(2) quiet(4,5) e(1) dir(3)] by metis
  have same: "removal_at c service dir' i = removals c service w i" if "0 < i" "i \<noteq> qeQueueID e" for i
    using dir(4) dir'(4) that by simp
  then have "later (removals c service w) (removal_at c service dir')"
    using settled_later [OF e(3) dir'(3)] by simp
  then show thesis
    using that [OF dir(1) dir'(1)] same dir' by (simp add: finalized_def without_def)
qed

lemma finalized_Cons:
  assumes "finalized c service t [e] w w1" "finalized c service t removed w1 w'" "0 < qeQueueID e"
  shows "finalized c service t (e # removed) w w'"
proof -
  have "later (removals c service w) (removals c service w')" "settled (removals c service w') e"
    using assms later_trans later_settled unfolding finalized_def by (metis list.set_intros(1))+
  then show ?thesis
    using assms(1,2) by (simp add: finalized_def conj_commute)
qed

definition due :: "(int \<rightharpoonup> queue_entry) \<Rightarrow> int \<Rightarrow> queue_entry list \<Rightarrow> queue_entry list" where
  "due byID n ordered = take (nat n) (filter (\<lambda>e. byID (qeQueueID e) = Some e) ordered)"

lemma finalize_drive:
  assumes "quiet c service h t" "readable c service t (wFiles w)"
    and "list_all (free_candidate c service w) ordered" "distinct (map qeQueueID ordered)"
  shows "\<exists>w' report' outcomes'. drive c service h t (finalize_loop label byID limit ordered report outcomes) w =
      ((report', outcomes', None), w') \<and>
    finalized c service t (due byID (limit - rpFinalized report) ordered) w w'"
  using assms(2-4)
proof (induction ordered arbitrary: report outcomes w)
  case Nil
  then show ?case
    by (simp add: finalized_def due_def)
next
  case (Cons e ordered)
  have free: "free_candidate c service w e"
    and ordered: "list_all (free_candidate c service w) ordered" "distinct (map qeQueueID ordered)"
    using Cons.prems by simp_all
  then have e: "Eligible e"
    by (simp add: free_candidate_def)
  show ?case
  proof (cases "limit \<le> rpFinalized report \<or> byID (qeQueueID e) \<noteq> Some e")
    case True
    then show ?thesis
      using Cons.IH [OF Cons.prems(1) ordered] Cons.prems(1)
      by (auto simp: finalized_def due_def split: option.splits)
  next
    case False
    let ?report = "report\<lparr>rpFinalized := rpFinalized report + 1\<rparr>"
    let ?outcomes = "outcomes(qeQueueID e \<mapsto> OutcomeFinalized)"
    obtain dir dir' where one:
      "prepare_removal c service h e t (wFiles w) = (Inr (), dir)" "complete_removal c service h e t dir = (Inr (), dir')"
      "finalized c service t [e] w (w\<lparr>wQueue := without (qeQueueID e) (wQueue w), wFiles := dir'\<rparr>)"
      "\<And>i. 0 < i \<Longrightarrow> i \<noteq> qeQueueID e \<Longrightarrow> removal_at c service dir' i = removals c service w i"
      using finalize_one [OF assms(1) Cons.prems(1) free] by metis
    define w1 where "w1 = w\<lparr>wQueue := without (qeQueueID e) (wQueue w), wFiles := dir'\<rparr>"
    have drive: "drive c service h t (finalize_loop label byID limit (e # ordered) report outcomes) w =
        drive c service h t (finalize_loop label byID limit ordered ?report ?outcomes) w1"
      using False e one(1,2) by (simp add: w1_def)
    have "readable c service t (wFiles w1)"
      using one(3) by (simp add: finalized_def w1_def)
    moreover have "qeQueueID x \<noteq> qeQueueID e" "0 < qeQueueID x" if "x \<in> set ordered" for x
      using that ordered(1) Cons.prems(3) eligible_positive [of x]
      by (simp_all add: list_all_iff free_candidate_def) (metis image_eqI)
    then have "removals c service w1 (qeQueueID x) = removals c service w (qeQueueID x)" if "x \<in> set ordered" for x
      using one(4) [of "qeQueueID x"] that by (simp add: w1_def)
    then have "list_all (free_candidate c service w1) ordered"
      using ordered(1) by (simp add: list_all_iff free_candidate_def known_def)
    ultimately obtain w' report' outcomes' where
      "drive c service h t (finalize_loop label byID limit ordered ?report ?outcomes) w1 = ((report', outcomes', None), w')"
      and rest: "finalized c service t (due byID (limit - rpFinalized ?report) ordered) w1 w'"
      using Cons.IH [of w1 ?report ?outcomes] ordered(2) by blast
    moreover have "due byID (limit - rpFinalized report) (e # ordered) = e # due byID (limit - rpFinalized ?report) ordered"
    proof -
      have "nat (limit - rpFinalized report) = Suc (nat (limit - rpFinalized ?report))"
        using False by (simp add: Suc_nat_eq_nat_zadd1)
      then show ?thesis
        using False by (simp add: due_def)
    qed
    moreover have "finalized c service t (e # due byID (limit - rpFinalized ?report) ordered) w w'"
      using finalized_Cons [OF one(3) [folded w1_def] rest eligible_positive [OF e]] .
    ultimately show ?thesis
      using drive by auto
  qed
qed

lemma index_queue_good:
  assumes "distinct (map qeQueueID queue)" "list_all (\<lambda>e. 0 < qeQueueID e) queue"
    and "\<And>e. e \<in> set queue \<Longrightarrow> m (qeQueueID e) = None"
  shows "\<exists>byID. index_queue service queue m = Inr byID \<and>
    (\<forall>i e. byID i = Some e \<longleftrightarrow> m i = Some e \<or> e \<in> set queue \<and> qeQueueID e = i)"
  using assms
proof (induction queue arbitrary: m)
  case (Cons x queue)
  have queue: "distinct (map qeQueueID queue)" "list_all (\<lambda>e. 0 < qeQueueID e) queue"
    using Cons.prems(1,2) by simp_all
  have "(m(qeQueueID x \<mapsto> x)) (qeQueueID e) = None" if "e \<in> set queue" for e
    using Cons.prems(1,3) that by (auto simp: image_iff)
  then obtain byID where byID: "index_queue service queue (m(qeQueueID x \<mapsto> x)) = Inr byID"
    "\<forall>i e. byID i = Some e \<longleftrightarrow> (m(qeQueueID x \<mapsto> x)) i = Some e \<or> e \<in> set queue \<and> qeQueueID e = i"
    using Cons.IH [of "m(qeQueueID x \<mapsto> x)"] queue by blast
  have "m (qeQueueID x) = None"
    using Cons.prems(3) by simp
  then have "byID i = Some e \<longleftrightarrow> m i = Some e \<or> e \<in> set (x # queue) \<and> qeQueueID e = i" for i e
    using byID(2) by (cases "i = qeQueueID x") auto
  then show ?case
    using byID(1) \<open>m (qeQueueID x) = None\<close> Cons.prems(2) by auto
qed simp

definition remaining :: "queue_entry list \<Rightarrow> 'b removal_world \<Rightarrow> queue_entry list" where
  "remaining candidates w = filter (\<lambda>e. e \<in> set (wQueue w)) (sort_key qeQueueID candidates)"

definition nothing_pending :: "'b finalization_codec \<Rightarrow> string \<Rightarrow> 'b removal_world \<Rightarrow> bool" where
  "nothing_pending c service w \<longleftrightarrow>
     (\<forall>i v. 0 < i \<and> removals c service w i = Some v \<and> frState v = RemovalPrepared \<longrightarrow>
        i \<in> qeQueueID ` set (wQueue w))"

lemma run_drive:
  assumes "quiet c service h t" "good_world c service t w" "configured fz" "0 < limit"
    and "list_all (free_candidate c service w) candidates" "distinct (map qeQueueID candidates)"
  shows "\<exists>report outcomes w'. drive c service h t (run_finalizer fz candidates limit) w = ((report, outcomes, None), w') \<and>
    finalized c service t (take (nat limit) (remaining candidates w)) w w' \<and> nothing_pending c service w'"
proof -
  let ?service = "fzService (the fz)" and ?seen = "w\<lparr>wSeen := wQueue w\<rparr>"
  have w: "readable c service t (wFiles w)" "distinct (map qeQueueID (wQueue w))"
    "list_all (\<lambda>e. 0 < qeQueueID e) (wQueue w)"
    using assms(2) by (simp_all add: good_world_def)
  obtain byID where byID: "index_queue ?service (wQueue w) Map.empty = Inr byID"
    "\<And>i e. byID i = Some e \<longleftrightarrow> e \<in> set (wQueue w) \<and> qeQueueID e = i"
    using index_queue_good [OF w(2,3), of Map.empty ?service] by auto
  have calm: "calm h"
    using assms(1) by (simp add: quiet_def)
  obtain records where records: "fst (list_removals c service h (wFiles w)) = Inr records"
    "\<And>v. v \<in> set records \<longleftrightarrow> (\<exists>i > 0. removals c service w i = Some v)"
    using list_calm [OF calm w(1)] by metis
  have entries: "known (removals c service ?seen) (frEntry v) \<and> Eligible (frEntry v)" if v: "v \<in> set records" for v
  proof -
    obtain i where i: "0 < i" "removals c service w i = Some v"
      using records(2) v by auto
    then have "qeQueueID (frEntry v) = i" "validate_finalization service v = Inr ()"
      using readable_removal [OF w(1)] by auto
    then show ?thesis
      using i by (auto simp: known_def validate_finalization_def split: if_splits)
  qed
  let ?loop = "\<lambda>report. finalize_loop ?service byID limit (sort_key qeQueueID candidates) report Map.empty"
  obtain w1 report1 where w1:
    "drive c service h t (reconcile_removals byID records no_report ?loop) ?seen = drive c service h t (?loop report1) w1"
    "rpFinalized report1 = 0" "reconciled c service t byID records ?seen w1"
    using reconcile_drive [OF assms(1), of ?seen records byID no_report ?loop] entries w(1)
    by (auto simp: no_report_def)
  have later: "later (removals c service w) (removals c service w1)" and queue: "wQueue w1 = wQueue w"
    and none: "\<And>i. 0 < i \<Longrightarrow> removals c service w i = None \<Longrightarrow> removals c service w1 i = None"
    and readable: "readable c service t (wFiles w1)"
    using w1(3) by (simp_all add: reconciled_def)
  have "list_all (free_candidate c service w1) (sort_key qeQueueID candidates)"
    using assms(5) none later_known [OF later] eligible_positive
    by (auto simp: list_all_iff free_candidate_def)
  moreover have "distinct (map qeQueueID (sort_key qeQueueID candidates))"
    using assms(6) by (simp add: distinct_map)
  ultimately obtain w' report outcomes where w':
    "drive c service h t (?loop report1) w1 = ((report, outcomes, None), w')"
    "finalized c service t (due byID limit (sort_key qeQueueID candidates)) w1 w'"
    using finalize_drive [OF assms(1) readable, where ordered = "sort_key qeQueueID candidates" and label = ?service and byID = byID and limit = limit and report = report1 and outcomes = Map.empty] w1(2)
    by auto
  have due: "due byID limit (sort_key qeQueueID candidates) = take (nat limit) (remaining candidates w)"
    by (simp add: due_def remaining_def byID(2))
  have "drive c service h t (run_finalizer fz candidates limit) w = ((report, outcomes, None), w')"
    using assms(3-5) byID(1) records(1) w1(1) w'(1)
    by (simp add: run_finalizer_def Let_def list_all_iff free_candidate_def)
  moreover have final: "finalized c service t (take (nat limit) (remaining candidates w)) w w'"
    using w'(2) later queue none later_trans unfolding due finalized_def by metis
  moreover have "nothing_pending c service w'"
    unfolding nothing_pending_def
  proof (intro allI impI)
    fix i v
    assume v: "0 < i \<and> removals c service w' i = Some v \<and> frState v = RemovalPrepared"
    then have old: "removals c service w i = Some v" and old1: "removals c service w1 i = Some v"
      using final w'(2) unfolding finalized_def later_def by blast+
    then have "qeQueueID (frEntry v) = i"
      using readable_removal [OF w(1)] v by blast
    have "byID i \<noteq> None"
    proof
      assume "byID i = None"
      then have "settled (removals c service w1) (frEntry v)"
        using w1(3) records(2) old v \<open>qeQueueID (frEntry v) = i\<close> by (auto simp: reconciled_def)
      then show False
        using old1 v \<open>qeQueueID (frEntry v) = i\<close> by (auto simp: settled_def)
    qed
    moreover have "i \<notin> qeQueueID ` set (take (nat limit) (remaining candidates w))"
      using final v by (auto simp: finalized_def settled_def)
    ultimately show "i \<in> qeQueueID ` set (wQueue w')"
      using byID(2) final by (auto simp: finalized_def)
  qed
  ultimately show ?thesis
    by blast
qed

end
