(* ===== verification/Finalizer_Theorems.thy ===== *)
theory Finalizer_Theorems
  imports Finalizer_Progress
begin

text \<open>
  The properties of the removal of queue records: what is removed, whatever other processes do, and
  that repeated runs of the finalizer remove all its candidates.
\<close>

section \<open>Repeated runs\<close>

text \<open>Runs on the same candidates at given times: the errors of the runs and the world they leave.\<close>

fun repeat_runs ::
  "'b finalization_codec \<Rightarrow> string \<Rightarrow> 'b host \<Rightarrow> finalizer \<Rightarrow> queue_entry list \<Rightarrow> int \<Rightarrow> gotime list
     \<Rightarrow> 'b removal_world \<Rightarrow> go_error option list \<times> 'b removal_world" where
  "repeat_runs c service h fz candidates limit [] w = ([], w)"
| "repeat_runs c service h fz candidates limit (t # ts) w =
     (let ((_, _, err), w1) = drive c service h t (run_finalizer (Some fz) candidates limit) w;
          (errs, w2) = repeat_runs c service h fz candidates limit ts w1
      in (err # errs, w2))"

lemma readable_mono: "readable c service t dir \<Longrightarrow> t \<le> t' \<Longrightarrow> readable c service t' dir"
  unfolding readable_def timely_def by fastforce

lemma filter_not_front: "distinct (xs @ ys) \<Longrightarrow> filter (\<lambda>x. x \<notin> set xs) (xs @ ys) = ys"
  by (auto simp: filter_empty_conv filter_id_conv)

lemma filter_not_take: "distinct xs \<Longrightarrow> filter (\<lambda>x. x \<notin> set (take n xs)) xs = drop n xs"
  using filter_not_front [of "take n xs" "drop n xs"] unfolding append_take_drop_id .

lemma finalized_queue:
  assumes "finalized c service t removed w w'" "set removed \<subseteq> set (wQueue w)" "distinct (map qeQueueID (wQueue w))"
  shows "wQueue w' = filter (\<lambda>e. e \<notin> set removed) (wQueue w)"
proof -
  have "qeQueueID e \<in> qeQueueID ` set removed \<longleftrightarrow> e \<in> set removed" if "e \<in> set (wQueue w)" for e
    using that assms(2,3) by (auto simp: distinct_map inj_on_def subset_iff)
  then show ?thesis
    using assms(1) by (auto simp: finalized_def intro: filter_cong)
qed

lemma finalized_remaining:
  assumes "finalized c service t (take n (remaining candidates w)) w w'"
    and "distinct (map qeQueueID (wQueue w))" "distinct (map qeQueueID candidates)"
  shows "wQueue w' = filter (\<lambda>e. e \<notin> set (take n (remaining candidates w))) (wQueue w)"
    and "remaining candidates w' = drop n (remaining candidates w)"
proof -
  have "set (take n (remaining candidates w)) \<subseteq> set (wQueue w)"
    using set_take_subset [of n "remaining candidates w"] by (auto simp: remaining_def)
  then show queue: "wQueue w' = filter (\<lambda>e. e \<notin> set (take n (remaining candidates w))) (wQueue w)"
    using finalized_queue [OF assms(1) _ assms(2)] by blast
  have "distinct (remaining candidates w)"
    using assms(3) by (simp add: remaining_def distinct_map)
  moreover have "remaining candidates w' = filter (\<lambda>e. e \<notin> set (take n (remaining candidates w))) (remaining candidates w)"
    by (simp add: remaining_def queue [unfolded remaining_def] conj_commute)
  ultimately show "remaining candidates w' = drop n (remaining candidates w)"
    using filter_not_take by simp
qed

lemma finalized_free:
  assumes "finalized c service t removed w w'" "set removed \<subseteq> set candidates" "distinct (map qeQueueID candidates)"
    and "list_all (free_candidate c service w) candidates"
  shows "list_all (free_candidate c service w') candidates"
proof -
  have "removals c service w' (qeQueueID e) = None \<or> known (removals c service w') e" if e: "e \<in> set candidates" for e
  proof -
    have free: "free_candidate c service w e" and positive: "0 < qeQueueID e"
      using assms(4) e eligible_positive by (auto simp: list_all_iff free_candidate_def)
    show ?thesis
    proof (cases "qeQueueID e \<in> qeQueueID ` set removed")
      case True
      then have "e \<in> set removed"
        using assms(2,3) e by (auto simp: distinct_map inj_on_def subset_iff)
      then show ?thesis
        using assms(1) by (auto simp: finalized_def)
    next
      case False
      then show ?thesis
        using assms(1) free positive later_known [of "removals c service w"]
        by (auto simp: finalized_def free_candidate_def)
    qed
  qed
  then show ?thesis
    using assms(4) by (simp add: list_all_iff free_candidate_def)
qed

definition runnable ::
  "'b finalization_codec \<Rightarrow> string \<Rightarrow> gotime \<Rightarrow> queue_entry list \<Rightarrow> 'b removal_world \<Rightarrow> bool" where
  "runnable c service t candidates w \<longleftrightarrow> good_world c service t w \<and> distinct (map qeQueueID candidates) \<and>
     list_all (free_candidate c service w) candidates"

lemma runnable_next:
  assumes "runnable c service t candidates w" "finalized c service t (take n (remaining candidates w)) w w'" "t \<le> t'"
  shows "runnable c service t' candidates w'"
proof -
  have "set (take n (remaining candidates w)) \<subseteq> set candidates"
    using set_take_subset [of n "remaining candidates w"] by (auto simp: remaining_def)
  then have "list_all (free_candidate c service w') candidates"
    using finalized_free [OF assms(2)] assms(1) by (simp add: runnable_def)
  moreover have "readable c service t' (wFiles w')"
    using assms(2,3) readable_mono by (auto simp: finalized_def)
  moreover have "wQueue w' = filter (\<lambda>e. qeQueueID e \<notin> qeQueueID ` set (take n (remaining candidates w))) (wQueue w)"
    using assms(2) by (simp add: finalized_def)
  ultimately show ?thesis
    using assms(1) by (auto simp: runnable_def good_world_def distinct_map_filter list_all_iff)
qed

lemma repeat_runs_finish:
  assumes "codec_law c service" "ascii service" "calm h" "configured (Some fz)" "0 < limit"
    and "sorted ts" "list_all (\<lambda>t. 0 < t \<and> json_time t) ts" "ts \<noteq> []"
    and "runnable c service (hd ts) candidates w" "length (remaining candidates w) \<le> length ts * nat limit"
    and "repeat_runs c service h fz candidates limit ts w = (errs, w')"
  shows "list_all (\<lambda>err. err = None) errs \<and>
    wQueue w' = filter (\<lambda>e. e \<notin> set (remaining candidates w)) (wQueue w) \<and>
    later (removals c service w) (removals c service w') \<and>
    (\<forall>e \<in> set (remaining candidates w). settled (removals c service w') e) \<and> nothing_pending c service w'"
  using assms(6-)
proof (induction ts arbitrary: w errs)
  case (Cons t ts)
  have quiet: "quiet c service h t"
    using assms(1-3) Cons.prems(2) by (simp add: quiet_def)
  have run: "good_world c service t w" "list_all (free_candidate c service w) candidates"
    "distinct (map qeQueueID candidates)" "distinct (map qeQueueID (wQueue w))"
    using Cons.prems(4) by (simp_all add: runnable_def good_world_def)
  let ?n = "nat limit" and ?rest = "remaining candidates w"
  obtain report outcomes w1 where drive:
    "drive c service h t (run_finalizer (Some fz) candidates limit) w = ((report, outcomes, None), w1)"
    and final: "finalized c service t (take ?n ?rest) w w1" and pending: "nothing_pending c service w1"
    using run_drive [OF quiet run(1) assms(4,5) run(2,3)] by blast
  note rest = finalized_remaining [OF final run(4,3)]
  have final': "later (removals c service w) (removals c service w1)"
    "\<forall>e \<in> set (take ?n ?rest). settled (removals c service w1) e"
    using final by (simp_all add: finalized_def)
  obtain errs' where errs: "errs = None # errs'" "repeat_runs c service h fz candidates limit ts w1 = (errs', w')"
    using Cons.prems(6) drive by (auto simp: Let_def split: prod.splits)
  show ?case
  proof (cases "ts = []")
    case True
    then have "take ?n ?rest = ?rest"
      using Cons.prems(5) by simp
    then show ?thesis
      using True errs rest(1) final' pending by simp
  next
    case False
    have "t \<le> hd ts"
      using Cons.prems(1) False by (cases ts) auto
    then have "runnable c service (hd ts) candidates w1"
      using runnable_next [OF Cons.prems(4) [simplified] final] by simp
    moreover have "length (remaining candidates w1) \<le> length ts * ?n"
      using Cons.prems(5) rest(2) by simp
    ultimately have IH: "list_all (\<lambda>err. err = None) errs'"
      "wQueue w' = filter (\<lambda>e. e \<notin> set (remaining candidates w1)) (wQueue w1)"
      "later (removals c service w1) (removals c service w')"
      "\<forall>e \<in> set (remaining candidates w1). settled (removals c service w') e" "nothing_pending c service w'"
      using Cons.IH [OF _ _ False _ _ errs(2)] Cons.prems(1,2) by simp_all
    have all: "set ?rest = set (take ?n ?rest) \<union> set (drop ?n ?rest)"
      by (metis append_take_drop_id set_append)
    have positive: "0 < qeQueueID e" if "e \<in> set ?rest" for e
      using that run(2) eligible_positive by (auto simp: remaining_def list_all_iff free_candidate_def)
    have "settled (removals c service w') e" if "e \<in> set ?rest" for e
      using that all rest(2) IH(3,4) final'(2) later_settled [OF IH(3)] positive by auto
    moreover have "wQueue w' = filter (\<lambda>e. e \<notin> set ?rest) (wQueue w)"
      unfolding IH(2) rest by (simp add: all conj_commute)
    ultimately show ?thesis
      using errs(1) IH(1,5) later_trans [OF final'(1) IH(3)] by simp
  qed
qed simp

section \<open>A queue to finalize\<close>

definition sample_codec :: "finalization option finalization_codec" where
  "sample_codec = \<lparr>fcMarshal = (\<lambda>v. Inr (Some v)),
     fcDecode = (\<lambda>data. case data of Some v \<Rightarrow> Inr (v, None) | None \<Rightarrow> Inl (ErrorText ''EOF'')),
     fcTrailing = (\<lambda>data. case data of Some _ \<Rightarrow> AnotherValue | None \<Rightarrow> EndOfInput)\<rparr>"

definition still_host :: "finalization option host" where
  "still_host =
     \<lparr>hLockOpen = None, hLockChmod = None, hFlock = None, hOpen = (\<lambda>_. None), hStat = (\<lambda>_. None),
      hRead = (\<lambda>_. None), hReadDir = None, hReplace = NoFault, hTemp = ''.state-1.tmp'', hLeft = None\<rparr>"

definition row :: "int \<Rightarrow> string \<Rightarrow> queue_entry" where
  "row i download = \<lparr>qeQueueID = i, qeDownloadID = download, qeSubjectID = 7, qeStatus = ''completed'',
     qeTrackedDownloadStatus = ''warning''\<rparr>"

definition radarr_finalizer :: finalizer where
  "radarr_finalizer = \<lparr>fzService = ''Radarr'', fzStore = Some \<lparr>fsService = ''Radarr'',
     fsDirectory = ''/s/queue-finalizations'', fsLockPath = ''/s/queue-finalizations/.lock''\<rparr>\<rparr>"

definition sample_world :: "finalization option removal_world" where
  "sample_world = \<lparr>wQueue = [row 9 ''b'', row 4 ''a'', row 5 ''c''], wFiles = [], wSeen = []\<rparr>"

lemma row_sel [simp]: "qeQueueID (row i d) = i" "qeDownloadID (row i d) = d"
  by (simp_all add: row_def)

lemma row_eligible: "Eligible (row 9 ''b'')" "Eligible (row 4 ''a'')" "Eligible (row 5 ''c'')"
  by code_simp+

lemma sample_ascii: "ascii ''Radarr''" "ascii ''a''" "ascii ''b''"
  by code_simp+

lemma sample_law: "codec_law sample_codec service"
  by (simp add: codec_law_def sample_codec_def)

lemma sample_calm: "calm still_host" "host_ok still_host"
  by (simp_all add: calm_def host_ok_def still_host_def isTemporaryExecutionName_def has_prefix_def has_suffix_def)

text \<open>One call after the other, with a host that refuses nothing, and the removal that comes next.\<close>

fun answer_call ::
  "'b finalization_codec \<Rightarrow> string \<Rightarrow> 'b host \<Rightarrow> gotime \<Rightarrow> 'r removal_prog \<times> 'b removal_world \<Rightarrow> 'r removal_prog \<times> 'b removal_world" where
  "answer_call c service h t (Finished r, w) = (Finished r, w)"
| "answer_call c service h t (ReadQueueC k, w) = (k (Inr (wQueue w)), w\<lparr>wSeen := wQueue w\<rparr>)"
| "answer_call c service h t (RemoveC i k, w) = (k (Inr ()), w\<lparr>wQueue := without i (wQueue w)\<rparr>)"
| "answer_call c service h t (NowC k, w) = (k t, w)"
| "answer_call c service h t (ListC k, w) = (k (fst (list_removals c service h (wFiles w))), w)"
| "answer_call c service h t (PrepareC entry now k, w) =
     (case prepare_removal c service h entry now (wFiles w) of (r, dir) \<Rightarrow> (k r, w\<lparr>wFiles := dir\<rparr>))"
| "answer_call c service h t (CompleteC entry now k, w) =
     (case complete_removal c service h entry now (wFiles w) of (r, dir) \<Rightarrow> (k r, w\<lparr>wFiles := dir\<rparr>))"

fun next_removal :: "'r removal_prog \<Rightarrow> int option" where
  "next_removal (RemoveC i k) = Some i"
| "next_removal _ = None"

lemma next_removal_Some: "next_removal p = Some i \<longleftrightarrow> (\<exists>k. p = RemoveC i k)"
  by (cases p) auto

lemma answer_step:
  assumes "host_ok h"
  shows "(removal_step c service)\<^sup>*\<^sup>* s (answer_call c service h t s)"
proof (cases s)
  case (Pair p w)
  then show ?thesis
    by (cases p) (auto intro!: r_into_rtranclp removal_step.intros assms split: prod.split)
qed

lemma answer_steps:
  assumes "host_ok h"
  shows "(removal_step c service)\<^sup>*\<^sup>* s ((answer_call c service h t ^^ n) s)"
  by (induction n) (auto intro: rtranclp_trans answer_step [OF assms])

section \<open>Properties\<close>

text \<open>
  C36: Whatever other processes do to the queue and to the directory, whatever the host refuses and
  whichever answers are lost, when a run of the finalizer asks for the removal of a queue record, this
  record is one of its candidates, it was in the queue with exactly that content when the run read it,
  it is eligible, and its removal is recorded in the directory.
\<close>

theorem finalizer_removes_recorded:
  assumes "codec_law c service" "ascii service" "list_all (\<lambda>e. ascii (qeDownloadID e)) candidates"
    and "(removal_step c service)\<^sup>*\<^sup>* (run_finalizer fz candidates limit, w0) (RemoveC i k, w)"
  shows "\<exists>entry. qeQueueID entry = i \<and> entry \<in> set candidates \<and> entry \<in> set (wSeen w) \<and> Eligible entry \<and>
    recorded c service (wFiles w) entry"
  using on_track_remove [OF on_track_steps [OF assms(4,1,2) track_start [OF run_removes_only [OF assms(3)]]]]
  by (auto simp: finalizable_def)

theorem finalizer_removes_recorded_witness:
  "\<exists>entry. qeQueueID entry = 4 \<and> entry \<in> set [row 9 ''b'', row 4 ''a''] \<and>
     Eligible entry \<and> recorded sample_codec ''Radarr''
       (wFiles (snd ((answer_call sample_codec ''Radarr'' still_host 3 ^^ 4)
          (run_finalizer (Some radarr_finalizer) [row 9 ''b'', row 4 ''a''] 1, sample_world)))) entry"
proof -
  let ?start = "(run_finalizer (Some radarr_finalizer) [row 9 ''b'', row 4 ''a''] 1, sample_world)"
  let ?s = "(answer_call sample_codec ''Radarr'' still_host 3 ^^ 4) ?start"
  have "next_removal (fst ?s) = Some 4"
    by code_simp
  then obtain k where "fst ?s = RemoveC 4 k"
    by (auto simp: next_removal_Some)
  then have "?s = (RemoveC 4 k, snd ?s)"
    by (metis prod.collapse)
  then have "(removal_step sample_codec ''Radarr'')\<^sup>*\<^sup>* ?start (RemoveC 4 k, snd ?s)"
    using answer_steps [OF sample_calm(2)] by metis
  then show ?thesis
    using finalizer_removes_recorded [OF sample_law sample_ascii(1), of "[row 9 ''b'', row 4 ''a'']"] sample_ascii(2,3)
    by fastforce
qed

text \<open>
  C37: When nothing fails, runs of the finalizer at increasing times get through: enough runs for the
  limit on removals per run end without an error, take exactly the candidates out of the queue, leave
  the removal of each of them recorded as completed, and leave no removal prepared whose queue record
  is gone, whether it was prepared by these runs or by an earlier one that was interrupted.
\<close>

theorem finalizer_finishes:
  assumes "codec_law c service" "ascii service" "calm h" "configured (Some fz)" "0 < limit"
    and "sorted ts" "list_all (\<lambda>t. 0 < t \<and> json_time t) ts" "ts \<noteq> []"
    and "runnable c service (hd ts) candidates w" "int (length candidates) \<le> int (length ts) * limit"
  shows "case repeat_runs c service h fz candidates limit ts w of (errs, w') \<Rightarrow>
    errs = replicate (length ts) None \<and>
    wQueue w' = filter (\<lambda>e. e \<notin> set candidates) (wQueue w) \<and>
    (\<forall>e \<in> set candidates. e \<in> set (wQueue w) \<longrightarrow>
       (\<exists>v. removal_at c service (wFiles w') (qeQueueID e) = Some v \<and> frEntry v = e \<and> frState v = RemovalCompleted)) \<and>
    nothing_pending c service w'"
proof -
  obtain errs w' where runs: "repeat_runs c service h fz candidates limit ts w = (errs, w')"
    by fastforce
  have "length (remaining candidates w) \<le> length candidates"
    by (metis length_filter_le length_sort remaining_def)
  moreover have "int (length candidates) \<le> int (length ts * nat limit)"
    using assms(5,10) by simp
  ultimately have enough: "length (remaining candidates w) \<le> length ts * nat limit"
    by linarith
  have "length errs = length ts"
    using runs by (induction ts arbitrary: w errs) (auto simp: Let_def split: prod.splits)
  moreover note finish = repeat_runs_finish [OF assms(1-9) enough runs]
  moreover have "filter (\<lambda>e. e \<notin> set (remaining candidates w)) (wQueue w) = filter (\<lambda>e. e \<notin> set candidates) (wQueue w)"
    by (rule filter_cong) (auto simp: remaining_def)
  moreover have "e \<in> set (remaining candidates w)" if "e \<in> set candidates" "e \<in> set (wQueue w)" for e
    using that by (simp add: remaining_def)
  ultimately show ?thesis
    unfolding runs by (auto simp: settled_def list_all_iff intro!: replicate_eqI)
qed

lemma sample_runnable: "runnable sample_codec ''Radarr'' 3 [row 9 ''b'', row 4 ''a''] sample_world"
  using row_eligible sample_ascii
  by (simp add: runnable_def good_world_def free_candidate_def readable_def sample_world_def removal_at_def)

theorem finalizer_finishes_witness:
  "case repeat_runs sample_codec ''Radarr'' still_host radarr_finalizer [row 9 ''b'', row 4 ''a''] 1 [3, 8] sample_world of
     (errs, w') \<Rightarrow> errs = [None, None] \<and> wQueue w' = [row 5 ''c''] \<and>
       (\<exists>v. removal_at sample_codec ''Radarr'' (wFiles w') 9 = Some v \<and> frEntry v = row 9 ''b'' \<and>
          frState v = RemovalCompleted)"
proof -
  have "configured (Some radarr_finalizer)" "list_all (\<lambda>t. 0 < t \<and> json_time t) [3, 8]"
    by (simp_all add: configured_def radarr_finalizer_def json_time_def hour_def minute_def second_def)
  moreover have "filter (\<lambda>e. e \<notin> set [row 9 ''b'', row 4 ''a'']) (wQueue sample_world) = [row 5 ''c'']"
    "row 9 ''b'' \<in> set (wQueue sample_world)"
    by (simp_all add: sample_world_def row_def)
  ultimately show ?thesis
    using finalizer_finishes [OF sample_law sample_ascii(1) sample_calm(1), of radarr_finalizer 1 "[3, 8]"
        "[row 9 ''b'', row 4 ''a'']" sample_world] sample_runnable
    by (auto simp: numeral_2_eq_2)
qed

text \<open>
  C38: Whatever other processes do, when the removal of a job's tracking asks for the removal of a
  queue record, this record was in the queue as it was read, is eligible, belongs to the download of
  the job, and either has the queue ID of the job or is the only record of that download.
\<close>

theorem tracking_removes_matched:
  assumes "codec_law c service" "ascii service"
    and "(removal_step c service)\<^sup>*\<^sup>* (RemoveTracking job, w0) (RemoveC i k, w)"
  shows "\<exists>entry \<in> set (wSeen w). qeQueueID entry = i \<and> Eligible entry \<and> qeDownloadID entry = jDownloadID job \<and>
    (i = jQueueID job \<or> (\<forall>other \<in> set (wSeen w). qeDownloadID other = jDownloadID job \<longrightarrow> other = entry))"
  using on_track_remove [OF on_track_steps [OF assms(3,1,2) track_start [OF tracking_removes_only]]]
  by (auto simp: tracked_def)

definition tracked_job :: job where
  "tracked_job = \<lparr>jID = 1, jService = ''radarr'', jQueueID = 2, jDownloadID = ''a'', jTitle = [],
     jSourceFingerprint = [], jPlanningFingerprint = [], jPreviousPlanningFingerprint = [],
     jPlanningChange = [], jStableSince = 0, jEvidence = None, jCollectionError = [], jPlan = None,
     jGuidance = [], jRuntimeToleranceMS = 0, jRetryAt = 0, jPlanningAttempts = 0,
     jPendingAction = ''delete'', jRevision = 1, jInQueue = True, jState = Removing, jReason = [],
     jUpdatedAt = 0\<rparr>"

theorem tracking_removes_matched_witness:
  "\<exists>entry \<in> set (wQueue sample_world). qeQueueID entry = 4 \<and> Eligible entry \<and>
     qeDownloadID entry = jDownloadID tracked_job"
proof -
  let ?start = "(RemoveTracking tracked_job, sample_world)"
  let ?s = "(answer_call sample_codec ''Radarr'' still_host 3 ^^ 1) ?start"
  have "next_removal (fst ?s) = Some 4"
    by code_simp
  then obtain k where "fst ?s = RemoveC 4 k"
    by (auto simp: next_removal_Some)
  then have "?s = (RemoveC 4 k, snd ?s)"
    by (metis prod.collapse)
  then have "(removal_step sample_codec ''Radarr'')\<^sup>*\<^sup>* ?start (RemoveC 4 k, snd ?s)"
    using answer_steps [OF sample_calm(2)] by metis
  from tracking_removes_matched [OF sample_law sample_ascii(1) this] show ?thesis
    by (auto simp: RemoveTracking_def)
qed

text \<open>
  Two queue records of one download, as a download of two movies has them: the removal of the one with
  the queue ID of the job succeeds but is reported as failed, and repeating it removes the other one.
\<close>

lemma tracking_takes_sibling:
  defines "job \<equiv> tracked_job\<lparr>jQueueID := 4\<rparr>"
    and "w \<equiv> \<lparr>wQueue = [row 4 ''a'', row 5 ''a''], wFiles = [], wSeen = []\<rparr>"
  shows "fst (drive sample_codec ''Radarr'' still_host 3 (RemoveTracking job) w) =
      Inl (ErrorText ''queue removal accepted but the item is still present'')"
    and "wQueue (snd (drive sample_codec ''Radarr'' still_host 3 (RemoveTracking job) w)) = [row 5 ''a'']"
    and "wQueue (snd (drive sample_codec ''Radarr'' still_host 3 (RemoveTracking job)
      (snd (drive sample_codec ''Radarr'' still_host 3 (RemoveTracking job) w)))) = []"
  unfolding assms by code_simp+

end
