(* ===== verification/Planning_Results.thy ===== *)
theory Planning_Results
  imports Join_Store Media_Evidence
begin

text \<open>
  What is kept of the planner's answers (\<open>internal/planning\<close>): failures with the time of the next
  attempt, and the decision that ends planning for a case; the delay before another attempt, and the
  runner that asks the planner about a case. The JSON codec and the check of a decision, which goes
  through a schema, are parameters.
\<close>

section \<open>Failures\<close>

datatype failure_kind =
    FailureUnavailable | FailureTimeout | FailureHTTP | FailureInvalidResult | FailureUnexpected
  | OtherFailure string

record planning_failure =
  flKind :: failure_kind
  flStatusCode :: int

definition ValidFailure :: "planning_failure \<Rightarrow> bool" where
  "ValidFailure failure =
     (case flKind failure of
        FailureHTTP \<Rightarrow> 100 \<le> flStatusCode failure \<and> flStatusCode failure \<le> 599
      | OtherFailure _ \<Rightarrow> False
      | _ \<Rightarrow> flStatusCode failure = 0)"

section \<open>Results\<close>

definition ResultVersionV1 :: string where
  "ResultVersionV1 = ''media-repair-planning/v1''"

definition legacyRadarrResultVersion :: string where
  "legacyRadarrResultVersion = ''radarr-repair-planning/v1''"

definition legacyLidarrResultVersion :: string where
  "legacyLidarrResultVersion = ''lidarr-repair-planning/v1''"

text \<open>The regular expression \<open>^sha256:[0-9a-f]{64}$\<close>.\<close>

definition hex_char :: "char \<Rightarrow> bool" where
  "hex_char ch \<longleftrightarrow> ch \<in> set ''0123456789abcdef''"

definition caseIDPattern :: "string \<Rightarrow> bool" where
  "caseIDPattern caseID \<longleftrightarrow>
     has_prefix caseID ''sha256:'' \<and> length caseID = 71 \<and> list_all hex_char (drop 7 caseID)"

definition max_uint64 :: int where
  "max_uint64 = 18446744073709551615"

record stored_result =
  srVersion :: string
  srCaseID :: string
  srAttempts :: int
  srAttemptedAt :: gotime
  srRetryAfter :: "gotime option"
  srFailure :: "planning_failure option"
  srDecision :: string

record planning_status =
  sgAttempts :: int
  sgRetryAfter :: "gotime option"
  sgDecided :: bool

definition HasDecision :: "stored_result \<Rightarrow> bool" where
  "HasDecision result \<longleftrightarrow> srDecision result \<noteq> []"

definition Status :: "stored_result \<Rightarrow> planning_status" where
  "Status result = \<lparr>sgAttempts = srAttempts result, sgRetryAfter = srRetryAfter result,
     sgDecided = HasDecision result\<rparr>"

text \<open>The check of a decision gives the case it answers and its canonical form.\<close>

type_synonym decision_validator = "string \<Rightarrow> go_error + string \<times> string"

definition validateStoredResult :: "decision_validator \<Rightarrow> stored_result \<Rightarrow> go_error + unit" where
  "validateStoredResult validateDecision result =
     and_then (ensure (caseIDPattern (srCaseID result))
       (ErrorText (''invalid planning result case ID '' @ quote (srCaseID result)))) (\<lambda>_.
     and_then (ensure (srAttempts result \<noteq> 0)
       (ErrorText ''planning result must contain at least one attempt'')) (\<lambda>_.
     and_then (ensure (srAttemptedAt result \<noteq> zero_time)
       (ErrorText ''planning result attempt time is required'')) (\<lambda>_.
     if HasDecision result = (srFailure result \<noteq> None)
     then Inl (ErrorText ''planning result must contain exactly one decision or failure'')
     else if HasDecision result
     then
       and_then (ensure (srRetryAfter result = None)
         (ErrorText ''successful planning result cannot have a retry time'')) (\<lambda>_.
       and_then (wrap_error ''validate stored planning decision: ''
         (validateDecision (srDecision result))) (\<lambda>(caseID, canonical).
       and_then (ensure (srDecision result = canonical)
         (ErrorText ''stored planning decision is not in canonical encoded form'')) (\<lambda>_.
       ensure (caseID = srCaseID result)
         (ErrorText ''planning decision case ID does not match its record''))))
     else
       and_then (ensure (case srRetryAfter result of
             None \<Rightarrow> False | Some retryAfter \<Rightarrow> retryAfter > srAttemptedAt result)
         (ErrorText ''failed planning result must have a later retry time'')) (\<lambda>_.
       ensure (case srFailure result of None \<Rightarrow> False | Some failure \<Rightarrow> ValidFailure failure)
         (ErrorText ''invalid planning failure'')))))"

record 'b result_codec =
  rsMarshal :: "stored_result \<Rightarrow> go_error + 'b"
  rsDecode :: "'b \<Rightarrow> go_error + stored_result \<times> 'b"
  rsTrailing :: "'b \<Rightarrow> trailing"
  rsValidate :: decision_validator

definition EncodeStoredResult :: "('b, 'x) result_codec_scheme \<Rightarrow> stored_result \<Rightarrow> go_error + 'b" where
  "EncodeStoredResult c result =
     and_then (ensure (srVersion result = ResultVersionV1)
       (ErrorText (''unsupported planning result version '' @ quote (srVersion result)))) (\<lambda>_.
     and_then (validateStoredResult (rsValidate c) result) (\<lambda>_.
     wrap_error ''encode planning result: '' (rsMarshal c result)))"

definition DecodeStoredResult :: "('b, 'x) result_codec_scheme \<Rightarrow> 'b \<Rightarrow> go_error + stored_result" where
  "DecodeStoredResult c data =
     and_then (wrap_error ''decode planning result: '' (rsDecode c data)) (\<lambda>(result, rest).
     and_then (case rsTrailing c rest of
                 EndOfInput \<Rightarrow> Inr ()
               | AnotherValue \<Rightarrow> Inl (ErrorText ''decode planning result: multiple JSON values'')
               | BadInput e \<Rightarrow> Inl (ErrWrap ''decode planning result trailing JSON: '' e)) (\<lambda>_.
     and_then (ensure (srVersion result \<in> {ResultVersionV1, legacyRadarrResultVersion, legacyLidarrResultVersion})
       (ErrorText (''unsupported planning result version '' @ quote (srVersion result)))) (\<lambda>_.
     and_then (validateStoredResult (rsValidate c) result) (\<lambda>_.
     Inr result))))"

definition nextAttempts :: "stored_result option \<Rightarrow> go_error + int" where
  "nextAttempts previous =
     (case previous of
        None \<Rightarrow> Inr 1
      | Some result \<Rightarrow>
          if srAttempts result = max_uint64 then Inl (ErrorText ''planning attempt count overflow'')
          else Inr (srAttempts result + 1))"

text \<open>The next result and whether it is new.\<close>

definition NextFailure ::
  "stored_result option \<Rightarrow> string \<Rightarrow> planning_failure \<Rightarrow> gotime \<Rightarrow> gotime \<Rightarrow> go_error + stored_result \<times> bool" where
  "NextFailure previous caseID failure attemptedAt retryAfter =
     (case previous of
        Some result \<Rightarrow> if HasDecision result then Inr (result, False) else
          and_then (nextAttempts previous) (\<lambda>attempts.
          Inr (\<lparr>srVersion = ResultVersionV1, srCaseID = caseID, srAttempts = attempts,
            srAttemptedAt = attemptedAt, srRetryAfter = Some retryAfter, srFailure = Some failure,
            srDecision = []\<rparr>, True))
      | None \<Rightarrow>
          and_then (nextAttempts previous) (\<lambda>attempts.
          Inr (\<lparr>srVersion = ResultVersionV1, srCaseID = caseID, srAttempts = attempts,
            srAttemptedAt = attemptedAt, srRetryAfter = Some retryAfter, srFailure = Some failure,
            srDecision = []\<rparr>, True)))"

definition NextDecision ::
  "stored_result option \<Rightarrow> string \<Rightarrow> string \<Rightarrow> gotime \<Rightarrow> go_error + stored_result \<times> bool" where
  "NextDecision previous caseID decision attemptedAt =
     (let next = and_then (nextAttempts previous) (\<lambda>attempts.
            Inr (\<lparr>srVersion = ResultVersionV1, srCaseID = caseID, srAttempts = attempts,
              srAttemptedAt = attemptedAt, srRetryAfter = None, srFailure = None,
              srDecision = decision\<rparr>, True))
      in case previous of
           Some result \<Rightarrow>
             if HasDecision result
             then if srDecision result = decision then Inr (result, False)
                  else Inl (ErrorText (''case ID '' @ quote caseID @ '' is already bound to a different planning decision''))
             else next
         | None \<Rightarrow> next)"

section \<open>The delay before another attempt\<close>

record backoff =
  boInitial :: int
  boMaximum :: int

text \<open>The loop of \<open>Delay\<close>; doubling wraps at 64 bits.\<close>

fun backoff_loop :: "int \<Rightarrow> nat \<Rightarrow> int \<Rightarrow> int" where
  "backoff_loop maximum 0 delay = (if delay > maximum then maximum else delay)"
| "backoff_loop maximum (Suc priorAttempts) delay =
     (if delay < maximum
      then if delay > quot64 maximum 2 then maximum
           else backoff_loop maximum priorAttempts (wrap64 (delay * 2))
      else if delay > maximum then maximum else delay)"

definition Delay :: "backoff \<Rightarrow> nat \<Rightarrow> int" where
  "Delay b priorAttempts = backoff_loop (boMaximum b) priorAttempts (boInitial b)"

lemma backoff_loop_doubles:
  assumes "0 < delay" "delay \<le> maximum" "maximum \<le> max_int64"
  shows "backoff_loop maximum n delay = min maximum (delay * 2 ^ n)"
  using assms(1,2)
proof (induction n arbitrary: delay)
  case (Suc n)
  have half: "quot64 maximum 2 = maximum div 2"
    using Suc.prems by (simp add: quot64_nonneg)
  show ?case
  proof (cases "delay < maximum \<and> delay \<le> maximum div 2")
    case True
    then have double: "0 < delay * 2 \<and> delay * 2 \<le> maximum"
      using Suc.prems by linarith
    then have "wrap64 (delay * 2) = delay * 2"
      using assms(3) by (intro wrap64_id) (simp add: in_int64_def min_int64_def max_int64_def)
    moreover have "backoff_loop maximum n (delay * 2) = min maximum (delay * 2 * 2 ^ n)"
      using Suc.IH [of "delay * 2"] double by blast
    ultimately show ?thesis
      using True half by (simp add: mult.assoc)
  next
    case False
    have "delay * 2 \<le> delay * 2 ^ Suc n"
      using Suc.prems by (intro mult_left_mono) simp_all
    moreover have "maximum \<le> delay * 2 \<or> delay = maximum"
      using False Suc.prems by linarith
    ultimately have "maximum \<le> delay * 2 ^ Suc n"
      using Suc.prems by linarith
    then show ?thesis
      using False Suc.prems half by (auto simp: min_def)
  qed
qed simp

text \<open>The delay doubles with every attempt up to its maximum, without overflow.\<close>

lemma Delay_doubles:
  assumes "0 < boInitial b" "boInitial b \<le> boMaximum b" "boMaximum b \<le> max_int64"
  shows "Delay b n = min (boMaximum b) (boInitial b * 2 ^ n)"
  using assms by (simp add: Delay_def backoff_loop_doubles)

section \<open>The runner\<close>

text \<open>
  What a runner is given: the store, the planner, the clock and functions on cases and decisions. The
  state \<open>'w\<close> is the world the calls change, the planner and the clock included.
\<close>

record ('c, 'd, 'f, 'w) planning_dependencies =
  plPutCase :: "'c \<Rightarrow> 'w \<Rightarrow> (go_error + bool) \<times> 'w"
  plGetStatus :: "string \<Rightarrow> 'w \<Rightarrow> (go_error + planning_status option) \<times> 'w"
  plGetDecision :: "string \<Rightarrow> 'w \<Rightarrow> (go_error + 'd) \<times> 'w"
  plPutFailure :: "string \<Rightarrow> 'f \<Rightarrow> gotime \<Rightarrow> gotime \<Rightarrow> 'w \<Rightarrow> (go_error + planning_status \<times> bool) \<times> 'w"
  plPutDecision :: "string \<Rightarrow> 'd \<Rightarrow> gotime \<Rightarrow> 'w \<Rightarrow> (go_error + planning_status \<times> bool) \<times> 'w"
  plPlan :: "'c \<Rightarrow> 'w \<Rightarrow> (go_error + 'd) \<times> 'w"
  plNow :: "'w \<Rightarrow> gotime \<times> 'w"
  plCaseID :: "'c \<Rightarrow> string"
  plDecisionCaseID :: "'d \<Rightarrow> string"
  plSuperseded :: "'c \<Rightarrow> bool"
  plClassifyFailure :: "go_error \<Rightarrow> 'f"
  plBackoff :: backoff

datatype planning_outcome =
    NoOutcome | PlanningFailed | PlanningDecided | PlanningAlreadyDecided | PlanningDeferred | PlanningSuperseded

record ('c, 'd, 'f) process_result =
  prOutcome :: planning_outcome
  prStored :: bool
  prSubmitted :: bool
  prCase :: "'c option"
  prDecision :: "'d option"
  prFailure :: "'f option"
  prPlannerDuration :: int

definition no_result :: "('c, 'd, 'f) process_result" where
  "no_result = \<lparr>prOutcome = NoOutcome, prStored = False, prSubmitted = False, prCase = None,
     prDecision = None, prFailure = None, prPlannerDuration = 0\<rparr>"

type_synonym ('c, 'd, 'f, 'w) process = "('c, 'd, 'f) process_result \<times> go_error option \<times> 'w"

definition wrong_case :: "string \<Rightarrow> string \<Rightarrow> go_error" where
  "wrong_case decisionCaseID caseID = ErrorText (''planning decision case ID '' @ quote decisionCaseID @
     '' does not match observed case '' @ quote caseID)"

definition loadPlanned ::
  "('c, 'd, 'f, 'w) planning_dependencies \<Rightarrow> string \<Rightarrow> ('c, 'd, 'f) process_result \<Rightarrow> planning_outcome \<Rightarrow> 'w
     \<Rightarrow> ('c, 'd, 'f, 'w) process" where
  "loadPlanned p caseID result outcome w =
     (case plGetDecision p caseID w of
        (Inl e, w) \<Rightarrow> (result\<lparr>prOutcome := PlanningFailed\<rparr>, Some (ErrWrap ''load stored planning decision: '' e), w)
      | (Inr decision, w) \<Rightarrow>
          if plDecisionCaseID p decision \<noteq> caseID
          then (result\<lparr>prOutcome := PlanningFailed\<rparr>, Some (wrong_case (plDecisionCaseID p decision) caseID), w)
          else (result\<lparr>prDecision := Some decision, prOutcome := outcome\<rparr>, None, w))"

text \<open>The part of \<open>Process\<close> after the planner was asked at the time \<open>now\<close>.\<close>

definition planner_answered ::
  "('c, 'd, 'f, 'w) planning_dependencies \<Rightarrow> string \<Rightarrow> planning_status option \<Rightarrow> gotime \<Rightarrow> ('c, 'd, 'f) process_result
     \<Rightarrow> go_error + 'd \<Rightarrow> 'w \<Rightarrow> ('c, 'd, 'f, 'w) process" where
  "planner_answered p caseID previous now result answer w =
     (let (completedAt, w) = plNow p w in
      if completedAt = zero_time
      then (result\<lparr>prOutcome := PlanningFailed\<rparr>, Some (ErrorText ''clock returned a zero time''), w)
      else
        let result = (if completedAt > now then result\<lparr>prPlannerDuration := time_sub completedAt now\<rparr> else result)
        in case answer of
             Inl planErr \<Rightarrow>
               let priorAttempts = (case previous of None \<Rightarrow> 0 | Some status \<Rightarrow> sgAttempts status);
                   retryAfter = completedAt + Delay (plBackoff p) (nat priorAttempts);
                   failure = plClassifyFailure p planErr;
                   result = result\<lparr>prFailure := Some failure, prOutcome := PlanningFailed\<rparr>
               in (case plPutFailure p caseID failure completedAt retryAfter w of
                     (Inl storeErr, w) \<Rightarrow> (result, Some (ErrJoin (ErrWrap ''planner failed: '' planErr)
                        (ErrWrap ''store planner failure: '' storeErr)), w)
                   | (Inr _, w) \<Rightarrow> (result, Some (ErrWrap ''planner failed: '' planErr), w))
           | Inr decision \<Rightarrow>
               if plDecisionCaseID p decision \<noteq> caseID
               then (result\<lparr>prOutcome := PlanningFailed\<rparr>, Some (wrong_case (plDecisionCaseID p decision) caseID), w)
               else
                 (case plPutDecision p caseID decision completedAt w of
                    (Inl e, w) \<Rightarrow>
                      (result\<lparr>prOutcome := PlanningFailed\<rparr>, Some (ErrWrap ''store planning decision: '' e), w)
                  | (Inr (stored, changed), w) \<Rightarrow>
                      if \<not> changed \<and> sgDecided stored then loadPlanned p caseID result PlanningAlreadyDecided w
                      else if \<not> changed
                      then (result\<lparr>prOutcome := PlanningFailed\<rparr>,
                            Some (ErrorText ''result store did not record the planning decision''), w)
                      else (result\<lparr>prDecision := Some decision, prOutcome := PlanningDecided\<rparr>, None, w)))"

text \<open>\<open>cancelled\<close> is the error of the context when the call starts.\<close>

definition Process ::
  "('c, 'd, 'f, 'w) planning_dependencies option \<Rightarrow> go_error option \<Rightarrow> 'c \<Rightarrow> 'w \<Rightarrow> ('c, 'd, 'f, 'w) process" where
  "Process runner cancelled current w =
     (case runner of
        None \<Rightarrow> (no_result, Some (ErrorText ''planning runner is not configured''), w)
      | Some p \<Rightarrow>
     (case cancelled of
        Some e \<Rightarrow> (no_result, Some e, w)
      | None \<Rightarrow>
     (case plPutCase p current w of
        (Inl e, w) \<Rightarrow> (no_result\<lparr>prOutcome := PlanningFailed\<rparr>, Some (ErrWrap ''store repair case: '' e), w)
      | (Inr created, w) \<Rightarrow>
          let result = no_result\<lparr>prStored := created, prCase := Some current\<rparr>;
              caseID = plCaseID p current
          in if plSuperseded p current then (result\<lparr>prOutcome := PlanningSuperseded\<rparr>, None, w)
             else if caseID = []
             then (result\<lparr>prOutcome := PlanningFailed\<rparr>, Some (ErrorText ''repair case identity is empty''), w)
             else
               (case plGetStatus p caseID w of
                  (Inl e, w) \<Rightarrow>
                    (result\<lparr>prOutcome := PlanningFailed\<rparr>, Some (ErrWrap ''read planning result: '' e), w)
                | (Inr previous, w) \<Rightarrow>
                    if (case previous of Some status \<Rightarrow> sgDecided status | None \<Rightarrow> False)
                    then loadPlanned p caseID result PlanningAlreadyDecided w
                    else let (now, w) = plNow p w in
                      if now = zero_time
                      then (result\<lparr>prOutcome := PlanningFailed\<rparr>, Some (ErrorText ''clock returned a zero time''), w)
                      else if (case previous of
                                 Some status \<Rightarrow> (case sgRetryAfter status of Some t \<Rightarrow> now < t | None \<Rightarrow> False)
                               | None \<Rightarrow> False)
                      then (result\<lparr>prOutcome := PlanningDeferred\<rparr>, None, w)
                      else
                        let (answer, w) = plPlan p current w
                        in planner_answered p caseID previous now (result\<lparr>prSubmitted := True\<rparr>) answer w))))"

end
