(* ===== verification/Planning_State.thy ===== *)
theory Planning_State
  imports Planning_Results
begin

text \<open>
  The stores of cases and of planning results (\<open>internal/planningstate\<close>), each a directory with one
  file per case. The lock they are given, the codec of the cases and what the host refuses are
  arguments. A file is read as \<open>os.ReadFile\<close> reads it: \<open>Symlink\<close> is a link to nothing.
\<close>

definition ReadFile :: "'b host \<Rightarrow> string \<Rightarrow> 'b directory \<Rightarrow> go_error + 'b option" where
  "ReadFile h name dir =
     (case map_of dir name of
        None \<Rightarrow> Inr None
      | Some Symlink \<Rightarrow> Inr None
      | Some Irregular \<Rightarrow> Inl (ErrorText ''is a directory'')
      | Some (Regular data) \<Rightarrow> and_then (check_fault (hRead h name)) (\<lambda>_. Inr (Some data)))"

lemma ReadFile_Some: "ReadFile h name dir = Inr (Some data) \<Longrightarrow> map_of dir name = Some (Regular data)"
  by (auto simp: ReadFile_def and_then_Inr_iff split: option.splits dirent.splits)

lemma ReadFile_None:
  "ReadFile h name dir = Inr None \<Longrightarrow> map_of dir name = None \<or> map_of dir name = Some Symlink"
  by (auto simp: ReadFile_def and_then_Inr_iff split: option.splits dirent.splits)

text \<open>The name of the file of a case in the directory of a store.\<close>

definition case_file :: "string \<Rightarrow> go_error + string" where
  "case_file caseID =
     (if caseIDPattern caseID then Inr (drop 7 caseID @ ''.json'')
      else Inl (ErrorText (''invalid planning case ID '' @ quote caseID)))"

section \<open>Cases\<close>

record ('c, 'b) case_codec =
  cdCaseID :: "'c \<Rightarrow> string"
  cdEncode :: "'c \<Rightarrow> go_error + 'b"
  cdDecode :: "'b \<Rightarrow> go_error + 'c"
  cdSameIdentity :: "'c \<Rightarrow> 'c \<Rightarrow> go_error + bool"
  cdMerge :: "'c \<Rightarrow> 'c \<Rightarrow> go_error + 'c"

record case_observed =
  ovCreated :: bool
  ovUpdated :: bool

definition case_validate :: "('c, 'b) case_codec \<Rightarrow> 'c \<Rightarrow> go_error + string" where
  "case_validate codec value =
     (if \<not> caseIDPattern (cdCaseID codec value)
      then Inl (ErrorText (''invalid planning case ID '' @ quote (cdCaseID codec value)))
      else and_then (cdEncode codec value) (\<lambda>_. Inr (cdCaseID codec value)))"

definition case_read ::
  "('c, 'b) case_codec \<Rightarrow> 'b host \<Rightarrow> string \<Rightarrow> 'b directory \<Rightarrow> go_error + 'c option" where
  "case_read codec h name dir =
     and_then (wrap_error ''read planning case: '' (ReadFile h name dir)) (\<lambda>found.
     (case found of
        None \<Rightarrow> Inr None
      | Some data \<Rightarrow>
          and_then (wrap_error ''validate stored planning case: '' (cdDecode codec data)) (\<lambda>value.
          Inr (Some value))))"

text \<open>The last call of \<open>Observe\<close>, given what \<open>after\<close> returns when it is not nil.\<close>

definition observe_after ::
  "(go_error + unit) option \<Rightarrow> case_observed \<Rightarrow> 'b directory \<Rightarrow> (go_error + case_observed) \<times> 'b directory" where
  "observe_after after result dir =
     (case after of
        None \<Rightarrow> (Inr result, dir)
      | Some r \<Rightarrow> or_keep r dir (\<lambda>_. (Inr result, dir)))"

definition Observe_case ::
  "('c, 'b) case_codec \<Rightarrow> go_error + unit \<Rightarrow> 'b host \<Rightarrow> 'c \<Rightarrow> (go_error + unit) option \<Rightarrow> 'b directory
     \<Rightarrow> (go_error + case_observed) \<times> 'b directory" where
  "Observe_case codec locked h current after dir =
     or_keep (case_validate codec current) dir (\<lambda>caseID.
     or_keep (case_file caseID) dir (\<lambda>name.
     or_keep locked dir (\<lambda>_.
     or_keep (case_read codec h name dir) dir (\<lambda>found.
     (case found of
        None \<Rightarrow>
          or_keep (cdEncode codec current) dir (\<lambda>data.
          let (r, dir') = Replace h name data dir
          in or_keep (wrap_error ''store planning case: '' r) dir' (\<lambda>_.
             observe_after after \<lparr>ovCreated = True, ovUpdated = True\<rparr> dir'))
      | Some stored \<Rightarrow>
          or_keep (cdSameIdentity codec stored current) dir (\<lambda>same.
          or_keep (ensure same (ErrorText (''case ID '' @ quote caseID @
            '' is already bound to different planning evidence''))) dir (\<lambda>_.
          or_keep (cdMerge codec stored current) dir (\<lambda>wanted.
          or_keep (cdEncode codec wanted) dir (\<lambda>data.
          or_keep (cdEncode codec stored) dir (\<lambda>storedData.
          if storedData = data then observe_after after \<lparr>ovCreated = False, ovUpdated = False\<rparr> dir
          else
            (let (r, dir') = Replace h name data dir
             in or_keep (wrap_error ''refresh planning case observation: '' r) dir' (\<lambda>_.
                observe_after after \<lparr>ovCreated = False, ovUpdated = True\<rparr> dir'))))))))))))"

definition Get_case ::
  "('c, 'b) case_codec \<Rightarrow> 'b host \<Rightarrow> string \<Rightarrow> 'b directory \<Rightarrow> go_error + 'c option" where
  "Get_case codec h caseID dir =
     and_then (case_file caseID) (\<lambda>name.
     and_then (case_read codec h name dir) (\<lambda>found.
     (case found of
        None \<Rightarrow> Inr None
      | Some stored \<Rightarrow>
          and_then (case_validate codec stored) (\<lambda>storedID.
          if storedID \<noteq> caseID
          then Inl (ErrorText (''stored planning case has unexpected ID '' @ quote storedID))
          else Inr (Some stored)))))"

section \<open>Planning results\<close>

definition result_read ::
  "('b, 'x) result_codec_scheme \<Rightarrow> 'b host \<Rightarrow> string \<Rightarrow> 'b directory \<Rightarrow> go_error + stored_result option" where
  "result_read c h name dir =
     and_then (wrap_error ''read planning result: '' (ReadFile h name dir)) (\<lambda>found.
     (case found of
        None \<Rightarrow> Inr None
      | Some data \<Rightarrow>
          and_then (wrap_error ''validate stored planning result: '' (DecodeStoredResult c data)) (\<lambda>result.
          Inr (Some result))))"

definition same_case :: "string \<Rightarrow> stored_result option \<Rightarrow> go_error + unit" where
  "same_case caseID found =
     (case found of
        None \<Rightarrow> Inr ()
      | Some result \<Rightarrow> ensure (srCaseID result = caseID)
          (ErrorText (''stored planning result has unexpected case ID '' @ quote (srCaseID result))))"

definition Get_result ::
  "('b, 'x) result_codec_scheme \<Rightarrow> 'b host \<Rightarrow> string \<Rightarrow> 'b directory \<Rightarrow> go_error + stored_result option" where
  "Get_result c h caseID dir =
     and_then (case_file caseID) (\<lambda>name.
     and_then (result_read c h name dir) (\<lambda>found.
     and_then (same_case caseID found) (\<lambda>_. Inr found)))"

definition result_update ::
  "('b, 'x) result_codec_scheme \<Rightarrow> go_error + unit \<Rightarrow> 'b host \<Rightarrow> (string \<Rightarrow> go_error + bool) \<Rightarrow> string
     \<Rightarrow> (stored_result option \<Rightarrow> go_error + stored_result \<times> bool) \<Rightarrow> 'b directory
     \<Rightarrow> (go_error + stored_result \<times> bool) \<times> 'b directory" where
  "result_update c locked h caseExists caseID change dir =
     or_keep (case_file caseID) dir (\<lambda>name.
     or_keep locked dir (\<lambda>_.
     or_keep (caseExists caseID) dir (\<lambda>known.
     or_keep (ensure known (ErrorText (''case '' @ quote caseID @ '' is not stored''))) dir (\<lambda>_.
     or_keep (result_read c h name dir) dir (\<lambda>previous.
     or_keep (same_case caseID previous) dir (\<lambda>_.
     or_keep (change previous) dir (\<lambda>(result, changed).
     if \<not> changed then (Inr (result, False), dir)
     else
       or_keep (EncodeStoredResult c result) dir (\<lambda>data.
       let (r, dir') = Replace h name data dir
       in or_keep r dir' (\<lambda>_. (Inr (result, True), dir'))))))))))"

definition PutFailure ::
  "('b, 'x) result_codec_scheme \<Rightarrow> go_error + unit \<Rightarrow> 'b host \<Rightarrow> (string \<Rightarrow> go_error + bool) \<Rightarrow> string
     \<Rightarrow> planning_failure \<Rightarrow> gotime \<Rightarrow> gotime \<Rightarrow> 'b directory \<Rightarrow> (go_error + stored_result \<times> bool) \<times> 'b directory" where
  "PutFailure c locked h caseExists caseID failure attemptedAt retryAfter dir =
     result_update c locked h caseExists caseID
       (\<lambda>previous. NextFailure previous caseID failure attemptedAt retryAfter) dir"

definition PutDecision ::
  "('b, 'x) result_codec_scheme \<Rightarrow> go_error + unit \<Rightarrow> 'b host \<Rightarrow> (string \<Rightarrow> go_error + bool) \<Rightarrow> string
     \<Rightarrow> string \<Rightarrow> gotime \<Rightarrow> 'b directory \<Rightarrow> (go_error + stored_result \<times> bool) \<times> 'b directory" where
  "PutDecision c locked h caseExists caseID decision attemptedAt dir =
     result_update c locked h caseExists caseID
       (\<lambda>previous. NextDecision previous caseID decision attemptedAt) dir"

end
