(* ===== verification/Case_Contracts.thy ===== *)
theory Case_Contracts
  imports Planning_State Join_Identity
begin

text \<open>
  The codecs of repair cases and decisions (\<open>contracts/encode.go\<close>, \<open>contracts/decode.go\<close>): the identity of a
  case, the checks around its encoding, and the tagged decoding of a decision. \<open>encoding/json\<close> on the
  generated types, the schemas, the canonical form of JSON (\<open>jcs\<close>) and the digest are the fields of
  \<open>contract_library\<close>; a parsed document is named by its text.
\<close>

record 'v contract_library =
  clIdentity :: "capability list \<Rightarrow> 'v \<Rightarrow> go_error + string"
  clTransform :: "string \<Rightarrow> go_error + string"
  clSha256 :: "string \<Rightarrow> string"
  clMarshalCase :: "'v repair_case \<Rightarrow> go_error + string"
  clMarshalDecision :: "action_value \<Rightarrow> go_error + string"
  clCaseSchema :: "go_error + (string \<Rightarrow> go_error + unit)"
  clDecisionSchema :: "go_error + (string \<Rightarrow> go_error + unit)"
  clParse :: "string \<Rightarrow> go_error + unit"
  clCase :: "string \<Rightarrow> go_error + 'v repair_case \<times> string"
  clAction :: "string \<Rightarrow> go_error + string"
  clNoRepair :: "string \<Rightarrow> go_error + string \<times> string"
  clJoinParts :: "string \<Rightarrow> go_error + join_decision \<times> string"
  clManualImport :: "string \<Rightarrow> go_error + manual_decision \<times> string"
  clDisc :: "string \<Rightarrow> go_error + disc_decision \<times> string"
  clTrailing :: "string \<Rightarrow> trailing"

definition canonicalCaseIdentity :: "'v contract_library \<Rightarrow> 'v repair_case \<Rightarrow> go_error + string" where
  "canonicalCaseIdentity l repairCase =
     and_then (wrap_error ''encode repair case identity: ''
       (clIdentity l (rcCapabilities repairCase) (rcEvidence repairCase))) (\<lambda>serialized.
     wrap_error ''canonicalize repair case identity: '' (clTransform l serialized))"

definition CalculateCaseID :: "'v contract_library \<Rightarrow> 'v repair_case \<Rightarrow> go_error + string" where
  "CalculateCaseID l repairCase =
     and_then (canonicalCaseIdentity l repairCase) (\<lambda>canonical. Inr (''sha256:'' @ clSha256 l canonical))"

definition SameCaseIdentity :: "'v contract_library \<Rightarrow> 'v repair_case \<Rightarrow> 'v repair_case \<Rightarrow> go_error + bool" where
  "SameCaseIdentity l left right =
     and_then (canonicalCaseIdentity l left) (\<lambda>leftCanonical.
     and_then (canonicalCaseIdentity l right) (\<lambda>rightCanonical.
     Inr (leftCanonical = rightCanonical)))"

definition validateJSON :: "'v contract_library \<Rightarrow> string \<Rightarrow> (string \<Rightarrow> go_error + unit) \<Rightarrow> go_error + unit" where
  "validateJSON l data schema =
     and_then (wrap_error ''parse JSON: '' (clParse l data)) (\<lambda>_.
     wrap_error ''validate schema: '' (schema data))"

definition EncodeCase :: "'v contract_library \<Rightarrow> 'v repair_case \<Rightarrow> go_error + string" where
  "EncodeCase l repairCase =
     and_then (CalculateCaseID l repairCase) (\<lambda>expectedID.
     and_then (ensure (rcCaseID repairCase = expectedID)
       (ErrorText ''repair case ID does not match its planning evidence'')) (\<lambda>_.
     and_then (wrap_error ''encode repair case: '' (clMarshalCase l repairCase)) (\<lambda>data.
     and_then (clCaseSchema l) (\<lambda>schema.
     and_then (wrap_error ''invalid repair case: '' (validateJSON l data schema)) (\<lambda>_. Inr data)))))"

definition EncodeDecision :: "'v contract_library \<Rightarrow> repair_decision \<Rightarrow> go_error + string" where
  "EncodeDecision l decision =
     and_then (decisionValue decision) (\<lambda>value.
     and_then (wrap_error ''encode repair decision: '' (clMarshalDecision l value)) (\<lambda>data.
     and_then (clDecisionSchema l) (\<lambda>schema.
     and_then (wrap_error ''invalid repair decision: '' (validateJSON l data schema)) (\<lambda>_. Inr data))))"

definition decodeStrict ::
  "'v contract_library \<Rightarrow> (string \<Rightarrow> go_error + 'd \<times> string) \<Rightarrow> string \<Rightarrow> go_error + 'd" where
  "decodeStrict l read data =
     and_then (read data) (\<lambda>(destination, rest).
     (case clTrailing l rest of
        EndOfInput \<Rightarrow> Inr destination
      | AnotherValue \<Rightarrow> Inl (ErrorText ''multiple JSON values'')
      | BadInput e \<Rightarrow> Inl (ErrWrap ''read trailing JSON: '' e)))"

definition validateAndDecode ::
  "'v contract_library \<Rightarrow> string \<Rightarrow> go_error + (string \<Rightarrow> go_error + unit) \<Rightarrow> (string \<Rightarrow> go_error + 'd \<times> string)
     \<Rightarrow> go_error + 'd" where
  "validateAndDecode l data loadSchema read =
     and_then loadSchema (\<lambda>schema.
     and_then (validateJSON l data schema) (\<lambda>_. decodeStrict l read data))"

definition DecodeCase :: "'v contract_library \<Rightarrow> string \<Rightarrow> go_error + 'v repair_case" where
  "DecodeCase l data = wrap_error ''invalid repair case: '' (validateAndDecode l data (clCaseSchema l) (clCase l))"

definition DecodeDecision :: "'v contract_library \<Rightarrow> string \<Rightarrow> go_error + repair_decision" where
  "DecodeDecision l data =
     (let none = \<lparr>rdKind = '''', rdNoRepair = None, rdJoinParts = None, rdManualImportFile = None,
        rdRemuxBluray = None, rdRemuxDVD = None\<rparr>
      in and_then (clDecisionSchema l) (\<lambda>schema.
         and_then (wrap_error ''invalid repair decision: '' (validateJSON l data schema)) (\<lambda>_.
         and_then (wrap_error ''decode repair decision action: '' (clAction l data)) (\<lambda>action.
         if action = ActionNoRepair then
           and_then (wrap_error ''decode no-repair decision: '' (decodeStrict l (clNoRepair l) data)) (\<lambda>decision.
           Inr (none\<lparr>rdKind := ActionNoRepair, rdNoRepair := Some decision\<rparr>))
         else if action = ActionJoinParts then
           and_then (wrap_error ''decode join-parts decision: '' (decodeStrict l (clJoinParts l) data)) (\<lambda>decision.
           Inr (none\<lparr>rdKind := ActionJoinParts, rdJoinParts := Some decision\<rparr>))
         else if action = ActionManualImportFile then
           and_then (wrap_error ''decode manual-import-file decision: ''
             (decodeStrict l (clManualImport l) data)) (\<lambda>decision.
           Inr (none\<lparr>rdKind := ActionManualImportFile, rdManualImportFile := Some decision\<rparr>))
         else if action = ActionRemuxBluray then
           and_then (wrap_error ''decode Blu-ray remux decision: '' (decodeStrict l (clDisc l) data)) (\<lambda>decision.
           Inr (none\<lparr>rdKind := ActionRemuxBluray, rdRemuxBluray := Some decision\<rparr>))
         else if action = ActionRemuxDVD then
           and_then (wrap_error ''decode DVD remux decision: '' (decodeStrict l (clDisc l) data)) (\<lambda>decision.
           Inr (none\<lparr>rdKind := ActionRemuxDVD, rdRemuxDVD := Some decision\<rparr>))
         else Inl (ErrorText (''unsupported repair decision action '' @ quote action))))))"

text \<open>A decoded decision contains exactly the action its kind names: \<open>decisionValue\<close> accepts it.\<close>

lemma decisionValue_single:
  "decisionValue \<lparr>rdKind = ActionNoRepair, rdNoRepair = Some a, rdJoinParts = None, rdManualImportFile = None,
     rdRemuxBluray = None, rdRemuxDVD = None\<rparr> = Inr (NoRepairValue a)"
  "decisionValue \<lparr>rdKind = ActionJoinParts, rdNoRepair = None, rdJoinParts = Some j, rdManualImportFile = None,
     rdRemuxBluray = None, rdRemuxDVD = None\<rparr> = Inr (JoinValue j)"
  "decisionValue \<lparr>rdKind = ActionManualImportFile, rdNoRepair = None, rdJoinParts = None, rdManualImportFile = Some m,
     rdRemuxBluray = None, rdRemuxDVD = None\<rparr> = Inr (ManualValue m)"
  "decisionValue \<lparr>rdKind = ActionRemuxBluray, rdNoRepair = None, rdJoinParts = None, rdManualImportFile = None,
     rdRemuxBluray = Some d, rdRemuxDVD = None\<rparr> = Inr (BluRayValue d)"
  "decisionValue \<lparr>rdKind = ActionRemuxDVD, rdNoRepair = None, rdJoinParts = None, rdManualImportFile = None,
     rdRemuxBluray = None, rdRemuxDVD = Some d\<rparr> = Inr (DVDValue d)"
  by (simp_all add: decisionValue_def ActionNoRepair_def ActionJoinParts_def
      ActionManualImportFile_def ActionRemuxBluray_def ActionRemuxDVD_def)

lemma DecodeDecision_value:
  assumes "DecodeDecision l data = Inr decision"
  shows "\<exists>value. decisionValue decision = Inr value"
proof -
  obtain action where "(if action = ActionNoRepair then \<exists>a. decision =
        \<lparr>rdKind = ActionNoRepair, rdNoRepair = Some a, rdJoinParts = None, rdManualImportFile = None,
          rdRemuxBluray = None, rdRemuxDVD = None\<rparr>
      else if action = ActionJoinParts then \<exists>j. decision =
        \<lparr>rdKind = ActionJoinParts, rdNoRepair = None, rdJoinParts = Some j, rdManualImportFile = None,
          rdRemuxBluray = None, rdRemuxDVD = None\<rparr>
      else if action = ActionManualImportFile then \<exists>m. decision =
        \<lparr>rdKind = ActionManualImportFile, rdNoRepair = None, rdJoinParts = None, rdManualImportFile = Some m,
          rdRemuxBluray = None, rdRemuxDVD = None\<rparr>
      else if action = ActionRemuxBluray then \<exists>d. decision =
        \<lparr>rdKind = ActionRemuxBluray, rdNoRepair = None, rdJoinParts = None, rdManualImportFile = None,
          rdRemuxBluray = Some d, rdRemuxDVD = None\<rparr>
      else \<exists>d. decision =
        \<lparr>rdKind = ActionRemuxDVD, rdNoRepair = None, rdJoinParts = None, rdManualImportFile = None,
          rdRemuxBluray = None, rdRemuxDVD = Some d\<rparr>)"
    using assms unfolding DecodeDecision_def Let_def and_then_Inr_iff
    by (elim exE conjE) (simp only: and_then_Inr_iff if_distrib [of "\<lambda>r. r = Inr decision"] split: if_split_asm; force)
  then show ?thesis
    by (simp only: split: if_split_asm) (use decisionValue_single in blast)+
qed

lemma EncodeCase_id:
  "EncodeCase l repairCase = Inr data \<Longrightarrow> CalculateCaseID l repairCase = Inr (rcCaseID repairCase)"
  by (auto simp: EncodeCase_def and_then_Inr_iff)

lemma same_identity_case:
  assumes "SameCaseIdentity l left right = Inr True"
    and "EncodeCase l left = Inr a" "EncodeCase l right = Inr b"
  shows "rcCaseID left = rcCaseID right"
  using assms(1) EncodeCase_id [OF assms(2)] EncodeCase_id [OF assms(3)]
  by (auto simp: SameCaseIdentity_def CalculateCaseID_def and_then_Inr_iff)

end
