(* ===== verification/Case_Records.thy ===== *)
theory Case_Records
  imports Case_Contracts
begin

text \<open>
  The case store (\<open>internal/casestore\<close>: \<open>store.go\<close>, \<open>record.go\<close>, \<open>planning.go\<close>, \<open>planned_case.go\<close>,
  \<open>execution_plan.go\<close>): the cases that were observed, the planner's results and the plans bound for
  execution, in three directories with one file per case. The JSON codecs and the
  assembly of a request from an observation, which fills generated types, are parameters; the location
  of a time is not modelled.
\<close>

section \<open>Parameters and state\<close>

record case_record =
  csVersion :: string
  csCaseID :: string
  csRequest :: string
  csSnapshot :: local_snapshot
  csStableSince :: gotime

record policy_overrides =
  ovMaximumRuntimeDifferenceMS :: int

record execution_plan =
  epVersion :: string
  epCaseID :: string
  epDecision :: string
  epReconsiderationID :: string
  epPolicyOverrides :: "policy_overrides option"

record ('v, 'b) case_contracts =
  ccLibrary :: "'v contract_library"
  ccAssemble :: "case_observation \<Rightarrow> go_error + 'v assembly"
  ccMarshalRecord :: "case_record \<Rightarrow> go_error + 'b"
  ccUnmarshalRecord :: "'b \<Rightarrow> go_error + case_record \<times> 'b"
  ccMarshalResult :: "stored_result \<Rightarrow> go_error + 'b"
  ccUnmarshalResult :: "'b \<Rightarrow> go_error + stored_result \<times> 'b"
  ccMarshalPlan :: "execution_plan \<Rightarrow> go_error + 'b"
  ccUnmarshalPlan :: "'b \<Rightarrow> go_error + execution_plan \<times> 'b"
  ccTrailing :: "'b \<Rightarrow> trailing"

record 'b case_files =
  sdCases :: "'b directory"
  sdPlanning :: "'b directory"
  sdPlans :: "'b directory"
  sdExecutions :: "'b directory"

text \<open>What the host answers about the root, where the lock is, and about each directory.\<close>

record 'b case_hosts =
  chRoot :: "'b host"
  chCases :: "'b host"
  chPlanning :: "'b host"
  chPlans :: "'b host"
  chExecutions :: "'b host"

definition openLock :: "'b host \<Rightarrow> string \<Rightarrow> go_error + unit" where
  "openLock h description =
     and_then (wrap_error (''open '' @ description @ '': '') (check_fault (hLockOpen h))) (\<lambda>_.
     wrap_error (''set '' @ description @ '' permissions: '') (check_fault (hLockChmod h)))"

definition case_lock :: "'b case_hosts \<Rightarrow> go_error + unit" where
  "case_lock hs =
     and_then (openLock (chRoot hs) ''case store lock'') (\<lambda>_.
     wrap_error ''lock case store: '' (check_fault (hFlock (chRoot hs))))"

definition caseDigest :: "string \<Rightarrow> go_error + string" where
  "caseDigest caseID =
     (if \<not> has_prefix caseID ''sha256:'' \<or> length caseID \<noteq> 71 \<or> \<not> list_all hex_char (drop 7 caseID)
      then Inl (ErrorText (''invalid case ID '' @ quote caseID))
      else Inr (drop 7 caseID))"

text \<open>The name of the file of a case, the same in each directory.\<close>

definition digest_file :: "string \<Rightarrow> go_error + string" where
  "digest_file caseID = and_then (caseDigest caseID) (\<lambda>digest. Inr (digest @ ''.json''))"

lemma caseDigest_pattern: "caseDigest caseID = Inr d \<longleftrightarrow> caseIDPattern caseID \<and> d = drop 7 caseID"
  by (auto simp: caseDigest_def caseIDPattern_def)

lemma digest_file_Inr: "digest_file caseID = Inr name \<longleftrightarrow> case_file caseID = Inr name"
  by (auto simp: digest_file_def case_file_def and_then_Inr_iff caseDigest_pattern)

lemma case_file_inj:
  assumes "case_file i = Inr name" "case_file j = Inr name"
  shows "i = j"
proof -
  have "take 7 i = ''sha256:''" "take 7 j = ''sha256:''" "drop 7 i = drop 7 j"
    using assms by (auto simp: case_file_def caseIDPattern_def has_prefix_def eval_nat_numeral split: if_splits)
  then show ?thesis
    by (metis append_take_drop_id)
qed

section \<open>Cases\<close>

definition RecordVersionV1 :: string where "RecordVersionV1 = ''radarr-repair-state/v1''"
definition RecordVersionV2 :: string where "RecordVersionV2 = ''radarr-repair-state/v2''"
definition RecordVersionV3 :: string where "RecordVersionV3 = ''radarr-repair-state/v3''"
definition RecordVersionV4 :: string where "RecordVersionV4 = ''radarr-repair-state/v4''"

definition validateRecord :: "('v, 'b) case_contracts \<Rightarrow> case_record \<Rightarrow> go_error + unit" where
  "validateRecord c value =
     (if csVersion value \<notin> {RecordVersionV1, RecordVersionV2, RecordVersionV3, RecordVersionV4}
      then Inl (ErrorText (''unsupported case record version '' @ quote (csVersion value)))
      else if csVersion value = RecordVersionV4 \<and>
        (csStableSince value = zero_time \<or> csStableSince value > obObservedAt (lsObservation (csSnapshot value)))
      then Inl (ErrorText ''stored case stability time is invalid'')
      else if csVersion value \<noteq> RecordVersionV4 \<and> csStableSince value \<noteq> zero_time
      then Inl (ErrorText ''legacy case record contains a stability time'')
      else
        and_then (wrap_error ''decode stored repair case: '' (DecodeCase (ccLibrary c) (csRequest value))) (\<lambda>request.
        and_then (wrap_error ''validate stored repair case: '' (EncodeCase (ccLibrary c) request)) (\<lambda>canonicalRequest.
        and_then (ensure (csRequest value = canonicalRequest)
          (ErrorText ''stored repair case is not in canonical encoded form'')) (\<lambda>_.
        and_then (ensure (csCaseID value = rcCaseID request)
          (ErrorText ''record case ID does not match its repair case'')) (\<lambda>_.
        and_then (ensure (lsCaseID (csSnapshot value) = csCaseID value)
          (ErrorText ''snapshot case ID does not match its record'')) (\<lambda>_.
        and_then (wrap_error ''reassemble stored observation: ''
          (ccAssemble c (lsObservation (csSnapshot value)))) (\<lambda>rebuilt.
        and_then (wrap_error ''encode reassembled repair case: ''
          (EncodeCase (ccLibrary c) (asRequest rebuilt))) (\<lambda>rebuiltEncoded.
        and_then (ensure (rebuiltEncoded = csRequest value)
          (ErrorText ''stored observation does not reproduce its repair case'')) (\<lambda>_.
        ensure (lsManualImportBindings (asLocalSnapshot rebuilt) = lsManualImportBindings (csSnapshot value))
          (ErrorText ''stored manual import bindings do not match the repair case''))))))))))"

definition NewRecord :: "('v, 'b) case_contracts \<Rightarrow> 'v assembly \<Rightarrow> go_error + case_record" where
  "NewRecord c assembly =
     and_then (wrap_error ''encode assembly request: '' (EncodeCase (ccLibrary c) (asRequest assembly))) (\<lambda>encodedRequest.
     and_then (ensure (encodedRequest = asEncodedRequest assembly)
       (ErrorText ''assembly request bytes do not match its typed request'')) (\<lambda>_.
     let value = \<lparr>csVersion = RecordVersionV4, csCaseID = rcCaseID (asRequest assembly),
           csRequest = asEncodedRequest assembly, csSnapshot = asLocalSnapshot assembly,
           csStableSince = rcObservedAt (asRequest assembly)\<rparr>
     in and_then (validateRecord c value) (\<lambda>_. Inr value)))"

definition EncodeRecord :: "('v, 'b) case_contracts \<Rightarrow> case_record \<Rightarrow> go_error + 'b" where
  "EncodeRecord c value =
     and_then (validateRecord c value) (\<lambda>_. wrap_error ''encode case record: '' (ccMarshalRecord c value))"

text \<open>What follows the decoded value, with the messages that name it.\<close>

definition only_value :: "string \<Rightarrow> trailing \<Rightarrow> go_error + unit" where
  "only_value what t =
     (case t of
        EndOfInput \<Rightarrow> Inr ()
      | AnotherValue \<Rightarrow> Inl (ErrorText (''decode '' @ what @ '': multiple JSON values''))
      | BadInput e \<Rightarrow> Inl (ErrWrap (''decode '' @ what @ '' trailing JSON: '') e))"

definition DecodeRecord :: "('v, 'b) case_contracts \<Rightarrow> 'b \<Rightarrow> go_error + case_record" where
  "DecodeRecord c data =
     and_then (wrap_error ''decode case record: '' (ccUnmarshalRecord c data)) (\<lambda>(value, rest).
     and_then (only_value ''case record'' (ccTrailing c rest)) (\<lambda>_.
     and_then (validateRecord c value) (\<lambda>_. Inr value)))"

definition readRecord ::
  "('v, 'b) case_contracts \<Rightarrow> 'b host \<Rightarrow> string \<Rightarrow> 'b directory \<Rightarrow> go_error + case_record option" where
  "readRecord c h name dir =
     and_then (wrap_error ''read case record: '' (ReadFile h name dir)) (\<lambda>found.
     (case found of
        None \<Rightarrow> Inr None
      | Some data \<Rightarrow>
          and_then (wrap_error ''validate stored case record: '' (DecodeRecord c data)) (\<lambda>value.
          Inr (Some value))))"

definition recordAssembly :: "('v, 'b) case_contracts \<Rightarrow> case_record \<Rightarrow> go_error + 'v assembly" where
  "recordAssembly c value =
     and_then (DecodeCase (ccLibrary c) (csRequest value)) (\<lambda>request.
     Inr \<lparr>asRequest = request, asEncodedRequest = csRequest value, asLocalSnapshot = csSnapshot value\<rparr>)"

definition recordStableSince :: "case_record \<Rightarrow> gotime" where
  "recordStableSince value =
     (if csStableSince value \<noteq> zero_time then csStableSince value
      else obObservedAt (lsObservation (csSnapshot value)))"

definition sameRadarrCaseIdentity ::
  "('v, 'b) case_contracts \<Rightarrow> case_record \<Rightarrow> case_record \<Rightarrow> go_error + bool" where
  "sameRadarrCaseIdentity c left right =
     and_then (wrap_error ''decode existing repair case: '' (DecodeCase (ccLibrary c) (csRequest left))) (\<lambda>leftRequest.
     and_then (wrap_error ''decode new repair case: '' (DecodeCase (ccLibrary c) (csRequest right))) (\<lambda>rightRequest.
     if csCaseID left \<noteq> csCaseID right then Inr False
     else SameCaseIdentity (ccLibrary c) leftRequest rightRequest))"

definition mergeRadarrCaseObservation ::
  "('v, 'b) case_contracts \<Rightarrow> case_record \<Rightarrow> case_record \<Rightarrow> go_error + case_record" where
  "mergeRadarrCaseObservation c stored current =
     and_then (wrap_error ''decode stored case observation: '' (recordAssembly c stored)) (\<lambda>storedAssembly.
     and_then (wrap_error ''decode current case observation: '' (recordAssembly c current)) (\<lambda>currentAssembly.
     let current = current\<lparr>csVersion := RecordVersionV4,
           csStableSince := obObservedAt (lsObservation (csSnapshot current))\<rparr>
     in Inr (if SameCaseState storedAssembly currentAssembly
             then current\<lparr>csStableSince := recordStableSince stored\<rparr> else current)))"

definition radarr_case_codec :: "('v, 'b) case_contracts \<Rightarrow> (case_record, 'b) case_codec" where
  "radarr_case_codec c =
     \<lparr>cdCaseID = csCaseID, cdEncode = EncodeRecord c, cdDecode = DecodeRecord c,
      cdSameIdentity = sameRadarrCaseIdentity c, cdMerge = mergeRadarrCaseObservation c\<rparr>"

definition Put ::
  "('v, 'b) case_contracts \<Rightarrow> 'b case_hosts \<Rightarrow> case_record \<Rightarrow> 'b case_files \<Rightarrow> (go_error + bool) \<times> 'b case_files" where
  "Put c hs value files =
     (let (r, dir) = Observe_case (radarr_case_codec c) (case_lock hs) (chCases hs) value None (sdCases files)
      in (map_sum id ovCreated r, files\<lparr>sdCases := dir\<rparr>))"

definition PutAssembly ::
  "('v, 'b) case_contracts \<Rightarrow> 'b case_hosts \<Rightarrow> 'v assembly \<Rightarrow> 'b case_files \<Rightarrow> (go_error + bool) \<times> 'b case_files" where
  "PutAssembly c hs assembly files =
     (case NewRecord c assembly of Inl e \<Rightarrow> (Inl e, files) | Inr value \<Rightarrow> Put c hs value files)"

definition Get_record ::
  "('v, 'b) case_contracts \<Rightarrow> 'b case_hosts \<Rightarrow> string \<Rightarrow> 'b case_files \<Rightarrow> go_error + case_record option" where
  "Get_record c hs caseID files = Get_case (radarr_case_codec c) (chCases hs) caseID (sdCases files)"

definition StableSince ::
  "('v, 'b) case_contracts \<Rightarrow> 'b case_hosts \<Rightarrow> string \<Rightarrow> 'b case_files \<Rightarrow> go_error + gotime" where
  "StableSince c hs caseID files =
     and_then (Get_record c hs caseID files) (\<lambda>found.
     (case found of
        None \<Rightarrow> Inl (ErrorText (''case '' @ quote caseID @ '' is not stored''))
      | Some value \<Rightarrow> Inr (recordStableSince value)))"

section \<open>Results of planning\<close>

definition validateRadarrDecision :: "('v, 'b) case_contracts \<Rightarrow> decision_validator" where
  "validateRadarrDecision c data =
     and_then (wrap_error ''decode stored planning decision: '' (DecodeDecision (ccLibrary c) data)) (\<lambda>decision.
     and_then (EncodeDecision (ccLibrary c) decision) (\<lambda>canonical.
     Inr (decision_CaseID decision, canonical)))"

definition radarr_results :: "('v, 'b) case_contracts \<Rightarrow> 'b result_codec" where
  "radarr_results c =
     \<lparr>rsMarshal = ccMarshalResult c, rsDecode = ccUnmarshalResult c, rsTrailing = ccTrailing c,
      rsValidate = validateRadarrDecision c\<rparr>"

definition GetPlanningResult ::
  "('v, 'b) case_contracts \<Rightarrow> 'b case_hosts \<Rightarrow> string \<Rightarrow> 'b case_files \<Rightarrow> go_error + stored_result option" where
  "GetPlanningResult c hs caseID files = Get_result (radarr_results c) (chPlanning hs) caseID (sdPlanning files)"

definition case_known ::
  "('v, 'b) case_contracts \<Rightarrow> 'b case_hosts \<Rightarrow> 'b case_files \<Rightarrow> string \<Rightarrow> go_error + bool" where
  "case_known c hs files caseID = and_then (Get_record c hs caseID files) (\<lambda>found. Inr (found \<noteq> None))"

definition PutPlanningFailure ::
  "('v, 'b) case_contracts \<Rightarrow> 'b case_hosts \<Rightarrow> string \<Rightarrow> planning_failure \<Rightarrow> gotime \<Rightarrow> gotime \<Rightarrow> 'b case_files
     \<Rightarrow> (go_error + stored_result \<times> bool) \<times> 'b case_files" where
  "PutPlanningFailure c hs caseID failure attemptedAt retryAfter files =
     (let (r, dir) = PutFailure (radarr_results c) (case_lock hs) (chPlanning hs) (case_known c hs files) caseID
            failure attemptedAt retryAfter (sdPlanning files)
      in (r, files\<lparr>sdPlanning := dir\<rparr>))"

definition PutPlanningDecision ::
  "('v, 'b) case_contracts \<Rightarrow> 'b case_hosts \<Rightarrow> string \<Rightarrow> repair_decision \<Rightarrow> gotime \<Rightarrow> 'b case_files
     \<Rightarrow> (go_error + stored_result \<times> bool) \<times> 'b case_files" where
  "PutPlanningDecision c hs caseID decision attemptedAt files =
     (case wrap_error ''encode planning decision: '' (EncodeDecision (ccLibrary c) decision) of
        Inl e \<Rightarrow> (Inl e, files)
      | Inr encoded \<Rightarrow>
          if decision_CaseID decision \<noteq> caseID
          then (Inl (ErrorText ''planning decision case ID does not match its record''), files)
          else
            (let (r, dir) = PutDecision (radarr_results c) (case_lock hs) (chPlanning hs) (case_known c hs files)
                   caseID encoded attemptedAt (sdPlanning files)
             in (r, files\<lparr>sdPlanning := dir\<rparr>)))"

end
