(* ===== verification/Case_Plans.thy ===== *)
theory Case_Plans
  imports Case_Records
begin

text \<open>
  The directories of the case store, the planned case and the plan bound for execution
  (\<open>casestore/store.go\<close>, \<open>planned_case.go\<close>, \<open>execution_plan.go\<close>, \<open>execution_lock.go\<close>). A bound plan is the
  decision of the planner, or one reconsidered under a recorded identity and bounded overrides, and
  it is not rebound once the case has an execution.
\<close>

section \<open>Directories\<close>

definition NewCaseStore :: "directory_host \<Rightarrow> string \<Rightarrow> go_error + string" where
  "NewCaseStore d path =
     (if path = [] \<or> \<not> IsAbs path \<or> Clean path \<noteq> path
      then Inl (ErrorText ''planning case directory must be a clean absolute path'')
      else and_then (wrap_error ''prepare planning case directory: '' (EnsureDirectory d path)) (\<lambda>_. Inr path))"

definition NewResultStore :: "directory_host \<Rightarrow> string \<Rightarrow> go_error + string" where
  "NewResultStore d path =
     (if path = [] \<or> \<not> IsAbs path \<or> Clean path \<noteq> path
      then Inl (ErrorText ''planning result directory must be a clean absolute path'')
      else and_then (wrap_error ''prepare planning result directory: '' (EnsureDirectory d path)) (\<lambda>_. Inr path))"

record case_store =
  ctRoot :: string
  ctCasesDir :: string
  ctPlanningDir :: string
  ctExecutionPlanDir :: string
  ctExecutionDir :: string

definition New_case_store :: "directory_host \<Rightarrow> string \<Rightarrow> go_error + case_store" where
  "New_case_store d path =
     (if path = [] \<or> \<not> IsAbs path \<or> Clean path \<noteq> path \<or> Dir path = path
      then Inl (ErrorText ''case store root must be a clean absolute path'')
      else
        let casesDir = Join [path, ''cases'']; planningDir = Join [path, ''planning''];
            executionPlanDir = Join [path, ''execution-plans'']; executionDir = Join [path, ''executions'']
        in and_then (wrap_error ''prepare case store root: '' (EnsureDirectory d path)) (\<lambda>_.
           and_then (wrap_error ''prepare case records directory: '' (EnsureDirectory d casesDir)) (\<lambda>_.
           and_then (wrap_error ''prepare planning records directory: '' (EnsureDirectory d planningDir)) (\<lambda>_.
           and_then (wrap_error ''prepare execution plan directory: '' (EnsureDirectory d executionPlanDir)) (\<lambda>_.
           and_then (wrap_error ''prepare execution records directory: '' (EnsureDirectory d executionDir)) (\<lambda>_.
           and_then (wrap_error ''sync case store root: '' (SyncDirectory d path)) (\<lambda>_.
           and_then (NewCaseStore d casesDir) (\<lambda>_.
           and_then (NewResultStore d planningDir) (\<lambda>_.
           Inr \<lparr>ctRoot = path, ctCasesDir = casesDir, ctPlanningDir = planningDir,
             ctExecutionPlanDir = executionPlanDir, ctExecutionDir = executionDir\<rparr>)))))))))"

section \<open>The lease of an execution\<close>

definition ErrWouldBlock :: go_error where
  "ErrWouldBlock = ErrorText ''resource temporarily unavailable''"

definition ErrExecutionInProgress :: go_error where
  "ErrExecutionInProgress = ErrorText ''repair execution already in progress''"

definition AcquireExecution :: "'b host \<Rightarrow> go_error + unit" where
  "AcquireExecution h =
     and_then (openLock h ''repair execution lock'') (\<lambda>_.
     (case hFlock h of
        None \<Rightarrow> Inr ()
      | Some e \<Rightarrow>
          if e = ErrWouldBlock then Inl ErrExecutionInProgress
          else Inl (ErrWrap ''lock repair execution: '' e)))"

section \<open>Planned cases\<close>

record 'v planned_case =
  pcAssembly :: "'v assembly"
  pcDecision :: repair_decision
  pcReconsiderationID :: string
  pcPolicyOverrides :: "policy_overrides option"

abbreviation planned_id :: "('v, 'x) planned_case_scheme \<Rightarrow> string" where
  "planned_id planned \<equiv> rcCaseID (asRequest (pcAssembly planned))"

definition GetPlannedCase ::
  "('v, 'b) case_contracts \<Rightarrow> 'b case_hosts \<Rightarrow> string \<Rightarrow> 'b case_files \<Rightarrow> go_error + 'v planned_case" where
  "GetPlannedCase c hs caseID files =
     and_then (digest_file caseID) (\<lambda>name.
     and_then (readRecord c (chCases hs) name (sdCases files)) (\<lambda>found.
     (case found of
        None \<Rightarrow> Inl (ErrorText (''case '' @ quote caseID @ '' is not stored''))
      | Some caseRecord \<Rightarrow>
          and_then (ensure (csCaseID caseRecord = caseID)
            (ErrorText (''stored record has unexpected case ID '' @ quote (csCaseID caseRecord)))) (\<lambda>_.
          and_then (GetPlanningResult c hs caseID files) (\<lambda>result.
          (case result of
             None \<Rightarrow> Inl (ErrorText (''case '' @ quote caseID @ '' has no stored planning decision''))
           | Some planning \<Rightarrow>
               and_then (ensure (HasDecision planning)
                 (ErrorText (''case '' @ quote caseID @ '' has no stored planning decision''))) (\<lambda>_.
               and_then (ensure (srCaseID planning = caseID)
                 (ErrorText (''stored planning result has unexpected case ID '' @ quote (srCaseID planning)))) (\<lambda>_.
               and_then (wrap_error ''decode stored planning decision: ''
                 (DecodeDecision (ccLibrary c) (srDecision planning))) (\<lambda>decision.
               and_then (wrap_error ''decode stored repair case: '' (recordAssembly c caseRecord)) (\<lambda>assembly.
               Inr \<lparr>pcAssembly = assembly, pcDecision = decision, pcReconsiderationID = [],
                 pcPolicyOverrides = None\<rparr>))))))))))"

definition RuntimePolicy :: "'v planned_case \<Rightarrow> runtime_policy" where
  "RuntimePolicy planned =
     (case pcPolicyOverrides planned of
        None \<Rightarrow> default_policy
      | Some overrides \<Rightarrow> \<lparr>rpMaximumDifferenceMS = ovMaximumRuntimeDifferenceMS overrides\<rparr>)"

section \<open>Execution plans\<close>

definition executionPlanVersion :: string where
  "executionPlanVersion = ''radarr-repair-execution-plan/v1''"

definition MaximumRuntimeDifferenceLimitMS :: int where
  "MaximumRuntimeDifferenceLimitMS = 60 * 60 * 1000"

definition newExecutionPlanRecord ::
  "('v, 'b) case_contracts \<Rightarrow> 'v planned_case \<Rightarrow> 'v planned_case \<Rightarrow> go_error + execution_plan" where
  "newExecutionPlanRecord c base planned =
     and_then (wrap_error ''encode effective execution decision: ''
       (EncodeDecision (ccLibrary c) (pcDecision planned))) (\<lambda>decision.
     and_then (ensure (decision_CaseID (pcDecision planned) = planned_id base)
       (ErrorText ''execution decision belongs to another case'')) (\<lambda>_.
     and_then
       (if pcReconsiderationID planned = [] then
          ensure (pcPolicyOverrides planned = None \<and> pcDecision planned = pcDecision base)
            (ErrorText ''changed execution plan has no reconsideration identity'')
        else
          and_then (wrap_error ''invalid execution reconsideration identity: ''
            (caseDigest (pcReconsiderationID planned))) (\<lambda>_.
          (case pcPolicyOverrides planned of
             None \<Rightarrow> Inr ()
           | Some overrides \<Rightarrow>
               ensure (0 < ovMaximumRuntimeDifferenceMS overrides \<and>
                   ovMaximumRuntimeDifferenceMS overrides \<le> MaximumRuntimeDifferenceLimitMS)
                 (ErrorText ''execution policy overrides are invalid'')))) (\<lambda>_.
     Inr \<lparr>epVersion = executionPlanVersion, epCaseID = planned_id base, epDecision = decision,
       epReconsiderationID = pcReconsiderationID planned, epPolicyOverrides = pcPolicyOverrides planned\<rparr>)))"

definition validateExecutionPlan ::
  "('v, 'b) case_contracts \<Rightarrow> execution_plan \<Rightarrow> 'v planned_case \<Rightarrow> go_error + unit" where
  "validateExecutionPlan c value base =
     (if epVersion value \<noteq> executionPlanVersion \<or> epCaseID value \<noteq> planned_id base
      then Inl (ErrorText ''execution plan identity is invalid'')
      else
        and_then (wrap_error ''decode execution plan decision: ''
          (DecodeDecision (ccLibrary c) (epDecision value))) (\<lambda>decision.
        and_then (ensure (EncodeDecision (ccLibrary c) decision = Inr (epDecision value) \<and>
            decision_CaseID decision = epCaseID value) (ErrorText ''execution plan decision is invalid'')) (\<lambda>_.
        let planned = \<lparr>pcAssembly = pcAssembly base, pcDecision = decision,
              pcReconsiderationID = epReconsiderationID value, pcPolicyOverrides = epPolicyOverrides value\<rparr>
        in ensure (newExecutionPlanRecord c base planned = Inr value)
             (ErrorText ''execution plan is invalid''))))"

definition encodeExecutionPlan ::
  "('v, 'b) case_contracts \<Rightarrow> execution_plan \<Rightarrow> 'v planned_case \<Rightarrow> go_error + 'b" where
  "encodeExecutionPlan c value base =
     and_then (validateExecutionPlan c value base) (\<lambda>_.
     wrap_error ''encode execution plan: '' (ccMarshalPlan c value))"

definition readExecutionPlan ::
  "('v, 'b) case_contracts \<Rightarrow> 'b host \<Rightarrow> string \<Rightarrow> 'v planned_case \<Rightarrow> 'b directory
     \<Rightarrow> go_error + execution_plan option" where
  "readExecutionPlan c h name base dir =
     and_then (wrap_error ''read execution plan: '' (ReadFile h name dir)) (\<lambda>found.
     (case found of
        None \<Rightarrow> Inr None
      | Some data \<Rightarrow>
          and_then (wrap_error ''decode execution plan: '' (ccUnmarshalPlan c data)) (\<lambda>(value, rest).
          and_then (ensure (ccTrailing c rest = EndOfInput)
            (ErrorText ''decode execution plan trailing data'')) (\<lambda>_.
          and_then (validateExecutionPlan c value base) (\<lambda>_. Inr (Some value))))))"

definition GetExecutionPlan ::
  "('v, 'b) case_contracts \<Rightarrow> 'b case_hosts \<Rightarrow> string \<Rightarrow> 'b case_files \<Rightarrow> go_error + 'v planned_case" where
  "GetExecutionPlan c hs caseID files =
     and_then (GetPlannedCase c hs caseID files) (\<lambda>base.
     and_then (digest_file caseID) (\<lambda>name.
     and_then (readExecutionPlan c (chPlans hs) name base (sdPlans files)) (\<lambda>found.
     (case found of
        None \<Rightarrow> Inr base
      | Some value \<Rightarrow>
          and_then (DecodeDecision (ccLibrary c) (epDecision value)) (\<lambda>decision.
          Inr \<lparr>pcAssembly = pcAssembly base, pcDecision = decision,
            pcReconsiderationID = epReconsiderationID value, pcPolicyOverrides = epPolicyOverrides value\<rparr>)))))"

text \<open>The case is read before the lock is taken: \<open>seen\<close> are the directories at that time.\<close>

definition BindExecutionPlan ::
  "('v, 'b) case_contracts \<Rightarrow> 'b case_hosts \<Rightarrow> 'b case_files \<Rightarrow> 'v planned_case \<Rightarrow> 'b case_files
     \<Rightarrow> (go_error + unit) \<times> 'b case_files" where
  "BindExecutionPlan c hs seen planned files =
     (let plans = sdPlans files;
          bound =
            or_keep (GetPlannedCase c hs (planned_id planned) seen) plans (\<lambda>base.
            or_keep (wrap_error ''compare execution plan case identity: ''
              (SameCaseIdentity (ccLibrary c) (asRequest (pcAssembly base)) (asRequest (pcAssembly planned)))) plans (\<lambda>sameCase.
            or_keep (ensure (sameCase \<and> planned_id planned = planned_id base \<and>
                lsCaseID (asLocalSnapshot (pcAssembly planned)) = planned_id base)
              (ErrorText ''execution plan does not match the stored repair case'')) plans (\<lambda>_.
            or_keep (newExecutionPlanRecord c base planned) plans (\<lambda>value.
            or_keep (digest_file (epCaseID value)) plans (\<lambda>name.
            or_keep (case_lock hs) plans (\<lambda>_.
            or_keep (readExecutionPlan c (chPlans hs) name base plans) plans (\<lambda>found.
            if found = Some value then (Inr (), plans)
            else
              or_keep
                (if found = None then Inr ()
                 else and_then (wrap_error ''inspect existing repair execution: ''
                     (check_fault (hStat (chExecutions hs) name))) (\<lambda>_.
                   ensure (map_of (sdExecutions files) name = None)
                     (ErrorText ''case is already bound to a different execution plan''))) plans (\<lambda>_.
              or_keep (encodeExecutionPlan c value base) plans (\<lambda>data.
              Replace (chPlans hs) name data plans)))))))))
      in (fst bound, files\<lparr>sdPlans := snd bound\<rparr>))"

section \<open>What a plan may be\<close>

lemma plan_effective:
  assumes "validateExecutionPlan c value base = Inr ()"
  obtains decision where "DecodeDecision (ccLibrary c) (epDecision value) = Inr decision"
    and "decision_CaseID decision = planned_id base"
    and "epReconsiderationID value = [] \<longrightarrow> decision = pcDecision base \<and> epPolicyOverrides value = None"
    and "\<And>o'. epPolicyOverrides value = Some o' \<Longrightarrow>
      0 < ovMaximumRuntimeDifferenceMS o' \<and> ovMaximumRuntimeDifferenceMS o' \<le> 3600000"
proof -
  obtain decision where decision: "DecodeDecision (ccLibrary c) (epDecision value) = Inr decision"
    "decision_CaseID decision = epCaseID value" "epCaseID value = planned_id base"
    "newExecutionPlanRecord c base \<lparr>pcAssembly = pcAssembly base, pcDecision = decision,
       pcReconsiderationID = epReconsiderationID value, pcPolicyOverrides = epPolicyOverrides value\<rparr> = Inr value"
    using assms by (auto simp: validateExecutionPlan_def and_then_Inr_iff Let_def split: if_splits)
  then show thesis
    using that [OF decision(1)]
    by (auto simp: newExecutionPlanRecord_def and_then_Inr_iff MaximumRuntimeDifferenceLimitMS_def
        split: if_splits option.splits)
qed

lemma GetPlannedCase_id:
  assumes "GetPlannedCase c hs caseID files = Inr base"
  shows "planned_id base = caseID \<and> caseIDPattern caseID"
  using assms
  by (auto simp: GetPlannedCase_def readRecord_def DecodeRecord_def validateRecord_def recordAssembly_def
      and_then_Inr_iff digest_file_def caseDigest_pattern split: option.splits if_splits)

lemma GetExecutionPlan_id:
  assumes "GetExecutionPlan c hs caseID files = Inr planned"
  shows "planned_id planned = caseID"
  using assms GetPlannedCase_id
  by (auto simp: GetExecutionPlan_def and_then_Inr_iff split: option.splits) blast+

end
