(* ===== verification/Case_Executions.thy ===== *)
theory Case_Executions
  imports Case_Plans Join_Lifecycle Finalizer_Properties
begin

text \<open>
  The executions of a case (\<open>casestore/execution.go\<close>, \<open>join_execution.go\<close>, \<open>remux_execution.go\<close>): each kind
  of repair keeps one record per case in the directory \<open>executions\<close>, and reads, prepares and updates it in
  the same way. \<open>execution_kind\<close> holds what differs between the kinds: messages, fields and codec. The
  locale \<open>execution_steps\<close> states what a kind promises of its updates, and proves once what every call
  does to the directory under any fault of the host. A Go panic is the value \<open>None\<close>.
\<close>

section \<open>Operations\<close>

record ('e, 'b) execution_kind =
  xkReadText :: string
  xkValidateText :: string
  xkNoTime :: string
  xkMissing :: "string \<Rightarrow> string"
  xkWrongCase :: "string \<Rightarrow> string"
  xkBackwards :: string
  xkCaseID :: "'e \<Rightarrow> string"
  xkUpdatedAt :: "'e \<Rightarrow> gotime"
  xkTouch :: "gotime \<Rightarrow> 'e \<Rightarrow> 'e"
  xkEncode :: "'e \<Rightarrow> go_error + 'b"
  xkDecode :: "'b \<Rightarrow> go_error + 'e"

type_synonym 'a answer = "(go_error + 'a) option"

definition or_stop ::
  "go_error + 'a \<Rightarrow> 'b directory \<Rightarrow> ('a \<Rightarrow> 'c answer \<times> 'b directory) \<Rightarrow> 'c answer \<times> 'b directory" where
  "or_stop r dir f = (case r of Inl e \<Rightarrow> (Some (Inl e), dir) | Inr a \<Rightarrow> f a)"

definition execution_read ::
  "('e, 'b) execution_kind \<Rightarrow> 'b host \<Rightarrow> string \<Rightarrow> 'b directory \<Rightarrow> go_error + 'e option" where
  "execution_read k h name dir =
     and_then (wrap_error (xkReadText k) (ReadFile h name dir)) (\<lambda>found.
     (case found of
        None \<Rightarrow> Inr None
      | Some data \<Rightarrow>
          and_then (wrap_error (xkValidateText k) (xkDecode k data)) (\<lambda>value. Inr (Some value))))"

definition execution_write ::
  "('e, 'b) execution_kind \<Rightarrow> 'b host \<Rightarrow> string \<Rightarrow> 'e \<Rightarrow> 'b directory \<Rightarrow> (go_error + unit) \<times> 'b directory" where
  "execution_write k h name value dir =
     (case xkEncode k value of Inl e \<Rightarrow> (Inl e, dir) | Inr data \<Rightarrow> Replace h name data dir)"

definition store_execution ::
  "('e, 'b) execution_kind \<Rightarrow> 'b host \<Rightarrow> string \<Rightarrow> 'e \<Rightarrow> 'b directory \<Rightarrow> ('e \<times> bool) answer \<times> 'b directory" where
  "store_execution k h name value dir =
     (let (r, dir') = execution_write k h name value dir
      in or_stop r dir' (\<lambda>_. (Some (Inr (value, True)), dir')))"

definition execution_get ::
  "('e, 'b) execution_kind \<Rightarrow> 'b host \<Rightarrow> string \<Rightarrow> string \<Rightarrow> 'b directory \<Rightarrow> go_error + 'e option" where
  "execution_get k h wrong caseID dir =
     and_then (digest_file caseID) (\<lambda>name.
     and_then (execution_read k h name dir) (\<lambda>found.
     (case found of
        None \<Rightarrow> Inr None
      | Some value \<Rightarrow> and_then (ensure (xkCaseID k value = caseID) (ErrorText (wrong @ quote (xkCaseID k value)))) (\<lambda>_.
          Inr (Some value)))))"

text \<open>
  The end of every preparation: an existing record is answered as \<open>bound\<close> says, \<open>Inr True\<close> when it is to be
  prepared again; else \<open>fresh\<close> is written.
\<close>

definition execution_prepare ::
  "('e, 'b) execution_kind \<Rightarrow> 'b host \<Rightarrow> string \<Rightarrow> ('e \<Rightarrow> go_error + bool) \<Rightarrow> go_error + 'e \<Rightarrow> 'b directory
     \<Rightarrow> ('e \<times> bool) answer \<times> 'b directory" where
  "execution_prepare k h name bound fresh dir =
     or_stop (execution_read k h name dir) dir (\<lambda>found.
     let write = or_stop fresh dir (\<lambda>value. store_execution k h name value dir)
     in (case found of
           None \<Rightarrow> write
         | Some previous \<Rightarrow>
             or_stop (bound previous) dir (\<lambda>again.
             if again then write else (Some (Inr (previous, False)), dir))))"

definition execution_update ::
  "('e, 'b) execution_kind \<Rightarrow> go_error + unit \<Rightarrow> 'b host \<Rightarrow> string \<Rightarrow> gotime \<Rightarrow> ('e \<Rightarrow> ('e \<times> bool) answer)
     \<Rightarrow> 'b directory \<Rightarrow> ('e \<times> bool) answer \<times> 'b directory" where
  "execution_update k locked h caseID updatedAt change dir =
     or_stop (ensure (updatedAt \<noteq> zero_time) (ErrorText (xkNoTime k))) dir (\<lambda>_.
     or_stop (digest_file caseID) dir (\<lambda>name.
     or_stop locked dir (\<lambda>_.
     or_stop (execution_read k h name dir) dir (\<lambda>found.
     (case found of
        None \<Rightarrow> (Some (Inl (ErrorText (xkMissing k caseID))), dir)
      | Some previous \<Rightarrow>
          or_stop (ensure (xkCaseID k previous = caseID)
            (ErrorText (xkWrongCase k (xkCaseID k previous)))) dir (\<lambda>_.
          or_stop (ensure (\<not> updatedAt < xkUpdatedAt k previous) (ErrorText (xkBackwards k))) dir (\<lambda>_.
          (case change previous of
             None \<Rightarrow> (None, dir)
           | Some r \<Rightarrow>
               or_stop r dir (\<lambda>(value, changed).
               if \<not> changed then (Some (Inr (value, False)), dir)
               else store_execution k h name (xkTouch k updatedAt value) dir)))))))))"

section \<open>What a call leaves\<close>

definition execution_at :: "('e, 'b) execution_kind \<Rightarrow> 'b directory \<Rightarrow> string \<Rightarrow> 'e option" where
  "execution_at k dir name =
     (case map_of dir name of
        Some (Regular data) \<Rightarrow> (case xkDecode k data of Inr e \<Rightarrow> Some e | Inl _ \<Rightarrow> None)
      | _ \<Rightarrow> None)"

definition round_trip :: "('e, 'b) execution_kind \<Rightarrow> bool" where
  "round_trip k \<longleftrightarrow> (\<forall>e data. xkEncode k e = Inr data \<longrightarrow> xkDecode k data = Inr e)"

definition no_file :: "'b directory \<Rightarrow> string \<Rightarrow> bool" where
  "no_file dir name \<longleftrightarrow> map_of dir name \<in> {None, Some Symlink}"

text \<open>
  A call keeps every file and answers with the record that is stored or an error, or stores a record that
  comes from \<open>begins\<close> where there was none or from \<open>follows\<close> where there was one, and answers with it or,
  when the directory could not be synced, with an error. A panic leaves the files as they are.
\<close>

inductive execution_effect ::
  "('e, 'b) execution_kind \<Rightarrow> ('e \<Rightarrow> bool) \<Rightarrow> ('e \<Rightarrow> 'e \<Rightarrow> bool) \<Rightarrow> string \<Rightarrow> 'b directory
     \<Rightarrow> ('e \<times> bool) answer \<times> 'b directory \<Rightarrow> bool"
  for k :: "('e, 'b) execution_kind" and begins :: "'e \<Rightarrow> bool" and follows :: "'e \<Rightarrow> 'e \<Rightarrow> bool"
    and name :: string and dir :: "'b directory" where
  panicked: "execution_effect k begins follows name dir (None, dir)"
| refused: "unchanged dir dir' \<Longrightarrow> execution_effect k begins follows name dir (Some (Inl e), dir')"
| repeated: "execution_at k dir name = Some p \<Longrightarrow> execution_effect k begins follows name dir (Some (Inr (p, False)), dir)"
| begun: "no_file dir name \<Longrightarrow> begins q \<Longrightarrow> dir' = AList.update name (Regular data) dir \<Longrightarrow> xkDecode k data = Inr q \<Longrightarrow>
    r = Some (Inr (q, True)) \<or> (\<exists>e. r = Some (Inl e)) \<Longrightarrow> execution_effect k begins follows name dir (r, dir')"
| advanced: "execution_at k dir name = Some p \<Longrightarrow> follows p q \<Longrightarrow> dir' = AList.update name (Regular data) dir \<Longrightarrow>
    xkDecode k data = Inr q \<Longrightarrow> r = Some (Inr (q, True)) \<or> (\<exists>e. r = Some (Inl e)) \<Longrightarrow>
    execution_effect k begins follows name dir (r, dir')"

inductive_cases execution_effectE: "execution_effect k begins follows name dir (r, dir')"

lemma or_stop_simps [simp]:
  "or_stop (Inl e) dir f = (Some (Inl e), dir)"
  "or_stop (Inr a) dir f = f a"
  by (simp_all add: or_stop_def)

lemma or_stop_effect [intro]:
  assumes "\<And>a. r = Inr a \<Longrightarrow> execution_effect k begins follows name dir (f a)"
  shows "execution_effect k begins follows name dir (or_stop r dir f)"
  using assms by (cases r) (simp_all add: refused)

lemma execution_read_Some: "execution_read k h name dir = Inr (Some p) \<Longrightarrow> execution_at k dir name = Some p"
  by (auto simp: execution_read_def execution_at_def and_then_Inr_iff dest!: ReadFile_Some split: option.splits)

lemma execution_read_None: "execution_read k h name dir = Inr None \<Longrightarrow> no_file dir name"
  by (auto simp: execution_read_def no_file_def and_then_Inr_iff dest!: ReadFile_None split: option.splits)

lemma Replace_cases:
  assumes "host_ok h" "Replace h name data dir = (r, dir')"
  obtains (kept) e where "r = Inl e" "unchanged dir dir'"
    | (stored) "dir' = AList.update name (Regular data) dir"
proof (cases "hReplace h")
  case NoFault
  then show thesis
    using assms(2) stored by (simp add: Replace_def)
next
  case (DirectoryFault e)
  then show thesis
    using assms(2) stored by (simp add: Replace_def)
qed (use assms(2) kept keep_temporary_unchanged [OF assms(1), of dir] in \<open>auto simp: Replace_def\<close>)

lemma store_cases:
  assumes "host_ok h" "round_trip k"
  obtains (failed) e dir' where "store_execution k h name q dir = (Some (Inl e), dir')" "unchanged dir dir'"
    | (written) r data where "store_execution k h name q dir = (r, AList.update name (Regular data) dir)"
        "xkDecode k data = Inr q" "r = Some (Inr (q, True)) \<or> (\<exists>e. r = Some (Inl e))"
proof (cases "xkEncode k q")
  case (Inl e)
  then show thesis
    using failed [of e dir] by (simp add: store_execution_def execution_write_def)
next
  case (Inr data)
  then have decoded: "xkDecode k data = Inr q"
    using assms(2) by (simp add: round_trip_def)
  obtain r dir' where replace: "Replace h name data dir = (r, dir')"
    by fastforce
  have eq: "store_execution k h name q dir = or_stop r dir' (\<lambda>_. (Some (Inr (q, True)), dir'))"
    by (simp add: store_execution_def execution_write_def Inr replace)
  show thesis
    using assms(1) replace
  proof (cases rule: Replace_cases)
    case (kept e)
    then show thesis
      using failed [of e dir'] eq by simp
  next
    case stored
    then show thesis
      using written [of "fst (store_execution k h name q dir)" data] eq decoded by (cases r) simp_all
  qed
qed

lemma or_stop_answers:
  assumes "\<And>a. r = Inr a \<Longrightarrow> fst (f a) \<noteq> None"
  shows "fst (or_stop r dir f) \<noteq> None"
  using assms by (cases r) simp_all

lemma store_answers: "fst (store_execution k h name q dir) \<noteq> None"
  by (auto simp: store_execution_def or_stop_def split: prod.split sum.split)

text \<open>An update panics only when the change of a stored record does.\<close>

lemma update_answers:
  assumes "\<And>p name. execution_at k dir name = Some p \<Longrightarrow> change p \<noteq> None"
  shows "fst (execution_update k locked h caseID t change dir) \<noteq> None"
  unfolding execution_update_def
proof (rule or_stop_answers, rule or_stop_answers, rule or_stop_answers, rule or_stop_answers)
  fix name found
  assume read: "execution_read k h name dir = Inr found"
  show "fst (case found of
        None \<Rightarrow> (Some (Inl (ErrorText (xkMissing k caseID))), dir)
      | Some previous \<Rightarrow>
          or_stop (ensure (xkCaseID k previous = caseID)
            (ErrorText (xkWrongCase k (xkCaseID k previous)))) dir (\<lambda>_.
          or_stop (ensure (\<not> t < xkUpdatedAt k previous) (ErrorText (xkBackwards k))) dir (\<lambda>_.
          (case change previous of
             None \<Rightarrow> (None, dir)
           | Some r \<Rightarrow>
               or_stop r dir (\<lambda>(value, changed).
               if \<not> changed then (Some (Inr (value, False)), dir)
               else store_execution k h name (xkTouch k t value) dir))))) \<noteq> None"
  proof (cases found)
    case None
    then show ?thesis
      by simp
  next
    case (Some p)
    obtain r where r: "change p = Some r"
      using assms [OF execution_read_Some [OF read [unfolded Some]]] by auto
    show ?thesis
      unfolding Some option.case r
    proof (rule or_stop_answers, rule or_stop_answers, rule or_stop_answers)
      fix a :: "'a \<times> bool"
      show "fst ((\<lambda>(value, changed). if \<not> changed then (Some (Inr (value, False)), dir)
          else store_execution k h name (xkTouch k t value) dir) a) \<noteq> None"
        using store_answers [of k h name "xkTouch k t (fst a)" dir] by (cases "snd a") (simp_all add: case_prod_beta)
    qed
  qed
qed

section \<open>The contract of a kind\<close>

locale execution_steps =
  fixes k :: "('e, 'b) execution_kind" and begins :: "'e \<Rightarrow> bool" and follows :: "'e \<Rightarrow> 'e \<Rightarrow> bool"
    and rank :: "'e \<Rightarrow> nat"
  assumes begins_case: "begins q \<Longrightarrow> caseIDPattern (xkCaseID k q)"
    and follows_case: "follows p q \<Longrightarrow> xkCaseID k q = xkCaseID k p"
    and follows_rank: "follows p q \<Longrightarrow> rank q < rank p"
begin

lemma store_begins:
  assumes "host_ok h" "round_trip k" "begins q" "no_file dir name"
  shows "execution_effect k begins follows name dir (store_execution k h name q dir)"
  using assms(1,2)
proof (cases rule: store_cases [of h k name q dir])
  case (failed e dir')
  then show ?thesis
    by (simp add: refused)
next
  case (written r data)
  then show ?thesis
    using assms(3,4) begun by metis
qed

lemma store_follows:
  assumes "host_ok h" "round_trip k" "follows p q" "execution_at k dir name = Some p"
  shows "execution_effect k begins follows name dir (store_execution k h name q dir)"
  using assms(1,2)
proof (cases rule: store_cases [of h k name q dir])
  case (failed e dir')
  then show ?thesis
    by (simp add: refused)
next
  case (written r data)
  then show ?thesis
    using assms(3,4) advanced by metis
qed

lemma prepare_follows:
  assumes "host_ok h" "round_trip k"
    and "\<And>q. fresh = Inr q \<Longrightarrow> begins q"
    and "\<And>p q. execution_at k dir name = Some p \<Longrightarrow> bound p = Inr True \<Longrightarrow> fresh = Inr q \<Longrightarrow> follows p q"
  shows "execution_effect k begins follows name dir (execution_prepare k h name bound fresh dir)"
  unfolding execution_prepare_def Let_def
proof (rule or_stop_effect)
  fix found
  assume found: "execution_read k h name dir = Inr found"
  show "execution_effect k begins follows name dir (case found of
      None \<Rightarrow> or_stop fresh dir (\<lambda>value. store_execution k h name value dir)
    | Some previous \<Rightarrow> or_stop (bound previous) dir (\<lambda>again.
        if again then or_stop fresh dir (\<lambda>value. store_execution k h name value dir)
        else (Some (Inr (previous, False)), dir)))"
  proof (cases found)
    case None
    then have absent: "no_file dir name"
      using found execution_read_None by metis
    show ?thesis
      unfolding None option.case
      by (rule or_stop_effect, rule store_begins [OF assms(1,2) assms(3) absent])
  next
    case (Some p)
    then have p: "execution_at k dir name = Some p"
      using found execution_read_Some by metis
    have "execution_effect k begins follows name dir (store_execution k h name q dir)"
      if "bound p = Inr True" "fresh = Inr q" for q
      using store_follows [OF assms(1,2) assms(4) [OF p that] p] .
    then show ?thesis
      unfolding Some option.case using repeated [OF p]
      by (intro or_stop_effect) (simp add: or_stop_effect)
  qed
qed

lemma update_follows:
  assumes "host_ok h" "round_trip k" "digest_file caseID = Inr name"
    and "\<And>p q. execution_at k dir name = Some p \<Longrightarrow> change p = Some (Inr (q, False)) \<Longrightarrow> q = p"
    and "\<And>p q. execution_at k dir name = Some p \<Longrightarrow> xkCaseID k p = caseID \<Longrightarrow> xkUpdatedAt k p \<le> t \<Longrightarrow>
      change p = Some (Inr (q, True)) \<Longrightarrow> follows p (xkTouch k t q)"
  shows "execution_effect k begins follows name dir (execution_update k locked h caseID t change dir)"
proof -
  have stored: "execution_effect k begins follows name dir (case found of
        None \<Rightarrow> (Some (Inl (ErrorText (xkMissing k caseID))), dir)
      | Some previous \<Rightarrow>
          or_stop (ensure (xkCaseID k previous = caseID)
            (ErrorText (xkWrongCase k (xkCaseID k previous)))) dir (\<lambda>_.
          or_stop (ensure (\<not> t < xkUpdatedAt k previous) (ErrorText (xkBackwards k))) dir (\<lambda>_.
          (case change previous of
             None \<Rightarrow> (None, dir)
           | Some r \<Rightarrow>
               or_stop r dir (\<lambda>(value, changed).
               if \<not> changed then (Some (Inr (value, False)), dir)
               else store_execution k h name (xkTouch k t value) dir)))))"
    if found: "execution_read k h name dir = Inr found" for found
  proof (cases found)
    case None
    then show ?thesis
      by (simp add: refused)
  next
    case (Some p)
    then have p: "execution_at k dir name = Some p"
      using found execution_read_Some by metis
    have "execution_effect k begins follows name dir (or_stop r dir (\<lambda>(value, changed).
        if \<not> changed then (Some (Inr (value, False)), dir)
        else store_execution k h name (xkTouch k t value) dir))"
      if r: "change p = Some r" and "xkCaseID k p = caseID" "xkUpdatedAt k p \<le> t" for r
    proof (rule or_stop_effect)
      fix a
      assume a: "r = Inr a"
      obtain v changed where split: "a = (v, changed)"
        by fastforce
      show "execution_effect k begins follows name dir ((\<lambda>(value, changed).
          if \<not> changed then (Some (Inr (value, False)), dir)
          else store_execution k h name (xkTouch k t value) dir) a)"
        using r a split p assms(4) [OF p] repeated [of k dir name p]
          store_follows [OF assms(1,2) assms(5) [OF p that(2,3)] p]
        by (cases changed) auto
    qed
    then show ?thesis
      unfolding Some option.case
      by (intro or_stop_effect) (cases "change p"; simp add: panicked)
  qed
  show ?thesis
    unfolding execution_update_def assms(3) or_stop_simps
    by (rule or_stop_effect, rule or_stop_effect, rule or_stop_effect, erule stored)
qed

end

end
