(* ===== verification/Case_Imports.thy ===== *)
theory Case_Imports
  imports Case_Executions
begin

text \<open>
  Executions of manual imports (\<open>casestore/execution.go\<close>, \<open>import_confirmation.go\<close>): the record of the
  import of an authorized file, prepared before Radarr is asked, bound to the command Radarr accepted,
  and closed by the history event that confirms the import or by its failure.
\<close>

section \<open>Codecs\<close>

text \<open>\<open>encoding/json\<close> on the record of one kind.\<close>

record ('e, 'b) json_codec =
  jcMarshal :: "'e \<Rightarrow> go_error + 'b"
  jcUnmarshal :: "'b \<Rightarrow> go_error + 'e \<times> 'b"
  jcTrailing :: "'b \<Rightarrow> trailing"

definition encode_valid ::
  "('e, 'b) json_codec \<Rightarrow> ('e \<Rightarrow> go_error + unit) \<Rightarrow> string \<Rightarrow> 'e \<Rightarrow> go_error + 'b" where
  "encode_valid j validate what value =
     and_then (validate value) (\<lambda>_. wrap_error (''encode '' @ what @ '': '') (jcMarshal j value))"

definition decode_valid ::
  "('e, 'b) json_codec \<Rightarrow> ('e \<Rightarrow> go_error + unit) \<Rightarrow> string \<Rightarrow> 'b \<Rightarrow> go_error + 'e" where
  "decode_valid j validate what data =
     and_then (wrap_error (''decode '' @ what @ '': '') (jcUnmarshal j data)) (\<lambda>(value, rest).
     and_then (only_value what (jcTrailing j rest)) (\<lambda>_.
     and_then (validate value) (\<lambda>_. Inr value)))"

text \<open>What \<open>encoding/json\<close> documents: an encoded record decodes to itself, with nothing after it.\<close>

definition json_law :: "('e, 'b) json_codec \<Rightarrow> ('e \<Rightarrow> go_error + unit) \<Rightarrow> bool" where
  "json_law j validate \<longleftrightarrow>
     (\<forall>e data. validate e = Inr () \<longrightarrow> jcMarshal j e = Inr data \<longrightarrow>
        (\<exists>rest. jcUnmarshal j data = Inr (e, rest) \<and> jcTrailing j rest = EndOfInput))"

lemma only_value_Inr: "only_value what t = Inr u \<longleftrightarrow> t = EndOfInput"
  by (cases t) (simp_all add: only_value_def)

lemma decode_valid_Inr:
  "decode_valid j validate what data = Inr e \<longleftrightarrow>
     (\<exists>rest. jcUnmarshal j data = Inr (e, rest) \<and> jcTrailing j rest = EndOfInput) \<and> validate e = Inr ()"
  by (auto simp: decode_valid_def and_then_Inr_iff only_value_Inr split: prod.splits)

lemma decode_encoded:
  "json_law j validate \<Longrightarrow> encode_valid j validate what e = Inr data \<Longrightarrow> decode_valid j validate what data = Inr e"
  unfolding json_law_def encode_valid_def and_then_Inr_iff decode_valid_Inr by auto

section \<open>Confirmations\<close>

record imported_file =
  imHistoryID :: int
  imMovieFileID :: int
  imMovieID :: int
  imDownloadID :: string
  imOccurredAt :: gotime
  imDroppedPath :: string
  imImportedPath :: string

record import_confirmation =
  cnHistoryID :: int
  cnMovieFileID :: int
  cnMovieID :: int
  cnDownloadID :: string
  cnOccurredAt :: gotime
  cnDroppedPath :: string
  cnImportedPath :: string

definition radarrImportConfirmation :: "imported_file \<Rightarrow> import_confirmation" where
  "radarrImportConfirmation imported =
     \<lparr>cnHistoryID = imHistoryID imported, cnMovieFileID = imMovieFileID imported, cnMovieID = imMovieID imported,
      cnDownloadID = imDownloadID imported, cnOccurredAt = imOccurredAt imported,
      cnDroppedPath = imDroppedPath imported, cnImportedPath = imImportedPath imported\<rparr>"

lemma confirmation_history [simp]: "cnHistoryID (radarrImportConfirmation imported) = imHistoryID imported"
  by (simp add: radarrImportConfirmation_def)

definition validExecutionPath :: "string \<Rightarrow> bool" where
  "validExecutionPath path \<longleftrightarrow>
     path \<noteq> [] \<and> CHR 0x00 \<notin> set path \<and> IsAbs path \<and> Clean path = path \<and> Dir path \<noteq> path"

definition validateRadarrImportConfirmation :: "import_confirmation \<Rightarrow> go_error + unit" where
  "validateRadarrImportConfirmation confirmation =
     (if cnHistoryID confirmation \<le> 0 \<or> cnMovieFileID confirmation \<le> 0 \<or> cnMovieID confirmation \<le> 0
      then Inl (ErrorText ''Radarr import confirmation IDs must be positive'')
      else if cnDownloadID confirmation = [] \<or> TrimSpace (cnDownloadID confirmation) \<noteq> cnDownloadID confirmation \<or>
        CHR 0x00 \<in> set (cnDownloadID confirmation)
      then Inl (ErrorText ''Radarr import confirmation download ID is invalid'')
      else if cnOccurredAt confirmation = zero_time
      then Inl (ErrorText ''Radarr import confirmation time is missing'')
      else if \<not> validExecutionPath (cnDroppedPath confirmation) \<or> \<not> validExecutionPath (cnImportedPath confirmation)
      then Inl (ErrorText ''Radarr import confirmation paths are invalid'')
      else Inr ())"

section \<open>Records\<close>

datatype import_state =
    ManualImportPrepared | ManualImportRequested | ManualImportImported | ManualImportFailed
  | OtherImportState string

primrec import_state_text :: "import_state \<Rightarrow> string" where
  "import_state_text ManualImportPrepared = ''manual_import_prepared''"
| "import_state_text ManualImportRequested = ''manual_import_requested''"
| "import_state_text ManualImportImported = ''imported''"
| "import_state_text ManualImportFailed = ''import_failed''"
| "import_state_text (OtherImportState s) = s"

record import_execution =
  mxVersion :: string
  mxCaseID :: string
  mxCapabilityID :: string
  mxFileID :: string
  mxExpectedFingerprint :: snapshot
  mxState :: import_state
  mxHistoryIDBefore :: int
  mxPreparedAt :: gotime
  mxUpdatedAt :: gotime
  mxCommandID :: "int option"
  mxConfirmation :: "import_confirmation option"

definition ManualImportExecutionVersionV1 :: string where
  "ManualImportExecutionVersionV1 = ''radarr-repair-manual-import/v1''"

definition validateManualImportExecution :: "import_execution \<Rightarrow> go_error + unit" where
  "validateManualImportExecution value =
     (if mxVersion value \<noteq> ManualImportExecutionVersionV1
      then Inl (ErrorText (''unsupported manual import execution version '' @ quote (mxVersion value)))
      else
        and_then (caseDigest (mxCaseID value)) (\<lambda>_.
        if mxCapabilityID value = [] \<or> mxFileID value = [] \<or> snSizeBytes (mxExpectedFingerprint value) \<le> 0 \<or>
          mxHistoryIDBefore value < 0
        then Inl (ErrorText ''manual import execution identity is incomplete'')
        else if mxPreparedAt value = zero_time \<or> mxUpdatedAt value = zero_time \<or> mxUpdatedAt value < mxPreparedAt value
        then Inl (ErrorText ''manual import execution times are invalid'')
        else (case mxState value of
            ManualImportPrepared \<Rightarrow>
              ensure (mxCommandID value = None \<and> mxConfirmation value = None)
                (ErrorText ''prepared manual import has result evidence'')
          | ManualImportRequested \<Rightarrow>
              (if mxCommandID value = None \<or> the (mxCommandID value) \<le> 0
               then Inl (ErrorText ''requested manual import requires a Radarr command ID'')
               else ensure (mxConfirmation value = None)
                 (ErrorText ''requested manual import has confirmation evidence''))
          | ManualImportImported \<Rightarrow>
              (if mxCommandID value \<noteq> None \<and> the (mxCommandID value) \<le> 0
               then Inl (ErrorText ''manual import Radarr command ID must be positive'')
               else (case mxConfirmation value of
                   None \<Rightarrow> Inl (ErrorText ''imported manual import requires confirmation evidence'')
                 | Some confirmation \<Rightarrow>
                     and_then (validateRadarrImportConfirmation confirmation) (\<lambda>_.
                     ensure (mxHistoryIDBefore value < cnHistoryID confirmation)
                       (ErrorText ''Radarr import confirmation predates the request''))))
          | ManualImportFailed \<Rightarrow>
              (if mxCommandID value \<noteq> None \<and> the (mxCommandID value) \<le> 0
               then Inl (ErrorText ''manual import Radarr command ID must be positive'')
               else ensure (mxConfirmation value = None)
                 (ErrorText ''failed manual import has confirmation evidence''))
          | OtherImportState s \<Rightarrow>
              Inl (ErrorText (''unknown manual import execution state '' @ quote s)))))"

type_synonym 'b import_codec = "(import_execution, 'b) json_codec"

definition EncodeManualImportExecution :: "'b import_codec \<Rightarrow> import_execution \<Rightarrow> go_error + 'b" where
  "EncodeManualImportExecution j = encode_valid j validateManualImportExecution ''manual import execution''"

definition DecodeManualImportExecution :: "'b import_codec \<Rightarrow> 'b \<Rightarrow> go_error + import_execution" where
  "DecodeManualImportExecution j = decode_valid j validateManualImportExecution ''manual import execution''"

definition import_kind :: "'b import_codec \<Rightarrow> (import_execution, 'b) execution_kind" where
  "import_kind j =
     \<lparr>xkReadText = ''read manual import execution: '',
      xkValidateText = ''validate stored manual import execution: '',
      xkNoTime = ''manual import update time is required'',
      xkMissing = (\<lambda>caseID. ''manual import for case '' @ quote caseID @ '' is not prepared''),
      xkWrongCase = (\<lambda>caseID. ''stored execution has unexpected case ID '' @ quote caseID),
      xkBackwards = ''manual import update time moved backwards'',
      xkCaseID = mxCaseID, xkUpdatedAt = mxUpdatedAt, xkTouch = (\<lambda>t value. value\<lparr>mxUpdatedAt := t\<rparr>),
      xkEncode = EncodeManualImportExecution j, xkDecode = DecodeManualImportExecution j\<rparr>"

section \<open>Operations\<close>

definition GetManualImportExecution ::
  "'b import_codec \<Rightarrow> 'b host \<Rightarrow> string \<Rightarrow> 'b directory \<Rightarrow> go_error + import_execution option" where
  "GetManualImportExecution j h caseID dir =
     execution_get (import_kind j) h ''stored execution has unexpected case ID '' caseID dir"

definition sameManualImport :: "import_execution \<Rightarrow> authorized_import \<Rightarrow> bool" where
  "sameManualImport value authorized \<longleftrightarrow>
     mxCaseID value = aiCaseID authorized \<and> mxCapabilityID value = aiCapabilityID authorized \<and>
     mxFileID value = aiFileID authorized \<and> mxExpectedFingerprint value = aiExpectedFingerprint authorized"

definition validateManualImportAuthorization ::
  "('v, 'b) case_contracts \<Rightarrow> 'b case_hosts \<Rightarrow> authorized_import \<Rightarrow> 'b case_files \<Rightarrow> go_error + unit" where
  "validateManualImportAuthorization c hs authorized files =
     and_then (GetExecutionPlan c hs (aiCaseID authorized) files) (\<lambda>planned.
     let validation = ValidateManualImportWithPolicy (pcAssembly planned) (pcDecision planned) (RuntimePolicy planned)
     in ensure (manual_accepted validation \<and> mnAuthorized validation = Some authorized)
          (ErrorText ''manual import authorization does not match stored case and decision''))"

definition PrepareManualImport ::
  "('v, 'b) case_contracts \<Rightarrow> 'b import_codec \<Rightarrow> 'b case_hosts \<Rightarrow> authorized_import \<Rightarrow> int \<Rightarrow> gotime
     \<Rightarrow> 'b case_files \<Rightarrow> (import_execution \<times> bool) answer \<times> 'b directory" where
  "PrepareManualImport c j hs authorized historyIDBefore preparedAt files =
     (let dir = sdExecutions files in
      or_stop (ensure (0 \<le> historyIDBefore) (ErrorText ''Radarr history ID cannot be negative'')) dir (\<lambda>_.
      or_stop (ensure (preparedAt \<noteq> zero_time) (ErrorText ''manual import preparation time is required'')) dir (\<lambda>_.
      or_stop (digest_file (aiCaseID authorized)) dir (\<lambda>name.
      or_stop (case_lock hs) dir (\<lambda>_.
      or_stop (validateManualImportAuthorization c hs authorized files) dir (\<lambda>_.
      execution_prepare (import_kind j) (chExecutions hs) name
        (\<lambda>previous. and_then (ensure (sameManualImport previous authorized)
           (ErrorText (''case '' @ quote (aiCaseID authorized) @ '' is already bound to a different manual import'')))
           (\<lambda>_. Inr False))
        (Inr \<lparr>mxVersion = ManualImportExecutionVersionV1, mxCaseID = aiCaseID authorized,
           mxCapabilityID = aiCapabilityID authorized, mxFileID = aiFileID authorized,
           mxExpectedFingerprint = aiExpectedFingerprint authorized, mxState = ManualImportPrepared,
           mxHistoryIDBefore = historyIDBefore, mxPreparedAt = preparedAt, mxUpdatedAt = preparedAt,
           mxCommandID = None, mxConfirmation = None\<rparr>) dir))))))"

definition updateManualImportExecution ::
  "'b import_codec \<Rightarrow> 'b case_hosts \<Rightarrow> string \<Rightarrow> gotime \<Rightarrow> (import_execution \<Rightarrow> (import_execution \<times> bool) answer)
     \<Rightarrow> 'b directory \<Rightarrow> (import_execution \<times> bool) answer \<times> 'b directory" where
  "updateManualImportExecution j hs = execution_update (import_kind j) (case_lock hs) (chExecutions hs)"

definition request_import :: "int \<Rightarrow> import_execution \<Rightarrow> (import_execution \<times> bool) answer" where
  "request_import commandID previous = Some
     (case mxState previous of
        ManualImportPrepared \<Rightarrow>
          Inr (previous\<lparr>mxState := ManualImportRequested, mxCommandID := Some commandID\<rparr>, True)
      | ManualImportRequested \<Rightarrow>
          (if mxCommandID previous = Some commandID then Inr (previous, False)
           else Inl (ErrorText ''manual import is already bound to a different Radarr command''))
      | s \<Rightarrow> Inl (ErrorText (''cannot request manual import from state '' @ quote (import_state_text s))))"

definition MarkManualImportRequested ::
  "'b import_codec \<Rightarrow> 'b case_hosts \<Rightarrow> string \<Rightarrow> int \<Rightarrow> gotime \<Rightarrow> 'b directory
     \<Rightarrow> (import_execution \<times> bool) answer \<times> 'b directory" where
  "MarkManualImportRequested j hs caseID commandID updatedAt dir =
     or_stop (ensure (0 < commandID) (ErrorText ''Radarr command ID must be positive'')) dir (\<lambda>_.
     updateManualImportExecution j hs caseID updatedAt (request_import commandID) dir)"

definition confirm_import ::
  "authorized_import \<Rightarrow> import_confirmation \<Rightarrow> import_execution \<Rightarrow> (import_execution \<times> bool) answer" where
  "confirm_import authorized confirmation previous = Some
     (if \<not> sameManualImport previous authorized
      then Inl (ErrorText ''manual import confirmation does not match the prepared operation'')
      else if mxState previous = ManualImportPrepared \<or> mxState previous = ManualImportRequested then
        (if cnHistoryID confirmation \<le> mxHistoryIDBefore previous
         then Inl (ErrorText ''Radarr import confirmation predates the request'')
         else Inr (previous\<lparr>mxState := ManualImportImported, mxConfirmation := Some confirmation\<rparr>, True))
      else if mxState previous = ManualImportImported then
        (if mxConfirmation previous = Some confirmation then Inr (previous, False)
         else Inl (ErrorText ''manual import is already bound to different confirmation evidence''))
      else Inl (ErrorText (''cannot mark manual import '' @ quote (import_state_text ManualImportImported) @
        '' from state '' @ quote (import_state_text (mxState previous)))))"

text \<open>The authorization is checked before the lock is taken: \<open>seen\<close> are the directories at that time.\<close>

definition MarkManualImportImported ::
  "('v, 'b) case_contracts \<Rightarrow> 'b import_codec \<Rightarrow> 'b case_hosts \<Rightarrow> 'b case_files \<Rightarrow> authorized_import
     \<Rightarrow> imported_file \<Rightarrow> gotime \<Rightarrow> 'b directory \<Rightarrow> (import_execution \<times> bool) answer \<times> 'b directory" where
  "MarkManualImportImported c j hs seen authorized imported updatedAt dir =
     or_stop (validateManualImportAuthorization c hs authorized seen) dir (\<lambda>_.
     or_stop (ensure (imMovieID imported = cfMovieID (aiFile authorized) \<and>
         imDownloadID imported = cfDownloadID (aiFile authorized) \<and> imDroppedPath imported = cfPath (aiFile authorized))
       (ErrorText ''Radarr import confirmation does not match the authorized file'')) dir (\<lambda>_.
     let confirmation = radarrImportConfirmation imported in
     or_stop (validateRadarrImportConfirmation confirmation) dir (\<lambda>_.
     updateManualImportExecution j hs (aiCaseID authorized) updatedAt (confirm_import authorized confirmation) dir)))"

definition fail_import :: "import_execution \<Rightarrow> (import_execution \<times> bool) answer" where
  "fail_import previous = Some
     (if mxState previous = ManualImportPrepared \<or> mxState previous = ManualImportRequested
      then Inr (previous\<lparr>mxState := ManualImportFailed\<rparr>, True)
      else if mxState previous = ManualImportFailed then Inr (previous, False)
      else Inl (ErrorText (''cannot mark manual import '' @ quote (import_state_text ManualImportFailed) @
        '' from state '' @ quote (import_state_text (mxState previous)))))"

definition MarkManualImportFailed ::
  "'b import_codec \<Rightarrow> 'b case_hosts \<Rightarrow> string \<Rightarrow> gotime \<Rightarrow> 'b directory
     \<Rightarrow> (import_execution \<times> bool) answer \<times> 'b directory" where
  "MarkManualImportFailed j hs caseID updatedAt dir =
     updateManualImportExecution j hs caseID updatedAt fail_import dir"

section \<open>The life of an import\<close>

fun import_rank :: "import_state \<Rightarrow> nat" where
  "import_rank ManualImportPrepared = 2"
| "import_rank ManualImportRequested = 1"
| "import_rank _ = 0"

definition import_begins :: "(authorized_import \<Rightarrow> bool) \<Rightarrow> import_execution \<Rightarrow> bool" where
  "import_begins permitted q \<longleftrightarrow>
     mxVersion q = ManualImportExecutionVersionV1 \<and> caseIDPattern (mxCaseID q) \<and>
     (\<exists>a. permitted a \<and> sameManualImport q a) \<and> mxState q = ManualImportPrepared \<and> mxCommandID q = None \<and> mxConfirmation q = None"

text \<open>What the store is told of a manual import: the command Radarr accepted, the event of the import, its failure.\<close>

datatype import_report =
    ImportCommand string int
  | ImportEvent authorized_import imported_file
  | ImportFailure string

text \<open>
  From one record to the next the request is the same, and the state moves on: a command is bound to a
  prepared import only, and an import is confirmed by an event of the authorized file after the request.
  \<open>heard\<close> are the reports that were made to the store.
\<close>

inductive import_next :: "(import_report \<Rightarrow> bool) \<Rightarrow> import_execution \<Rightarrow> import_execution \<Rightarrow> bool"
  for heard :: "import_report \<Rightarrow> bool" where
  requested: "mxState p = ManualImportPrepared \<Longrightarrow> heard (ImportCommand (mxCaseID p) commandID) \<Longrightarrow>
    0 < commandID \<Longrightarrow> mxUpdatedAt p \<le> t \<Longrightarrow>
    import_next heard p (p\<lparr>mxState := ManualImportRequested, mxCommandID := Some commandID, mxUpdatedAt := t\<rparr>)"
| confirmed: "mxState p \<in> {ManualImportPrepared, ManualImportRequested} \<Longrightarrow>
    heard (ImportEvent a imported) \<Longrightarrow> sameManualImport p a \<Longrightarrow>
    imMovieID imported = cfMovieID (aiFile a) \<Longrightarrow> imDownloadID imported = cfDownloadID (aiFile a) \<Longrightarrow>
    imDroppedPath imported = cfPath (aiFile a) \<Longrightarrow> mxHistoryIDBefore p < imHistoryID imported \<Longrightarrow>
    validateRadarrImportConfirmation (radarrImportConfirmation imported) = Inr () \<Longrightarrow> mxUpdatedAt p \<le> t \<Longrightarrow>
    import_next heard p (p\<lparr>mxState := ManualImportImported,
      mxConfirmation := Some (radarrImportConfirmation imported), mxUpdatedAt := t\<rparr>)"
| failed: "mxState p \<in> {ManualImportPrepared, ManualImportRequested} \<Longrightarrow> heard (ImportFailure (mxCaseID p)) \<Longrightarrow>
    mxUpdatedAt p \<le> t \<Longrightarrow>
    import_next heard p (p\<lparr>mxState := ManualImportFailed, mxUpdatedAt := t\<rparr>)"

lemma import_next_mono:
  assumes "import_next heard p q" "\<And>r. heard r \<Longrightarrow> heard' r"
  shows "import_next heard' p q"
  using assms(1)
  by (induction rule: import_next.induct) (blast intro: import_next.intros assms(2))+

interpretation manual: execution_steps "import_kind j" "import_begins permitted" "import_next heard"
    "\<lambda>e. import_rank (mxState e)"
  for j permitted heard
  by unfold_locales (auto simp: import_begins_def import_kind_def elim!: import_next.cases)

lemma import_round_trip: "json_law j validateManualImportExecution \<Longrightarrow> round_trip (import_kind j)"
  by (auto simp: round_trip_def import_kind_def EncodeManualImportExecution_def DecodeManualImportExecution_def
      intro: decode_encoded)

abbreviation import_effect where
  "import_effect j permitted heard \<equiv> execution_effect (import_kind j) (import_begins permitted) (import_next heard)"

text \<open>The host, the codec and the file of a case, as every call relies on them.\<close>

definition import_setting :: "'b import_codec \<Rightarrow> 'b case_hosts \<Rightarrow> string \<Rightarrow> string \<Rightarrow> bool" where
  "import_setting j hs caseID name \<longleftrightarrow>
     json_law j validateManualImportExecution \<and> host_ok (chExecutions hs) \<and> case_file caseID = Inr name"

lemma update_import_effect:
  assumes "import_setting j hs caseID name" "\<And>p q. change p = Some (Inr (q, False)) \<Longrightarrow> q = p"
    and "\<And>p q. mxUpdatedAt p \<le> t \<Longrightarrow> mxCaseID p = caseID \<Longrightarrow> change p = Some (Inr (q, True)) \<Longrightarrow>
      import_next heard p (q\<lparr>mxUpdatedAt := t\<rparr>)"
  shows "import_effect j permitted heard name dir (updateManualImportExecution j hs caseID t change dir)"
  unfolding updateManualImportExecution_def
  using assms import_round_trip
  by (intro manual.update_follows) (auto simp: import_setting_def digest_file_Inr import_kind_def)

lemma MarkManualImportRequested_effect:
  assumes "import_setting j hs caseID name" "heard (ImportCommand caseID commandID)"
  shows "import_effect j permitted heard name dir (MarkManualImportRequested j hs caseID commandID t dir)"
  unfolding MarkManualImportRequested_def
  using assms
  by (intro or_stop_effect update_import_effect)
    (auto simp: request_import_def intro: requested split: import_state.splits if_splits)

lemma MarkManualImportFailed_effect:
  assumes "import_setting j hs caseID name" "heard (ImportFailure caseID)"
  shows "import_effect j permitted heard name dir (MarkManualImportFailed j hs caseID t dir)"
  unfolding MarkManualImportFailed_def
  using assms
  by (intro update_import_effect) (auto simp: fail_import_def intro: failed split: if_splits)

lemma MarkManualImportImported_effect:
  assumes "import_setting j hs (aiCaseID authorized) name" "heard (ImportEvent authorized imported)"
  shows "import_effect j permitted heard name dir (MarkManualImportImported c j hs seen authorized imported t dir)"
  unfolding MarkManualImportImported_def Let_def
  using assms
  by (intro or_stop_effect update_import_effect)
    (auto simp: confirm_import_def intro: confirmed [where a = authorized] split: if_splits)

lemma PrepareManualImport_effect:
  assumes "import_setting j hs (aiCaseID authorized) name"
    and "validateManualImportAuthorization c hs authorized files = Inr () \<Longrightarrow> permitted authorized"
  shows "import_effect j permitted heard name (sdExecutions files) (PrepareManualImport c j hs authorized before t files)"
proof -
  have setting: "round_trip (import_kind j)" "host_ok (chExecutions hs)" "digest_file (aiCaseID authorized) = Inr name"
    "caseIDPattern (aiCaseID authorized)"
    using assms(1) import_round_trip by (auto simp: import_setting_def digest_file_Inr case_file_def split: if_splits)
  have begins: "import_begins permitted \<lparr>mxVersion = ManualImportExecutionVersionV1, mxCaseID = aiCaseID authorized,
      mxCapabilityID = aiCapabilityID authorized, mxFileID = aiFileID authorized,
      mxExpectedFingerprint = aiExpectedFingerprint authorized, mxState = ManualImportPrepared,
      mxHistoryIDBefore = before, mxPreparedAt = t, mxUpdatedAt = t, mxCommandID = None, mxConfirmation = None\<rparr>"
    if "permitted authorized"
    using that setting(4) by (auto simp: import_begins_def sameManualImport_def)
  show ?thesis
    unfolding PrepareManualImport_def Let_def setting(3) or_stop_simps
    using setting(1,2) begins assms(2)
    by (intro or_stop_effect manual.prepare_follows) (auto simp: and_then_Inr_iff)
qed

end
