(* ===== verification/Join_Verification.thy ===== *)
theory Join_Verification
  imports Join_Identity Join_State
begin

text \<open>
  The answers of the worker (\<open>worker/contracts\<close>) and the verification of a joined file against the
  join that was authorized (\<open>internal/joinverification/validator.go\<close>). The message types are
  generated from schemas; the records hold their fields, and the check of an encoded message against
  its schema is a parameter. The evidence in a message has the fields of the controller's own
  evidence, so the same records stand for both.
\<close>

section \<open>Answers of the worker\<close>

datatype response_kind = ProbeResponseSucceeded | ProbeResponseFailed | OtherResponse string

primrec kind_text :: "response_kind \<Rightarrow> string" where
  "kind_text ProbeResponseSucceeded = ''ok''"
| "kind_text ProbeResponseFailed = ''failed''"
| "kind_text (OtherResponse s) = s"

record ('s, 'f) operation_response =
  orKind :: response_kind
  orSuccess :: "'s option"
  orFailure :: "'f option"

record operation_failure =
  ofRequestID :: string
  ofReason :: string

record artifact_success =
  asuRequestID :: string
  asuArtifactID :: string
  asuArtifactFingerprint :: string

record stage_success = artifact_success +
  asuSizeBytes :: int
  asuEvidence :: probe_evidence

record publish_success = artifact_success +
  asuRootID :: string
  asuPathComponents :: "string list"

type_synonym stage_response = "(stage_success, operation_failure) operation_response"
type_synonym publish_response = "(publish_success, operation_failure) operation_response"
type_synonym discard_response = "(artifact_success, operation_failure) operation_response"

definition operationResponseRequestID ::
  "('s \<Rightarrow> string) \<Rightarrow> ('f \<Rightarrow> string) \<Rightarrow> ('s, 'f) operation_response \<Rightarrow> string" where
  "operationResponseRequestID successRequestID failureRequestID response =
     (case orKind response of
        ProbeResponseSucceeded \<Rightarrow>
          (case orSuccess response of Some success \<Rightarrow> successRequestID success | None \<Rightarrow> [])
      | ProbeResponseFailed \<Rightarrow>
          (case orFailure response of Some failure \<Rightarrow> failureRequestID failure | None \<Rightarrow> [])
      | OtherResponse _ \<Rightarrow> [])"

definition stage_RequestID :: "stage_response \<Rightarrow> string" where
  "stage_RequestID = operationResponseRequestID asuRequestID ofRequestID"

text \<open>
  The checks of \<open>encodeOperationResponse\<close>; \<open>check\<close> is the error of encoding the message and checking it
  against its schema.
\<close>

definition encodeOperationResponse ::
  "('s + 'f \<Rightarrow> go_error + unit) \<Rightarrow> string \<Rightarrow> ('s, 'f) operation_response \<Rightarrow> go_error + unit" where
  "encodeOperationResponse check name response =
     (case orKind response of
        ProbeResponseSucceeded \<Rightarrow>
          (case (orSuccess response, orFailure response) of
             (Some success, None) \<Rightarrow> check (Inl success)
           | _ \<Rightarrow> Inl (ErrorText (''successful '' @ name @ '' must contain only success'')))
      | ProbeResponseFailed \<Rightarrow>
          (case (orSuccess response, orFailure response) of
             (None, Some failure) \<Rightarrow> check (Inr failure)
           | _ \<Rightarrow> Inl (ErrorText (''failed '' @ name @ '' must contain only failure'')))
      | OtherResponse kind \<Rightarrow> Inl (ErrorText (''unsupported '' @ name @ '' kind '' @ quote kind)))"

lemma encodeOperationResponse_Inr:
  "encodeOperationResponse check name response = Inr u \<longleftrightarrow>
     (\<exists>success. response = \<lparr>orKind = ProbeResponseSucceeded, orSuccess = Some success, orFailure = None\<rparr> \<and>
        check (Inl success) = Inr u) \<or>
     (\<exists>failure. response = \<lparr>orKind = ProbeResponseFailed, orSuccess = None, orFailure = Some failure\<rparr> \<and>
        check (Inr failure) = Inr u)"
  by (cases response) (auto simp: encodeOperationResponse_def split: response_kind.splits option.splits)

text \<open>The schemas of the messages: the request to stage a join, and the answers.\<close>

record worker_schemas =
  wsStageRequest :: "stage_join_request \<Rightarrow> go_error + unit"
  wsStageResponse :: "stage_success + operation_failure \<Rightarrow> go_error + unit"
  wsPublishResponse :: "publish_success + operation_failure \<Rightarrow> go_error + unit"
  wsDiscardResponse :: "artifact_success + operation_failure \<Rightarrow> go_error + unit"

definition EncodeStageJoinResponse :: "worker_schemas \<Rightarrow> stage_response \<Rightarrow> go_error + unit" where
  "EncodeStageJoinResponse s = encodeOperationResponse (wsStageResponse s) ''stage join response''"

definition EncodePublishResponse :: "worker_schemas \<Rightarrow> publish_response \<Rightarrow> go_error + unit" where
  "EncodePublishResponse s = encodeOperationResponse (wsPublishResponse s) ''publish response''"

definition EncodeDiscardResponse :: "worker_schemas \<Rightarrow> discard_response \<Rightarrow> go_error + unit" where
  "EncodeDiscardResponse s = encodeOperationResponse (wsDiscardResponse s) ''discard response''"

section \<open>Evidence of the worker\<close>

definition copyPointer :: "'a option \<Rightarrow> 'a option" where
  "copyPointer value = (case value of None \<Rightarrow> None | Some v \<Rightarrow> Some v)"

definition copySlice :: "'a list \<Rightarrow> 'a list" where
  "copySlice values = map (\<lambda>v. v) values"

lemma copy_id [simp]: "copyPointer p = p" "copySlice xs = xs"
  by (simp_all add: copyPointer_def copySlice_def split: option.split)

definition convertRational :: "rational option \<Rightarrow> rational option" where
  "convertRational value =
     (case value of
        None \<Rightarrow> None
      | Some r \<Rightarrow> Some \<lparr>Numerator = Numerator r, Denominator = Denominator r\<rparr>)"

definition convertKind :: "string option \<Rightarrow> string option" where
  "convertKind kind = (case kind of None \<Rightarrow> None | Some k \<Rightarrow> Some k)"

definition convertDisposition :: "probe_disposition option \<Rightarrow> probe_disposition option" where
  "convertDisposition disposition =
     (case disposition of
        None \<Rightarrow> None
      | Some d \<Rightarrow> Some \<lparr>pdDefault = copyPointer (pdDefault d), pdForced = copyPointer (pdForced d),
          pdHearingImpaired = copyPointer (pdHearingImpaired d),
          pdVisualImpaired = copyPointer (pdVisualImpaired d)\<rparr>)"

definition convertTags :: "probe_tag list \<Rightarrow> probe_tag list" where
  "convertTags tags = map (\<lambda>tag. \<lparr>tgName = tgName tag, tgValue = tgValue tag\<rparr>) tags"

definition convertStream :: "probe_stream \<Rightarrow> probe_stream" where
  "convertStream stream =
     \<lparr>psIndex = psIndex stream, psKind = convertKind (psKind stream),
      psCodecName = copyPointer (psCodecName stream), psCodecLongName = copyPointer (psCodecLongName stream),
      psProfile = copyPointer (psProfile stream), psCodecTag = copyPointer (psCodecTag stream),
      psWidth = copyPointer (psWidth stream), psHeight = copyPointer (psHeight stream),
      psPixelFormat = copyPointer (psPixelFormat stream), psSampleFormat = copyPointer (psSampleFormat stream),
      psSampleRateHz = copyPointer (psSampleRateHz stream), psChannels = copyPointer (psChannels stream),
      psChannelLayout = copyPointer (psChannelLayout stream), psFrameRate = convertRational (psFrameRate stream),
      psAverageRate = convertRational (psAverageRate stream), psTimeBase = convertRational (psTimeBase stream),
      psStartTicks = copyPointer (psStartTicks stream), psStartTimeMS = copyPointer (psStartTimeMS stream),
      psDurationTicks = copyPointer (psDurationTicks stream), psDurationMS = copyPointer (psDurationMS stream),
      psBitRateBPS = copyPointer (psBitRateBPS stream), psFrameCount = copyPointer (psFrameCount stream),
      psDisposition = convertDisposition (psDisposition stream), psTags = convertTags (psTags stream)\<rparr>"

definition convertProgram :: "probe_program \<Rightarrow> probe_program" where
  "convertProgram program =
     \<lparr>pgID = pgID program, pgNumber = copyPointer (pgNumber program),
      pgStreamCount = copyPointer (pgStreamCount program), pgPMTPID = copyPointer (pgPMTPID program),
      pgPCRPID = copyPointer (pgPCRPID program), pgStreamIndexes = copySlice (pgStreamIndexes program),
      pgTags = convertTags (pgTags program)\<rparr>"

definition convertChapter :: "probe_chapter \<Rightarrow> probe_chapter" where
  "convertChapter ch =
     \<lparr>pcID = pcID ch, pcTimeBase = convertRational (pcTimeBase ch),
      pcStartTicks = copyPointer (pcStartTicks ch), pcStartTimeMS = copyPointer (pcStartTimeMS ch),
      pcEndTicks = copyPointer (pcEndTicks ch), pcEndTimeMS = copyPointer (pcEndTimeMS ch),
      pcTags = convertTags (pcTags ch)\<rparr>"

definition EvidenceFromWorker :: "probe_evidence \<Rightarrow> probe_evidence" where
  "EvidenceFromWorker evidence =
     (let f = peFormat evidence in
      \<lparr>peFormat = \<lparr>pfNames = copySlice (pfNames f), pfLongName = copyPointer (pfLongName f),
         pfStreamCount = copyPointer (pfStreamCount f), pfProgramCount = copyPointer (pfProgramCount f),
         pfStartTimeMS = copyPointer (pfStartTimeMS f), pfDurationMS = copyPointer (pfDurationMS f),
         pfSizeBytes = copyPointer (pfSizeBytes f), pfBitRateBPS = copyPointer (pfBitRateBPS f),
         pfProbeScore = copyPointer (pfProbeScore f), pfTags = convertTags (pfTags f)\<rparr>,
       peStreams = map convertStream (peStreams evidence),
       pePrograms = map convertProgram (pePrograms evidence),
       peChapters = map convertChapter (peChapters evidence)\<rparr>)"

lemma convert_id [simp]:
  "convertRational r = r" "convertKind k = k" "convertDisposition d = d" "convertTags t = t"
  "convertStream s = s" "convertProgram p = p" "convertChapter ch = ch"
proof -
  show tags: "convertTags t = t" for t
    by (simp add: convertTags_def map_idI)
  show rational: "convertRational r = r" for r
    by (simp add: convertRational_def split: option.split)
  show "convertKind k = k" for k
    by (simp add: convertKind_def split: option.split)
  then show "convertStream s = s"
    by (simp add: convertStream_def tags rational convertDisposition_def split: option.split)
  show "convertDisposition d = d"
    by (simp add: convertDisposition_def split: option.split)
  show "convertProgram p = p" "convertChapter ch = ch"
    by (simp_all add: convertProgram_def convertChapter_def tags rational)
qed

text \<open>No field of the evidence is lost or mixed up on its way from the worker.\<close>

lemma EvidenceFromWorker_id [simp]: "EvidenceFromWorker e = e"
  by (simp add: EvidenceFromWorker_def map_idI Let_def)

section \<open>Verification of a joined file\<close>

datatype verification_reason =
    InvalidStageRequest | StageRequestNotAuthorized | InvalidStageResponse | StageResponseNotCorrelated
  | StageFailed | ArtifactSizeMismatch | DurationUnavailable | DurationOutsideTolerance
  | OutputContainerMismatch | StreamLayoutMismatch

record artifact_reference =
  arExecutionID :: string
  arCaseID :: string
  arCapabilityID :: string
  arArtifactID :: string
  arArtifactFingerprint :: string

record verified_artifact =
  vaReference :: artifact_reference
  vaSizeBytes :: int
  vaEvidence :: probe_evidence

record stage_validation =
  svPublish :: "verified_artifact option"
  svDiscard :: "artifact_reference option"
  svRejections :: "verification_reason list"

definition stage_accepted :: "stage_validation \<Rightarrow> bool" where
  "stage_accepted validation \<longleftrightarrow>
     svPublish validation \<noteq> None \<and> svDiscard validation = None \<and> svRejections validation = []"

primrec output_text :: "output_container \<Rightarrow> string" where
  "output_text OutputContainerMP4 = ''mp4''"
| "output_text OutputContainerMKV = ''mkv''"
| "output_text OutputContainerAVI = ''avi''"

definition withinTolerance :: "int \<Rightarrow> int \<Rightarrow> int \<Rightarrow> bool" where
  "withinTolerance actual expected tolerance =
     (if actual < expected then wrap64 (expected - actual) \<le> tolerance
      else wrap64 (actual - expected) \<le> tolerance)"

definition matchesContainer :: "output_container \<Rightarrow> string list \<Rightarrow> bool" where
  "matchesContainer expected names =
     (let want = (case expected of
          OutputContainerAVI \<Rightarrow> ''avi''
        | OutputContainerMKV \<Rightarrow> ''matroska''
        | OutputContainerMP4 \<Rightarrow> ''mp4'')
      in list_ex (\<lambda>name. name = want) names)"

definition ValidateOutput :: "authorized_join \<Rightarrow> probe_evidence \<Rightarrow> int \<Rightarrow> verification_reason list" where
  "ValidateOutput authorized evidence sizeBytes =
     (let wrong_size = (case pfSizeBytes (peFormat evidence) of
            None \<Rightarrow> True | Some n \<Rightarrow> n \<le> 0 \<or> n \<noteq> sizeBytes);
          duration = AssessProbeDuration evidence
      in (if wrong_size then [ArtifactSizeMismatch] else []) @
         (if daConflict duration then [DurationUnavailable]
          else case daEffectiveMS duration of
            None \<Rightarrow> [DurationUnavailable]
          | Some ms \<Rightarrow>
              if withinTolerance ms (ajExpectedDurationMS authorized) (ajDurationToleranceMS authorized)
              then [] else [DurationOutsideTolerance]) @
         (if matchesContainer (ajOutputContainer authorized) (pfNames (peFormat evidence))
          then [] else [OutputContainerMismatch]) @
         (if MatchesMuxedOutput (ajExpectedStreamLayout authorized) (peStreams evidence)
          then [] else [StreamLayoutMismatch]))"

definition requestMatchesAuthorization ::
  "(string \<Rightarrow> string) \<Rightarrow> stage_join_request \<Rightarrow> authorized_join \<Rightarrow> bool" where
  "requestMatchesAuthorization sha request authorized \<longleftrightarrow>
     rqCaseID request = ajCaseID authorized \<and> rqCapabilityID request = ajCapabilityID authorized \<and>
     rqExpectedSourceBytes request = ajSourceBytes authorized \<and>
     rqExpectedDurationMS request = ajExpectedDurationMS authorized \<and>
     rqDurationToleranceMS request = ajDurationToleranceMS authorized \<and>
     rqExpectedStreamCount request = int (length (ajExpectedStreamLayout authorized)) \<and>
     rqOutputContainer request = output_text (ajOutputContainer authorized) \<and>
     list_all2 (\<lambda>part expected. ptFileID part = afFileID expected \<and>
         ptExpectedFingerprint part = StrictFingerprint sha (afFingerprint expected))
       (rqParts request) (ajOrderedParts authorized)"

definition ValidateStagedJoin ::
  "worker_schemas \<Rightarrow> (string \<Rightarrow> string) \<Rightarrow> authorized_join \<Rightarrow> stage_join_request \<Rightarrow> stage_response
     \<Rightarrow> stage_validation" where
  "ValidateStagedJoin s sha authorized request response =
     (let rejecting = (\<lambda>reasons. \<lparr>svPublish = None, svDiscard = None, svRejections = reasons\<rparr>)
      in case wsStageRequest s request of
           Inl _ \<Rightarrow> rejecting [InvalidStageRequest]
         | Inr _ \<Rightarrow>
         (case EncodeStageJoinResponse s response of
           Inl _ \<Rightarrow> rejecting [InvalidStageResponse]
         | Inr _ \<Rightarrow>
         let reasons =
               (if requestMatchesAuthorization sha request authorized then [] else [StageRequestNotAuthorized]) @
               (if stage_RequestID response = rqRequestID request then [] else [StageResponseNotCorrelated])
         in if orKind response = ProbeResponseFailed then rejecting (reasons @ [StageFailed])
            else case orSuccess response of
              None \<Rightarrow> rejecting (reasons @ [InvalidStageResponse])
            | Some success \<Rightarrow>
                let reference = \<lparr>arExecutionID = rqExecutionID request, arCaseID = rqCaseID request,
                      arCapabilityID = rqCapabilityID request, arArtifactID = asuArtifactID success,
                      arArtifactFingerprint = asuArtifactFingerprint success\<rparr>;
                    evidence = EvidenceFromWorker (asuEvidence success);
                    reasons = reasons @ ValidateOutput authorized evidence (asuSizeBytes success)
                in if reasons \<noteq> [] then \<lparr>svPublish = None, svDiscard = Some reference, svRejections = reasons\<rparr>
                   else \<lparr>svPublish = Some \<lparr>vaReference = reference, vaSizeBytes = asuSizeBytes success,
                           vaEvidence = evidence\<rparr>, svDiscard = None, svRejections = []\<rparr>))"

section \<open>What an accepted file satisfies\<close>

definition verified_output :: "authorized_join \<Rightarrow> probe_evidence \<Rightarrow> int \<Rightarrow> bool" where
  "verified_output authorized evidence sizeBytes \<longleftrightarrow>
     0 < sizeBytes \<and> pfSizeBytes (peFormat evidence) = Some sizeBytes \<and>
     \<not> daConflict (AssessProbeDuration evidence) \<and>
     (\<exists>ms. daEffectiveMS (AssessProbeDuration evidence) = Some ms \<and>
        withinTolerance ms (ajExpectedDurationMS authorized) (ajDurationToleranceMS authorized)) \<and>
     matchesContainer (ajOutputContainer authorized) (pfNames (peFormat evidence)) \<and>
     MatchesMuxedOutput (ajExpectedStreamLayout authorized) (peStreams evidence)"

lemma ValidateOutput_Nil: "ValidateOutput authorized evidence n = [] \<longleftrightarrow> verified_output authorized evidence n"
  by (auto simp: ValidateOutput_def verified_output_def Let_def split: option.splits)

text \<open>On durations of probes, which are not negative, the tolerance is exact: nothing wraps.\<close>

lemma withinTolerance_exact:
  assumes "0 \<le> actual" "actual \<le> max_int64" "0 \<le> expected" "expected \<le> max_int64"
  shows "withinTolerance actual expected tolerance \<longleftrightarrow> \<bar>actual - expected\<bar> \<le> tolerance"
proof -
  have "wrap64 (actual - expected) = actual - expected" "wrap64 (expected - actual) = expected - actual"
    using assms by (auto intro!: wrap64_id simp: in_int64_def min_int64_def max_int64_def)
  then show ?thesis
    by (auto simp: withinTolerance_def)
qed

lemma staged_accepted:
  "stage_accepted (ValidateStagedJoin s sha authorized request response) \<longleftrightarrow>
     wsStageRequest s request = Inr () \<and> EncodeStageJoinResponse s response = Inr () \<and>
     requestMatchesAuthorization sha request authorized \<and> stage_RequestID response = rqRequestID request \<and>
     (\<exists>success. orSuccess response = Some success \<and> orKind response \<noteq> ProbeResponseFailed \<and>
        verified_output authorized (asuEvidence success) (asuSizeBytes success))"
  by (auto simp: ValidateStagedJoin_def stage_accepted_def Let_def ValidateOutput_Nil split: sum.splits option.splits)

end
