(* ===== verification/Case_Joins.thy ===== *)
theory Case_Joins
  imports Case_Imports Join_Verification
begin

text \<open>
  Executions of joins (\<open>casestore/join_execution.go\<close>, \<open>join_import_execution.go\<close>): the record of a join from
  its preparation over the staged, verified and published file to its import into Radarr. The fields of
  \<open>join_library\<close> are the digest, \<open>encoding/json\<close> on authorizations and records, and the message schemas.
\<close>

section \<open>Records\<close>

datatype join_execution_state =
    JoinPrepared | JoinArtifactReady | JoinDiscardPending | JoinPublished | JoinDiscarded | JoinFailed
  | JoinImportPrepared | JoinImportRequested | JoinImported | JoinImportFailed | OtherJoinState string

primrec join_state_text :: "join_execution_state \<Rightarrow> string" where
  "join_state_text JoinPrepared = ''join_prepared''"
| "join_state_text JoinArtifactReady = ''artifact_ready''"
| "join_state_text JoinDiscardPending = ''artifact_discard_pending''"
| "join_state_text JoinPublished = ''artifact_published''"
| "join_state_text JoinDiscarded = ''artifact_discarded''"
| "join_state_text JoinFailed = ''join_failed''"
| "join_state_text JoinImportPrepared = ''import_prepared''"
| "join_state_text JoinImportRequested = ''import_requested''"
| "join_state_text JoinImported = ''imported''"
| "join_state_text JoinImportFailed = ''import_failed''"
| "join_state_text (OtherJoinState s) = s"

primrec rejection_text :: "verification_reason \<Rightarrow> string" where
  "rejection_text InvalidStageRequest = ''invalid_stage_request''"
| "rejection_text StageRequestNotAuthorized = ''stage_request_not_authorized''"
| "rejection_text InvalidStageResponse = ''invalid_stage_response''"
| "rejection_text StageResponseNotCorrelated = ''stage_response_not_correlated''"
| "rejection_text StageFailed = ''stage_failed''"
| "rejection_text ArtifactSizeMismatch = ''artifact_size_mismatch''"
| "rejection_text DurationUnavailable = ''duration_unavailable''"
| "rejection_text DurationOutsideTolerance = ''duration_outside_tolerance''"
| "rejection_text OutputContainerMismatch = ''output_container_mismatch''"
| "rejection_text StreamLayoutMismatch = ''stream_layout_mismatch''"

record join_artifact =
  jaID :: string
  jaFingerprint :: string
  jaSizeBytes :: int

record join_published =
  jpRootID :: string
  jpPathComponents :: "string list"

record join_failure =
  jfOperation :: string
  jfReason :: string

record join_import =
  jiCommand :: import_command
  jiHistoryIDBefore :: int
  jiPreparedAt :: gotime
  jiCommandID :: "int option"

text \<open>\<open>jxStage\<close> holds the rejections of \<open>JoinStage\<close>.\<close>

record join_execution =
  jxVersion :: string
  jxExecutionID :: string
  jxAuthorization :: authorized_join
  jxState :: join_execution_state
  jxPreparedAt :: gotime
  jxUpdatedAt :: gotime
  jxStage :: "string list option"
  jxArtifact :: "join_artifact option"
  jxPublished :: "join_published option"
  jxFailure :: "join_failure option"
  jxImport :: "join_import option"
  jxConfirmation :: "import_confirmation option"

record 'b join_library =
  jlSha256 :: "string \<Rightarrow> string"
  jlMarshalAuthorization :: "authorized_join \<Rightarrow> go_error + string"
  jlSchemas :: worker_schemas
  jlCodec :: "(join_execution, 'b) json_codec"

definition JoinExecutionVersionV2 :: string where "JoinExecutionVersionV2 = ''radarr-repair-join/v2''"

definition StageJoinV1 :: string where "StageJoinV1 = ''stage_join_v1''"
definition PublishV1 :: string where "PublishV1 = ''publish_v1''"
definition DiscardV1 :: string where "DiscardV1 = ''discard_v1''"

abbreviation current_id :: "'b join_library \<Rightarrow> authorized_join \<Rightarrow> go_error + string" where
  "current_id l \<equiv> JoinExecutionID (jlSha256 l) (jlMarshalAuthorization l)"

abbreviation legacy_id :: "'b join_library \<Rightarrow> authorized_join \<Rightarrow> go_error + string" where
  "legacy_id l \<equiv> legacyJoinExecutionID (jlSha256 l) (jlMarshalAuthorization l)"

definition JoinExecutionMatchesAuthorization ::
  "'b join_library \<Rightarrow> join_execution \<Rightarrow> authorized_join \<Rightarrow> go_error + bool" where
  "JoinExecutionMatchesAuthorization l value authorized =
     and_then (current_id l authorized) (\<lambda>executionID.
     if jxExecutionID value = executionID then Inr True
     else and_then (legacy_id l authorized) (\<lambda>legacyExecutionID. Inr (jxExecutionID value = legacyExecutionID)))"

definition JoinExecutionNeedsRecheck :: "'b join_library \<Rightarrow> join_execution \<Rightarrow> bool" where
  "JoinExecutionNeedsRecheck l value \<longleftrightarrow>
     jxState value = JoinDiscarded \<and>
     (case current_id l (jxAuthorization value) of Inl _ \<Rightarrow> False | Inr i \<Rightarrow> jxExecutionID value \<noteq> i)"

section \<open>Validation of records\<close>

definition validateJoinAuthorizationShape :: "'b join_library \<Rightarrow> authorized_join \<Rightarrow> go_error + unit" where
  "validateJoinAuthorizationShape l authorized =
     wrap_error ''join authorization is invalid: '' (wsStageRequest (jlSchemas l)
       \<lparr>rqRequestID = ''request:validation'', rqExecutionID = ''execution:validation'', rqCaseID = ajCaseID authorized,
        rqCapabilityID = ajCapabilityID authorized, rqRootID = ''root:validation'',
        rqParts = map (\<lambda>part. \<lparr>ptFileID = afFileID part, ptPathComponents = [''part.mkv''],
          ptExpectedFingerprint = StrictFingerprint (jlSha256 l) (afFingerprint part)\<rparr>) (ajOrderedParts authorized),
        rqOutputContainer = output_text (ajOutputContainer authorized),
        rqExpectedSourceBytes = ajSourceBytes authorized, rqExpectedDurationMS = ajExpectedDurationMS authorized,
        rqDurationToleranceMS = ajDurationToleranceMS authorized,
        rqExpectedStreamCount = int (length (ajExpectedStreamLayout authorized))\<rparr>)"

definition failed_with :: "string \<Rightarrow> ('s, operation_failure) operation_response" where
  "failed_with reason = \<lparr>orKind = ProbeResponseFailed, orSuccess = None,
     orFailure = Some \<lparr>ofRequestID = ''request:stored'', ofReason = reason\<rparr>\<rparr>"

definition validateJoinFailure :: "'b join_library \<Rightarrow> join_failure \<Rightarrow> go_error + unit" where
  "validateJoinFailure l failure =
     (if jfOperation failure = StageJoinV1 then
        wrap_error ''join failure is invalid: '' (EncodeStageJoinResponse (jlSchemas l) (failed_with (jfReason failure)))
      else if jfOperation failure = PublishV1 then
        wrap_error ''join failure is invalid: '' (EncodePublishResponse (jlSchemas l) (failed_with (jfReason failure)))
      else if jfOperation failure = DiscardV1 then
        wrap_error ''join failure is invalid: '' (EncodeDiscardResponse (jlSchemas l) (failed_with (jfReason failure)))
      else Inl (ErrorText (''unknown failed join operation '' @ quote (jfOperation failure))))"

definition validPublishedArtifact :: "'b join_library \<Rightarrow> join_artifact \<Rightarrow> join_published \<Rightarrow> bool" where
  "validPublishedArtifact l artifact published \<longleftrightarrow>
     EncodePublishResponse (jlSchemas l) \<lparr>orKind = ProbeResponseSucceeded,
       orSuccess = Some \<lparr>asuRequestID = ''request:stored'', asuArtifactID = jaID artifact,
         asuArtifactFingerprint = jaFingerprint artifact, asuRootID = jpRootID published,
         asuPathComponents = jpPathComponents published\<rparr>,
       orFailure = None\<rparr> = Inr ()"

definition requireJoinArtifact :: "'b join_library \<Rightarrow> join_execution \<Rightarrow> bool \<Rightarrow> bool \<Rightarrow> go_error + unit" where
  "requireJoinArtifact l value rejected_state published =
     (case jxArtifact value of
        None \<Rightarrow> Inl (ErrorText ''join state requires a staged artifact'')
      | Some artifact \<Rightarrow>
          and_then (ensure (jaID artifact \<noteq> [] \<and> jaFingerprint artifact \<noteq> [] \<and> 0 < jaSizeBytes artifact)
            (ErrorText ''join state requires a staged artifact'')) (\<lambda>_.
          and_then (ensure ((jxStage value \<noteq> Some []) = rejected_state)
            (ErrorText ''join verification result does not match its state'')) (\<lambda>_.
          if published then
            ensure (case jxPublished value of None \<Rightarrow> False | Some p \<Rightarrow> validPublishedArtifact l artifact p)
              (ErrorText ''published join lacks valid destination evidence'')
          else ensure (jxPublished value = None)
            (ErrorText ''unpublished join contains destination evidence''))))"

definition requireJoinBeforeImport :: "'b join_library \<Rightarrow> join_execution \<Rightarrow> bool \<Rightarrow> bool \<Rightarrow> go_error + unit" where
  "requireJoinBeforeImport l value rejected_state published =
     and_then (requireJoinArtifact l value rejected_state published) (\<lambda>_.
     ensure (jxImport value = None \<and> jxConfirmation value = None)
       (ErrorText ''join state contains unexpected Radarr import evidence''))"

definition validateStoredJoinImport :: "join_import \<Rightarrow> gotime \<Rightarrow> gotime \<Rightarrow> go_error + unit" where
  "validateStoredJoinImport value executionPreparedAt updatedAt =
     ensure (command_complete (jiCommand value) \<and> 0 \<le> jiHistoryIDBefore value \<and> jiPreparedAt value \<noteq> zero_time \<and>
         executionPreparedAt \<le> jiPreparedAt value \<and> jiPreparedAt value \<le> updatedAt \<and>
         (\<forall>i \<in> set_option (jiCommandID value). 0 < i))
       (ErrorText ''stored Radarr import is invalid'')"

definition requireJoinImport :: "'b join_library \<Rightarrow> join_execution \<Rightarrow> bool \<Rightarrow> bool \<Rightarrow> go_error + unit" where
  "requireJoinImport l value commandRequired confirmationRequired =
     and_then (requireJoinArtifact l value False True) (\<lambda>_.
     (case jxImport value of
        None \<Rightarrow> Inl (ErrorText ''joined-file import lacks its Radarr request'')
      | Some joinImport \<Rightarrow>
          and_then (validateStoredJoinImport joinImport (jxPreparedAt value) (jxUpdatedAt value)) (\<lambda>_.
          and_then (ensure (\<not> (commandRequired \<and> jiCommandID joinImport = None))
            (ErrorText ''joined-file import requires a Radarr command ID'')) (\<lambda>_.
          and_then (ensure (\<not> (jxState value = JoinImportPrepared \<and> jiCommandID joinImport \<noteq> None))
            (ErrorText ''prepared Radarr import contains a command ID'')) (\<lambda>_.
          if confirmationRequired then
            (case jxConfirmation value of
               None \<Rightarrow> Inl (ErrorText ''joined-file import lacks confirmation evidence'')
             | Some confirmation \<Rightarrow>
                 and_then (validateRadarrImportConfirmation confirmation) (\<lambda>_.
                 ensure (cnMovieID confirmation = cfMovieID (icFile (jiCommand joinImport)) \<and>
                     cnDownloadID confirmation = cfDownloadID (icFile (jiCommand joinImport)) \<and>
                     cnDroppedPath confirmation = cfPath (icFile (jiCommand joinImport)) \<and>
                     jiHistoryIDBefore joinImport < cnHistoryID confirmation)
                   (ErrorText ''Radarr import confirmation does not match the joined file'')))
          else ensure (jxConfirmation value = None)
            (ErrorText ''unconfirmed joined-file import contains confirmation evidence''))))))"

text \<open>The part of the validation that depends on the state, after staging.\<close>

definition validate_join_state :: "'b join_library \<Rightarrow> join_execution \<Rightarrow> go_error + unit" where
  "validate_join_state l value =
     (case jxState value of
        JoinPrepared \<Rightarrow> Inl (ErrorText (''unknown join execution state '' @ quote (join_state_text JoinPrepared)))
      | JoinArtifactReady \<Rightarrow> requireJoinBeforeImport l value False False
      | JoinDiscardPending \<Rightarrow> requireJoinBeforeImport l value True False
      | JoinDiscarded \<Rightarrow> requireJoinBeforeImport l value True False
      | JoinPublished \<Rightarrow> requireJoinBeforeImport l value False True
      | JoinImportPrepared \<Rightarrow> requireJoinImport l value False False
      | JoinImportRequested \<Rightarrow> requireJoinImport l value True False
      | JoinImported \<Rightarrow> requireJoinImport l value False True
      | JoinImportFailed \<Rightarrow> requireJoinImport l value True False
      | JoinFailed \<Rightarrow>
          (case jxFailure value of
             None \<Rightarrow> Inl (ErrorText ''failed join lacks failure evidence'')
           | Some failure \<Rightarrow>
               if jfOperation failure = StageJoinV1 then
                 ensure (jxArtifact value = None \<and> jxPublished value = None \<and> jxStage value \<noteq> Some [] \<and>
                     jxImport value = None \<and> jxConfirmation value = None)
                   (ErrorText ''failed staging record is inconsistent'')
               else if jfOperation failure = PublishV1 then requireJoinBeforeImport l value False False
               else if jfOperation failure = DiscardV1 then requireJoinBeforeImport l value True False
               else Inr ())
      | OtherJoinState s \<Rightarrow> Inl (ErrorText (''unknown join execution state '' @ quote s)))"

definition validateJoinExecution :: "'b join_library \<Rightarrow> join_execution \<Rightarrow> go_error + unit" where
  "validateJoinExecution l value =
     (if jxVersion value \<noteq> JoinExecutionVersionV2
      then Inl (ErrorText (''unsupported join execution version '' @ quote (jxVersion value)))
      else
        and_then (caseDigest (ajCaseID (jxAuthorization value))) (\<lambda>_.
        and_then (validateJoinAuthorizationShape l (jxAuthorization value)) (\<lambda>_.
        and_then (current_id l (jxAuthorization value)) (\<lambda>executionID.
        and_then (legacy_id l (jxAuthorization value)) (\<lambda>legacyExecutionID.
        and_then (ensure (jxExecutionID value = executionID \<or> jxExecutionID value = legacyExecutionID)
          (ErrorText ''join execution ID does not match its authorization'')) (\<lambda>_.
        and_then (ensure (jxPreparedAt value \<noteq> zero_time \<and> jxUpdatedAt value \<noteq> zero_time \<and>
            jxPreparedAt value \<le> jxUpdatedAt value) (ErrorText ''join execution times are invalid'')) (\<lambda>_.
        if jxState value = JoinPrepared then
          ensure (jxStage value = None \<and> jxArtifact value = None \<and> jxPublished value = None \<and>
              jxFailure value = None \<and> jxImport value = None \<and> jxConfirmation value = None)
            (ErrorText ''prepared join contains result evidence'')
        else
          and_then (ensure (jxStage value \<noteq> None) (ErrorText ''join result lacks stage verification'')) (\<lambda>_.
          and_then (ensure (\<not> (jxState value = JoinFailed \<and> jxFailure value = None))
            (ErrorText ''failed join lacks failure evidence'')) (\<lambda>_.
          and_then (ensure (\<not> (jxState value \<noteq> JoinFailed \<and> jxFailure value \<noteq> None))
            (ErrorText ''non-failed join contains failure evidence'')) (\<lambda>_.
          and_then (case jxFailure value of None \<Rightarrow> Inr () | Some failure \<Rightarrow> validateJoinFailure l failure) (\<lambda>_.
          validate_join_state l value)))))))))))"

definition EncodeJoinExecution :: "'b join_library \<Rightarrow> join_execution \<Rightarrow> go_error + 'b" where
  "EncodeJoinExecution l = encode_valid (jlCodec l) (validateJoinExecution l) ''join execution''"

definition DecodeJoinExecution :: "'b join_library \<Rightarrow> 'b \<Rightarrow> go_error + join_execution" where
  "DecodeJoinExecution l = decode_valid (jlCodec l) (validateJoinExecution l) ''join execution''"

definition join_kind :: "'b join_library \<Rightarrow> (join_execution, 'b) execution_kind" where
  "join_kind l =
     \<lparr>xkReadText = ''read join execution: '', xkValidateText = ''validate stored join execution: '',
      xkNoTime = ''join update time is required'',
      xkMissing = (\<lambda>caseID. ''join for case '' @ quote caseID @ '' is not prepared''),
      xkWrongCase = (\<lambda>caseID. ''stored join execution has unexpected case ID '' @ quote caseID),
      xkBackwards = ''join update time moved backwards'',
      xkCaseID = (\<lambda>value. ajCaseID (jxAuthorization value)), xkUpdatedAt = jxUpdatedAt,
      xkTouch = (\<lambda>t value. value\<lparr>jxUpdatedAt := t\<rparr>),
      xkEncode = EncodeJoinExecution l, xkDecode = DecodeJoinExecution l\<rparr>"

end
