(* ===== verification/Case_Join_Operations.thy ===== *)
theory Case_Join_Operations
  imports Case_Joins
begin

text \<open>
  The operations on the execution of a join (\<open>casestore/join_execution.go\<close>, \<open>join_import_execution.go\<close>).
  Each change of a record is a function of its own, applied by \<open>execution_update\<close>; a dereferenced nil
  pointer is the answer \<open>None\<close>.
\<close>

section \<open>Staging, publishing, discarding\<close>

definition GetJoinExecution ::
  "'b join_library \<Rightarrow> 'b host \<Rightarrow> string \<Rightarrow> 'b directory \<Rightarrow> go_error + join_execution option" where
  "GetJoinExecution l h caseID dir =
     execution_get (join_kind l) h ''stored join execution has unexpected case ID '' caseID dir"

definition validateJoinAuthorization ::
  "('v, 'b) case_contracts \<Rightarrow> 'b case_hosts \<Rightarrow> authorized_join \<Rightarrow> 'b case_files \<Rightarrow> unit answer" where
  "validateJoinAuthorization c hs authorized files =
     (case GetExecutionPlan c hs (ajCaseID authorized) files of
        Inl e \<Rightarrow> Some (Inl e)
      | Inr planned \<Rightarrow>
          map_option (\<lambda>validation. ensure (join_accepted validation \<and> jvAuthorized validation = Some authorized)
            (ErrorText ''join authorization does not match stored case and decision''))
            (ValidateJoin (pcAssembly planned) (pcDecision planned)))"

definition or_panic ::
  "'a answer \<Rightarrow> 'b directory \<Rightarrow> ('a \<Rightarrow> 'c answer \<times> 'b directory) \<Rightarrow> 'c answer \<times> 'b directory" where
  "or_panic r dir f = (case r of None \<Rightarrow> (None, dir) | Some r \<Rightarrow> or_stop r dir f)"

definition PrepareJoin ::
  "('v, 'b) case_contracts \<Rightarrow> 'b join_library \<Rightarrow> 'b case_hosts \<Rightarrow> authorized_join \<Rightarrow> gotime
     \<Rightarrow> 'b case_files \<Rightarrow> (join_execution \<times> bool) answer \<times> 'b directory" where
  "PrepareJoin c l hs authorized preparedAt files =
     (let dir = sdExecutions files in
      or_stop (ensure (preparedAt \<noteq> zero_time) (ErrorText ''join preparation time is required'')) dir (\<lambda>_.
      or_stop (digest_file (ajCaseID authorized)) dir (\<lambda>name.
      or_stop (case_lock hs) dir (\<lambda>_.
      or_panic (validateJoinAuthorization c hs authorized files) dir (\<lambda>_.
      execution_prepare (join_kind l) (chExecutions hs) name
        (\<lambda>previous. and_then (ensure (jxAuthorization previous = authorized)
           (ErrorText (''case '' @ quote (ajCaseID authorized) @ '' is already bound to a different join'')))
           (\<lambda>_. Inr (JoinExecutionNeedsRecheck l previous)))
        (and_then (current_id l authorized) (\<lambda>executionID.
           Inr \<lparr>jxVersion = JoinExecutionVersionV2, jxExecutionID = executionID, jxAuthorization = authorized,
             jxState = JoinPrepared, jxPreparedAt = preparedAt, jxUpdatedAt = preparedAt, jxStage = None,
             jxArtifact = None, jxPublished = None, jxFailure = None, jxImport = None, jxConfirmation = None\<rparr>))
        dir)))))"

definition updateJoinExecution ::
  "'b join_library \<Rightarrow> 'b case_hosts \<Rightarrow> string \<Rightarrow> gotime \<Rightarrow> (join_execution \<Rightarrow> (join_execution \<times> bool) answer)
     \<Rightarrow> 'b directory \<Rightarrow> (join_execution \<times> bool) answer \<times> 'b directory" where
  "updateJoinExecution l hs = execution_update (join_kind l) (case_lock hs) (chExecutions hs)"

record join_outcome =
  joState :: join_execution_state
  joStage :: "string list"
  joArtifact :: "join_artifact option"
  joFailure :: "join_failure option"

definition joinRejectionReasons :: "stage_validation \<Rightarrow> string list" where
  "joinRejectionReasons validation = map rejection_text (svRejections validation)"

definition hasJoinRejection :: "stage_validation \<Rightarrow> verification_reason \<Rightarrow> bool" where
  "hasJoinRejection validation want \<longleftrightarrow> list_ex (\<lambda>reason. reason = want) (svRejections validation)"

definition joinStageOutcome :: "stage_response \<Rightarrow> stage_validation \<Rightarrow> join_outcome answer" where
  "joinStageOutcome response validation =
     (let stage = joinRejectionReasons validation in
      if orKind response = ProbeResponseFailed then
        map_option (\<lambda>failure. Inr \<lparr>joState = JoinFailed, joStage = stage, joArtifact = None,
            joFailure = Some \<lparr>jfOperation = StageJoinV1, jfReason = ofReason failure\<rparr>\<rparr>) (orFailure response)
      else Some (case orSuccess response of
          None \<Rightarrow> Inl (ErrorText ''successful staged join lacks an artifact'')
        | Some success \<Rightarrow>
            let artifact = \<lparr>jaID = asuArtifactID success, jaFingerprint = asuArtifactFingerprint success,
                  jaSizeBytes = asuSizeBytes success\<rparr>
            in if stage_accepted validation then
                 Inr \<lparr>joState = JoinArtifactReady, joStage = stage, joArtifact = Some artifact, joFailure = None\<rparr>
               else if svDiscard validation \<noteq> None then
                 Inr \<lparr>joState = JoinDiscardPending, joStage = stage, joArtifact = Some artifact, joFailure = None\<rparr>
               else Inl (ErrorText ''staged join produced neither publish nor discard authorization'')))"

definition record_stage ::
  "authorized_join \<Rightarrow> string \<Rightarrow> join_outcome \<Rightarrow> join_execution \<Rightarrow> (join_execution \<times> bool) answer" where
  "record_stage authorized executionID outcome previous = Some
     (if jxAuthorization previous \<noteq> authorized \<or> executionID \<noteq> jxExecutionID previous
      then Inl (ErrorText ''staged join does not match the prepared operation'')
      else if jxStage previous \<noteq> None then
        (if jxStage previous = Some (joStage outcome) \<and> jxArtifact previous = joArtifact outcome \<and>
           (joState outcome \<noteq> JoinFailed \<or> jxFailure previous = joFailure outcome)
         then Inr (previous, False)
         else Inl (ErrorText ''join already has a different staged result''))
      else if jxState previous \<noteq> JoinPrepared
      then Inl (ErrorText (''cannot record staged join from state '' @ quote (join_state_text (jxState previous))))
      else Inr (previous\<lparr>jxState := joState outcome, jxStage := Some (joStage outcome),
        jxArtifact := joArtifact outcome, jxFailure := joFailure outcome\<rparr>, True))"

definition RecordJoinStage ::
  "'b join_library \<Rightarrow> 'b case_hosts \<Rightarrow> authorized_join \<Rightarrow> stage_join_request \<Rightarrow> stage_response \<Rightarrow> gotime
     \<Rightarrow> 'b directory \<Rightarrow> (join_execution \<times> bool) answer \<times> 'b directory" where
  "RecordJoinStage l hs authorized request response updatedAt dir =
     or_stop (wrap_error ''encode staged join request: '' (wsStageRequest (jlSchemas l) request)) dir (\<lambda>_.
     or_stop (wrap_error ''encode staged join response: '' (EncodeStageJoinResponse (jlSchemas l) response)) dir (\<lambda>_.
     let validation = ValidateStagedJoin (jlSchemas l) (jlSha256 l) authorized request response in
     or_stop (ensure (\<not> hasJoinRejection validation StageRequestNotAuthorized \<and>
         \<not> hasJoinRejection validation StageResponseNotCorrelated)
       (ErrorText ''staged join exchange does not match its authorization'')) dir (\<lambda>_.
     or_panic (joinStageOutcome response validation) dir (\<lambda>outcome.
     updateJoinExecution l hs (ajCaseID authorized) updatedAt
       (record_stage authorized (rqExecutionID request) outcome) dir))))"

definition artifact_matches :: "join_artifact \<Rightarrow> 'x artifact_success_scheme option \<Rightarrow> bool" where
  "artifact_matches artifact success \<longleftrightarrow>
     (case success of None \<Rightarrow> False | Some s \<Rightarrow>
        asuArtifactID s = jaID artifact \<and> asuArtifactFingerprint s = jaFingerprint artifact)"

definition publishedArtifactMatches :: "join_artifact \<Rightarrow> publish_response \<Rightarrow> bool" where
  "publishedArtifactMatches artifact response = artifact_matches artifact (orSuccess response)"

definition discardedArtifactMatches :: "join_artifact \<Rightarrow> discard_response \<Rightarrow> bool" where
  "discardedArtifactMatches artifact response = artifact_matches artifact (orSuccess response)"

definition publishedResultMatches :: "join_execution \<Rightarrow> publish_response \<Rightarrow> bool" where
  "publishedResultMatches value response \<longleftrightarrow>
     (case (jxArtifact value, jxPublished value, orSuccess response) of
        (Some artifact, Some published, Some success) \<Rightarrow>
          publishedArtifactMatches artifact response \<and> asuRootID success = jpRootID published \<and>
          asuPathComponents success = jpPathComponents published
      | _ \<Rightarrow> False)"

definition repeatedJoinFailure :: "join_execution \<Rightarrow> string \<Rightarrow> operation_failure option \<Rightarrow> bool" where
  "repeatedJoinFailure previous operation answered \<longleftrightarrow>
     jxState previous = JoinFailed \<and>
     (case jxFailure previous of None \<Rightarrow> False | Some failure \<Rightarrow>
        jfOperation failure = operation \<and>
        (case answered of None \<Rightarrow> False | Some a \<Rightarrow> jfReason failure = ofReason a))"

definition record_publish :: "publish_response \<Rightarrow> join_execution \<Rightarrow> (join_execution \<times> bool) answer" where
  "record_publish response previous =
     (if jxState previous = JoinPublished then Some
        (if orKind response = ProbeResponseSucceeded \<and> publishedResultMatches previous response
         then Inr (previous, False)
         else Inl (ErrorText ''join already has a different publish result''))
      else if repeatedJoinFailure previous PublishV1 (orFailure response) then Some (Inr (previous, False))
      else case (jxState previous, jxArtifact previous) of
        (JoinArtifactReady, Some artifact) \<Rightarrow>
          if orKind response = ProbeResponseFailed then
            map_option (\<lambda>failure. Inr (previous\<lparr>jxState := JoinFailed,
              jxFailure := Some \<lparr>jfOperation = PublishV1, jfReason = ofReason failure\<rparr>\<rparr>, True)) (orFailure response)
          else if \<not> publishedArtifactMatches artifact response
          then Some (Inl (ErrorText ''published artifact does not match the verified artifact''))
          else map_option (\<lambda>success. Inr (previous\<lparr>jxState := JoinPublished,
            jxPublished := Some \<lparr>jpRootID = asuRootID success, jpPathComponents = asuPathComponents success\<rparr>\<rparr>, True))
            (orSuccess response)
      | _ \<Rightarrow> Some (Inl (ErrorText (''cannot publish join from state '' @
          quote (join_state_text (jxState previous))))))"

definition RecordJoinPublish ::
  "'b join_library \<Rightarrow> 'b case_hosts \<Rightarrow> string \<Rightarrow> publish_response \<Rightarrow> gotime \<Rightarrow> 'b directory
     \<Rightarrow> (join_execution \<times> bool) answer \<times> 'b directory" where
  "RecordJoinPublish l hs caseID response updatedAt dir =
     or_stop (wrap_error ''encode join publish response: '' (EncodePublishResponse (jlSchemas l) response)) dir (\<lambda>_.
     updateJoinExecution l hs caseID updatedAt (record_publish response) dir)"

definition record_discard :: "discard_response \<Rightarrow> join_execution \<Rightarrow> (join_execution \<times> bool) answer" where
  "record_discard response previous =
     (if jxState previous = JoinDiscarded then
        (if orKind response \<noteq> ProbeResponseSucceeded
         then Some (Inl (ErrorText ''join already has a different discard result''))
         else map_option (\<lambda>artifact. if discardedArtifactMatches artifact response then Inr (previous, False)
           else Inl (ErrorText ''join already has a different discard result'')) (jxArtifact previous))
      else if repeatedJoinFailure previous DiscardV1 (orFailure response) then Some (Inr (previous, False))
      else case (jxState previous, jxArtifact previous) of
        (JoinDiscardPending, Some artifact) \<Rightarrow>
          if orKind response = ProbeResponseFailed then
            map_option (\<lambda>failure. Inr (previous\<lparr>jxState := JoinFailed,
              jxFailure := Some \<lparr>jfOperation = DiscardV1, jfReason = ofReason failure\<rparr>\<rparr>, True)) (orFailure response)
          else Some (if \<not> discardedArtifactMatches artifact response
            then Inl (ErrorText ''discarded artifact does not match the rejected artifact'')
            else Inr (previous\<lparr>jxState := JoinDiscarded\<rparr>, True))
      | _ \<Rightarrow> Some (Inl (ErrorText (''cannot discard join from state '' @
          quote (join_state_text (jxState previous))))))"

definition RecordJoinDiscard ::
  "'b join_library \<Rightarrow> 'b case_hosts \<Rightarrow> string \<Rightarrow> discard_response \<Rightarrow> gotime \<Rightarrow> 'b directory
     \<Rightarrow> (join_execution \<times> bool) answer \<times> 'b directory" where
  "RecordJoinDiscard l hs caseID response updatedAt dir =
     or_stop (wrap_error ''encode join discard response: '' (EncodeDiscardResponse (jlSchemas l) response)) dir (\<lambda>_.
     updateJoinExecution l hs caseID updatedAt (record_discard response) dir)"

section \<open>Importing the joined file\<close>

record join_import_request =
  jqCommand :: import_command
  jqHistoryIDBefore :: int

definition validateJoinImportRequest ::
  "('v, 'b) case_contracts \<Rightarrow> 'b case_hosts \<Rightarrow> string \<Rightarrow> join_import_request \<Rightarrow> 'b case_files \<Rightarrow> go_error + unit" where
  "validateJoinImportRequest c hs caseID request files =
     and_then (ensure (command_complete (jqCommand request) \<and> 0 \<le> jqHistoryIDBefore request)
       (ErrorText ''Radarr import request is invalid'')) (\<lambda>_.
     and_then (GetPlannedCase c hs caseID files) (\<lambda>planned.
     let observation = lsObservation (asLocalSnapshot (pcAssembly planned));
         queue = crRadarr (obCorrelation observation);
         mismatch = Inl (ErrorText ''Radarr import does not match the stored case'')
     in (case (obMovie observation, qrMovieID queue) of
           (Some movie, Some movieID) \<Rightarrow>
             if mvID movie \<noteq> movieID then mismatch
             else if BuildRadarrPublishedFileImport (cfPath (icFile (jqCommand request))) (mvID movie)
                 (qrDownloadID queue) (obHistory observation) = Some (jqCommand request)
             then Inr () else mismatch
         | _ \<Rightarrow> mismatch)))"

definition sameJoinImportRequest :: "join_import \<Rightarrow> join_import_request \<Rightarrow> bool" where
  "sameJoinImportRequest value request \<longleftrightarrow> jiCommand value = jqCommand request"

definition prepare_join_import ::
  "join_import_request \<Rightarrow> gotime \<Rightarrow> join_execution \<Rightarrow> (join_execution \<times> bool) answer" where
  "prepare_join_import request preparedAt previous = Some
     (case jxImport previous of
        Some joinImport \<Rightarrow>
          if sameJoinImportRequest joinImport request then Inr (previous, False)
          else Inl (ErrorText ''join is already bound to a different Radarr import'')
      | None \<Rightarrow>
          if jxState previous \<noteq> JoinPublished
          then Inl (ErrorText (''cannot prepare Radarr import from state '' @
            quote (join_state_text (jxState previous))))
          else Inr (previous\<lparr>jxState := JoinImportPrepared,
            jxImport := Some \<lparr>jiCommand = jqCommand request, jiHistoryIDBefore = jqHistoryIDBefore request,
              jiPreparedAt = preparedAt, jiCommandID = None\<rparr>\<rparr>, True))"

text \<open>The stored case is read before the lock is taken: \<open>seen\<close> are the directories at that time.\<close>

definition PrepareJoinImport ::
  "('v, 'b) case_contracts \<Rightarrow> 'b join_library \<Rightarrow> 'b case_hosts \<Rightarrow> 'b case_files \<Rightarrow> string \<Rightarrow> join_import_request
     \<Rightarrow> gotime \<Rightarrow> 'b directory \<Rightarrow> (join_execution \<times> bool) answer \<times> 'b directory" where
  "PrepareJoinImport c l hs seen caseID request preparedAt dir =
     or_stop (validateJoinImportRequest c hs caseID request seen) dir (\<lambda>_.
     updateJoinExecution l hs caseID preparedAt (prepare_join_import request preparedAt) dir)"

definition request_join_import :: "int \<Rightarrow> join_execution \<Rightarrow> (join_execution \<times> bool) answer" where
  "request_join_import commandID previous = Some
     (if jxState previous = JoinImportPrepared then
        (case jxImport previous of
           None \<Rightarrow> Inl (ErrorText ''prepared Radarr import is missing'')
         | Some joinImport \<Rightarrow> Inr (previous\<lparr>jxState := JoinImportRequested,
             jxImport := Some (joinImport\<lparr>jiCommandID := Some commandID\<rparr>)\<rparr>, True))
      else if jxState previous = JoinImportRequested then
        (if Option.bind (jxImport previous) jiCommandID = Some commandID then Inr (previous, False)
         else Inl (ErrorText ''Radarr import is already bound to a different command''))
      else Inl (ErrorText (''cannot request Radarr import from state '' @
        quote (join_state_text (jxState previous)))))"

definition MarkJoinImportRequested ::
  "'b join_library \<Rightarrow> 'b case_hosts \<Rightarrow> string \<Rightarrow> int \<Rightarrow> gotime \<Rightarrow> 'b directory
     \<Rightarrow> (join_execution \<times> bool) answer \<times> 'b directory" where
  "MarkJoinImportRequested l hs caseID commandID updatedAt dir =
     or_stop (ensure (0 < commandID) (ErrorText ''Radarr command ID must be positive'')) dir (\<lambda>_.
     updateJoinExecution l hs caseID updatedAt (request_join_import commandID) dir)"

definition confirm_join_import :: "imported_file \<Rightarrow> join_execution \<Rightarrow> (join_execution \<times> bool) answer" where
  "confirm_join_import imported previous = Some
     (let confirmation = radarrImportConfirmation imported;
          mismatch = Inl (ErrorText ''Radarr import confirmation does not match the joined file'')
      in case jxImport previous of
           None \<Rightarrow> mismatch
         | Some joinImport \<Rightarrow>
             if imMovieID imported \<noteq> cfMovieID (icFile (jiCommand joinImport)) \<or>
               imDownloadID imported \<noteq> cfDownloadID (icFile (jiCommand joinImport)) \<or>
               imDroppedPath imported \<noteq> cfPath (icFile (jiCommand joinImport)) then mismatch
             else if jxState previous = JoinImportPrepared \<or> jxState previous = JoinImportRequested then
               (if cnHistoryID confirmation \<le> jiHistoryIDBefore joinImport
                then Inl (ErrorText ''Radarr import confirmation predates the request'')
                else Inr (previous\<lparr>jxState := JoinImported, jxConfirmation := Some confirmation\<rparr>, True))
             else if jxState previous = JoinImported then
               (if jxConfirmation previous = Some confirmation then Inr (previous, False)
                else Inl (ErrorText ''joined file is already bound to different import evidence''))
             else Inl (ErrorText (''cannot mark joined file imported from state '' @
               quote (join_state_text (jxState previous)))))"

definition MarkJoinImported ::
  "'b join_library \<Rightarrow> 'b case_hosts \<Rightarrow> string \<Rightarrow> imported_file \<Rightarrow> gotime \<Rightarrow> 'b directory
     \<Rightarrow> (join_execution \<times> bool) answer \<times> 'b directory" where
  "MarkJoinImported l hs caseID imported updatedAt dir =
     or_stop (validateRadarrImportConfirmation (radarrImportConfirmation imported)) dir (\<lambda>_.
     updateJoinExecution l hs caseID updatedAt (confirm_join_import imported) dir)"

definition fail_join_import :: "join_execution \<Rightarrow> (join_execution \<times> bool) answer" where
  "fail_join_import previous = Some
     (if jxState previous = JoinImportRequested then Inr (previous\<lparr>jxState := JoinImportFailed\<rparr>, True)
      else if jxState previous = JoinImportFailed then Inr (previous, False)
      else Inl (ErrorText (''cannot mark joined-file import failed from state '' @
        quote (join_state_text (jxState previous)))))"

definition MarkJoinImportFailed ::
  "'b join_library \<Rightarrow> 'b case_hosts \<Rightarrow> string \<Rightarrow> gotime \<Rightarrow> 'b directory
     \<Rightarrow> (join_execution \<times> bool) answer \<times> 'b directory" where
  "MarkJoinImportFailed l hs caseID updatedAt dir = updateJoinExecution l hs caseID updatedAt fail_join_import dir"

end
