(* ===== verification/Case_Join_Life.thy ===== *)
theory Case_Join_Life
  imports Case_Join_Operations
begin

text \<open>
  The life of the record of a join: \<open>join_moves\<close> lists the only ways in which a stored record changes,
  each with what must have been established before, and every operation keeps to it under any fault of
  the host.
\<close>

section \<open>Moves\<close>

text \<open>What the store is told of a join: by the worker, by the operation that imports it, by Radarr.\<close>

datatype join_report =
    StageReport authorized_join stage_join_request stage_response
  | PublishReport string publish_response
  | DiscardReport string discard_response
  | ImportReport string join_import_request
  | CommandReport string int
  | ConfirmReport string imported_file
  | FailReport string

abbreviation join_case :: "join_execution \<Rightarrow> string" where
  "join_case p \<equiv> ajCaseID (jxAuthorization p)"

text \<open>An answer of the worker to a request for the execution and the authorization of the record.\<close>

definition staged_for ::
  "'b join_library \<Rightarrow> join_execution \<Rightarrow> stage_join_request \<Rightarrow> stage_response \<Rightarrow> bool" where
  "staged_for l p request response \<longleftrightarrow>
     rqExecutionID request = jxExecutionID p \<and>
     requestMatchesAuthorization (jlSha256 l) request (jxAuthorization p) \<and>
     stage_RequestID response = rqRequestID request"

definition staged_file :: "stage_success \<Rightarrow> join_artifact" where
  "staged_file success = \<lparr>jaID = asuArtifactID success, jaFingerprint = asuArtifactFingerprint success,
     jaSizeBytes = asuSizeBytes success\<rparr>"

text \<open>What is wrong with a staged file.\<close>

definition staged_faults :: "join_execution \<Rightarrow> stage_success \<Rightarrow> verification_reason list" where
  "staged_faults p success = ValidateOutput (jxAuthorization p) (asuEvidence success) (asuSizeBytes success)"

definition published_place :: "publish_success \<Rightarrow> join_published" where
  "published_place success = \<lparr>jpRootID = asuRootID success, jpPathComponents = asuPathComponents success\<rparr>"

text \<open>An event of Radarr about the file of the import, after the request.\<close>

definition confirms_import :: "join_import \<Rightarrow> imported_file \<Rightarrow> bool" where
  "confirms_import m imported \<longleftrightarrow>
     imMovieID imported = cfMovieID (icFile (jiCommand m)) \<and>
     imDownloadID imported = cfDownloadID (icFile (jiCommand m)) \<and>
     imDroppedPath imported = cfPath (icFile (jiCommand m)) \<and> jiHistoryIDBefore m < imHistoryID imported"

text \<open>\<open>told\<close> are the reports that were made to the store.\<close>

inductive join_moves :: "'b join_library \<Rightarrow> (join_report \<Rightarrow> bool) \<Rightarrow> join_execution \<Rightarrow> join_execution \<Rightarrow> bool"
  for l :: "'b join_library" and told :: "join_report \<Rightarrow> bool" where
  ready: "jxState p = JoinPrepared \<Longrightarrow> told (StageReport (jxAuthorization p) request response) \<Longrightarrow>
    staged_for l p request response \<Longrightarrow> orSuccess response = Some success \<Longrightarrow> staged_faults p success = [] \<Longrightarrow>
    join_moves l told p (p\<lparr>jxState := JoinArtifactReady, jxStage := Some [],
      jxArtifact := Some (staged_file success), jxFailure := None, jxUpdatedAt := t\<rparr>)"
| to_discard: "jxState p = JoinPrepared \<Longrightarrow> told (StageReport (jxAuthorization p) request response) \<Longrightarrow>
    staged_for l p request response \<Longrightarrow> orSuccess response = Some success \<Longrightarrow> staged_faults p success \<noteq> [] \<Longrightarrow>
    join_moves l told p (p\<lparr>jxState := JoinDiscardPending, jxStage := Some (map rejection_text (staged_faults p success)),
      jxArtifact := Some (staged_file success), jxFailure := None, jxUpdatedAt := t\<rparr>)"
| not_staged: "jxState p = JoinPrepared \<Longrightarrow> told (StageReport (jxAuthorization p) request response) \<Longrightarrow>
    staged_for l p request response \<Longrightarrow> orFailure response = Some failure \<Longrightarrow>
    join_moves l told p (p\<lparr>jxState := JoinFailed, jxStage := Some [rejection_text StageFailed], jxArtifact := None,
      jxFailure := Some \<lparr>jfOperation = StageJoinV1, jfReason = ofReason failure\<rparr>, jxUpdatedAt := t\<rparr>)"
| published: "jxState p = JoinArtifactReady \<Longrightarrow> told (PublishReport (join_case p) response) \<Longrightarrow>
    jxArtifact p = Some artifact \<Longrightarrow> orSuccess response = Some success \<Longrightarrow> artifact_matches artifact (Some success) \<Longrightarrow>
    join_moves l told p (p\<lparr>jxState := JoinPublished, jxPublished := Some (published_place success), jxUpdatedAt := t\<rparr>)"
| not_published: "jxState p = JoinArtifactReady \<Longrightarrow> told (PublishReport (join_case p) response) \<Longrightarrow>
    orFailure response = Some failure \<Longrightarrow>
    join_moves l told p (p\<lparr>jxState := JoinFailed,
      jxFailure := Some \<lparr>jfOperation = PublishV1, jfReason = ofReason failure\<rparr>, jxUpdatedAt := t\<rparr>)"
| discarded: "jxState p = JoinDiscardPending \<Longrightarrow> told (DiscardReport (join_case p) response) \<Longrightarrow>
    jxArtifact p = Some artifact \<Longrightarrow> orSuccess response = Some success \<Longrightarrow> artifact_matches artifact (Some success) \<Longrightarrow>
    join_moves l told p (p\<lparr>jxState := JoinDiscarded, jxUpdatedAt := t\<rparr>)"
| not_discarded: "jxState p = JoinDiscardPending \<Longrightarrow> told (DiscardReport (join_case p) response) \<Longrightarrow>
    orFailure response = Some failure \<Longrightarrow>
    join_moves l told p (p\<lparr>jxState := JoinFailed,
      jxFailure := Some \<lparr>jfOperation = DiscardV1, jfReason = ofReason failure\<rparr>, jxUpdatedAt := t\<rparr>)"
| rechecked: "jxState p = JoinDiscarded \<Longrightarrow> current_id l (jxAuthorization p) = Inr i \<Longrightarrow> jxExecutionID p \<noteq> i \<Longrightarrow>
    join_moves l told p \<lparr>jxVersion = JoinExecutionVersionV2, jxExecutionID = i, jxAuthorization = jxAuthorization p,
      jxState = JoinPrepared, jxPreparedAt = t, jxUpdatedAt = t, jxStage = None, jxArtifact = None,
      jxPublished = None, jxFailure = None, jxImport = None, jxConfirmation = None\<rparr>"
| import_prepared: "jxState p = JoinPublished \<Longrightarrow> told (ImportReport (join_case p) request) \<Longrightarrow>
    command_complete (jqCommand request) \<Longrightarrow> 0 \<le> jqHistoryIDBefore request \<Longrightarrow>
    join_moves l told p (p\<lparr>jxState := JoinImportPrepared, jxImport := Some \<lparr>jiCommand = jqCommand request,
      jiHistoryIDBefore = jqHistoryIDBefore request, jiPreparedAt = t, jiCommandID = None\<rparr>, jxUpdatedAt := t\<rparr>)"
| import_requested: "jxState p = JoinImportPrepared \<Longrightarrow> told (CommandReport (join_case p) commandID) \<Longrightarrow>
    jxImport p = Some m \<Longrightarrow> 0 < commandID \<Longrightarrow>
    join_moves l told p (p\<lparr>jxState := JoinImportRequested, jxImport := Some (m\<lparr>jiCommandID := Some commandID\<rparr>),
      jxUpdatedAt := t\<rparr>)"
| import_confirmed: "jxState p \<in> {JoinImportPrepared, JoinImportRequested} \<Longrightarrow>
    told (ConfirmReport (join_case p) imported) \<Longrightarrow> jxImport p = Some m \<Longrightarrow> confirms_import m imported \<Longrightarrow>
    validateRadarrImportConfirmation (radarrImportConfirmation imported) = Inr () \<Longrightarrow>
    join_moves l told p (p\<lparr>jxState := JoinImported, jxConfirmation := Some (radarrImportConfirmation imported),
      jxUpdatedAt := t\<rparr>)"
| import_failed: "jxState p = JoinImportRequested \<Longrightarrow> told (FailReport (join_case p)) \<Longrightarrow>
    join_moves l told p (p\<lparr>jxState := JoinImportFailed, jxUpdatedAt := t\<rparr>)"

fun join_state_rank :: "join_execution_state \<Rightarrow> nat" where
  "join_state_rank JoinPrepared = 5"
| "join_state_rank JoinArtifactReady = 4"
| "join_state_rank JoinDiscardPending = 4"
| "join_state_rank JoinPublished = 3"
| "join_state_rank JoinImportPrepared = 2"
| "join_state_rank JoinImportRequested = 1"
| "join_state_rank _ = 0"

text \<open>A record under an identity of an older version may be prepared once more.\<close>

definition join_rank :: "'b join_library \<Rightarrow> join_execution \<Rightarrow> nat" where
  "join_rank l e =
     join_state_rank (jxState e) + (if current_id l (jxAuthorization e) = Inr (jxExecutionID e) then 0 else 6)"

definition join_begins :: "'b join_library \<Rightarrow> (authorized_join \<Rightarrow> bool) \<Rightarrow> join_execution \<Rightarrow> bool" where
  "join_begins l allowed q \<longleftrightarrow>
     jxVersion q = JoinExecutionVersionV2 \<and> caseIDPattern (ajCaseID (jxAuthorization q)) \<and>
     allowed (jxAuthorization q) \<and> jxState q = JoinPrepared \<and>
     current_id l (jxAuthorization q) = Inr (jxExecutionID q)"

interpretation joins: execution_steps "join_kind l" "join_begins l allowed" "join_moves l told" "join_rank l"
  for l allowed told
proof unfold_locales
  show "caseIDPattern (xkCaseID (join_kind l) q)" if "join_begins l allowed q" for q
    using that by (simp add: join_begins_def join_kind_def)
  show "xkCaseID (join_kind l) q = xkCaseID (join_kind l) p" if "join_moves l told p q" for p q
    using that by cases (simp_all add: join_kind_def)
  show "join_rank l q < join_rank l p" if "join_moves l told p q" for p q
    using that by cases (auto simp: join_rank_def)
qed

lemma join_moves_mono:
  assumes "join_moves l told p q" "\<And>r. told r \<Longrightarrow> told' r"
  shows "join_moves l told' p q"
  using assms(1)
  by (induction rule: join_moves.induct) (blast intro: join_moves.intros assms(2))+

section \<open>What every move keeps\<close>

lemma join_moves_same:
  "join_moves l told p q \<Longrightarrow> jxAuthorization q = jxAuthorization p"
  by (erule join_moves.cases) simp_all

text \<open>
  What a record rests on: past its verification, an answer of the worker for this execution whose
  file has no fault; past its publication, an answer about that very file; at its end, an event of
  Radarr about the import.
\<close>

definition past_verification :: "join_execution_state \<Rightarrow> bool" where
  "past_verification s \<longleftrightarrow>
     s \<in> {JoinArtifactReady, JoinPublished, JoinImportPrepared, JoinImportRequested, JoinImported, JoinImportFailed}"

definition past_publication :: "join_execution_state \<Rightarrow> bool" where
  "past_publication s \<longleftrightarrow>
     s \<in> {JoinPublished, JoinImportPrepared, JoinImportRequested, JoinImported, JoinImportFailed}"

definition verified_record :: "'b join_library \<Rightarrow> (join_report \<Rightarrow> bool) \<Rightarrow> join_execution \<Rightarrow> bool" where
  "verified_record l told q \<longleftrightarrow>
     (\<exists>request response success. told (StageReport (jxAuthorization q) request response) \<and>
        staged_for l q request response \<and> orSuccess response = Some success \<and>
        jxArtifact q = Some (staged_file success) \<and>
        verified_output (jxAuthorization q) (asuEvidence success) (asuSizeBytes success))"

definition published_record :: "(join_report \<Rightarrow> bool) \<Rightarrow> join_execution \<Rightarrow> bool" where
  "published_record told q \<longleftrightarrow>
     (\<exists>response success artifact. told (PublishReport (join_case q) response) \<and> orSuccess response = Some success \<and>
        jxArtifact q = Some artifact \<and> artifact_matches artifact (Some success) \<and>
        jxPublished q = Some (published_place success))"

definition imported_record :: "(join_report \<Rightarrow> bool) \<Rightarrow> join_execution \<Rightarrow> bool" where
  "imported_record told q \<longleftrightarrow>
     (\<exists>imported m. told (ConfirmReport (join_case q) imported) \<and> jxImport q = Some m \<and>
        confirms_import m imported \<and> jxConfirmation q = Some (radarrImportConfirmation imported))"

definition join_grounded :: "'b join_library \<Rightarrow> (join_report \<Rightarrow> bool) \<Rightarrow> join_execution \<Rightarrow> bool" where
  "join_grounded l told q \<longleftrightarrow>
     (past_verification (jxState q) \<longrightarrow> verified_record l told q) \<and>
     (past_publication (jxState q) \<longrightarrow> published_record told q) \<and>
     (jxState q = JoinImported \<longrightarrow> imported_record told q)"

lemmas grounded_defs = join_grounded_def past_verification_def past_publication_def verified_record_def
  published_record_def imported_record_def staged_for_def

lemma join_moves_grounded:
  assumes "join_moves l told p q" "join_grounded l told p"
  shows "join_grounded l told q"
  using assms
proof cases
  case (ready request response success t)
  then have "verified_record l told q"
    by (auto simp: verified_record_def staged_for_def staged_faults_def ValidateOutput_Nil)
  with ready show ?thesis
    by (simp add: join_grounded_def past_publication_def)
next
  case (published response artifact success t)
  then have "published_record told q"
    by (auto simp: published_record_def)
  moreover have "verified_record l told q"
    using published assms(2) by (simp add: grounded_defs)
  ultimately show ?thesis
    using published by (simp add: join_grounded_def)
next
  case (import_confirmed imported m t)
  then have "imported_record told q"
    by (auto simp: imported_record_def)
  moreover have "verified_record l told q" "published_record told q"
    using import_confirmed assms(2) by (auto simp: grounded_defs)
  ultimately show ?thesis
    by (simp add: join_grounded_def)
qed (use assms(2) in \<open>simp_all add: grounded_defs\<close>)

lemma begun_grounded:
  assumes "(join_moves l told)\<^sup>*\<^sup>* p q" "join_begins l allowed p"
  shows "jxAuthorization q = jxAuthorization p \<and> join_grounded l told q"
  using assms
proof (induction rule: rtranclp_induct)
  case base
  then show ?case
    by (simp add: join_begins_def join_grounded_def past_verification_def past_publication_def)
next
  case (step q r)
  then show ?case
    using join_moves_same join_moves_grounded by metis
qed

section \<open>What the operations do\<close>

definition join_setting :: "'b join_library \<Rightarrow> 'b case_hosts \<Rightarrow> string \<Rightarrow> string \<Rightarrow> bool" where
  "join_setting l hs caseID name \<longleftrightarrow>
     json_law (jlCodec l) (validateJoinExecution l) \<and> host_ok (chExecutions hs) \<and> case_file caseID = Inr name"

lemma join_round_trip: "json_law (jlCodec l) (validateJoinExecution l) \<Longrightarrow> round_trip (join_kind l)"
  by (auto simp: round_trip_def join_kind_def EncodeJoinExecution_def DecodeJoinExecution_def intro: decode_encoded)

abbreviation join_effect where
  "join_effect l allowed told \<equiv> execution_effect (join_kind l) (join_begins l allowed) (join_moves l told)"

lemma or_panic_effect:
  assumes "\<And>a. r = Some (Inr a) \<Longrightarrow> execution_effect k begins follows name dir (f a)"
  shows "execution_effect k begins follows name dir (or_panic r dir f)"
  using assms by (cases r) (auto simp: or_panic_def panicked intro!: or_stop_effect)

lemma update_join_effect:
  assumes "join_setting l hs caseID name" "\<And>p q. change p = Some (Inr (q, False)) \<Longrightarrow> q = p"
    and "\<And>p q. change p = Some (Inr (q, True)) \<Longrightarrow> join_case p = caseID \<Longrightarrow>
      join_moves l told p (q\<lparr>jxUpdatedAt := t\<rparr>)"
  shows "join_effect l allowed told name dir (updateJoinExecution l hs caseID t change dir)"
proof -
  have "round_trip (join_kind l)" "host_ok (chExecutions hs)" "digest_file caseID = Inr name"
    using assms(1) join_round_trip by (auto simp: join_setting_def digest_file_Inr)
  then show ?thesis
    unfolding updateJoinExecution_def
    using assms(2,3) by (intro joins.update_follows) (auto simp: join_kind_def)
qed

lemma record_stage_changed:
  assumes "record_stage authorized i outcome p = Some (Inr (q, True))"
  shows "jxAuthorization p = authorized \<and> jxExecutionID p = i \<and> jxState p = JoinPrepared \<and>
    q = p\<lparr>jxState := joState outcome, jxStage := Some (joStage outcome), jxArtifact := joArtifact outcome,
      jxFailure := joFailure outcome\<rparr>"
  using assms by (auto simp: record_stage_def split: if_splits)

text \<open>What a correlated answer of the worker comes to.\<close>

lemma stage_exchange:
  assumes "wsStageRequest s request = Inr ()" "EncodeStageJoinResponse s response = Inr ()"
    and "\<not> hasJoinRejection (ValidateStagedJoin s sha authorized request response) StageRequestNotAuthorized"
    and "\<not> hasJoinRejection (ValidateStagedJoin s sha authorized request response) StageResponseNotCorrelated"
  shows "requestMatchesAuthorization sha request authorized" "stage_RequestID response = rqRequestID request"
  using assms
  by (auto simp: hasJoinRejection_def ValidateStagedJoin_def Let_def split: if_splits option.splits)

lemma stage_outcome_cases:
  assumes "wsStageRequest s request = Inr ()" "EncodeStageJoinResponse s response = Inr ()"
    and "requestMatchesAuthorization sha request authorized" "stage_RequestID response = rqRequestID request"
    and "joinStageOutcome response (ValidateStagedJoin s sha authorized request response) = Some (Inr outcome)"
  obtains (failed) failure where "orFailure response = Some failure"
      "outcome = \<lparr>joState = JoinFailed, joStage = [rejection_text StageFailed], joArtifact = None,
        joFailure = Some \<lparr>jfOperation = StageJoinV1, jfReason = ofReason failure\<rparr>\<rparr>"
    | (accepted) success where "orSuccess response = Some success"
      "ValidateOutput authorized (asuEvidence success) (asuSizeBytes success) = []"
      "outcome = \<lparr>joState = JoinArtifactReady, joStage = [],
        joArtifact = Some (staged_file success), joFailure = None\<rparr>"
    | (rejected) success where "orSuccess response = Some success"
      "ValidateOutput authorized (asuEvidence success) (asuSizeBytes success) \<noteq> []"
      "outcome = \<lparr>joState = JoinDiscardPending,
        joStage = map rejection_text (ValidateOutput authorized (asuEvidence success) (asuSizeBytes success)),
        joArtifact = Some (staged_file success), joFailure = None\<rparr>"
proof -
  consider (ok) success where
      "response = \<lparr>orKind = ProbeResponseSucceeded, orSuccess = Some success, orFailure = None\<rparr>"
    | (no) failure where "response = \<lparr>orKind = ProbeResponseFailed, orSuccess = None, orFailure = Some failure\<rparr>"
    using assms(2) unfolding EncodeStageJoinResponse_def encodeOperationResponse_Inr by blast
  then show thesis
  proof cases
    case ok
    then show thesis
      using assms accepted rejected
      by (auto simp: joinStageOutcome_def ValidateStagedJoin_def stage_accepted_def joinRejectionReasons_def
          staged_file_def Let_def split: if_splits)
  next
    case no
    then show thesis
      using assms failed by (auto simp: joinStageOutcome_def ValidateStagedJoin_def joinRejectionReasons_def Let_def)
  qed
qed

lemma record_stage_moves:
  assumes "record_stage authorized (rqExecutionID request) outcome p = Some (Inr (q, True))"
    and "told (StageReport authorized request response)"
    and "wsStageRequest (jlSchemas l) request = Inr ()" "EncodeStageJoinResponse (jlSchemas l) response = Inr ()"
    and "requestMatchesAuthorization (jlSha256 l) request authorized" "stage_RequestID response = rqRequestID request"
    and "joinStageOutcome response (ValidateStagedJoin (jlSchemas l) (jlSha256 l) authorized request response) =
      Some (Inr outcome)"
  shows "join_moves l told p (q\<lparr>jxUpdatedAt := t\<rparr>)"
proof -
  note q = record_stage_changed [OF assms(1)]
  have exchange: "told (StageReport (jxAuthorization p) request response)" "staged_for l p request response"
    using q assms(2,5,6) by (simp_all add: staged_for_def)
  from assms(3-7) show ?thesis
  proof (cases rule: stage_outcome_cases)
    case (failed failure)
    then show ?thesis
      using q not_staged [where told = told, OF _ exchange failed(1), of t] by simp
  next
    case (accepted success)
    then show ?thesis
      using q ready [where told = told, OF _ exchange accepted(1), of t] by (simp add: staged_faults_def)
  next
    case (rejected success)
    then show ?thesis
      using q to_discard [where told = told, OF _ exchange rejected(1), of t] by (simp add: staged_faults_def)
  qed
qed

lemma RecordJoinStage_effect:
  assumes "join_setting l hs (ajCaseID authorized) name" "told (StageReport authorized request response)"
  shows "join_effect l allowed told name dir (RecordJoinStage l hs authorized request response t dir)"
  unfolding RecordJoinStage_def Let_def
proof (intro or_stop_effect or_panic_effect update_join_effect)
  let ?validation = "ValidateStagedJoin (jlSchemas l) (jlSha256 l) authorized request response"
  fix outcome u v w
  assume asked: "wrap_error ''encode staged join request: '' (wsStageRequest (jlSchemas l) request) = Inr v"
    and answered: "wrap_error ''encode staged join response: '' (EncodeStageJoinResponse (jlSchemas l) response) = Inr u"
    and correlated: "ensure (\<not> hasJoinRejection ?validation StageRequestNotAuthorized \<and>
         \<not> hasJoinRejection ?validation StageResponseNotCorrelated)
       (ErrorText ''staged join exchange does not match its authorization'') = Inr w"
    and outcome: "joinStageOutcome response ?validation = Some (Inr outcome)"
  have encoded: "wsStageRequest (jlSchemas l) request = Inr ()" "EncodeStageJoinResponse (jlSchemas l) response = Inr ()"
    using asked answered by simp_all
  have "\<not> hasJoinRejection ?validation StageRequestNotAuthorized"
    "\<not> hasJoinRejection ?validation StageResponseNotCorrelated"
    using correlated by simp_all
  note exchange = stage_exchange [OF encoded this]
  show "join_setting l hs (ajCaseID authorized) name"
    by (fact assms(1))
  show "q = p" if "record_stage authorized (rqExecutionID request) outcome p = Some (Inr (q, False))" for p q
    using that by (auto simp: record_stage_def split: if_splits)
  show "join_moves l told p (q\<lparr>jxUpdatedAt := t\<rparr>)"
    if "record_stage authorized (rqExecutionID request) outcome p = Some (Inr (q, True))" for p q
    by (rule record_stage_moves [where told = told, OF that assms(2) encoded exchange outcome])
qed

lemma RecordJoinPublish_effect:
  assumes "join_setting l hs caseID name" "told (PublishReport caseID response)"
  shows "join_effect l allowed told name dir (RecordJoinPublish l hs caseID response t dir)"
  unfolding RecordJoinPublish_def
proof (intro or_stop_effect update_join_effect)
  show "join_setting l hs caseID name"
    by (fact assms(1))
  show "q = p" if "record_publish response p = Some (Inr (q, False))" for p q
    using that by (auto simp: record_publish_def split: if_splits join_execution_state.splits option.splits)
  show "join_moves l told p (q\<lparr>jxUpdatedAt := t\<rparr>)"
    if "record_publish response p = Some (Inr (q, True))" "join_case p = caseID" for p q
    using that assms(2) published [where told = told and l = l and p = p and t = t and response = response]
      not_published [where told = told and l = l and p = p and t = t and response = response]
    by (auto simp: record_publish_def publishedArtifactMatches_def published_place_def
        split: if_splits join_execution_state.splits option.splits)
qed

lemma RecordJoinDiscard_effect:
  assumes "join_setting l hs caseID name" "told (DiscardReport caseID response)"
  shows "join_effect l allowed told name dir (RecordJoinDiscard l hs caseID response t dir)"
  unfolding RecordJoinDiscard_def
proof (intro or_stop_effect update_join_effect)
  show "join_setting l hs caseID name"
    by (fact assms(1))
  show "q = p" if "record_discard response p = Some (Inr (q, False))" for p q
    using that by (auto simp: record_discard_def split: if_splits join_execution_state.splits option.splits)
  show "join_moves l told p (q\<lparr>jxUpdatedAt := t\<rparr>)"
    if "record_discard response p = Some (Inr (q, True))" "join_case p = caseID" for p q
    using that assms(2) discarded [where told = told and l = l and p = p and t = t and response = response]
      not_discarded [where told = told and l = l and p = p and t = t and response = response]
    by (auto simp: record_discard_def discardedArtifactMatches_def
        split: if_splits join_execution_state.splits option.splits) (auto simp: artifact_matches_def split: option.splits)
qed

lemma PrepareJoinImport_effect:
  assumes "join_setting l hs caseID name" "told (ImportReport caseID request)"
  shows "join_effect l allowed told name dir (PrepareJoinImport c l hs seen caseID request t dir)"
  unfolding PrepareJoinImport_def
proof (intro or_stop_effect update_join_effect)
  fix u
  assume valid: "validateJoinImportRequest c hs caseID request seen = Inr u"
  show "join_setting l hs caseID name"
    by (fact assms(1))
  show "q = p" if "prepare_join_import request t p = Some (Inr (q, False))" for p q
    using that by (auto simp: prepare_join_import_def split: if_splits option.splits)
  have "command_complete (jqCommand request)" "0 \<le> jqHistoryIDBefore request"
    using valid by (auto simp: validateJoinImportRequest_def and_then_Inr_iff)
  then show "join_moves l told p (q\<lparr>jxUpdatedAt := t\<rparr>)"
    if "prepare_join_import request t p = Some (Inr (q, True))" "join_case p = caseID" for p q
    using that assms(2) by (auto simp: prepare_join_import_def intro!: import_prepared split: if_splits option.splits)
qed

lemma MarkJoinImportRequested_effect:
  assumes "join_setting l hs caseID name" "told (CommandReport caseID commandID)"
  shows "join_effect l allowed told name dir (MarkJoinImportRequested l hs caseID commandID t dir)"
  unfolding MarkJoinImportRequested_def
proof (intro or_stop_effect update_join_effect)
  fix u
  assume positive: "ensure (0 < commandID) (ErrorText ''Radarr command ID must be positive'') = Inr u"
  show "join_setting l hs caseID name"
    by (fact assms(1))
  show "q = p" if "request_join_import commandID p = Some (Inr (q, False))" for p q
    using that by (auto simp: request_join_import_def split: if_splits option.splits)
  show "join_moves l told p (q\<lparr>jxUpdatedAt := t\<rparr>)"
    if "request_join_import commandID p = Some (Inr (q, True))" "join_case p = caseID" for p q
    using that positive assms(2) by (auto simp: request_join_import_def intro: import_requested split: if_splits option.splits)
qed

lemma MarkJoinImported_effect:
  assumes "join_setting l hs caseID name" "told (ConfirmReport caseID imported)"
  shows "join_effect l allowed told name dir (MarkJoinImported l hs caseID imported t dir)"
  unfolding MarkJoinImported_def
proof (intro or_stop_effect update_join_effect)
  fix u
  assume valid: "validateRadarrImportConfirmation (radarrImportConfirmation imported) = Inr u"
  show "join_setting l hs caseID name"
    by (fact assms(1))
  show "q = p" if "confirm_join_import imported p = Some (Inr (q, False))" for p q
    using that by (auto simp: confirm_join_import_def Let_def split: if_splits option.splits)
  show "join_moves l told p (q\<lparr>jxUpdatedAt := t\<rparr>)"
    if "confirm_join_import imported p = Some (Inr (q, True))" "join_case p = caseID" for p q
    using that assms(2) valid import_confirmed [where told = told and l = l and p = p and t = t and imported = imported]
    by (auto simp: confirm_join_import_def Let_def confirms_import_def radarrImportConfirmation_def
        split: if_splits option.splits)
qed

lemma MarkJoinImportFailed_effect:
  assumes "join_setting l hs caseID name" "told (FailReport caseID)"
  shows "join_effect l allowed told name dir (MarkJoinImportFailed l hs caseID t dir)"
  unfolding MarkJoinImportFailed_def
  using assms
  by (intro update_join_effect) (auto simp: fail_join_import_def intro: import_failed split: if_splits)

lemma PrepareJoin_effect:
  assumes "join_setting l hs (ajCaseID authorized) name"
    and "validateJoinAuthorization c hs authorized files = Some (Inr ()) \<Longrightarrow> allowed authorized"
  shows "join_effect l allowed told name (sdExecutions files) (PrepareJoin c l hs authorized t files)"
proof -
  have setting: "round_trip (join_kind l)" "host_ok (chExecutions hs)" "digest_file (ajCaseID authorized) = Inr name"
    "caseIDPattern (ajCaseID authorized)"
    using assms(1) join_round_trip by (auto simp: join_setting_def digest_file_Inr case_file_def split: if_splits)
  show ?thesis
    unfolding PrepareJoin_def Let_def setting(3) or_stop_simps
  proof (intro or_stop_effect or_panic_effect joins.prepare_follows)
    fix u
    assume "validateJoinAuthorization c hs authorized files = Some (Inr u)"
    then show "join_begins l allowed q"
      if "and_then (current_id l authorized) (\<lambda>executionID.
           Inr \<lparr>jxVersion = JoinExecutionVersionV2, jxExecutionID = executionID, jxAuthorization = authorized,
             jxState = JoinPrepared, jxPreparedAt = t, jxUpdatedAt = t, jxStage = None,
             jxArtifact = None, jxPublished = None, jxFailure = None, jxImport = None, jxConfirmation = None\<rparr>) = Inr q" for q
      using that assms(2) setting(4) by (auto simp: join_begins_def and_then_Inr_iff)
  qed (use setting in \<open>auto simp: and_then_Inr_iff JoinExecutionNeedsRecheck_def intro!: rechecked split: sum.splits\<close>)
qed

end
