(* ===== verification/Case_Runs.thy ===== *)
theory Case_Runs
  imports Case_Join_Life
begin

text \<open>
  Sequences of calls on the case store: observations, results of planning, bound plans, and the
  executions of joins and manual imports, in any order, by any process, under any fault of the host. The
  file of a case holds at most one execution, whose abstract life is \<open>execution_step\<close>.
\<close>

section \<open>Calls\<close>

datatype ('v, 'b) case_call =
    ObserveCase "'v assembly"
  | PlanningFailed string planning_failure gotime gotime
  | PlanningDecided string repair_decision gotime
  | BindPlan "'b case_files" "'v planned_case"
  | JoinPrepare authorized_join gotime
  | JoinStage authorized_join stage_join_request stage_response gotime
  | JoinPublish string publish_response gotime
  | JoinDiscard string discard_response gotime
  | JoinImportPrepare "'b case_files" string join_import_request gotime
  | JoinImportRequest string int gotime
  | JoinImportConfirm string imported_file gotime
  | JoinImportFail string gotime
  | ImportPrepare authorized_import int gotime
  | ImportRequest string int gotime
  | ImportConfirm "'b case_files" authorized_import imported_file gotime
  | ImportFail string gotime

primrec run_case_call ::
  "('v, 'b) case_contracts \<Rightarrow> 'b join_library \<Rightarrow> 'b import_codec \<Rightarrow> 'b case_hosts \<Rightarrow> 'b case_files
     \<Rightarrow> ('v, 'b) case_call \<Rightarrow> 'b case_files" where
  "run_case_call c l j hs files (ObserveCase assembly) = snd (PutAssembly c hs assembly files)"
| "run_case_call c l j hs files (PlanningFailed i failure t retry) = snd (PutPlanningFailure c hs i failure t retry files)"
| "run_case_call c l j hs files (PlanningDecided i decision t) = snd (PutPlanningDecision c hs i decision t files)"
| "run_case_call c l j hs files (BindPlan seen planned) = snd (BindExecutionPlan c hs seen planned files)"
| "run_case_call c l j hs files (JoinPrepare a t) = files\<lparr>sdExecutions := snd (PrepareJoin c l hs a t files)\<rparr>"
| "run_case_call c l j hs files (JoinStage a request response t) =
     files\<lparr>sdExecutions := snd (RecordJoinStage l hs a request response t (sdExecutions files))\<rparr>"
| "run_case_call c l j hs files (JoinPublish i response t) =
     files\<lparr>sdExecutions := snd (RecordJoinPublish l hs i response t (sdExecutions files))\<rparr>"
| "run_case_call c l j hs files (JoinDiscard i response t) =
     files\<lparr>sdExecutions := snd (RecordJoinDiscard l hs i response t (sdExecutions files))\<rparr>"
| "run_case_call c l j hs files (JoinImportPrepare seen i request t) =
     files\<lparr>sdExecutions := snd (PrepareJoinImport c l hs seen i request t (sdExecutions files))\<rparr>"
| "run_case_call c l j hs files (JoinImportRequest i commandID t) =
     files\<lparr>sdExecutions := snd (MarkJoinImportRequested l hs i commandID t (sdExecutions files))\<rparr>"
| "run_case_call c l j hs files (JoinImportConfirm i imported t) =
     files\<lparr>sdExecutions := snd (MarkJoinImported l hs i imported t (sdExecutions files))\<rparr>"
| "run_case_call c l j hs files (JoinImportFail i t) =
     files\<lparr>sdExecutions := snd (MarkJoinImportFailed l hs i t (sdExecutions files))\<rparr>"
| "run_case_call c l j hs files (ImportPrepare a before t) =
     files\<lparr>sdExecutions := snd (PrepareManualImport c j hs a before t files)\<rparr>"
| "run_case_call c l j hs files (ImportRequest i commandID t) =
     files\<lparr>sdExecutions := snd (MarkManualImportRequested j hs i commandID t (sdExecutions files))\<rparr>"
| "run_case_call c l j hs files (ImportConfirm seen a imported t) =
     files\<lparr>sdExecutions := snd (MarkManualImportImported c j hs seen a imported t (sdExecutions files))\<rparr>"
| "run_case_call c l j hs files (ImportFail i t) =
     files\<lparr>sdExecutions := snd (MarkManualImportFailed j hs i t (sdExecutions files))\<rparr>"

fun run_case_calls ::
  "('v, 'b) case_contracts \<Rightarrow> 'b join_library \<Rightarrow> 'b import_codec \<Rightarrow> ('b case_hosts \<times> ('v, 'b) case_call) list
     \<Rightarrow> 'b case_files \<Rightarrow> 'b case_files" where
  "run_case_calls c l j [] files = files"
| "run_case_calls c l j ((hs, call) # calls) files = run_case_calls c l j calls (run_case_call c l j hs files call)"

text \<open>How many of the calls change the file of a case among the executions.\<close>

fun file_changes ::
  "('v, 'b) case_contracts \<Rightarrow> 'b join_library \<Rightarrow> 'b import_codec \<Rightarrow> string
     \<Rightarrow> ('b case_hosts \<times> ('v, 'b) case_call) list \<Rightarrow> 'b case_files \<Rightarrow> nat" where
  "file_changes c l j name [] files = 0"
| "file_changes c l j name ((hs, call) # calls) files =
     (let files' = run_case_call c l j hs files call
      in (if map_of (sdExecutions files') name = map_of (sdExecutions files) name then 0 else 1) +
         file_changes c l j name calls files')"

section \<open>The execution of a case\<close>

datatype execution_record = JoinRecord join_execution | ImportRecord import_execution

definition execution_of ::
  "'b join_library \<Rightarrow> 'b import_codec \<Rightarrow> 'b directory \<Rightarrow> string \<Rightarrow> execution_record option" where
  "execution_of l j dir name =
     (case execution_at (join_kind l) dir name of
        Some e \<Rightarrow> Some (JoinRecord e)
      | None \<Rightarrow> map_option ImportRecord (execution_at (import_kind j) dir name))"

text \<open>What changes of executions rest on: authorizations that were accepted, and reports that were made.\<close>

record grounds =
  gJoin :: "authorized_join \<Rightarrow> bool"
  gImport :: "authorized_import \<Rightarrow> bool"
  gTold :: "join_report \<Rightarrow> bool"
  gHeard :: "import_report \<Rightarrow> bool"

inductive execution_step ::
  "'b join_library \<Rightarrow> grounds \<Rightarrow> execution_record option \<Rightarrow> execution_record option \<Rightarrow> bool"
  for l :: "'b join_library" and g :: grounds where
  join_begun: "join_begins l (gJoin g) q \<Longrightarrow> execution_step l g None (Some (JoinRecord q))"
| import_begun: "import_begins (gImport g) q \<Longrightarrow> execution_step l g None (Some (ImportRecord q))"
| join_moved: "join_moves l (gTold g) p q \<Longrightarrow> execution_step l g (Some (JoinRecord p)) (Some (JoinRecord q))"
| import_moved: "import_next (gHeard g) p q \<Longrightarrow> execution_step l g (Some (ImportRecord p)) (Some (ImportRecord q))"

inductive_cases execution_step_JoinE: "execution_step l g x (Some (JoinRecord q))"

text \<open>How often the record can still change; 6 where there is none.\<close>

fun changes_left :: "'b join_library \<Rightarrow> execution_record option \<Rightarrow> nat" where
  "changes_left l None = 6"
| "changes_left l (Some (JoinRecord e)) = join_rank l e"
| "changes_left l (Some (ImportRecord e)) = import_rank (mxState e)"

lemma step_lowers: "execution_step l g x y \<Longrightarrow> changes_left l y < changes_left l x"
  by (erule execution_step.cases)
    (auto simp: join_begins_def import_begins_def join_rank_def dest: joins.follows_rank manual.follows_rank)

lemma join_state_rank_le: "join_state_rank s \<le> 5"
  by (cases s) simp_all

lemma changes_left_le: "changes_left l x \<le> 11"
proof (cases x)
  case (Some e)
  then show ?thesis
  proof (cases e)
    case (JoinRecord p)
    then show ?thesis
      using Some join_state_rank_le [of "jxState p"] by (simp add: join_rank_def)
  next
    case (ImportRecord p)
    then show ?thesis
      using Some by (cases "mxState p") simp_all
  qed
qed simp

section \<open>Codecs\<close>

text \<open>
  Both kinds decode as they were encoded, and read the field \<open>version\<close> of a document alike: the
  versions of the two kinds differ, so no document is a record of both.
\<close>

definition store_codecs :: "'b join_library \<Rightarrow> 'b import_codec \<Rightarrow> bool" where
  "store_codecs l j \<longleftrightarrow>
     json_law (jlCodec l) (validateJoinExecution l) \<and> json_law j validateManualImportExecution \<and>
     (\<forall>data p r q s. jcUnmarshal (jlCodec l) data = Inr (p, r) \<longrightarrow> jcUnmarshal j data = Inr (q, s) \<longrightarrow>
        jxVersion p = mxVersion q)"

lemma kinds_exclude:
  assumes "store_codecs l j" "xkDecode (import_kind j) data = Inr q"
  shows "xkDecode (join_kind l) data \<noteq> Inr p"
proof
  assume "xkDecode (join_kind l) data = Inr p"
  then obtain r where p: "jcUnmarshal (jlCodec l) data = Inr (p, r)" "validateJoinExecution l p = Inr ()"
    by (auto simp: join_kind_def DecodeJoinExecution_def decode_valid_Inr)
  obtain s where q: "jcUnmarshal j data = Inr (q, s)" "validateManualImportExecution q = Inr ()"
    using assms(2) by (auto simp: import_kind_def DecodeManualImportExecution_def decode_valid_Inr)
  have "jxVersion p = JoinExecutionVersionV2" "mxVersion q = ManualImportExecutionVersionV1"
    using p(2) q(2) by (auto simp: validateJoinExecution_def validateManualImportExecution_def split: if_splits)
  moreover have "jxVersion p = mxVersion q"
    using assms(1) p(1) q(1) unfolding store_codecs_def by blast
  ultimately show False
    by (simp add: JoinExecutionVersionV2_def ManualImportExecutionVersionV1_def)
qed

lemma execution_of_join: "execution_at (join_kind l) dir name = Some e \<Longrightarrow> execution_of l j dir name = Some (JoinRecord e)"
  by (simp add: execution_of_def)

lemma execution_of_import:
  assumes "store_codecs l j" "execution_at (import_kind j) dir name = Some e"
  shows "execution_of l j dir name = Some (ImportRecord e)"
proof -
  have "execution_at (join_kind l) dir name = None"
    using assms kinds_exclude [OF assms(1)]
    by (auto simp: execution_at_def split: option.splits dirent.splits sum.splits)
  then show ?thesis
    using assms(2) by (simp add: execution_of_def)
qed

lemma execution_of_none: "no_file dir name \<Longrightarrow> execution_of l j dir name = None"
  by (auto simp: no_file_def execution_of_def execution_at_def)

lemma execution_at_updated:
  "xkDecode k data = Inr q \<Longrightarrow> execution_at k (AList.update name (Regular data) dir) name = Some q"
  by (simp add: execution_at_def update_conv')

section \<open>One call\<close>

definition settled_or_step ::
  "'b join_library \<Rightarrow> 'b import_codec \<Rightarrow> grounds \<Rightarrow> 'b directory \<Rightarrow> 'b directory \<Rightarrow> bool" where
  "settled_or_step l j g dir dir' \<longleftrightarrow>
     (\<forall>n. \<not> isTemporaryExecutionName n \<longrightarrow> map_of dir' n = map_of dir n \<or>
        execution_step l g (execution_of l j dir n) (execution_of l j dir' n))"

lemma settled_unchanged: "unchanged dir dir' \<Longrightarrow> settled_or_step l j g dir dir'"
  by (simp add: settled_or_step_def unchanged_def)

lemma settled_refl [simp]: "settled_or_step l j g dir dir"
  by (simp add: settled_or_step_def)

lemma settled_update:
  assumes "execution_step l g (execution_of l j dir name) (execution_of l j (AList.update name e dir) name)"
  shows "settled_or_step l j g dir (AList.update name e dir)"
  using assms by (auto simp: settled_or_step_def update_conv')

lemma join_effect_settled:
  assumes "store_codecs l j" "join_effect l (gJoin g) (gTold g) name dir result"
  shows "settled_or_step l j g dir (snd result)"
  using assms(2)
proof (cases rule: execution_effect.cases)
  case (begun q data)
  then show ?thesis
    by (simp add: settled_update execution_of_none execution_of_join execution_at_updated join_begun)
next
  case (advanced p q data)
  then show ?thesis
    by (simp add: settled_update execution_of_join execution_at_updated join_moved)
qed (simp_all add: settled_unchanged)

lemma import_effect_settled:
  assumes "store_codecs l j" "import_effect j (gImport g) (gHeard g) name dir result"
  shows "settled_or_step l j g dir (snd result)"
  using assms(2)
proof (cases rule: execution_effect.cases)
  case (begun q data)
  then show ?thesis
    by (simp add: settled_update execution_of_none execution_of_import [OF assms(1)] execution_at_updated
        import_begun)
next
  case (advanced p q data)
  then show ?thesis
    by (simp add: settled_update execution_of_import [OF assms(1)] execution_at_updated import_moved)
qed (simp_all add: settled_unchanged)

text \<open>A call about something that is not the identifier of a case changes nothing.\<close>

lemma no_case_update: "digest_file i = Inl e \<Longrightarrow> snd (execution_update k locked h i t change dir) = dir"
  by (simp add: execution_update_def or_stop_def split: sum.split)

lemma or_stop_keeps: "(\<And>a. r = Inr a \<Longrightarrow> snd (f a) = dir) \<Longrightarrow> snd (or_stop r dir f) = dir"
  by (cases r) simp_all

lemma or_panic_keeps: "(\<And>a. r = Some (Inr a) \<Longrightarrow> snd (f a) = dir) \<Longrightarrow> snd (or_panic r dir f) = dir"
  by (cases r) (auto simp: or_panic_def intro: or_stop_keeps)

lemmas no_case_keeps = or_stop_keeps or_panic_keeps no_case_update

fun call_case :: "('v, 'b) case_call \<Rightarrow> string option" where
  "call_case (JoinPrepare a t) = Some (ajCaseID a)"
| "call_case (JoinStage a request response t) = Some (ajCaseID a)"
| "call_case (JoinPublish i response t) = Some i"
| "call_case (JoinDiscard i response t) = Some i"
| "call_case (JoinImportPrepare seen i request t) = Some i"
| "call_case (JoinImportRequest i commandID t) = Some i"
| "call_case (JoinImportConfirm i imported t) = Some i"
| "call_case (JoinImportFail i t) = Some i"
| "call_case (ImportPrepare a before t) = Some (aiCaseID a)"
| "call_case (ImportRequest i commandID t) = Some i"
| "call_case (ImportConfirm seen a imported t) = Some (aiCaseID a)"
| "call_case (ImportFail i t) = Some i"
| "call_case _ = None"

lemma case_call_planning: "call_case call = None \<Longrightarrow> sdExecutions (run_case_call c l j hs files call) = sdExecutions files"
  by (cases call)
    (simp_all add: PutAssembly_def Put_def PutPlanningFailure_def PutPlanningDecision_def BindExecutionPlan_def Let_def
      split: sum.splits prod.splits)

lemma case_call_no_case:
  assumes "call_case call = Some i" "digest_file i = Inl e"
  shows "sdExecutions (run_case_call c l j hs files call) = sdExecutions files"
  using assms
  by (cases call)
    (auto simp: PrepareJoin_def RecordJoinStage_def RecordJoinPublish_def RecordJoinDiscard_def PrepareJoinImport_def
      MarkJoinImportRequested_def MarkJoinImported_def MarkJoinImportFailed_def PrepareManualImport_def
      MarkManualImportRequested_def MarkManualImportImported_def MarkManualImportFailed_def
      updateJoinExecution_def updateManualImportExecution_def Let_def intro!: no_case_keeps)

text \<open>What a call tells the store.\<close>

fun report_of :: "('v, 'b) case_call \<Rightarrow> join_report option" where
  "report_of (JoinStage a request response t) = Some (StageReport a request response)"
| "report_of (JoinPublish i response t) = Some (PublishReport i response)"
| "report_of (JoinDiscard i response t) = Some (DiscardReport i response)"
| "report_of (JoinImportPrepare seen i request t) = Some (ImportReport i request)"
| "report_of (JoinImportRequest i commandID t) = Some (CommandReport i commandID)"
| "report_of (JoinImportConfirm i imported t) = Some (ConfirmReport i imported)"
| "report_of (JoinImportFail i t) = Some (FailReport i)"
| "report_of _ = None"

fun import_report_of :: "('v, 'b) case_call \<Rightarrow> import_report option" where
  "import_report_of (ImportRequest i commandID t) = Some (ImportCommand i commandID)"
| "import_report_of (ImportConfirm seen a imported t) = Some (ImportEvent a imported)"
| "import_report_of (ImportFail i t) = Some (ImportFailure i)"
| "import_report_of _ = None"

lemma case_call_settled:
  assumes "store_codecs l j" "host_ok (chExecutions hs)"
    and "\<And>a. validateJoinAuthorization c hs a files = Some (Inr ()) \<Longrightarrow> gJoin g a"
    and "\<And>a. validateManualImportAuthorization c hs a files = Inr () \<Longrightarrow> gImport g a"
    and "\<And>r. report_of call = Some r \<Longrightarrow> gTold g r" "\<And>r. import_report_of call = Some r \<Longrightarrow> gHeard g r"
  shows "settled_or_step l j g (sdExecutions files) (sdExecutions (run_case_call c l j hs files call))"
proof (cases "call_case call")
  case None
  then show ?thesis
    by (simp add: case_call_planning)
next
  case (Some i)
  show ?thesis
  proof (cases "digest_file i")
    case (Inl e)
    then show ?thesis
      using case_call_no_case [OF Some] by simp
  next
    case (Inr name)
    then have setting: "join_setting l hs i name" "import_setting j hs i name"
      using assms(1,2) by (simp_all add: join_setting_def import_setting_def store_codecs_def digest_file_Inr)
    note joined = join_effect_settled [OF assms(1)] and imported = import_effect_settled [OF assms(1)]
    show ?thesis
      using Some setting assms(3-6)
      by (cases call)
        (auto intro!: joined PrepareJoin_effect RecordJoinStage_effect RecordJoinPublish_effect
          RecordJoinDiscard_effect PrepareJoinImport_effect MarkJoinImportRequested_effect MarkJoinImported_effect
          MarkJoinImportFailed_effect
          intro: imported [OF PrepareManualImport_effect] imported [OF MarkManualImportRequested_effect]
          imported [OF MarkManualImportImported_effect] imported [OF MarkManualImportFailed_effect])
  qed
qed

end
