(* ===== verification/Case_Theorems.thy ===== *)
theory Case_Theorems
  imports Case_Runs Policy_Theorems
begin

text \<open>
  The properties of the case store over any sequence of calls, with a store that holds a planned join.
\<close>

section \<open>Runs\<close>






















section \<open>A store with a planned join\<close>


































section \<open>Properties\<close>







end
