(* ===== verification/Spec2Isabelle.thy ===== *)
theory Spec2Isabelle
  imports Repair_Properties Join_Properties Execution_Properties Finalizer_Theorems Case_Theorems
begin

text \<open>
  Verification of the media-repair service (\<open>src/pkgs/media-repair\<close>).

  \<^bold>\<open>The program.\<close> Servarr applications (Radarr, Lidarr) download media and sometimes cannot import
  what they downloaded. The service watches their queues, asks a planner what to do about such a
  download, checks the planner's decision against a local policy, has a worker prepare the file (join
  parts, remux a disc), imports the result and at last removes the queue record. Its parts:

  \<^item> \<open>internal/jobs\<close>: the durable table of jobs, repair attempts and planning results, one transaction
    per function. \<open>internal/repair\<close>: the engine that drives one attempt and the scheduler that runs, for
    every media service, a worker thread and an actions thread over that table.
  \<^item> \<open>worker/joinstate\<close> and \<open>internal/privatefile\<close>: the worker's records of joins, one file each, that
    make staging, publishing and discarding safe to repeat.
  \<^item> \<open>internal/controller\<close>: the evidence (probes, inventory, Radarr's queue, history and imports) and
    what is concluded from it. \<open>internal/fileidentity\<close>: fingerprints of files. \<open>internal/mkvmerge\<close>,
    \<open>internal/dvdvideo\<close>: the titles of a disc.
  \<^item> \<open>internal/casebuilder\<close>, \<open>contracts\<close>: the case shown to the planner, and its decision.
    \<open>internal/decisionpolicy\<close>: which decisions are authorized. \<open>internal/executioncheck\<close>: the check
    right before an authorized action is carried out.
  \<^item> \<open>internal/queuefinalize\<close>, \<open>internal/repair/removal.go\<close>: the removal of queue records, with a durable
    record of each removal that lets an interrupted one be settled later.
  \<^item> \<open>internal/planning\<close>, \<open>internal/planningstate\<close>: the planner's results, their retries, and the stores of
    cases and results. \<open>internal/casestore\<close>: the cases of Radarr, the plans bound for execution and the
    executions. \<open>internal/joinverification\<close>: whether a staged file is the join that was authorized.

  \<^bold>\<open>The theories.\<close>

  \<^item> \<open>Repair_Prelude\<close> (integers, times, errors, fallible computations), \<open>Go_Path\<close> (\<open>path/filepath\<close>,
    \<open>strings\<close>), \<open>Go_Float\<close> (binary64 as far as it is used): the language and its library.
  \<^item> \<open>Jobs_Store\<close> models every transaction of \<open>internal/jobs\<close> over the record \<open>gorm\<close> of database calls.
    \<open>Jobs_Spec\<close> states the laws of such a database (locale \<open>gorm_db\<close>), the abstract life cycle and the
    store invariant; \<open>Jobs_Refinement\<close> proves that every transaction refines it; \<open>Jobs_Behaviour\<close>
    characterises queue matching, reconciliation, revisions and planning history; \<open>Jobs_Memory\<close> gives a database
    in memory and interprets the laws on it; \<open>Jobs_Properties\<close> holds the theorems.
  \<^item> \<open>Repair_Programs\<close> has programs as trees of calls, \<open>Repair_Engine\<close> the code of \<open>engine.go\<close> and
    \<open>scheduler.go\<close> as such programs, \<open>Repair_Protocol\<close> what they keep to, \<open>Repair_System\<close> the step
    relation of all threads, operators and crashes with its invariant, \<open>Repair_Drive\<close> an executable run
    for witnesses, \<open>Repair_Properties\<close> the theorems: no import is submitted twice, only a stored intent is
    submitted, repair and removal exclude each other, in every interleaving; and what checking an import
    stores is determined by the answer of the service and the readings of the clock.
  \<^item> \<open>Join_State\<close>, \<open>Join_Store\<close>: records of \<open>worker/joinstate\<close> and the operations on the directory, with
    what the host refuses as an argument; \<open>Join_Lifecycle\<close>: the abstract life of a record and the effect
    of each operation on it; \<open>Join_Properties\<close>: directory invariant, refinement, idempotence, errors.
  \<^item> \<open>Media_Evidence\<close>, \<open>Radarr_Evidence\<close>, \<open>Stream_Compatibility\<close>, \<open>Join_Feasibility\<close>: the files of
    \<open>internal/controller\<close>; \<open>Stream_Properties\<close> and \<open>Feasibility_Properties\<close> show what the assessments
    decide and that sums of sizes and durations do not overflow. \<open>File_Identity\<close>: fingerprints.
    \<open>Disc_Titles\<close>, \<open>Disc_Properties\<close>: playlists and titles.
  \<^item> \<open>Repair_Case\<close>: cases and decisions. \<open>Decision_Policy\<close>: the four validations; \<open>Policy_Properties\<close>,
    \<open>Disc_Policy\<close>, \<open>Policy_Theorems\<close>: what each of them authorizes. \<open>Join_Identity\<close>, \<open>Execution_Check\<close>,
    \<open>Execution_Properties\<close>: the check before an execution.
  \<^item> \<open>Queue_Finalizer\<close>: the finalizer, its store and \<open>RemoveTracking\<close> as programs of calls.
    \<open>Finalizer_Properties\<close>: the step relation of such a program among other processes and faults, and
    which removals it can ask for; \<open>Finalizer_Progress\<close>: what one run achieves when nothing fails;
    \<open>Finalizer_Theorems\<close>: the theorems, repeated runs included.
  \<^item> \<open>Planning_Results\<close>, \<open>Planning_State\<close>: planner results, backoff, one step of the planning runner, and
    the two stores. \<open>Case_Contracts\<close>: the codecs of cases and decisions. \<open>Case_Records\<close>, \<open>Case_Plans\<close>: the
    case store up to the plan that is bound. \<open>Case_Executions\<close>: what the executions of all repairs
    share, with the locale \<open>execution_steps\<close> of what a kind of execution promises; \<open>Case_Imports\<close>: manual
    imports, which interpret it. \<open>Join_Verification\<close>: the worker's answers and the verification of a
    joined file. \<open>Case_Joins\<close>, \<open>Case_Join_Operations\<close>: the records of joins and the operations on them;
    \<open>Case_Join_Life\<close>: the moves of such a record, which interpret the locale too, and what the record rests on.
    \<open>Case_Runs\<close>: sequences of calls on the case store and the abstract life of a case's execution;
    \<open>Case_Theorems\<close>: every run refines that life, changes a case's file a bounded number of times, and
    records a join only as far as it was authorized, verified, published and confirmed.

  \<^bold>\<open>How the model corresponds to the code.\<close> A struct is a record and an enumeration a datatype; where
  the code compares strings of an open set the model keeps strings. An \<open>int64\<close> is an \<open>int\<close> with
  \<open>wrap64\<close> wherever a result may leave the range. A function that returns an error has a sum as its
  result; one that may panic (nil dereference, index out of range) has an \<open>option\<close>, and theorems show
  when it is not \<open>None\<close>. A nil slice and an empty one are one value; \<open>reflect.DeepEqual\<close> is equality.
  Times are instants: locations and the monotonic clock are left out. \<open>strings.EqualFold\<close> is exact for
  ASCII and its two non-ASCII folds. Sorting keeps the order of equal elements, one of the orders
  \<open>sort.Slice\<close> may give. The number of a repair attempt, one more than the last, is unbounded. Strings are
  valid UTF-8, as texts decoded from JSON are.

  \<^bold>\<open>Parameters.\<close> The database behind \<open>gorm\<close>, the Servarr applications, the JSON codec, generated
  message contracts, SHA-256, the JSON canonicalizer, the programs \<open>mkvmerge\<close> and \<open>lsdvd\<close>, and what the
  operating system answers are arguments of the definitions. Their laws are the assumptions of
  \<open>gorm_db\<close> and \<open>join_codec\<close> and the predicates \<open>codec_law\<close>, \<open>json_law\<close> and \<open>store_codecs\<close> (what is read after
  a write; a record decodes from its encoding; records of different versions are not mixed up), that a
  digest does not collide on the two texts at hand, or a named hypothesis of the theorem; each has a
  witness with a concrete instance.

  \<^bold>\<open>Bounds.\<close> No definition needs fuel: loops of the code run over lists and are structural recursion,
  and programs of the engine are finite trees. The only limits are the code's own (8 MiB for a join
  record, 4096 chapters, 1024 clips, seven days).

  \<^bold>\<open>Not modelled.\<close> HTTP clients and servers (\<open>internal/radarr\<close>, \<open>lidarr\<close>, \<open>servarr\<close>, \<open>transmission\<close>,
  \<open>sabnzbd\<close>, \<open>plannerclient\<close>, \<open>workerclient\<close>, \<open>repairui\<close>) and commands (\<open>cmd\<close>): input and output around
  generated or third-party codecs. The staging of files on the worker (\<open>worker/materialize\<close>,
  \<open>mediafile\<close>, \<open>joinstage\<close>, \<open>bluraystage\<close>, \<open>dvdstage\<close>): sequences of Linux system calls on file
  descriptors, whose meaning is the kernel's. \<open>internal/ffprobe\<close>: a reader of the JSON of an external
  program. Lidarr repairs and the executions of remuxes (Blu-ray, DVD) have the shape of the parts verified
  here and are not translated. The other Go programs of the repository (dashboards, status bars, request
  tools, traffic shaping, backups) and its Nix expressions are independent of the service.
\<close>

end
